(* ===== verification/Goss_Prelude.thy ===== *)
theory Goss_Prelude
  imports Complex_Main "HOL-Library.Char_ord" "HOL-Library.List_Lexorder" "HOL-Library.Multiset"
begin

text \<open>
  The shared base of the development: the named collections of rewrite rules, the outcome of a
  Go call (a value, an error or a panic), and the functions of Go's standard library on strings
  that goss calls (\<^verbatim>\<open>strings\<close>, \<^verbatim>\<open>strconv\<close>, \<^verbatim>\<open>bufio.Scanner\<close>), with the lemmas about them that the
  components share. A Go string is a byte sequence, here a \<^typ>\<open>string\<close>; case mapping and white
  space are those of ASCII.
\<close>

named_theorems go_str \<open>characterisations of the string functions\<close>
named_theorems go_outcome \<open>case rules of outcomes\<close>

section \<open>Outcomes of Go calls\<close>

text \<open>
  A call that returns \<^verbatim>\<open>(v, nil)\<close> is \<open>Ret v\<close>, one that returns a non-nil error is \<open>Err e\<close> (its
  other results are zero values the callers discard), and a run-time panic is \<open>Panic\<close>.
\<close>

datatype ('e, 'a) outcome = Ret 'a | Err 'e | Panic

fun bind_outcome :: "('e, 'a) outcome \<Rightarrow> ('a \<Rightarrow> ('e, 'b) outcome) \<Rightarrow> ('e, 'b) outcome" where
  "bind_outcome (Ret x) f = f x"
| "bind_outcome (Err e) f = Err e"
| "bind_outcome Panic f = Panic"

fun map_outcomes :: "('a \<Rightarrow> ('e, 'b) outcome) \<Rightarrow> 'a list \<Rightarrow> ('e, 'b list) outcome" where
  "map_outcomes f [] = Ret []"
| "map_outcomes f (x # xs) =
     bind_outcome (f x) (\<lambda>y. bind_outcome (map_outcomes f xs) (\<lambda>ys. Ret (y # ys)))"

lemma bind_outcome_Ret [go_outcome]:
  "bind_outcome r f = Ret y \<longleftrightarrow> (\<exists>x. r = Ret x \<and> f x = Ret y)"
  by (cases r) auto

lemma bind_outcome_Panic [go_outcome]:
  "bind_outcome r f = Panic \<longleftrightarrow> r = Panic \<or> (\<exists>x. r = Ret x \<and> f x = Panic)"
  by (cases r) auto

lemma bind_outcome_Err [go_outcome]:
  "bind_outcome r f = Err e \<longleftrightarrow> r = Err e \<or> (\<exists>x. r = Ret x \<and> f x = Err e)"
  by (cases r) auto

lemma map_outcomes_Ret:
  "map_outcomes f xs = Ret ys \<longleftrightarrow> list_all2 (\<lambda>x y. f x = Ret y) xs ys"
proof (induction xs arbitrary: ys)
  case Nil
  then show ?case by auto
next
  case (Cons x xs)
  then show ?case by (cases ys) (auto simp: bind_outcome_Ret)
qed

lemma list_all2_ex: "(\<And>x. x \<in> set xs \<Longrightarrow> \<exists>y. P x y) \<Longrightarrow> \<exists>ys. list_all2 P xs ys"
proof (induction xs)
  case Nil
  then show ?case by simp
next
  case (Cons x xs)
  then obtain y ys where "P x y" "list_all2 P xs ys" by force
  then show ?case by (intro exI[of _ "y # ys"]) simp
qed

lemma list_all2_set1: "list_all2 P xs ys \<Longrightarrow> x \<in> set xs \<Longrightarrow> \<exists>y \<in> set ys. P x y"
  by (induction rule: list_all2_induct) auto

lemma list_all2_set2: "list_all2 P xs ys \<Longrightarrow> y \<in> set ys \<Longrightarrow> \<exists>x \<in> set xs. P x y"
  by (induction rule: list_all2_induct) auto

lemma map_outcomes_Panic:
  "map_outcomes f xs = Panic \<Longrightarrow> \<exists>x \<in> set xs. f x = Panic"
  by (induction xs) (auto simp: bind_outcome_Panic)

lemma map_outcomes_cong [fundef_cong]:
  "xs = ys \<Longrightarrow> (\<And>x. x \<in> set ys \<Longrightarrow> f x = g x) \<Longrightarrow> map_outcomes f xs = map_outcomes g ys"
  by (induction xs arbitrary: ys) auto

section \<open>Package strings\<close>

definition has_prefix :: "string \<Rightarrow> string \<Rightarrow> bool" where
  "has_prefix s p \<longleftrightarrow> take (length p) s = p"

definition has_suffix :: "string \<Rightarrow> string \<Rightarrow> bool" where
  "has_suffix s p \<longleftrightarrow> has_prefix (rev s) (rev p)"

definition trim_prefix :: "string \<Rightarrow> string \<Rightarrow> string" where
  "trim_prefix s p = (if has_prefix s p then drop (length p) s else s)"

definition trim_left :: "string \<Rightarrow> string \<Rightarrow> string" where
  "trim_left s cutset = dropWhile (\<lambda>c. c \<in> set cutset) s"

definition trim_right :: "string \<Rightarrow> string \<Rightarrow> string" where
  "trim_right s cutset = rev (trim_left (rev s) cutset)"

definition white_space :: string where
  "white_space = [CHR 0x09, CHR 0x0A, CHR 0x0B, CHR 0x0C, CHR 0x0D, CHR 0x20]"

definition trim_space :: "string \<Rightarrow> string" where
  "trim_space s = trim_right (trim_left s white_space) white_space"

fun str_index :: "string \<Rightarrow> string \<Rightarrow> nat option" where
  "str_index [] sub = (if sub = [] then Some 0 else None)"
| "str_index (c # cs) sub =
     (if has_prefix (c # cs) sub then Some 0 else map_option Suc (str_index cs sub))"

definition str_contains :: "string \<Rightarrow> string \<Rightarrow> bool" where
  "str_contains s sub \<longleftrightarrow> str_index s sub \<noteq> None"

fun last_index :: "string \<Rightarrow> string \<Rightarrow> nat option" where
  "last_index [] sub = (if sub = [] then Some 0 else None)"
| "last_index (c # cs) sub =
     (case last_index cs sub of
        Some i \<Rightarrow> Some (Suc i)
      | None \<Rightarrow> if has_prefix (c # cs) sub then Some 0 else None)"

text \<open>\<^verbatim>\<open>strings.SplitN(s, sep, 2)\<close>, for a non-empty separator.\<close>

definition split2 :: "string \<Rightarrow> string \<Rightarrow> string list" where
  "split2 s sep =
     (case str_index s sep of
        None \<Rightarrow> [s]
      | Some i \<Rightarrow> [take i s, drop (i + length sep) s])"

text \<open>\<^verbatim>\<open>strings.Split(s, sep)\<close>, for a separator of one byte: never the empty list.\<close>

fun split_on :: "char \<Rightarrow> string \<Rightarrow> string list" where
  "split_on sep [] = [[]]"
| "split_on sep (c # cs) =
     (if c = sep then [] # split_on sep cs
      else (case split_on sep cs of
              [] \<Rightarrow> [[c]]
            | w # ws \<Rightarrow> (c # w) # ws))"

fun join :: "string \<Rightarrow> string list \<Rightarrow> string" where
  "join sep [] = []"
| "join sep [w] = w"
| "join sep (w # v # ws) = w @ sep @ join sep (v # ws)"

definition to_lower_char :: "char \<Rightarrow> char" where
  "to_lower_char c =
     (let n = of_char c :: nat in if 65 \<le> n \<and> n \<le> 90 then char_of (n + 32) else c)"

definition to_upper_char :: "char \<Rightarrow> char" where
  "to_upper_char c =
     (let n = of_char c :: nat in if 97 \<le> n \<and> n \<le> 122 then char_of (n - 32) else c)"

definition to_lower :: "string \<Rightarrow> string" where
  "to_lower s = map to_lower_char s"

definition to_upper :: "string \<Rightarrow> string" where
  "to_upper s = map to_upper_char s"

definition equal_fold :: "string \<Rightarrow> string \<Rightarrow> bool" where
  "equal_fold s t \<longleftrightarrow> to_lower s = to_lower t"

section \<open>Package strconv\<close>

definition digit_char :: "nat \<Rightarrow> char" where
  "digit_char d = char_of (48 + d)"

fun nat_str :: "nat \<Rightarrow> string" where
  "nat_str n = (if n < 10 then [digit_char n] else nat_str (n div 10) @ [digit_char (n mod 10)])"

declare nat_str.simps [simp del]

definition itoa :: "int \<Rightarrow> string" where
  "itoa i = (if i < 0 then CHR ''-'' # nat_str (nat (- i)) else nat_str (nat i))"

definition is_digit :: "char \<Rightarrow> bool" where
  "is_digit c \<longleftrightarrow> 48 \<le> (of_char c :: nat) \<and> (of_char c :: nat) \<le> 57"

definition digits_val :: "string \<Rightarrow> nat" where
  "digits_val s = foldl (\<lambda>n c. 10 * n + ((of_char c :: nat) - 48)) 0 s"

text \<open>
  \<^verbatim>\<open>strconv.Atoi\<close> on a 64-bit platform: an optional sign, at least one digit, nothing else, and a
  value that fits in an int64.
\<close>

definition atoi :: "string \<Rightarrow> int option" where
  "atoi s =
     (let neg = has_prefix s ''-'';
          body = (if neg \<or> has_prefix s ''+'' then drop 1 s else s);
          v = (if neg then - int (digits_val body) else int (digits_val body))
      in if body \<noteq> [] \<and> list_all is_digit body \<and> - (2 ^ 63) \<le> v \<and> v < 2 ^ 63
         then Some v else None)"

section \<open>bufio.Scanner over lines\<close>

definition newline :: char where "newline = CHR 0x0A"
definition carriage_return :: char where "carriage_return = CHR 0x0D"

definition drop_cr :: "string \<Rightarrow> string" where
  "drop_cr s = (if s \<noteq> [] \<and> last s = carriage_return then butlast s else s)"

text \<open>
  The lines \<^verbatim>\<open>bufio.ScanLines\<close> yields: a final line without a newline is a line, an empty rest after
  the last newline is not, and one trailing carriage return is dropped from each.
\<close>

definition raw_lines :: "string \<Rightarrow> string list" where
  "raw_lines s = (let ws = split_on newline s in if last ws = [] then butlast ws else ws)"

definition scan_lines :: "string \<Rightarrow> string list" where
  "scan_lines s = map drop_cr (raw_lines s)"

section \<open>Lemmas\<close>

lemma has_prefix_iff [go_str]: "has_prefix s p \<longleftrightarrow> (\<exists>t. s = p @ t)"
  by (auto simp: has_prefix_def) (metis append_take_drop_id)

lemma has_prefix_Nil [simp]: "has_prefix s []"
  by (simp add: has_prefix_def)

lemma has_prefix_Cons [simp]:
  "has_prefix (c # s) (d # p) \<longleftrightarrow> c = d \<and> has_prefix s p"
  by (auto simp: has_prefix_def)

lemma has_prefix_Nil_Cons [simp]: "\<not> has_prefix [] (d # p)"
  by (simp add: has_prefix_def)

lemma str_index_Some_split:
  "str_index s sub = Some i \<Longrightarrow> s = take i s @ sub @ drop (i + length sub) s"
proof (induction s arbitrary: i)
  case Nil
  then show ?case by (simp split: if_splits)
next
  case (Cons c cs)
  show ?case
  proof (cases "has_prefix (c # cs) sub")
    case True
    with Cons.prems have "i = 0" by simp
    with True show ?thesis by (auto simp: has_prefix_iff)
  next
    case False
    with Cons.prems obtain j where j: "str_index cs sub = Some j" and i: "i = Suc j" by auto
    with Cons.IH[OF j] show ?thesis by simp
  qed
qed

lemma str_index_prefix: "has_prefix s sub \<Longrightarrow> str_index s sub = Some 0"
  by (cases s; cases sub) auto

lemma str_index_append: "str_index (a @ sub @ b) sub \<noteq> None"
proof (induction a)
  case Nil
  have "has_prefix (sub @ b) sub" by (auto simp: has_prefix_iff)
  then show ?case by (simp add: str_index_prefix)
qed auto

lemma str_contains_iff [go_str]: "str_contains s sub \<longleftrightarrow> (\<exists>a b. s = a @ sub @ b)"
  unfolding str_contains_def using str_index_Some_split str_index_append by blast

lemma str_index_least:
  "str_index s sub = Some i \<Longrightarrow> j < i \<Longrightarrow> \<not> has_prefix (drop j s) sub"
proof (induction s arbitrary: i j)
  case Nil
  then show ?case by (simp split: if_splits)
next
  case (Cons c cs)
  then show ?case by (cases j) (auto split: if_splits)
qed

lemma str_index_bound:
  assumes "str_index s sub = Some i"
  shows "i + length sub \<le> length s"
  using assms
proof (induction s arbitrary: i)
  case Nil
  then show ?case by (simp split: if_splits)
next
  case (Cons c cs)
  show ?case
  proof (cases "has_prefix (c # cs) sub")
    case True
    then obtain t where "c # cs = sub @ t" by (auto simp: has_prefix_iff)
    then have "length (c # cs) = length sub + length t" by (metis length_append)
    with Cons.prems True show ?thesis by simp
  next
    case False
    with Cons show ?thesis by auto
  qed
qed

lemma last_index_Some_split:
  "last_index s sub = Some i \<Longrightarrow> s = take i s @ sub @ drop (i + length sub) s"
proof (induction s arbitrary: i)
  case Nil
  then show ?case by (simp split: if_splits)
next
  case (Cons c cs)
  show ?case
  proof (cases "last_index cs sub")
    case None
    with Cons.prems have "has_prefix (c # cs) sub" "i = 0" by (auto split: if_splits)
    then show ?thesis by (auto simp: has_prefix_iff)
  next
    case (Some j)
    with Cons.prems have "i = Suc j" by simp
    with Cons.IH[OF Some] show ?thesis by simp
  qed
qed

lemma last_index_prefix: "has_prefix s sub \<Longrightarrow> last_index s sub \<noteq> None"
  by (cases s; cases sub) (auto split: option.splits)

lemma last_index_append: "last_index (a @ sub @ b) sub \<noteq> None"
proof (induction a)
  case Nil
  have "has_prefix (sub @ b) sub" by (auto simp: has_prefix_iff)
  then show ?case using last_index_prefix by simp
qed (auto split: option.splits)

lemma last_index_char_None: "last_index s [c] = None \<longleftrightarrow> c \<notin> set s"
  by (induction s) (auto split: option.splits)

lemma last_index_char_rest:
  "last_index s [c] = Some i \<Longrightarrow> c \<notin> set (drop (Suc i) s)"
proof (induction s arbitrary: i)
  case Nil
  then show ?case by simp
next
  case (Cons d s)
  then show ?case by (auto simp: last_index_char_None split: option.splits if_splits)
qed

lemma trim_left_suffix: "\<exists>a. s = a @ trim_left s cs"
  unfolding trim_left_def by (metis takeWhile_dropWhile_id)

lemma trim_right_prefix: "\<exists>b. s = trim_right s cs @ b"
  unfolding trim_right_def using trim_left_suffix[of "rev s" cs]
  by (metis rev_append rev_rev_ident)

lemma trim_space_infix: "\<exists>a b. s = a @ trim_space s @ b"
  unfolding trim_space_def using trim_left_suffix trim_right_prefix by metis

lemma split_on_not_Nil [simp]: "split_on c s \<noteq> []"
  by (induction s) (auto split: list.splits)

lemma join_split_on: "join [c] (split_on c s) = s"
proof (induction s)
  case Nil
  then show ?case by simp
next
  case (Cons d s)
  obtain w ws where "split_on c s = w # ws" by (cases "split_on c s") auto
  with Cons show ?case by (cases ws) auto
qed

lemma split_on_no_sep: "w \<in> set (split_on c s) \<Longrightarrow> c \<notin> set w"
  by (induction s arbitrary: w) (auto split: if_splits list.splits)

lemma split_on_single: "c \<notin> set s \<Longrightarrow> split_on c s = [s]"
  by (induction s) auto

lemma split2_cases:
  "split2 s sep = [s] \<and> \<not> str_contains s sep \<or>
   (\<exists>a b. split2 s sep = [a, b] \<and> s = a @ sep @ b)"
proof (cases "str_index s sep")
  case None
  then show ?thesis by (simp add: split2_def str_contains_def)
next
  case (Some i)
  with str_index_Some_split[OF Some] show ?thesis by (auto simp: split2_def)
qed

lemma str_index_char: "c \<notin> set a \<Longrightarrow> str_index (a @ c # b) [c] = Some (length a)"
  by (induction a) auto

lemma split2_char: "c \<notin> set a \<Longrightarrow> split2 (a @ c # b) [c] = [a, b]"
  by (simp add: split2_def str_index_char)

lemma str_contains_char [simp]: "str_contains s [c] \<longleftrightarrow> c \<in> set s"
  by (auto simp: str_contains_iff in_set_conv_decomp)

lemma split2_char_obtain:
  assumes "c \<in> set s"
  obtains a b where "s = a @ c # b" and "c \<notin> set a" and "split2 s [c] = [a, b]"
  using assms split2_char by (metis split_list_first)

subsection \<open>Numbers in decimal\<close>

lemma of_char_digit: "d < 10 \<Longrightarrow> of_char (digit_char d) = 48 + d"
  by (simp add: digit_char_def)

lemma nat_str_digits: "list_all is_digit (nat_str n) \<and> nat_str n \<noteq> [] \<and> digits_val (nat_str n) = n"
proof (induction n rule: nat_str.induct)
  case (1 n)
  have d: "is_digit (digit_char m)" if "m < 10" for m
    using of_char_digit[OF that] that by (simp add: is_digit_def)
  show ?case
  proof (cases "n < 10")
    case True
    then show ?thesis using d[OF True] by (simp add: nat_str.simps[of n] digits_val_def of_char_digit)
  next
    case False
    then show ?thesis using 1 d[of "n mod 10"]
      by (simp add: nat_str.simps[of n] digits_val_def of_char_digit)
  qed
qed

lemma nat_str_inj: "nat_str m = nat_str n \<longleftrightarrow> m = n"
  using nat_str_digits[of m] nat_str_digits[of n] by metis

end
