(* ===== verification/Goss_Values.thy ===== *)
theory Goss_Values
  imports Goss_Prelude
begin

text \<open>
  The dynamic values a gossfile and a system query produce (Go's \<^verbatim>\<open>any\<close>), the errors of the
  matcher and resource packages, the environment of code outside the repository, and the
  \<^verbatim>\<open>MatcherResult\<close> of matchers.go. A float64 is an exact rational; NaN and the infinities are not
  values of the model. A map is an association list whose keys are distinct.
\<close>

datatype val =
    VNil
  | VBool bool
  | VInt int
  | VFloat rat
  | VStr string
  | VStrs "string list"
  | VInts "int list"
  | VList "val list"
  | VMap "(string \<times> val) list"
  | VReader string
  | VOther string

datatype go_error =
    InvalidArgSyntax string string val
  | MissingRequiredAttribute
  | MultipleMatchers "string list"
  | UnknownMatcher string
  | PatternsNotArray val
  | PatternNotString val
  | BadRegexp string
  | IncorrectType val
  | TokenTooLong
  | NotArrayLike val
  | UnknownComparator string
  | BadConstraint val
  | BadVersions val
  | NotNumeric val
  | NotString val
  | NotReader val
  | NotFloat string
  | InvalidJSON
  | PathNotFound string
  | TransformFailed string go_error
  | UnknownSignature
  | LibErr string
  | SysErr string
  | DepFailed string
  | UnsatisfiedDep
  | JoinedErrs "go_error list"

text \<open>The result of a matcher's \<^verbatim>\<open>Match\<close>: \<^verbatim>\<open>(success bool, err error)\<close>.\<close>

type_synonym mres = "bool \<times> go_error option"

text \<open>
  Code that is not in the repository: the regexp engine, float parsing and formatting, gjson,
  semver, and the gomega matchers the goss matchers embed. The gomega collection matchers get the
  \<^verbatim>\<open>Match\<close> functions of their elements; \<open>g_contain_elements\<close> and \<open>g_consist_of\<close> also return the
  positions of the elements gomega found missing and the extra actual elements (the unexported
  fields \<^verbatim>\<open>missingElements\<close> and \<^verbatim>\<open>extraElements\<close>, \<open>None\<close> for nil).
\<close>

record ext =
  re_compile :: "string \<Rightarrow> (string \<Rightarrow> bool) option"
  parse_float :: "string \<Rightarrow> rat option"
  sprint_v :: "val \<Rightarrow> string"
  gjson_valid :: "string \<Rightarrow> bool"
  gjson_get :: "string \<Rightarrow> string \<Rightarrow> val option"
  semver_range :: "string \<Rightarrow> (string \<Rightarrow> bool) option"
  semver_parse :: "string \<Rightarrow> string option"
  g_equal :: "val \<Rightarrow> val \<Rightarrow> mres"
  g_have_prefix :: "string \<Rightarrow> val \<Rightarrow> mres"
  g_have_suffix :: "string \<Rightarrow> val \<Rightarrow> mres"
  g_match_regexp :: "string \<Rightarrow> val \<Rightarrow> mres"
  g_contain_substring :: "string \<Rightarrow> val \<Rightarrow> mres"
  g_have_len :: "int \<Rightarrow> val \<Rightarrow> mres"
  g_be_numerically :: "string \<Rightarrow> val \<Rightarrow> val \<Rightarrow> mres"
  g_have_key :: "(val \<Rightarrow> mres) \<Rightarrow> val \<Rightarrow> mres"
  g_contain_element :: "(val \<Rightarrow> mres) \<Rightarrow> val \<Rightarrow> mres"
  g_contain_elements :: "(val \<Rightarrow> mres) list \<Rightarrow> val \<Rightarrow> mres \<times> nat list option"
  g_consist_of :: "(val \<Rightarrow> mres) list \<Rightarrow> val \<Rightarrow> mres \<times> nat list option \<times> val list option"

text \<open>The \<^verbatim>\<open>%v\<close> verb: exact on strings, booleans and integers, the environment's elsewhere.\<close>

definition sprint_val :: "ext \<Rightarrow> val \<Rightarrow> string" where
  "sprint_val X v =
     (case v of
        VStr s \<Rightarrow> s
      | VBool b \<Rightarrow> (if b then ''true'' else ''false'')
      | VInt i \<Rightarrow> itoa i
      | _ \<Rightarrow> sprint_v X v)"

text \<open>The \<^verbatim>\<open>%T\<close> verb; the readers of the model are string readers.\<close>

definition type_name :: "val \<Rightarrow> string" where
  "type_name v =
     (case v of
        VNil \<Rightarrow> ''<nil>''
      | VBool _ \<Rightarrow> ''bool''
      | VInt _ \<Rightarrow> ''int''
      | VFloat _ \<Rightarrow> ''float64''
      | VStr _ \<Rightarrow> ''string''
      | VStrs _ \<Rightarrow> ''[]string''
      | VInts _ \<Rightarrow> ''[]int''
      | VList _ \<Rightarrow> ''[]interface {}''
      | VMap _ \<Rightarrow> ''map[string]interface {}''
      | VReader _ \<Rightarrow> ''*strings.Reader''
      | VOther t \<Rightarrow> t)"

text \<open>The documented contract of gomega's matchers: an error comes with \<^verbatim>\<open>success == false\<close>.\<close>

definition clean :: "mres \<Rightarrow> bool" where
  "clean r \<longleftrightarrow> (snd r \<noteq> None \<longrightarrow> \<not> fst r)"

definition gomega_ok :: "ext \<Rightarrow> bool" where
  "gomega_ok X \<longleftrightarrow>
     (\<forall>e v. clean (g_equal X e v)) \<and>
     (\<forall>s v. clean (g_have_prefix X s v) \<and> clean (g_have_suffix X s v) \<and>
            clean (g_match_regexp X s v) \<and> clean (g_contain_substring X s v)) \<and>
     (\<forall>n v. clean (g_have_len X n v)) \<and>
     (\<forall>c e v. clean (g_be_numerically X c e v)) \<and>
     (\<forall>f v. clean (g_have_key X f v) \<and> clean (g_contain_element X f v)) \<and>
     (\<forall>fs v. clean (fst (g_contain_elements X fs v)) \<and> clean (fst (g_consist_of X fs v)))"

lemma clean_simps [simp]:
  "clean (b, None)" "clean (False, e)"
  by (auto simp: clean_def)

lemma clean_iff: "clean (b, e) \<longleftrightarrow> (b \<longrightarrow> e = None)"
  by (auto simp: clean_def)

text \<open>An environment in which nothing compiles and every gomega matcher compares with its argument.\<close>

definition sample_ext :: ext where
  "sample_ext =
     \<lparr>re_compile = \<lambda>_. None, parse_float = \<lambda>_. None, sprint_v = \<lambda>_. [], gjson_valid = \<lambda>_. True,
      gjson_get = \<lambda>_ _. None, semver_range = \<lambda>_. None, semver_parse = \<lambda>_. None,
      g_equal = \<lambda>e v. (e = v, None), g_have_prefix = \<lambda>s v. (False, None),
      g_have_suffix = \<lambda>s v. (False, None), g_match_regexp = \<lambda>s v. (False, None),
      g_contain_substring = \<lambda>s v. (False, None), g_have_len = \<lambda>n v. (False, None),
      g_be_numerically = \<lambda>c e v. (e = v, None), g_have_key = \<lambda>f v. (False, None),
      g_contain_element = \<lambda>f v. (False, None), g_contain_elements = \<lambda>fs v. ((False, None), None),
      g_consist_of = \<lambda>fs v. ((False, None), None, None)\<rparr>"

lemma sample_ext_ok: "gomega_ok sample_ext"
  by (simp add: gomega_ok_def sample_ext_def)

end
