(* ===== verification/Patterns.thy ===== *)
theory Patterns
  imports Goss_Values
begin

text \<open>
  matchers/have_patterns.go: the pattern language of file contents, command output and HTTP
  bodies (substrings, \<^verbatim>\<open>/regexps/flags\<close> and their \<^verbatim>\<open>!\<close>-negations), the line-by-line search of
  \<^verbatim>\<open>HavePatternsMatcher.Match\<close>, and, from resource/command.go, the escaping that turns the output of
  a command into patterns when a resource is added.
\<close>

section \<open>Patterns\<close>

datatype pattern =
    StringPattern string string bool
  | RegexPattern string "string \<Rightarrow> bool" bool

fun pat_pattern :: "pattern \<Rightarrow> string" where
  "pat_pattern (StringPattern p c i) = p"
| "pat_pattern (RegexPattern p re i) = p"

fun pat_inverse :: "pattern \<Rightarrow> bool" where
  "pat_inverse (StringPattern p c i) = i"
| "pat_inverse (RegexPattern p re i) = i"

fun pat_match :: "pattern \<Rightarrow> string \<Rightarrow> bool" where
  "pat_match (StringPattern p c i) s = str_contains s c"
| "pat_match (RegexPattern p re i) s = re s"

definition newStringPattern :: "string \<Rightarrow> pattern" where
  "newStringPattern str =
     (let inverse = has_prefix str ''!'';
          cleanPattern = trim_left str [CHR 0x5C, CHR ''/'', CHR ''!'']
      in StringPattern str cleanPattern inverse)"

text \<open>
  \<^verbatim>\<open>newRegexPattern\<close>: indexing \<^verbatim>\<open>cleanStr[0]\<close> panics on the empty string. On a compile error the Go
  function also returns the half-built pattern, which its caller drops.
\<close>

definition newRegexPattern :: "ext \<Rightarrow> string \<Rightarrow> (go_error, pattern) outcome" where
  "newRegexPattern X str =
     (let inverse = has_prefix str ''!'';
          cleanStr = (if inverse then drop 1 str else str)
      in case cleanStr of
           [] \<Rightarrow> Panic
         | c # cs \<Rightarrow>
             let s1 = (if c = CHR 0x5C \<or> c = CHR ''/'' then cs else c # cs);
                 idx = last_index s1 ''/'';
                 flags = (case idx of Some i \<Rightarrow> drop (i + 1) s1 | None \<Rightarrow> []);
                 s2 = (case idx of Some i \<Rightarrow> take i s1 | None \<Rightarrow> s1);
                 s3 = (if flags \<noteq> [] then ''(?'' @ flags @ '')'' @ s2 else s2)
             in case re_compile X s3 of
                  None \<Rightarrow> Err (BadRegexp s3)
                | Some re \<Rightarrow> Ret (RegexPattern str re inverse))"

definition isRegexPattern :: "string \<Rightarrow> bool" where
  "isRegexPattern s =
     (let core = trim_prefix s ''!''
      in if \<not> has_prefix core ''/'' then False
         else case last_index (drop 1 core) ''/'' of
                None \<Rightarrow> False
              | Some closing \<Rightarrow>
                  list_all (\<lambda>r. r \<in> {CHR ''i'', CHR ''m'', CHR ''s''})
                    (drop (closing + 1) (drop 1 core)))"

definition sliceToPattern :: "ext \<Rightarrow> string \<Rightarrow> (go_error, pattern) outcome" where
  "sliceToPattern X s =
     (if isRegexPattern s then newRegexPattern X s else Ret (newStringPattern s))"

definition sliceToPatterns :: "ext \<Rightarrow> string list \<Rightarrow> (go_error, pattern list) outcome" where
  "sliceToPatterns X slice = map_outcomes (sliceToPattern X) slice"

definition patternsToSlice :: "pattern list \<Rightarrow> string list" where
  "patternsToSlice patterns = map pat_pattern patterns"

definition subtractSlice :: "string list \<Rightarrow> string list \<Rightarrow> string list" where
  "subtractSlice x y = filter (\<lambda>s. s \<notin> set y) x"

section \<open>The search\<close>

definition maxScanTokenSize :: nat where
  "maxScanTokenSize = 1024 * 1024"

text \<open>
  The body of the scan loop on one line: the patterns still not found, in place and in order, and
  the patterns found on this line (a negated pattern that matches is dropped but not found).
\<close>

fun match_line :: "string \<Rightarrow> pattern list \<Rightarrow> pattern list \<times> pattern list" where
  "match_line line [] = ([], [])"
| "match_line line (pat # pats) =
     (let (notfound, found) = match_line line pats
      in if pat_match pat line
         then (notfound, if pat_inverse pat then found else pat # found)
         else (pat # notfound, found))"

text \<open>
  The scanner's tokens and the loop over them; a line that does not fit the buffer stops the scan
  with \<^verbatim>\<open>bufio.ErrTooLong\<close>.
\<close>

fun scan_loop ::
  "string list \<Rightarrow> pattern list \<Rightarrow> pattern list \<Rightarrow> go_error + pattern list \<times> pattern list" where
  "scan_loop [] notfound found = Inr (notfound, found)"
| "scan_loop (raw # rest) notfound found =
     (if maxScanTokenSize \<le> length raw then Inl TokenTooLong
      else let (nf, f) = match_line (drop_cr raw) notfound
           in if nf = [] then Inr (nf, found @ f) else scan_loop rest nf (found @ f))"

definition elem_string :: "val \<Rightarrow> (go_error, string) outcome" where
  "elem_string v = (case v of VStr s \<Rightarrow> Ret s | _ \<Rightarrow> Err (PatternNotString v))"

text \<open>
  \<^verbatim>\<open>HavePatternsMatcher.Match\<close>: the fields \<^verbatim>\<open>missingElements\<close> and \<^verbatim>\<open>foundElements\<close> after the call,
  and the result. The outer outcome is a panic only if a pattern panics.
\<close>

record patterns_state =
  missing_els :: "string list"
  found_els :: "string list"

definition search_patterns ::
  "string list \<Rightarrow> pattern list \<Rightarrow> string \<Rightarrow> patterns_state \<Rightarrow> patterns_state \<times> mres" where
  "search_patterns elements pats text st =
     (case scan_loop (raw_lines text) pats [] of
        Inr (notfound, found) \<Rightarrow>
          let found' = found @ filter (\<lambda>p. pat_inverse p \<or> pat_pattern p = []) notfound;
              foundSlice = patternsToSlice found';
              st' = st\<lparr>found_els := foundSlice\<rparr>
          in if length elements \<noteq> length found'
             then (st'\<lparr>missing_els := subtractSlice elements foundSlice\<rparr>, (False, None))
             else (st', (True, None))
      | Inl e \<Rightarrow> (st, (False, Some e)))"

definition HavePatterns_Match ::
  "ext \<Rightarrow> val \<Rightarrow> patterns_state \<Rightarrow> val \<Rightarrow> (patterns_state \<times> mres) option" where
  "HavePatterns_Match X Elements st actual =
     (case Elements of
        VList t \<Rightarrow>
          (case map_outcomes elem_string t of
             Ret elements \<Rightarrow>
               (case sliceToPatterns X elements of
                  Ret notfound \<Rightarrow>
                    if notfound = [] then Some (st, (True, None))
                    else (case actual of
                            VReader s \<Rightarrow> Some (search_patterns elements notfound s st)
                          | VStr s \<Rightarrow> Some (search_patterns elements notfound s st)
                          | VStrs ss \<Rightarrow>
                              Some (search_patterns elements notfound (join [newline] ss) st)
                          | _ \<Rightarrow> Some (st, (False, Some (IncorrectType actual))))
                | Err e \<Rightarrow> Some (st, (False, Some e))
                | Panic \<Rightarrow> None)
           | Err e \<Rightarrow> Some (st, (False, Some e))
           | Panic \<Rightarrow> None)
      | _ \<Rightarrow> Some (st, (False, Some (PatternsNotArray Elements))))"

section \<open>Adding a command: output lines as patterns\<close>

definition escapePattern :: "string \<Rightarrow> string" where
  "escapePattern s =
     (if has_prefix s ''!'' \<or> has_prefix s ''/'' then CHR 0x5C # s else s)"

fun readerLoop :: "string list \<Rightarrow> string list" where
  "readerLoop [] = []"
| "readerLoop (raw # rest) =
     (let line = escapePattern (trim_space raw)
      in if line \<noteq> [] then line # readerLoop rest else readerLoop rest)"

definition readerToSlice :: "string \<Rightarrow> string list" where
  "readerToSlice s =
     readerLoop (map drop_cr (takeWhile (\<lambda>l. length l < 64 * 1024) (raw_lines s)))"

section \<open>No pattern makes the matcher panic\<close>

lemma isRegexPattern_slash:
  "isRegexPattern s \<Longrightarrow> has_prefix (trim_prefix s ''!'') ''/''"
  by (simp add: isRegexPattern_def Let_def split: if_splits)

lemma newRegexPattern_no_panic:
  assumes "isRegexPattern s"
  shows "newRegexPattern X s \<noteq> Panic"
proof -
  obtain t where "trim_prefix s ''!'' = CHR ''/'' # t"
    using isRegexPattern_slash[OF assms] by (auto simp: has_prefix_iff)
  then have "(if has_prefix s ''!'' then drop 1 s else s) = CHR ''/'' # t"
    by (simp add: trim_prefix_def split: if_splits)
  then show ?thesis by (simp add: newRegexPattern_def Let_def split: option.splits)
qed

lemma sliceToPattern_no_panic: "sliceToPattern X s \<noteq> Panic"
  by (simp add: sliceToPattern_def newRegexPattern_no_panic)

lemma sliceToPatterns_no_panic: "sliceToPatterns X es \<noteq> Panic"
  unfolding sliceToPatterns_def using map_outcomes_Panic sliceToPattern_no_panic by metis

lemma elem_string_no_panic: "map_outcomes elem_string t \<noteq> Panic"
proof
  assume "map_outcomes elem_string t = Panic"
  then obtain v where "elem_string v = Panic" using map_outcomes_Panic by metis
  then show False by (cases v) (auto simp: elem_string_def)
qed

lemma elem_string_VStr: "map_outcomes elem_string (map VStr es) = Ret es"
  by (simp add: map_outcomes_Ret elem_string_def list_all2_conv_all_nth)

lemma sliceToPattern_pattern: "sliceToPattern X s = Ret p \<Longrightarrow> pat_pattern p = s"
  by (auto simp: sliceToPattern_def newStringPattern_def newRegexPattern_def Let_def
      split: if_splits list.splits option.splits)

section \<open>The search finds exactly the satisfied patterns\<close>

text \<open>
  What a pattern asks of the lines of the input: a negated pattern matches none of them, any
  other matches at least one (the empty pattern asks nothing).
\<close>

definition sat_pattern :: "string list \<Rightarrow> pattern \<Rightarrow> bool" where
  "sat_pattern lines p =
     (if pat_inverse p then \<not> list_ex (pat_match p) lines
      else pat_pattern p = [] \<or> list_ex (pat_match p) lines)"

definition wanted :: "ext \<Rightarrow> string \<Rightarrow> string \<Rightarrow> bool" where
  "wanted X s e =
     (case sliceToPattern X e of Ret p \<Rightarrow> sat_pattern (scan_lines s) p | _ \<Rightarrow> False)"

lemma match_line_spec:
  "match_line line pats =
     (filter (\<lambda>p. \<not> pat_match p line) pats,
      filter (\<lambda>p. pat_match p line \<and> \<not> pat_inverse p) pats)"
  by (induction pats) auto

lemma sat_pattern_Cons:
  "sat_pattern (l # ls) p = (if pat_match p l then \<not> pat_inverse p else sat_pattern ls p)"
  by (auto simp: sat_pattern_def)

lemma sat_pattern_Nil: "sat_pattern [] p = (pat_inverse p \<or> pat_pattern p = [])"
  by (auto simp: sat_pattern_def)

lemma mset_sat_Cons:
  "mset (filter (sat_pattern (l # ls)) ps) =
     mset (filter (\<lambda>p. pat_match p l \<and> \<not> pat_inverse p) ps) +
     mset (filter (sat_pattern ls) (filter (\<lambda>p. \<not> pat_match p l) ps))"
  by (induction ps) (auto simp: sat_pattern_Cons filter_filter_mset)

lemma scan_loop_mset:
  assumes "scan_loop raws nf f = Inr (nf', f')"
  shows "mset f' + mset (filter (\<lambda>p. pat_inverse p \<or> pat_pattern p = []) nf') =
         mset f + mset (filter (sat_pattern (map drop_cr raws)) nf)"
  using assms
proof (induction raws arbitrary: nf f)
  case Nil
  then show ?case by (auto simp: sat_pattern_Nil[abs_def])
next
  case (Cons raw rest)
  let ?nf = "filter (\<lambda>p. \<not> pat_match p (drop_cr raw)) nf"
  let ?f = "filter (\<lambda>p. pat_match p (drop_cr raw) \<and> \<not> pat_inverse p) nf"
  show ?case
  proof (cases "?nf = []")
    case True
    with Cons.prems have "nf' = []" "f' = f @ ?f"
      by (auto simp: match_line_spec split: if_splits)
    with True show ?thesis using mset_sat_Cons[of "drop_cr raw" "map drop_cr rest" nf] by simp
  next
    case False
    with Cons.prems have "scan_loop rest ?nf (f @ ?f) = Inr (nf', f')"
      by (auto simp: match_line_spec split: if_splits)
    from Cons.IH[OF this] show ?thesis
      using mset_sat_Cons[of "drop_cr raw" "map drop_cr rest" nf] by simp
  qed
qed

definition short_lines :: "string \<Rightarrow> bool" where
  "short_lines s = list_all (\<lambda>l. length l < maxScanTokenSize) (raw_lines s)"

lemma scan_loop_Inr:
  "list_all (\<lambda>l. length l < maxScanTokenSize) raws \<Longrightarrow> \<exists>r. scan_loop raws nf f = Inr r"
  by (induction raws arbitrary: nf f) (auto simp: match_line_spec not_le)

lemma scan_loop_Inl: "scan_loop raws nf f = Inl e \<Longrightarrow> e = TokenTooLong"
  by (induction raws arbitrary: nf f) (auto simp: match_line_spec split: if_splits)

lemma length_filter_all: "length (filter P xs) = length xs \<longleftrightarrow> (\<forall>x \<in> set xs. P x)"
proof -
  have "length (filter P xs) + length (filter (\<lambda>x. \<not> P x) xs) = length xs"
    by (rule sum_length_filter_compl)
  then have "length (filter P xs) = length xs \<longleftrightarrow> filter (\<lambda>x. \<not> P x) xs = []" by auto
  then show ?thesis by (simp add: filter_empty_conv)
qed

lemma search_patterns_spec:
  assumes "sliceToPatterns X es = Ret ps" and "short_lines s"
  shows "\<exists>st'. search_patterns es ps s st = (st', (\<forall>e \<in> set es. wanted X s e, None)) \<and>
           (\<not> (\<forall>e \<in> set es. wanted X s e) \<longrightarrow>
              missing_els st' = filter (\<lambda>e. \<not> wanted X s e) es)"
proof -
  have ps: "list_all2 (\<lambda>e p. sliceToPattern X e = Ret p) es ps"
    using assms(1) by (simp add: sliceToPatterns_def map_outcomes_Ret)
  have len: "length ps = length es" using ps by (simp add: list_all2_lengthD)
  obtain nf f where sc: "scan_loop (raw_lines s) ps [] = Inr (nf, f)"
    using assms(2) scan_loop_Inr unfolding short_lines_def by (metis prod.exhaust)
  let ?found = "f @ filter (\<lambda>p. pat_inverse p \<or> pat_pattern p = []) nf"
  let ?sat = "sat_pattern (scan_lines s)"
  have ms: "mset ?found = mset (filter ?sat ps)"
    using scan_loop_mset[OF sc] by (simp add: scan_lines_def)
  have setf: "set (patternsToSlice ?found) = pat_pattern ` {p \<in> set ps. ?sat p}"
    using arg_cong[OF ms, of set_mset] by (auto simp: patternsToSlice_def)
  have lenf: "length ?found = length (filter ?sat ps)"
    using mset_eq_length[OF ms] .
  have allsat: "(\<forall>p \<in> set ps. ?sat p) \<longleftrightarrow> (\<forall>e \<in> set es. wanted X s e)"
    using ps by (induction rule: list_all2_induct) (auto simp: wanted_def)
  have wanted_in: "wanted X s e \<longleftrightarrow> e \<in> set (patternsToSlice ?found)" if "e \<in> set es" for e
  proof -
    obtain p where p: "p \<in> set ps" "sliceToPattern X e = Ret p"
      using list_all2_set1[OF ps \<open>e \<in> set es\<close>] by blast
    have same: "q = p" if "q \<in> set ps" "pat_pattern q = e" for q
      using list_all2_set2[OF ps that(1)] that(2) p(2) sliceToPattern_pattern by fastforce
    have "wanted X s e = ?sat p" by (simp add: wanted_def p(2))
    also have "\<dots> = (e \<in> pat_pattern ` {p \<in> set ps. ?sat p})"
      using p same sliceToPattern_pattern[OF p(2)] by blast
    finally show ?thesis unfolding setf .
  qed
  have miss: "subtractSlice es (patternsToSlice ?found) = filter (\<lambda>e. \<not> wanted X s e) es"
    using wanted_in by (auto simp: subtractSlice_def intro: filter_cong)
  have "length es = length ?found \<longleftrightarrow> (\<forall>e \<in> set es. wanted X s e)"
    unfolding lenf len[symmetric] using allsat length_filter_all[of ?sat ps] by metis
  then show ?thesis
    using miss by (auto simp: search_patterns_def sc Let_def)
qed

section \<open>Escaped output lines match the output\<close>

lemma escapePattern_plain:
  "sliceToPattern X (escapePattern s) =
     Ret (StringPattern (escapePattern s)
            (trim_left (escapePattern s) [CHR 0x5C, CHR ''/'', CHR ''!'']) False)"
  by (cases s)
    (auto simp: sliceToPattern_def escapePattern_def isRegexPattern_def newStringPattern_def
      trim_prefix_def Let_def)

lemma escapePattern_clean:
  "\<exists>a. s = a @ trim_left (escapePattern s) [CHR 0x5C, CHR ''/'', CHR ''!'']"
  using trim_left_suffix[of s "[CHR 0x5C, CHR ''/'', CHR ''!'']"]
  by (cases s) (auto simp: escapePattern_def trim_left_def)

lemma readerLoop_from:
  "e \<in> set (readerLoop ls) \<Longrightarrow> \<exists>l \<in> set ls. e = escapePattern (trim_space l)"
  by (induction ls) (auto simp: Let_def split: if_splits)

lemma readerToSlice_wanted:
  assumes "e \<in> set (readerToSlice s)"
  shows "wanted X s e"
proof -
  obtain l where l': "l \<in> set (map drop_cr (takeWhile (\<lambda>l. length l < 64 * 1024) (raw_lines s)))"
    and e: "e = escapePattern (trim_space l)"
    using readerLoop_from[OF assms[unfolded readerToSlice_def]] by blast
  have l: "l \<in> set (scan_lines s)"
    using l' unfolding scan_lines_def by (auto dest: set_takeWhileD simp del: One_nat_def)
  obtain a b where ab: "l = a @ trim_space l @ b" using trim_space_infix by metis
  obtain c where c: "trim_space l = c @ trim_left e [CHR 0x5C, CHR ''/'', CHR ''!'']"
    using escapePattern_clean e by metis
  have "l = (a @ c) @ trim_left e [CHR 0x5C, CHR ''/'', CHR ''!''] @ b"
    using ab c by (metis append.assoc)
  then have "str_contains l (trim_left e [CHR 0x5C, CHR ''/'', CHR ''!''])"
    unfolding str_contains_iff by blast
  with l show ?thesis
    by (auto simp: wanted_def e escapePattern_plain sat_pattern_def list_ex_iff)
qed

lemma readerToSlice_compiles: "\<exists>ps. sliceToPatterns X (readerToSlice s) = Ret ps"
proof -
  have "\<exists>p. sliceToPattern X e = Ret p" if "e \<in> set (readerToSlice s)" for e
    using readerToSlice_wanted[OF that, of X] by (auto simp: wanted_def split: outcome.splits)
  then have "\<exists>ps. list_all2 (\<lambda>e p. sliceToPattern X e = Ret p) (readerToSlice s) ps"
    by (intro list_all2_ex) blast
  then show ?thesis by (simp add: sliceToPatterns_def map_outcomes_Ret)
qed

lemma HavePatterns_Match_no_panic: "HavePatterns_Match X e st v \<noteq> None"
  using elem_string_no_panic sliceToPatterns_no_panic
  by (cases e) (auto simp: HavePatterns_Match_def split: outcome.splits val.splits,
      (metis surj_pair)+)

section \<open>Properties\<close>

lemma HavePatterns_Match_strings:
  assumes "sliceToPatterns X es = Ret ps" and "es \<noteq> []"
  shows "HavePatterns_Match X (VList (map VStr es)) st (VStr s) = Some (search_patterns es ps s st)"
proof -
  have "ps \<noteq> []"
    using assms by (cases es) (auto simp: sliceToPatterns_def go_outcome)
  with assms show ?thesis by (simp add: HavePatterns_Match_def elem_string_VStr)
qed

text \<open>C4: The search over the lines of a text succeeds exactly when every listed pattern is satisfied - a plain one
  by some line, a negated one by no line, the empty one always - and otherwise reports exactly the patterns that are not,
  in their order. Patterns are removed while scanning and the scan stops early; neither changes the answer.\<close>

theorem HavePatterns_exact:
  assumes "sliceToPatterns X es = Ret ps" and "es \<noteq> []" and "short_lines s"
  shows "\<exists>st'. HavePatterns_Match X (VList (map VStr es)) st (VStr s) =
            Some (st', (\<forall>e\<in>set es. wanted X s e, None)) \<and>
         (\<not> (\<forall>e\<in>set es. wanted X s e) \<longrightarrow> missing_els st' = filter (\<lambda>e. \<not> wanted X s e) es)"
  using search_patterns_spec[OF assms(1,3), of st] HavePatterns_Match_strings[OF assms(1,2), of st s] by auto

definition no_elements :: patterns_state where
  "no_elements = \<lparr>missing_els = [], found_els = []\<rparr>"

theorem HavePatterns_exact_witness:
  "\<exists>st'. HavePatterns_Match sample_ext (VList (map VStr [''ok'', ''!err'', ''done''])) no_elements (VStr ''all ok'') =
     Some (st', (False, None)) \<and> missing_els st' = [''done'']"
proof -
  have "case sliceToPatterns sample_ext [''ok'', ''!err'', ''done''] of Ret _ \<Rightarrow> True | _ \<Rightarrow> False"
    by code_simp
  then obtain ps where "sliceToPatterns sample_ext [''ok'', ''!err'', ''done''] = Ret ps"
    by (auto split: outcome.splits)
  moreover have "raw_lines ''all ok'' = [''all ok'']" by code_simp
  then have "short_lines ''all ok''" by (simp add: short_lines_def maxScanTokenSize_def)
  moreover have missing: "filter (\<lambda>e. \<not> wanted sample_ext ''all ok'' e) [''ok'', ''!err'', ''done''] = [''done'']"
    by code_simp
  moreover have "\<not> wanted sample_ext ''all ok'' ''done''" by code_simp
  then have "(\<forall>e\<in>set [''ok'', ''!err'', ''done'']. wanted sample_ext ''all ok'' e) = False" by simp
  ultimately show ?thesis
    using HavePatterns_exact[of sample_ext "[''ok'', ''!err'', ''done'']" ps "''all ok''" no_elements] by auto
qed

text \<open>No list of patterns makes the matcher panic: the index arithmetic on the pattern text stays in range
  for every pattern that is classified as a regular expression.\<close>

lemma HavePatterns_never_panics:
  "\<exists>st' r. HavePatterns_Match X elements st actual = Some (st', r)"
  using HavePatterns_Match_no_panic[of X elements st actual] by auto

lemma readerToSlice_accepted:
  assumes "short_lines s" and "readerToSlice s \<noteq> []"
  shows "\<exists>st'. HavePatterns_Match X (VList (map VStr (readerToSlice s))) st (VStr s) = Some (st', (True, None))"
proof -
  obtain ps where ps: "sliceToPatterns X (readerToSlice s) = Ret ps" using readerToSlice_compiles by blast
  have "\<forall>e\<in>set (readerToSlice s). wanted X s e" using readerToSlice_wanted by blast
  with search_patterns_spec[OF ps assms(1), of st] HavePatterns_Match_strings[OF ps assms(2), of st s]
  show ?thesis by auto
qed

text \<open>C18: The patterns that adding a command derives from its output are accepted by the matcher on that same
  output, whatever characters the output lines start with.\<close>

theorem added_output_validates:
  assumes "short_lines s" and "readerToSlice s \<noteq> []"
  shows "\<exists>st'. HavePatterns_Match X (VList (map VStr (readerToSlice s))) st (VStr s) = Some (st', (True, None))"
  by (rule readerToSlice_accepted[OF assms])

theorem added_output_validates_witness:
  "\<exists>st'. HavePatterns_Match sample_ext (VList (map VStr [[CHR 0x5C, CHR ''!'', CHR ''a'']])) no_elements (VStr '' !a'') =
     Some (st', (True, None))"
proof -
  have "raw_lines '' !a'' = ['' !a'']"
    "readerLoop (map drop_cr ['' !a'']) = [[CHR 0x5C, CHR ''!'', CHR ''a'']]" by code_simp+
  then have "short_lines '' !a''" "readerToSlice '' !a'' = [[CHR 0x5C, CHR ''!'', CHR ''a'']]"
    by (simp_all add: short_lines_def maxScanTokenSize_def readerToSlice_def)
  with added_output_validates[of "'' !a''" sample_ext no_elements] show ?thesis by simp
qed

end
