(* ===== verification/Matchers.thy ===== *)
theory Matchers
  imports Patterns
begin

text \<open>
  The package matchers: the matcher objects with the state their \<^verbatim>\<open>Match\<close> leaves behind, the
  transformers of type_conversion.go, \<^verbatim>\<open>Match\<close>, \<^verbatim>\<open>FailureResult\<close> and \<^verbatim>\<open>NegatedFailureResult\<close> of every
  matcher. A matcher pointer held in a field (\<^verbatim>\<open>firstFailedMatcher\<close>, \<^verbatim>\<open>firstSuccessfulMatcher\<close>) aliases an
  element of the matcher's own list and is that element's position. A method call through a nil
  interface panics, which is \<open>None\<close>.
\<close>

section \<open>Transformers\<close>

datatype transformer = ToNumeric | ToString | ToArray | Gjson string

fun transformer_name :: "transformer \<Rightarrow> string" where
  "transformer_name ToNumeric = ''matchers.ToNumeric{}''"
| "transformer_name ToString = ''matchers.ToString{}''"
| "transformer_name ToArray = ''matchers.ToArray{}''"
| "transformer_name (Gjson path) = ''matchers.Gjson{Path:'' @ path @ ''}''"

definition parse_trimmed :: "ext \<Rightarrow> string \<Rightarrow> val \<times> go_error option" where
  "parse_trimmed X s =
     (case parse_float X (trim_space s) of
        Some q \<Rightarrow> (VFloat q, None)
      | None \<Rightarrow> (VFloat 0, Some (NotFloat s)))"

definition ToNumeric_Transform :: "ext \<Rightarrow> val \<Rightarrow> val \<times> go_error option" where
  "ToNumeric_Transform X e =
     (case e of
        VFloat q \<Rightarrow> (VFloat q, None)
      | VInt i \<Rightarrow> (VInt i, None)
      | VStr s \<Rightarrow> parse_trimmed X s
      | VStrs ss \<Rightarrow> parse_trimmed X (join [newline] ss)
      | _ \<Rightarrow> (VInt 0, Some (NotNumeric e)))"

definition ToString_Transform :: "ext \<Rightarrow> val \<Rightarrow> val \<times> go_error option" where
  "ToString_Transform X e =
     (case e of
        VList vs \<Rightarrow> (VStr (join [newline] (map (sprint_val X) vs)), None)
      | VStrs ss \<Rightarrow> (VStr (join [newline] ss), None)
      | _ \<Rightarrow> (VStr (sprint_val X e), None))"

definition ToArray_Transform :: "val \<Rightarrow> val \<times> go_error option" where
  "ToArray_Transform i =
     (case i of VStr s \<Rightarrow> (VStrs (split_on newline s), None) | _ \<Rightarrow> (i, None))"

definition ReaderToString_Transform :: "val \<Rightarrow> val \<times> go_error option" where
  "ReaderToString_Transform i =
     (case i of VReader s \<Rightarrow> (VStr s, None) | _ \<Rightarrow> (VNil, Some (NotReader i)))"

definition Gjson_Transform :: "ext \<Rightarrow> string \<Rightarrow> val \<Rightarrow> val \<times> go_error option" where
  "Gjson_Transform X path i =
     (case i of
        VStr s \<Rightarrow>
          if \<not> gjson_valid X s then (VNil, Some InvalidJSON)
          else (case gjson_get X s path of
                  None \<Rightarrow> (VNil, Some (PathNotFound path))
                | Some v \<Rightarrow> (v, None))
      | _ \<Rightarrow> (VNil, Some (NotString i)))"

fun Transform :: "ext \<Rightarrow> transformer \<Rightarrow> val \<Rightarrow> val \<times> go_error option" where
  "Transform X ToNumeric v = ToNumeric_Transform X v"
| "Transform X ToString v = ToString_Transform X v"
| "Transform X ToArray v = ToArray_Transform v"
| "Transform X (Gjson path) v = Gjson_Transform X path v"

section \<open>Matchers\<close>

datatype matcher =
    EqualMatcher val
  | HavePrefixMatcher string
  | HaveSuffixMatcher string
  | MatchRegexpMatcher string
  | ContainSubstringMatcher string
  | HaveLenMatcher int
  | BeNumericallyMatcher string val
  | BeSemverConstraintMatcher val
  | HavePatternsMatcher val patterns_state
  | HaveKeyMatcher matcher
  | ContainElementMatcher matcher
  | ContainElementsMatcher "matcher list" "nat list option"
  | ConsistOfMatcher "matcher list" "nat list option" "val list option"
  | AndMatcher "matcher list" "nat option"
  | OrMatcher "matcher list" "nat option"
  | NotMatcher matcher
  | WithSafeTransformMatcher transformer matcher val bool

text \<open>The constructor functions: the state fields start at their zero values.\<close>

definition Equal :: "val \<Rightarrow> matcher" where
  [simp]: "Equal element = EqualMatcher element"

definition HavePrefix :: "string \<Rightarrow> matcher" where
  [simp]: "HavePrefix pre = HavePrefixMatcher pre"

definition HaveSuffix :: "string \<Rightarrow> matcher" where
  [simp]: "HaveSuffix suf = HaveSuffixMatcher suf"

definition MatchRegexp :: "string \<Rightarrow> matcher" where
  [simp]: "MatchRegexp regexp = MatchRegexpMatcher regexp"

definition ContainSubstring :: "string \<Rightarrow> matcher" where
  [simp]: "ContainSubstring substr = ContainSubstringMatcher substr"

definition HaveLen :: "int \<Rightarrow> matcher" where
  [simp]: "HaveLen n = HaveLenMatcher n"

definition BeSemverConstraint :: "val \<Rightarrow> matcher" where
  [simp]: "BeSemverConstraint constraint = BeSemverConstraintMatcher constraint"

definition HaveKey :: "matcher \<Rightarrow> matcher" where
  [simp]: "HaveKey key = HaveKeyMatcher key"

definition ContainElement :: "matcher \<Rightarrow> matcher" where
  [simp]: "ContainElement element = ContainElementMatcher element"

definition BeNumerically :: "string \<Rightarrow> val \<Rightarrow> matcher" where
  [simp]: "BeNumerically comparator compareTo = BeNumericallyMatcher comparator compareTo"

definition Not_m :: "matcher \<Rightarrow> matcher" where
  [simp]: "Not_m m = NotMatcher m"

definition HavePatterns :: "val \<Rightarrow> matcher" where
  "HavePatterns elements = HavePatternsMatcher elements \<lparr>missing_els = [], found_els = []\<rparr>"

definition ContainElements :: "matcher list \<Rightarrow> matcher" where
  "ContainElements elements = ContainElementsMatcher elements None"

definition ConsistOf :: "matcher list \<Rightarrow> matcher" where
  "ConsistOf elements = ConsistOfMatcher elements None None"

definition And :: "matcher list \<Rightarrow> matcher" where
  "And ms = AndMatcher ms None"

definition Or :: "matcher list \<Rightarrow> matcher" where
  "Or ms = OrMatcher ms None"

definition WithSafeTransform :: "transformer \<Rightarrow> matcher \<Rightarrow> matcher" where
  "WithSafeTransform t m = WithSafeTransformMatcher t m VNil False"

lemmas matcher_constructors =
  HavePatterns_def ContainElements_def ConsistOf_def And_def Or_def WithSafeTransform_def

subsection \<open>Leaf matchers\<close>

definition strToSymbol :: "string \<Rightarrow> go_error + string" where
  "strToSymbol s =
     (if s = ''gt'' then Inr ''>''
      else if s = ''ge'' then Inr ''>=''
      else if s = ''lt'' then Inr ''<''
      else if s = ''le'' then Inr ''<=''
      else if s = ''eq'' then Inr ''==''
      else Inl (UnknownComparator s))"

definition BeNumerically_Match :: "ext \<Rightarrow> string \<Rightarrow> val \<Rightarrow> val \<Rightarrow> mres" where
  "BeNumerically_Match X cmp compareTo actual =
     (case strToSymbol cmp of
        Inr comparator \<Rightarrow> g_be_numerically X comparator compareTo actual
      | Inl e \<Rightarrow> (False, Some e))"

definition toConstraint :: "ext \<Rightarrow> val \<Rightarrow> (string \<Rightarrow> bool) option" where
  "toConstraint X v = (case v of VStr s \<Rightarrow> semver_range X s | _ \<Rightarrow> None)"

definition toVersion :: "ext \<Rightarrow> val \<Rightarrow> string option" where
  "toVersion X v = (case v of VStr s \<Rightarrow> semver_parse X s | _ \<Rightarrow> None)"

fun versions_of :: "ext \<Rightarrow> val list \<Rightarrow> string list option" where
  "versions_of X [] = Some []"
| "versions_of X (e # es) =
     (case toVersion X e of
        None \<Rightarrow> None
      | Some v \<Rightarrow> map_option (\<lambda>vs. v # vs) (versions_of X es))"

definition nonempty_versions :: "string list option \<Rightarrow> string list option" where
  "nonempty_versions r = (case r of Some (v # vs) \<Rightarrow> Some (v # vs) | _ \<Rightarrow> None)"

definition toVersions :: "ext \<Rightarrow> val \<Rightarrow> string list option" where
  "toVersions X v =
     (case toVersion X v of
        Some ver \<Rightarrow> Some [ver]
      | None \<Rightarrow>
          (case v of
             VList es \<Rightarrow> nonempty_versions (versions_of X es)
           | VStrs ss \<Rightarrow> nonempty_versions (versions_of X (map VStr ss))
           | _ \<Rightarrow> None))"

definition BeSemverConstraint_Match :: "ext \<Rightarrow> val \<Rightarrow> val \<Rightarrow> mres" where
  "BeSemverConstraint_Match X c actual =
     (case toConstraint X c of
        None \<Rightarrow> (False, Some (BadConstraint c))
      | Some constraint \<Rightarrow>
          (case toVersions X actual of
             None \<Rightarrow> (False, Some (BadVersions actual))
           | Some vs \<Rightarrow> (list_all constraint vs, None)))"

definition isArrayOrSlice :: "val \<Rightarrow> bool" where
  "isArrayOrSlice v = (case v of VStrs _ \<Rightarrow> True | VInts _ \<Rightarrow> True | VList _ \<Rightarrow> True | _ \<Rightarrow> False)"

definition isMap :: "val \<Rightarrow> bool" where
  "isMap v = (case v of VMap _ \<Rightarrow> True | _ \<Rightarrow> False)"

definition ContainElements_Match ::
  "ext \<Rightarrow> (val \<Rightarrow> mres) list \<Rightarrow> nat list option \<Rightarrow> val \<Rightarrow> mres \<times> nat list option" where
  "ContainElements_Match X fs missing actual =
     (if \<not> isArrayOrSlice actual \<and> \<not> isMap actual
      then ((False, Some (NotArrayLike actual)), missing)
      else g_contain_elements X fs actual)"

text \<open>What \<^verbatim>\<open>NotMatcher.Match\<close> makes of the inner result.\<close>

definition Not_Match :: "mres \<Rightarrow> mres" where
  "Not_Match r = (if snd r \<noteq> None then (False, snd r) else (\<not> fst r, None))"

text \<open>
  The first half of \<^verbatim>\<open>WithSafeTransformMatcher.Match\<close>: the fields \<^verbatim>\<open>transformedValue\<close> and
  \<^verbatim>\<open>wasTransformed\<close>, and the error of the transformation.
\<close>

definition WithSafeTransform_apply ::
  "ext \<Rightarrow> transformer \<Rightarrow> bool \<Rightarrow> val \<Rightarrow> val \<times> bool \<times> go_error option" where
  "WithSafeTransform_apply X t was v =
     (let tv = fst (Transform X t v)
      in (tv, was \<or> v \<noteq> tv,
          map_option (TransformFailed (transformer_name t)) (snd (Transform X t v))))"

subsection \<open>Match\<close>

text \<open>
  \<^verbatim>\<open>Match\<close> returns the matcher with its new state and the result. The branch where
  \<open>HavePatterns_Match\<close> is \<open>None\<close> is never taken (\<open>HavePatterns_Match_no_panic\<close>). The gomega
  collection matchers call \<^verbatim>\<open>Match\<close> of their elements an unspecified number of times; what that
  leaves in the elements' states is not read by any later call and is not tracked.
\<close>

fun Match :: "ext \<Rightarrow> matcher \<Rightarrow> val \<Rightarrow> matcher \<times> mres"
  and match_and :: "ext \<Rightarrow> nat \<Rightarrow> matcher list \<Rightarrow> val \<Rightarrow> matcher list \<times> mres \<times> nat option"
  and match_or :: "ext \<Rightarrow> nat \<Rightarrow> matcher list \<Rightarrow> val \<Rightarrow> matcher list \<times> mres \<times> nat option" where
  "Match X (EqualMatcher e) v = (EqualMatcher e, g_equal X e v)"
| "Match X (HavePrefixMatcher s) v = (HavePrefixMatcher s, g_have_prefix X s v)"
| "Match X (HaveSuffixMatcher s) v = (HaveSuffixMatcher s, g_have_suffix X s v)"
| "Match X (MatchRegexpMatcher s) v = (MatchRegexpMatcher s, g_match_regexp X s v)"
| "Match X (ContainSubstringMatcher s) v =
     (ContainSubstringMatcher s, g_contain_substring X s v)"
| "Match X (HaveLenMatcher n) v = (HaveLenMatcher n, g_have_len X n v)"
| "Match X (BeNumericallyMatcher c e) v = (BeNumericallyMatcher c e, BeNumerically_Match X c e v)"
| "Match X (BeSemverConstraintMatcher c) v =
     (BeSemverConstraintMatcher c, BeSemverConstraint_Match X c v)"
| "Match X (HavePatternsMatcher e st) v =
     (case HavePatterns_Match X e st v of
        Some (st', r) \<Rightarrow> (HavePatternsMatcher e st', r)
      | None \<Rightarrow> (HavePatternsMatcher e st, (False, None)))"
| "Match X (HaveKeyMatcher m) v =
     (HaveKeyMatcher m, g_have_key X (\<lambda>u. snd (Match X m u)) v)"
| "Match X (ContainElementMatcher m) v =
     (ContainElementMatcher m, g_contain_element X (\<lambda>u. snd (Match X m u)) v)"
| "Match X (ContainElementsMatcher ms missing) v =
     (let (r, missing') =
        ContainElements_Match X (map (\<lambda>m u. snd (Match X m u)) ms) missing v
      in (ContainElementsMatcher ms missing', r))"
| "Match X (ConsistOfMatcher ms missing extra) v =
     (let (r, missing', extra') = g_consist_of X (map (\<lambda>m u. snd (Match X m u)) ms) v
      in (ConsistOfMatcher ms missing' extra', r))"
| "Match X (AndMatcher ms st) v =
     (let (ms', r, failed) = match_and X 0 ms v in (AndMatcher ms' failed, r))"
| "Match X (OrMatcher ms st) v =
     (let (ms', r, succ) = match_or X 0 ms v in (OrMatcher ms' succ, r))"
| "Match X (NotMatcher m) v =
     (let (m', r) = Match X m v in (NotMatcher m', Not_Match r))"
| "Match X (WithSafeTransformMatcher t m tv was) v =
     (case WithSafeTransform_apply X t was v of
        (tv', was', Some e) \<Rightarrow> (WithSafeTransformMatcher t m tv' was', (False, Some e))
      | (tv', was', None) \<Rightarrow>
          let (m', r) = Match X m tv' in (WithSafeTransformMatcher t m' tv' was', r))"
| "match_and X i [] v = ([], (True, None), None)"
| "match_and X i (m # ms) v =
     (let (m', (success, err)) = Match X m v
      in if \<not> success \<or> err \<noteq> None then (m' # ms, (False, err), Some i)
         else let (ms', r, failed) = match_and X (Suc i) ms v in (m' # ms', r, failed))"
| "match_or X i [] v = ([], (False, None), None)"
| "match_or X i (m # ms) v =
     (let (m', (success, err)) = Match X m v
      in if err \<noteq> None then (m' # ms, (False, err), None)
         else if success then (m' # ms, (True, None), Some i)
         else let (ms', r, succ) = match_or X (Suc i) ms v in (m' # ms', r, succ))"

section \<open>Failure results\<close>

datatype shown = SNone | SVal val | SMatcher matcher | SMatchers "matcher list"

record MatcherResult =
  Actual :: val
  Message :: string
  Expected :: shown
  MissingElements :: shown
  FoundElements :: shown
  ExtraElements :: shown
  TransformerChain :: "transformer list"
  UntransformedValue :: val

definition plain_result :: "val \<Rightarrow> string \<Rightarrow> shown \<Rightarrow> MatcherResult" where
  "plain_result actual msg expected =
     \<lparr>Actual = actual, Message = msg, Expected = expected, MissingElements = SNone,
      FoundElements = SNone, ExtraElements = SNone, TransformerChain = [],
      UntransformedValue = VNil\<rparr>"

text \<open>Elements at the given positions, and \<^verbatim>\<open>lo.Difference\<close>'s left part: those at the others.\<close>

definition at_positions :: "matcher list \<Rightarrow> nat list \<Rightarrow> matcher list" where
  "at_positions ms is = map ((!) ms) (filter (\<lambda>i. i < length ms) is)"

definition not_at_positions :: "matcher list \<Rightarrow> nat list \<Rightarrow> matcher list" where
  "not_at_positions ms is = map ((!) ms) (filter (\<lambda>i. i \<notin> set is) [0..<length ms])"

definition missing_shown :: "matcher list \<Rightarrow> nat list option \<Rightarrow> shown" where
  "missing_shown ms missing =
     (case missing of None \<Rightarrow> SNone | Some is \<Rightarrow> SMatchers (at_positions ms is))"

definition found_shown :: "matcher list \<Rightarrow> nat list option \<Rightarrow> shown" where
  "found_shown ms missing =
     SMatchers (not_at_positions ms (case missing of None \<Rightarrow> [] | Some is \<Rightarrow> is))"

definition strs_shown :: "string list \<Rightarrow> shown" where
  "strs_shown ss = (if ss = [] then SNone else SVal (VStrs ss))"

definition object_shown :: "val \<Rightarrow> val" where
  "object_shown v = VStr (''object: '' @ type_name v)"

definition HavePatterns_FailureResult :: "val \<Rightarrow> patterns_state \<Rightarrow> val \<Rightarrow> MatcherResult" where
  "HavePatterns_FailureResult e st actual =
     (let a = (case actual of VStr s \<Rightarrow> VStr s | VStrs ss \<Rightarrow> VStrs ss | _ \<Rightarrow> object_shown actual)
      in (plain_result a ''to have patterns'' (SVal e))
           \<lparr>MissingElements := strs_shown (missing_els st),
            FoundElements := strs_shown (found_els st)\<rparr>)"

definition HavePatterns_NegatedFailureResult :: "val \<Rightarrow> val \<Rightarrow> MatcherResult" where
  "HavePatterns_NegatedFailureResult e actual =
     plain_result (case actual of VStr s \<Rightarrow> VStr s | _ \<Rightarrow> object_shown actual)
       ''not to have patterns'' (SVal e)"

fun getTransformerChainAndMatcher ::
  "matcher \<Rightarrow> val \<Rightarrow> transformer list \<times> matcher \<times> val" where
  "getTransformerChainAndMatcher (WithSafeTransformMatcher t m tv was) v =
     (let (tchain, m', v') = getTransformerChainAndMatcher m tv
      in (if was then t # tchain else tchain, m', v'))"
| "getTransformerChainAndMatcher m v = ([], m, v)"

lemma getTransformerChainAndMatcher_size:
  "size (fst (snd (getTransformerChainAndMatcher m v))) \<le> size m"
  by (induction m v rule: getTransformerChainAndMatcher.induct) (auto split: prod.splits)

definition with_chain :: "transformer list \<Rightarrow> val \<Rightarrow> MatcherResult \<Rightarrow> MatcherResult" where
  "with_chain tchain actual r = r\<lparr>TransformerChain := tchain, UntransformedValue := actual\<rparr>"

text \<open>\<^verbatim>\<open>FailureResult\<close> and \<^verbatim>\<open>NegatedFailureResult\<close> of the matchers without an inner call.\<close>

definition Equal_FailureResult :: "val \<Rightarrow> val \<Rightarrow> MatcherResult" where
  "Equal_FailureResult e v =
     plain_result v ''to equal'' (SVal e)"

definition HavePrefix_FailureResult :: "string \<Rightarrow> val \<Rightarrow> MatcherResult" where
  "HavePrefix_FailureResult s v =
     plain_result v ''to have prefix'' (SVal (VStr s))"

definition HaveSuffix_FailureResult :: "string \<Rightarrow> val \<Rightarrow> MatcherResult" where
  "HaveSuffix_FailureResult s v =
     plain_result v ''to have suffix'' (SVal (VStr s))"

definition MatchRegexp_FailureResult :: "string \<Rightarrow> val \<Rightarrow> MatcherResult" where
  "MatchRegexp_FailureResult s v =
     plain_result v ''to match regular expression'' (SVal (VStr s))"

definition ContainSubstring_FailureResult :: "string \<Rightarrow> val \<Rightarrow> MatcherResult" where
  "ContainSubstring_FailureResult s v =
     plain_result v ''to contain substring'' (SVal (VStr s))"

definition HaveLen_FailureResult :: "int \<Rightarrow> val \<Rightarrow> MatcherResult" where
  "HaveLen_FailureResult n v =
     plain_result v ''to have length'' (SVal (VInt n))"

definition BeNumerically_FailureResult :: "string \<Rightarrow> val \<Rightarrow> val \<Rightarrow> MatcherResult" where
  "BeNumerically_FailureResult c e v =
     plain_result v (''to be numerically '' @ c) (SVal e)"

definition BeSemverConstraint_FailureResult :: "val \<Rightarrow> val \<Rightarrow> MatcherResult" where
  "BeSemverConstraint_FailureResult c v =
     plain_result v ''to satisfy semver constraint'' (SVal c)"

definition HaveKey_FailureResult :: "matcher \<Rightarrow> val \<Rightarrow> MatcherResult" where
  "HaveKey_FailureResult m v =
     plain_result v ''to have key matching'' (SMatcher m)"

definition ContainElement_FailureResult :: "matcher \<Rightarrow> val \<Rightarrow> MatcherResult" where
  "ContainElement_FailureResult m v =
     plain_result v ''to contain element matching'' (SMatcher m)"

definition ContainElements_FailureResult :: "matcher list \<Rightarrow> nat list option \<Rightarrow> val \<Rightarrow> MatcherResult" where
  "ContainElements_FailureResult ms missing v =
     (plain_result v ''to contain elements matching'' (SMatchers ms))
             \<lparr>MissingElements := missing_shown ms missing,
              FoundElements := found_shown ms missing\<rparr>"

definition ConsistOf_FailureResult :: "matcher list \<Rightarrow> nat list option \<Rightarrow> val list option \<Rightarrow> val \<Rightarrow> MatcherResult" where
  "ConsistOf_FailureResult ms missing extra v =
     (plain_result v ''to consist of'' (SMatchers ms))
             \<lparr>MissingElements := missing_shown ms missing,
              FoundElements := found_shown ms missing,
              ExtraElements := (case extra of None \<Rightarrow> SNone | Some vs \<Rightarrow> SVal (VList vs))\<rparr>"

definition Or_FailureResult :: "matcher list \<Rightarrow> val \<Rightarrow> MatcherResult" where
  "Or_FailureResult ms v =
     plain_result v ''to satisfy at least one of these matchers'' (SMatchers ms)"

definition Equal_NegatedFailureResult :: "val \<Rightarrow> val \<Rightarrow> MatcherResult" where
  "Equal_NegatedFailureResult e v =
     plain_result v ''not to equal'' (SVal e)"

definition HavePrefix_NegatedFailureResult :: "string \<Rightarrow> val \<Rightarrow> MatcherResult" where
  "HavePrefix_NegatedFailureResult s v =
     plain_result v ''not to have prefix'' (SVal (VStr s))"

definition HaveSuffix_NegatedFailureResult :: "string \<Rightarrow> val \<Rightarrow> MatcherResult" where
  "HaveSuffix_NegatedFailureResult s v =
     plain_result v ''not to have suffix'' (SVal (VStr s))"

definition MatchRegexp_NegatedFailureResult :: "string \<Rightarrow> val \<Rightarrow> MatcherResult" where
  "MatchRegexp_NegatedFailureResult s v =
     plain_result v ''not to match regular expression'' (SVal (VStr s))"

definition ContainSubstring_NegatedFailureResult :: "string \<Rightarrow> val \<Rightarrow> MatcherResult" where
  "ContainSubstring_NegatedFailureResult s v =
     plain_result v ''not to contain substring'' (SVal (VStr s))"

definition HaveLen_NegatedFailureResult :: "int \<Rightarrow> val \<Rightarrow> MatcherResult" where
  "HaveLen_NegatedFailureResult n v =
     plain_result v ''not to have length'' (SVal (VInt n))"

definition BeNumerically_NegatedFailureResult :: "string \<Rightarrow> val \<Rightarrow> val \<Rightarrow> MatcherResult" where
  "BeNumerically_NegatedFailureResult c e v =
     plain_result v (''not to be numerically '' @ c) (SVal e)"

definition BeSemverConstraint_NegatedFailureResult :: "val \<Rightarrow> val \<Rightarrow> MatcherResult" where
  "BeSemverConstraint_NegatedFailureResult c v =
     plain_result v ''not to satisfy semver constraint'' (SVal c)"

definition HaveKey_NegatedFailureResult :: "matcher \<Rightarrow> val \<Rightarrow> MatcherResult" where
  "HaveKey_NegatedFailureResult m v =
     plain_result v ''not to have key matching'' (SMatcher m)"

definition ContainElement_NegatedFailureResult :: "matcher \<Rightarrow> val \<Rightarrow> MatcherResult" where
  "ContainElement_NegatedFailureResult m v =
     plain_result v ''not to contain element matching'' (SMatcher m)"

definition ContainElements_NegatedFailureResult :: "matcher list \<Rightarrow> val \<Rightarrow> MatcherResult" where
  "ContainElements_NegatedFailureResult ms v =
     plain_result v ''not to contain elements matching'' (SMatchers ms)"

definition ConsistOf_NegatedFailureResult :: "matcher list \<Rightarrow> val \<Rightarrow> MatcherResult" where
  "ConsistOf_NegatedFailureResult ms v =
     plain_result v ''not to consist of'' (SMatchers ms)"

definition And_NegatedFailureResult :: "matcher list \<Rightarrow> val \<Rightarrow> MatcherResult" where
  "And_NegatedFailureResult ms v =
     plain_result v ''not to satisfy all of these matchers'' (SMatchers ms)"

lemma size_nth_matcher: "i < length ms \<Longrightarrow> size (ms ! i) < Suc (size_list size ms)"
  using size_list_estimation'[of "ms ! i" ms "size (ms ! i)" size] by (simp add: less_Suc_eq_le)

lemma size_chain_matcher:
  "(tchain, m', v') = getTransformerChainAndMatcher (WithSafeTransformMatcher t m tv was) u \<Longrightarrow>
   size m' < size (WithSafeTransformMatcher t m tv was)"
  using getTransformerChainAndMatcher_size[of m tv] by (auto split: prod.splits)

function FailureResult :: "matcher \<Rightarrow> val \<Rightarrow> MatcherResult option"
  and NegatedFailureResult :: "matcher \<Rightarrow> val \<Rightarrow> MatcherResult option" where
  "FailureResult (EqualMatcher e) v = Some (Equal_FailureResult e v)"
| "FailureResult (HavePrefixMatcher s) v = Some (HavePrefix_FailureResult s v)"
| "FailureResult (HaveSuffixMatcher s) v = Some (HaveSuffix_FailureResult s v)"
| "FailureResult (MatchRegexpMatcher s) v = Some (MatchRegexp_FailureResult s v)"
| "FailureResult (ContainSubstringMatcher s) v = Some (ContainSubstring_FailureResult s v)"
| "FailureResult (HaveLenMatcher n) v = Some (HaveLen_FailureResult n v)"
| "FailureResult (BeNumericallyMatcher c e) v = Some (BeNumerically_FailureResult c e v)"
| "FailureResult (BeSemverConstraintMatcher c) v = Some (BeSemverConstraint_FailureResult c v)"
| "FailureResult (HavePatternsMatcher e st) v = Some (HavePatterns_FailureResult e st v)"
| "FailureResult (HaveKeyMatcher m) v = Some (HaveKey_FailureResult m v)"
| "FailureResult (ContainElementMatcher m) v = Some (ContainElement_FailureResult m v)"
| "FailureResult (ContainElementsMatcher ms missing) v = Some (ContainElements_FailureResult ms missing v)"
| "FailureResult (ConsistOfMatcher ms missing extra) v = Some (ConsistOf_FailureResult ms missing extra v)"
| "FailureResult (AndMatcher ms failed) v =
     (case failed of
        None \<Rightarrow> None
      | Some i \<Rightarrow> if i < length ms then FailureResult (ms ! i) v else None)"
| "FailureResult (OrMatcher ms succ) v = Some (Or_FailureResult ms v)"
| "FailureResult (NotMatcher m) v = NegatedFailureResult m v"
| "FailureResult (WithSafeTransformMatcher t m tv was) v =
     (let (tchain, matcher, tvalue) =
        getTransformerChainAndMatcher (WithSafeTransformMatcher t m tv was) tv
      in map_option (with_chain tchain v) (FailureResult matcher tvalue))"
| "NegatedFailureResult (EqualMatcher e) v = Some (Equal_NegatedFailureResult e v)"
| "NegatedFailureResult (HavePrefixMatcher s) v = Some (HavePrefix_NegatedFailureResult s v)"
| "NegatedFailureResult (HaveSuffixMatcher s) v = Some (HaveSuffix_NegatedFailureResult s v)"
| "NegatedFailureResult (MatchRegexpMatcher s) v = Some (MatchRegexp_NegatedFailureResult s v)"
| "NegatedFailureResult (ContainSubstringMatcher s) v = Some (ContainSubstring_NegatedFailureResult s v)"
| "NegatedFailureResult (HaveLenMatcher n) v = Some (HaveLen_NegatedFailureResult n v)"
| "NegatedFailureResult (BeNumericallyMatcher c e) v = Some (BeNumerically_NegatedFailureResult c e v)"
| "NegatedFailureResult (BeSemverConstraintMatcher c) v = Some (BeSemverConstraint_NegatedFailureResult c v)"
| "NegatedFailureResult (HavePatternsMatcher e st) v =
     Some (HavePatterns_NegatedFailureResult e v)"
| "NegatedFailureResult (HaveKeyMatcher m) v = Some (HaveKey_NegatedFailureResult m v)"
| "NegatedFailureResult (ContainElementMatcher m) v = Some (ContainElement_NegatedFailureResult m v)"
| "NegatedFailureResult (ContainElementsMatcher ms missing) v = Some (ContainElements_NegatedFailureResult ms v)"
| "NegatedFailureResult (ConsistOfMatcher ms missing extra) v = Some (ConsistOf_NegatedFailureResult ms v)"
| "NegatedFailureResult (AndMatcher ms failed) v = Some (And_NegatedFailureResult ms v)"
| "NegatedFailureResult (OrMatcher ms succ) v =
     (case succ of
        None \<Rightarrow> None
      | Some i \<Rightarrow> if i < length ms then NegatedFailureResult (ms ! i) v else None)"
| "NegatedFailureResult (NotMatcher m) v = FailureResult m v"
| "NegatedFailureResult (WithSafeTransformMatcher t m tv was) v =
     (let (tchain, matcher, tvalue) =
        getTransformerChainAndMatcher (WithSafeTransformMatcher t m tv was) tv
      in map_option (with_chain tchain v) (NegatedFailureResult matcher tvalue))"
  by pat_completeness auto

termination
proof (relation "measure (\<lambda>x. case x of Inl (m, v) \<Rightarrow> size m | Inr (m, v) \<Rightarrow> size m)")
qed (auto simp: size_nth_matcher simp del: getTransformerChainAndMatcher.simps
      dest: size_chain_matcher)

section \<open>An error is never a success\<close>

lemma Match_WithSafeTransform:
  "Match X (WithSafeTransformMatcher t m tv was) v =
     (let tv' = fst (Transform X t v); was' = (was \<or> v \<noteq> tv')
      in case snd (Transform X t v) of
           Some e \<Rightarrow> (WithSafeTransformMatcher t m tv' was',
                      (False, Some (TransformFailed (transformer_name t) e)))
         | None \<Rightarrow> (WithSafeTransformMatcher t (fst (Match X m tv')) tv' was', snd (Match X m tv')))"
  by (simp add: WithSafeTransform_apply_def Let_def split: prod.splits option.splits)

lemma Match_Not:
  "Match X (NotMatcher m) v =
     (NotMatcher (fst (Match X m v)),
      case snd (snd (Match X m v)) of
        Some e \<Rightarrow> (False, Some e)
      | None \<Rightarrow> (\<not> fst (snd (Match X m v)), None))"
  by (auto simp: Not_Match_def split: prod.splits option.splits)

lemma search_patterns_clean: "clean (snd (search_patterns es ps s st))"
  by (auto simp: search_patterns_def Let_def split: sum.splits prod.splits)

lemma HavePatterns_Match_clean:
  assumes "HavePatterns_Match X e st v = Some (st', r)"
  shows "clean r"
proof -
  have sp: "clean r" if "search_patterns es ps s st = (st', r)" for es ps s
    using search_patterns_clean[of es ps s st] that by simp
  show ?thesis
    using assms by (cases e; cases v)
      (auto simp: HavePatterns_Match_def clean_iff split: outcome.splits if_splits
        dest: sp[unfolded clean_iff])
qed

lemma BeSemverConstraint_clean: "clean (BeSemverConstraint_Match X c v)"
  by (auto simp: BeSemverConstraint_Match_def split: option.splits)

lemma BeNumerically_clean: "gomega_ok X \<Longrightarrow> clean (BeNumerically_Match X c e v)"
  by (auto simp: BeNumerically_Match_def gomega_ok_def split: sum.splits)

lemma ContainElements_clean: "gomega_ok X \<Longrightarrow> clean (fst (ContainElements_Match X fs ms v))"
  by (auto simp: ContainElements_Match_def gomega_ok_def)

lemma Match_clean_all:
  "gomega_ok X \<Longrightarrow> clean (snd (Match X m v))"
  "gomega_ok X \<Longrightarrow> clean (fst (snd (match_and X i ms v)))"
  "gomega_ok X \<Longrightarrow> clean (fst (snd (match_or X i ms v)))"
proof (induction X m v and X i ms v and X i ms v rule: Match_match_and_match_or.induct)
  case (12 X ms missing v)
  then show ?case
    using ContainElements_clean[of X "map (\<lambda>m u. snd (Match X m u)) ms" missing v]
    by (auto simp: split: prod.splits)
next
  case (13 X ms missing extra v)
  then have "clean (fst (g_consist_of X (map (\<lambda>m u. snd (Match X m u)) ms) v))"
    by (simp add: gomega_ok_def)
  then show ?case by (auto split: prod.splits)
next
  case (17 X t m tv was v)
  then show ?case
    unfolding Match_WithSafeTransform
    by (auto simp: Let_def WithSafeTransform_apply_def split: option.splits prod.splits)
qed (auto simp: gomega_ok_def BeSemverConstraint_clean BeNumerically_clean Not_Match_def
      split: prod.splits option.splits dest: HavePatterns_Match_clean)

section \<open>Reporting a failed match\<close>

lemma match_and_failed:
  assumes "match_and X i ms v = (ms', (False, err), failed)"
  shows "\<exists>j < length ms. failed = Some (i + j) \<and> length ms' = length ms \<and>
           ms' ! j = fst (Match X (ms ! j) v) \<and> snd (snd (Match X (ms ! j) v)) = err \<and>
           (err = None \<longrightarrow> \<not> fst (snd (Match X (ms ! j) v)))"
  using assms
proof (induction ms arbitrary: i ms' failed)
  case Nil
  then show ?case by simp
next
  case (Cons m ms)
  obtain m' ok e where m: "Match X m v = (m', (ok, e))" by (metis prod.exhaust)
  show ?case
  proof (cases "\<not> ok \<or> e \<noteq> None")
    case True
    with Cons.prems m show ?thesis by (intro exI[of _ 0]) auto
  next
    case False
    with Cons.prems m obtain ms2 where "match_and X (Suc i) ms v = (ms2, (False, err), failed)"
      and ms': "ms' = m' # ms2" by (auto split: prod.splits)
    from Cons.IH[OF this(1)] obtain j where "j < length ms \<and> failed = Some (Suc i + j) \<and>
      length ms2 = length ms \<and> ms2 ! j = fst (Match X (ms ! j) v) \<and>
      snd (snd (Match X (ms ! j) v)) = err \<and>
      (err = None \<longrightarrow> \<not> fst (snd (Match X (ms ! j) v)))" by (elim exE)
    then show ?thesis by (intro exI[of _ "Suc j"]) (simp add: ms')
  qed
qed

lemma match_or_succ:
  assumes "match_or X i ms v = (ms', (True, err), succ)"
  shows "\<exists>j < length ms. succ = Some (i + j) \<and> length ms' = length ms \<and>
           ms' ! j = fst (Match X (ms ! j) v) \<and> snd (Match X (ms ! j) v) = (True, None)"
  using assms
proof (induction ms arbitrary: i ms' succ)
  case Nil
  then show ?case by simp
next
  case (Cons m ms)
  obtain m' ok e where m: "Match X m v = (m', (ok, e))" by (metis prod.exhaust)
  show ?case
  proof (cases "e = None \<and> \<not> ok")
    case False
    with Cons.prems m show ?thesis by (intro exI[of _ 0]) (auto split: if_splits)
  next
    case True
    with Cons.prems m obtain ms2 where "match_or X (Suc i) ms v = (ms2, (True, err), succ)"
      and ms': "ms' = m' # ms2" by (auto split: prod.splits)
    from Cons.IH[OF this(1)] obtain j where "j < length ms" "succ = Some (Suc i + j)"
      "length ms2 = length ms" "ms2 ! j = fst (Match X (ms ! j) v)"
      "snd (Match X (ms ! j) v) = (True, None)" by blast
    then show ?thesis by (intro exI[of _ "Suc j"]) (simp add: ms')
  qed
qed

lemma FailureResult_WithSafeTransform:
  "FailureResult (WithSafeTransformMatcher t m tv was) v = None \<longleftrightarrow> FailureResult m tv = None"
  "NegatedFailureResult (WithSafeTransformMatcher t m tv was) v = None \<longleftrightarrow>
   NegatedFailureResult m tv = None"
  by (cases m; auto simp: Let_def split: prod.splits)+

lemma failure_results_defined:
  "(snd (Match X m v) = (False, None) \<longrightarrow> FailureResult (fst (Match X m v)) v \<noteq> None) \<and>
   (snd (Match X m v) = (True, None) \<longrightarrow> NegatedFailureResult (fst (Match X m v)) v \<noteq> None)"
proof (induction m arbitrary: v rule: matcher.induct)
  case (AndMatcher ms st)
  obtain ms' ok e failed where m: "match_and X 0 ms v = (ms', (ok, e), failed)"
    by (metis prod.exhaust)
  show ?case
  proof (cases "ok = False \<and> e = None")
    case True
    with match_and_failed[of X 0 ms v ms' e failed] m obtain j where "j < length ms"
      "failed = Some j" "length ms' = length ms" "ms' ! j = fst (Match X (ms ! j) v)"
      "snd (Match X (ms ! j) v) = (False, None)" by (auto simp: prod_eq_iff)
    with AndMatcher[of "ms ! j" v] m True show ?thesis by simp
  next
    case False
    with m show ?thesis by auto
  qed
next
  case (OrMatcher ms st)
  obtain ms' ok e succ where m: "match_or X 0 ms v = (ms', (ok, e), succ)"
    by (metis prod.exhaust)
  show ?case
  proof (cases "ok = True \<and> e = None")
    case True
    with match_or_succ[of X 0 ms v ms' e succ] m obtain j where "j < length ms"
      "succ = Some j" "length ms' = length ms" "ms' ! j = fst (Match X (ms ! j) v)"
      "snd (Match X (ms ! j) v) = (True, None)" by auto
    with OrMatcher[of "ms ! j" v] m True show ?thesis by simp
  next
    case False
    with m show ?thesis by auto
  qed
next
  case (NotMatcher m)
  then show ?case
    unfolding Match_Not by (auto simp: prod_eq_iff split: option.splits)
next
  case (WithSafeTransformMatcher t m tv was)
  then show ?case
    unfolding Match_WithSafeTransform
    by (auto simp: Let_def FailureResult_WithSafeTransform simp del: FailureResult.simps
        NegatedFailureResult.simps not_None_eq split: option.splits)
qed (auto split: prod.splits option.splits)

section \<open>A matcher can be used again\<close>

text \<open>The matcher as its constructor function made it, without the state of earlier matches.\<close>

fun reset :: "matcher \<Rightarrow> matcher" where
  "reset (HavePatternsMatcher e st) = HavePatterns e"
| "reset (HaveKeyMatcher m) = HaveKeyMatcher (reset m)"
| "reset (ContainElementMatcher m) = ContainElementMatcher (reset m)"
| "reset (ContainElementsMatcher ms missing) = ContainElements (map reset ms)"
| "reset (ConsistOfMatcher ms missing extra) = ConsistOf (map reset ms)"
| "reset (AndMatcher ms failed) = And (map reset ms)"
| "reset (OrMatcher ms succ) = Or (map reset ms)"
| "reset (NotMatcher m) = NotMatcher (reset m)"
| "reset (WithSafeTransformMatcher t m tv was) = WithSafeTransform t (reset m)"
| "reset m = m"

lemma HavePatterns_Match_state:
  "map_option snd (HavePatterns_Match X e st v) = map_option snd (HavePatterns_Match X e st' v)"
proof -
  have "snd (search_patterns es ps s st) = snd (search_patterns es ps s st')" for es ps s
    by (simp add: search_patterns_def Let_def split: sum.splits)
  then show ?thesis
    by (cases e; cases v) (auto simp: HavePatterns_Match_def split: outcome.splits)
qed

lemma match_and_Cons:
  "snd (match_and X i (m # ms) v) =
     (let r = snd (Match X m v)
      in if \<not> fst r \<or> snd r \<noteq> None then ((False, snd r), Some i)
         else snd (match_and X (Suc i) ms v))"
  by (auto simp: Let_def split: prod.splits)

lemma match_or_Cons:
  "snd (match_or X i (m # ms) v) =
     (let r = snd (Match X m v)
      in if snd r \<noteq> None then ((False, snd r), None)
         else if fst r then ((True, None), Some i)
         else snd (match_or X (Suc i) ms v))"
  by (auto simp: Let_def split: prod.splits)

lemma match_and_reset:
  assumes "\<And>m v. m \<in> set ms \<Longrightarrow> snd (Match X (reset m) v) = snd (Match X m v)"
  shows "snd (match_and X i (map reset ms) v) = snd (match_and X i ms v)"
  using assms by (induction ms arbitrary: i)
    (simp_all add: match_and_Cons Let_def del: match_and.simps(2))

lemma match_or_reset:
  assumes "\<And>m v. m \<in> set ms \<Longrightarrow> snd (Match X (reset m) v) = snd (Match X m v)"
  shows "snd (match_or X i (map reset ms) v) = snd (match_or X i ms v)"
  using assms by (induction ms arbitrary: i)
    (simp_all add: match_or_Cons Let_def del: match_or.simps(2))

lemma Match_reset: "snd (Match X (reset m) v) = snd (Match X m v)"
proof (induction m arbitrary: v rule: matcher.induct)
  case (HavePatternsMatcher e st)
  let ?st0 = "\<lparr>missing_els = [], found_els = []\<rparr>"
  show ?case
    using HavePatterns_Match_state[of X e st v ?st0] HavePatterns_Match_no_panic[of X e st v]
    by (auto simp: HavePatterns_def split: option.splits)
next
  case (ContainElementsMatcher ms missing)
  then show ?case
    by (auto simp: ContainElements_def ContainElements_Match_def o_def split: prod.splits
        cong: map_cong)
next
  case (ConsistOfMatcher ms missing extra)
  then show ?case
    by (auto simp: ConsistOf_def o_def split: prod.splits cong: map_cong)
next
  case (AndMatcher ms st)
  then show ?case
    using match_and_reset[of ms X 0 v] by (auto simp: And_def split: prod.splits)
next
  case (OrMatcher ms st)
  then show ?case
    using match_or_reset[of ms X 0 v] by (auto simp: Or_def split: prod.splits)
next
  case (NotMatcher m)
  then show ?case by (auto simp: Match_Not simp del: Match.simps split: option.splits)
next
  case (WithSafeTransformMatcher t m tv was)
  then show ?case
    by (simp add: Match_WithSafeTransform WithSafeTransform_def Let_def del: Match.simps
        split: option.splits)
qed auto

lemma match_and_shape:
  assumes "\<And>m v. m \<in> set ms \<Longrightarrow> reset (fst (Match X m v)) = reset m"
  shows "map reset (fst (match_and X i ms v)) = map reset ms"
  using assms
proof (induction ms arbitrary: i)
  case (Cons m ms)
  then have "reset (fst (Match X m v)) = reset m"
    "map reset (fst (match_and X (Suc i) ms v)) = map reset ms" by simp_all
  then show ?case by (auto split: prod.splits)
qed simp

lemma match_or_shape:
  assumes "\<And>m v. m \<in> set ms \<Longrightarrow> reset (fst (Match X m v)) = reset m"
  shows "map reset (fst (match_or X i ms v)) = map reset ms"
  using assms
proof (induction ms arbitrary: i)
  case (Cons m ms)
  then have "reset (fst (Match X m v)) = reset m"
    "map reset (fst (match_or X (Suc i) ms v)) = map reset ms" by simp_all
  then show ?case by (auto split: prod.splits)
qed simp

lemma Match_shape: "reset (fst (Match X m v)) = reset m"
proof (induction m arbitrary: v rule: matcher.induct)
  case (AndMatcher ms st)
  then show ?case
    using match_and_shape[of ms X 0 v] by (auto simp: And_def split: prod.splits)
next
  case (OrMatcher ms st)
  then show ?case
    using match_or_shape[of ms X 0 v] by (auto simp: Or_def split: prod.splits)
next
  case (NotMatcher m)
  then show ?case by (simp add: Match_Not del: Match.simps)
next
  case (WithSafeTransformMatcher t m tv was)
  then show ?case
    by (simp add: Match_WithSafeTransform WithSafeTransform_def Let_def del: Match.simps
        split: option.splits)
qed (auto split: prod.splits option.splits)

section \<open>Properties\<close>

text \<open>A matcher that returns an error never reports success, for every matcher that can be built, given that
  gomega's own matchers keep to that rule.\<close>

lemma error_is_no_success:
  assumes "gomega_ok X" and "snd (Match X m v) = (success, Some e)"
  shows "\<not> success"
  using Match_clean_all(1)[OF assms(1), of m v] assms(2) by (simp add: clean_def)

lemma error_is_no_success_witness:
  "snd (Match sample_ext (WithSafeTransform (Gjson ''a'') (Equal VNil)) (VStr ''{}'')) =
     (False, Some (TransformFailed (transformer_name (Gjson ''a'')) (PathNotFound ''a''))) \<and> \<not> False"
proof -
  have r: "snd (Match sample_ext (WithSafeTransform (Gjson ''a'') (Equal VNil)) (VStr ''{}'')) =
     (False, Some (TransformFailed (transformer_name (Gjson ''a'')) (PathNotFound ''a'')))"
    by (simp add: WithSafeTransform_def WithSafeTransform_apply_def Gjson_Transform_def sample_ext_def Let_def)
  from error_is_no_success[OF sample_ext_ok r] r show ?thesis by simp
qed



text \<open>Matchers can be used again: what \<^verbatim>\<open>Match\<close> leaves behind in a matcher (found elements, the first failed
  matcher, the transformed value) changes no later answer.\<close>

lemma Match_repeatable:
  "snd (Match X (fst (Match X m v)) w) = snd (Match X m w)"
  by (metis Match_reset Match_shape)

lemma match_and_all:
  "\<forall>m\<in>set ms. snd (snd (Match X m v)) = None \<Longrightarrow>
   fst (snd (match_and X i ms v)) = (\<forall>m\<in>set ms. fst (snd (Match X m v)), None)"
  by (induction ms arbitrary: i) (auto simp: match_and_Cons Let_def simp del: match_and.simps(2))

lemma match_or_ex:
  "\<forall>m\<in>set ms. snd (snd (Match X m v)) = None \<Longrightarrow>
   fst (snd (match_or X i ms v)) = (\<exists>m\<in>set ms. fst (snd (Match X m v)), None)"
  by (induction ms arbitrary: i) (auto simp: match_or_Cons Let_def simp del: match_or.simps(2))

text \<open>\<^verbatim>\<open>and\<close>, \<^verbatim>\<open>or\<close> and \<^verbatim>\<open>not\<close> are the connectives: on matchers that return no error for the value, \<^verbatim>\<open>and\<close>
  succeeds exactly when all do, \<^verbatim>\<open>or\<close> exactly when one does, \<^verbatim>\<open>not\<close> exactly when its argument does not.\<close>

lemma connectives:
  assumes "\<forall>m\<in>set ms. snd (snd (Match X m v)) = None"
  shows "snd (Match X (And ms) v) = (\<forall>m\<in>set ms. fst (snd (Match X m v)), None) \<and>
         snd (Match X (Or ms) v) = (\<exists>m\<in>set ms. fst (snd (Match X m v)), None) \<and>
         (\<forall>m\<in>set ms. snd (Match X (Not_m m) v) = (\<not> fst (snd (Match X m v)), None))"
  using match_and_all[OF assms, of 0] match_or_ex[OF assms, of 0] assms
  by (auto simp: And_def Or_def Not_Match_def split: prod.splits)

lemma connectives_witness:
  "snd (Match sample_ext (And [Equal (VInt 1), Equal (VInt 2)]) (VInt 1)) = (False, None) \<and>
   snd (Match sample_ext (Or [Equal (VInt 1), Equal (VInt 2)]) (VInt 1)) = (True, None)"
  using connectives[of "[Equal (VInt 1), Equal (VInt 2)]" sample_ext "VInt 1"]
  by (simp add: sample_ext_def)

end
