(* ===== verification/Matcher_Config.thy ===== *)
theory Matcher_Config
  imports Matchers
begin

text \<open>
  resource/gomega.go: the matcher a gossfile value stands for. A Go map is iterated in the order
  of the association list that stands for it (any order is such a list).
\<close>

definition float_to_int :: "rat \<Rightarrow> int" where
  "float_to_int q = (if 0 \<le> q then \<lfloor>q\<rfloor> else \<lceil>q\<rceil>)"

definition string_matcher ::
  "string \<Rightarrow> (string \<Rightarrow> matcher) \<Rightarrow> val \<Rightarrow> (go_error, matcher) outcome" where
  "string_matcher name mk value =
     (case value of
        VStr v \<Rightarrow> Ret (WithSafeTransform ToString (mk v))
      | _ \<Rightarrow> Err (InvalidArgSyntax name ''string'' value))"

definition have_len_matcher :: "val \<Rightarrow> (go_error, matcher) outcome" where
  "have_len_matcher value =
     (case value of
        VFloat q \<Rightarrow> Ret (HaveLen (float_to_int q))
      | VInt i \<Rightarrow> Ret (HaveLen i)
      | _ \<Rightarrow> Err (InvalidArgSyntax ''have-len'' ''numeric'' value))"

definition have_patterns_matcher :: "val \<Rightarrow> (go_error, matcher) outcome" where
  "have_patterns_matcher value =
     (case value of
        VList _ \<Rightarrow> Ret (WithSafeTransform ToString (HavePatterns value))
      | _ \<Rightarrow> Err (InvalidArgSyntax ''have-patterns'' ''array'' value))"

definition semver_matcher :: "val \<Rightarrow> (go_error, matcher) outcome" where
  "semver_matcher value =
     (case value of
        VStr v \<Rightarrow> Ret (BeSemverConstraint (VStr v))
      | _ \<Rightarrow> Err (InvalidArgSyntax ''semver-constraint'' ''string'' value))"

definition contain_element_arg :: "val \<Rightarrow> bool" where
  "contain_element_arg value =
     (case value of VMap _ \<Rightarrow> True | VStr _ \<Rightarrow> True | VFloat _ \<Rightarrow> True | VInt _ \<Rightarrow> True | _ \<Rightarrow> False)"

fun ret_map :: "('a \<Rightarrow> 'b) \<Rightarrow> ('e, 'a) outcome \<Rightarrow> ('e, 'b) outcome" where
  "ret_map f (Ret x) = Ret (f x)"
| "ret_map f (Err e) = Err e"
| "ret_map f Panic = Panic"

text \<open>
  \<^verbatim>\<open>matcherToGomegaMatcher\<close>, with the loops of \<^verbatim>\<open>sliceToGomega\<close> and of the gjson case. Reading
  \<^verbatim>\<open>keys[0]\<close> of an empty map panics.
\<close>

function (sequential) matcherToGomegaMatcher :: "val \<Rightarrow> (go_error, matcher) outcome"
  and sliceToGomega :: "val \<Rightarrow> string \<Rightarrow> (go_error, matcher list) outcome"
  and slice_loop :: "val list \<Rightarrow> (go_error, matcher list) outcome"
  and gjson_loop :: "(string \<times> val) list \<Rightarrow> (go_error, matcher list) outcome"
  and keyed_matcher :: "string \<Rightarrow> val \<Rightarrow> (go_error, matcher) outcome" where
  "matcherToGomegaMatcher (VStr x) = Ret (WithSafeTransform ToString (Equal (VStr x)))"
| "matcherToGomegaMatcher (VFloat x) =
     Ret (WithSafeTransform ToNumeric (BeNumerically ''eq'' (VFloat x)))"
| "matcherToGomegaMatcher (VInt x) =
     Ret (WithSafeTransform ToNumeric (BeNumerically ''eq'' (VInt x)))"
| "matcherToGomegaMatcher (VBool x) = Ret (Equal (VBool x))"
| "matcherToGomegaMatcher (VList xs) = ret_map ContainElements (sliceToGomega (VList xs) [])"
| "matcherToGomegaMatcher VNil = Err MissingRequiredAttribute"
| "matcherToGomegaMatcher (VMap []) = Panic"
| "matcherToGomegaMatcher (VMap [(matchType, value)]) = keyed_matcher matchType value"
| "matcherToGomegaMatcher (VMap (e1 # e2 # es)) = Err (MultipleMatchers (map fst (e1 # e2 # es)))"
| "matcherToGomegaMatcher (VStrs xs) = Err (InvalidArgSyntax ''matcher'' ''map'' (VStrs xs))"
| "matcherToGomegaMatcher (VInts xs) = Err (InvalidArgSyntax ''matcher'' ''map'' (VInts xs))"
| "matcherToGomegaMatcher (VReader s) = Err (InvalidArgSyntax ''matcher'' ''map'' (VReader s))"
| "matcherToGomegaMatcher (VOther t) = Err (InvalidArgSyntax ''matcher'' ''map'' (VOther t))"
| "sliceToGomega (VList xs) name = slice_loop xs"
| "sliceToGomega value name = Err (InvalidArgSyntax name ''array'' value)"
| "slice_loop [] = Ret []"
| "slice_loop (v # vs) =
     bind_outcome (matcherToGomegaMatcher v)
       (\<lambda>m. bind_outcome (slice_loop vs) (\<lambda>ms. Ret (m # ms)))"
| "gjson_loop [] = Ret []"
| "gjson_loop ((key, v) # rest) =
     bind_outcome (matcherToGomegaMatcher v)
       (\<lambda>m. bind_outcome (gjson_loop rest)
         (\<lambda>ms. Ret (WithSafeTransform (Gjson key) m # ms)))"
| "keyed_matcher matchType value =
     (if matchType = ''equal'' then Ret (Equal value)
      else if matchType = ''have-prefix'' then string_matcher ''have-prefix'' HavePrefix value
      else if matchType = ''have-suffix'' then string_matcher ''have-suffix'' HaveSuffix value
      else if matchType = ''match-regexp''
        then string_matcher ''match-regexp'' MatchRegexp value
      else if matchType = ''contain-substring''
        then string_matcher ''contain-substring'' ContainSubstring value
      else if matchType = ''have-len'' then have_len_matcher value
      else if matchType = ''have-patterns'' then have_patterns_matcher value
      else if matchType = ''have-key'' then ret_map HaveKey (matcherToGomegaMatcher value)
      else if matchType = ''contain-element''
        then (if \<not> contain_element_arg value
              then Err (InvalidArgSyntax ''contain-element'' ''matcher, string or numeric'' value)
              else ret_map (\<lambda>m. WithSafeTransform ToArray (ContainElement m))
                     (matcherToGomegaMatcher value))
      else if matchType = ''contain-elements''
        then ret_map (\<lambda>ms. WithSafeTransform ToArray (ContainElements ms))
               (sliceToGomega value ''contains-elements'')
      else if matchType = ''not'' then ret_map Not_m (matcherToGomegaMatcher value)
      else if matchType = ''consist-of''
        then ret_map ConsistOf (sliceToGomega value ''consist-of'')
      else if matchType = ''and'' then ret_map And (sliceToGomega value ''and'')
      else if matchType = ''or'' then ret_map Or (sliceToGomega value ''or'')
      else if matchType \<in> {''gt'', ''ge'', ''lt'', ''le''}
        then Ret (WithSafeTransform ToNumeric (BeNumerically matchType value))
      else if matchType = ''semver-constraint'' then semver_matcher value
      else if matchType = ''gjson''
        then (case value of
                VMap valueI \<Rightarrow> ret_map And (gjson_loop valueI)
              | _ \<Rightarrow> Err (InvalidArgSyntax ''gjson'' ''map'' value))
      else Err (UnknownMatcher matchType))"

  by pat_completeness auto

text \<open>Every call descends into the value, or stays on it and moves down this order of functions.\<close>

termination
  by (relation "measure (\<lambda>x. case x of
        Inl (Inl v) \<Rightarrow> 4 * size v + 2
      | Inl (Inr (v, name)) \<Rightarrow> 4 * size v + 1
      | Inr (Inl vs) \<Rightarrow> 4 * size_list size vs
      | Inr (Inr (Inl m)) \<Rightarrow> 4 * size_list (size_prod (\<lambda>_. 0) size) m
      | Inr (Inr (Inr (k, v))) \<Rightarrow> 4 * size v + 3)") auto

section \<open>Which values panic\<close>

fun has_empty_map :: "val \<Rightarrow> bool" where
  "has_empty_map (VMap es) \<longleftrightarrow> es = [] \<or> list_ex (\<lambda>e. has_empty_map (snd e)) es"
| "has_empty_map (VList vs) \<longleftrightarrow> list_ex has_empty_map vs"
| "has_empty_map v \<longleftrightarrow> False"

lemma ret_map_simps [simp]:
  "ret_map f r = Panic \<longleftrightarrow> r = Panic"
  "ret_map f r = Err e \<longleftrightarrow> r = Err e"
  "ret_map f r = Ret y \<longleftrightarrow> (\<exists>x. r = Ret x \<and> y = f x)"
  by (cases r; auto)+

lemma leaf_matchers_no_panic [simp]:
  "string_matcher name mk v \<noteq> Panic" "have_len_matcher v \<noteq> Panic"
  "have_patterns_matcher v \<noteq> Panic" "semver_matcher v \<noteq> Panic"
  by (cases v; simp add: string_matcher_def have_len_matcher_def have_patterns_matcher_def
      semver_matcher_def)+

lemma config_no_panic:
  "\<not> has_empty_map v \<Longrightarrow> matcherToGomegaMatcher v \<noteq> Panic"
  "\<not> has_empty_map v \<Longrightarrow> sliceToGomega v name \<noteq> Panic"
  "list_all (\<lambda>v. \<not> has_empty_map v) vs \<Longrightarrow> slice_loop vs \<noteq> Panic"
  "list_all (\<lambda>e. \<not> has_empty_map (snd e)) es \<Longrightarrow> gjson_loop es \<noteq> Panic"
  "\<not> has_empty_map v \<Longrightarrow> keyed_matcher k v \<noteq> Panic"
proof (induction v and v name and vs and es and k v
    rule: matcherToGomegaMatcher_sliceToGomega_slice_loop_gjson_loop_keyed_matcher.induct)
  case (20 k v)
  then show ?case
    by (cases v) (auto simp: list_ex_iff list_all_iff split: if_splits)
qed (auto simp: go_outcome list_ex_iff list_all_iff)

section \<open>Properties\<close>

text \<open>C21: Translating a gossfile value into a matcher never panics as long as no map in it is empty; every other
  malformed value gives an error.\<close>

theorem matcher_config_no_panic:
  assumes "\<not> has_empty_map v"
  shows "(\<exists>m. matcherToGomegaMatcher v = Ret m) \<or> (\<exists>e. matcherToGomegaMatcher v = Err e)"
  using config_no_panic(1)[OF assms] by (cases "matcherToGomegaMatcher v") auto

theorem matcher_config_no_panic_witness:
  "(\<exists>m. matcherToGomegaMatcher (VMap [(''not'', VList [VInt 1])]) = Ret m) \<or>
   (\<exists>e. matcherToGomegaMatcher (VMap [(''not'', VList [VInt 1])]) = Err e)"
  using matcher_config_no_panic[of "VMap [(''not'', VList [VInt 1])]"] by simp

text \<open>A map with no entries, on the other hand, does make it panic, alone or as the argument of a matcher.\<close>

lemma empty_map_panics:
  "matcherToGomegaMatcher (VMap []) = Panic \<and>
   matcherToGomegaMatcher (VMap [(''not'', VMap [])]) = Panic"
  by simp

end
