(* ===== verification/Matcher_Json.thy ===== *)
theory Matcher_Json
  imports Matcher_Config
begin

text \<open>
  The \<^verbatim>\<open>MarshalJSON\<close> methods of the matchers and transformers: the JSON value that a report shows for what a test
  expected, and how far it is again what a gossfile can say. A JSON value is a \<^typ>\<open>val\<close>: null is \<open>VNil\<close>, an array
  \<open>VList\<close>, an object \<open>VMap\<close>.
\<close>

section \<open>Encoding\<close>

text \<open>\<^verbatim>\<open>json.Marshal\<close> of a value without methods of its own; a reader has no exported fields.\<close>

fun encode_val :: "val \<Rightarrow> val" where
  "encode_val (VStrs ss) = VList (map VStr ss)"
| "encode_val (VInts is) = VList (map VInt is)"
| "encode_val (VList vs) = VList (map encode_val vs)"
| "encode_val (VMap es) = VMap (map (\<lambda>e. (fst e, encode_val (snd e))) es)"
| "encode_val (VReader s) = VMap []"
| "encode_val v = v"

definition ToNumeric_MarshalJSON :: "val" where
  [simp]: "ToNumeric_MarshalJSON = VMap [(''to-numeric'', VMap [])]"

definition ToString_MarshalJSON :: "val" where
  [simp]: "ToString_MarshalJSON = VMap [(''to-string'', VMap [])]"

definition ToArray_MarshalJSON :: "val" where
  [simp]: "ToArray_MarshalJSON = VMap [(''to-array'', VMap [])]"

definition Gjson_MarshalJSON :: "string \<Rightarrow> val" where
  [simp]: "Gjson_MarshalJSON path = VMap [(''gjson'', VMap [(''Path'', VStr path)])]"

fun transformer_MarshalJSON :: "transformer \<Rightarrow> val" where
  "transformer_MarshalJSON ToNumeric = ToNumeric_MarshalJSON"
| "transformer_MarshalJSON ToString = ToString_MarshalJSON"
| "transformer_MarshalJSON ToArray = ToArray_MarshalJSON"
| "transformer_MarshalJSON (Gjson path) = Gjson_MarshalJSON path"

text \<open>A slice to which nothing was appended is nil, and null in JSON.\<close>

definition json_slice :: "val list \<Rightarrow> val" where
  "json_slice js = (if js = [] then VNil else VList js)"

text \<open>The methods, given the JSON of the matchers in their fields.\<close>

definition Equal_MarshalJSON :: "val \<Rightarrow> val" where
  [simp]: "Equal_MarshalJSON expected = encode_val expected"

definition HavePrefix_MarshalJSON :: "string \<Rightarrow> val" where
  [simp]: "HavePrefix_MarshalJSON pre = VMap [(''have-prefix'', VStr pre)]"

definition HaveSuffix_MarshalJSON :: "string \<Rightarrow> val" where
  [simp]: "HaveSuffix_MarshalJSON suf = VMap [(''have-suffix'', VStr suf)]"

definition MatchRegexp_MarshalJSON :: "string \<Rightarrow> val" where
  [simp]: "MatchRegexp_MarshalJSON regexp = VMap [(''match-regexp'', VStr regexp)]"

definition ContainSubstring_MarshalJSON :: "string \<Rightarrow> val" where
  [simp]: "ContainSubstring_MarshalJSON substr = VMap [(''contain-substring'', VStr substr)]"

definition HaveLen_MarshalJSON :: "int \<Rightarrow> val" where
  [simp]: "HaveLen_MarshalJSON n = VMap [(''have-len'', VInt n)]"

definition BeNumerically_MarshalJSON :: "string \<Rightarrow> val \<Rightarrow> val" where
  [simp]: "BeNumerically_MarshalJSON comparator compareTo = VMap [(comparator, encode_val compareTo)]"

definition BeSemverConstraint_MarshalJSON :: "val \<Rightarrow> val" where
  [simp]: "BeSemverConstraint_MarshalJSON constraint = VMap [(''semver-constraint'', encode_val constraint)]"

definition HavePatterns_MarshalJSON :: "val \<Rightarrow> val" where
  [simp]: "HavePatterns_MarshalJSON elements = VMap [(''have-patterns'', encode_val elements)]"

definition HaveKey_MarshalJSON :: "val \<Rightarrow> val" where
  [simp]: "HaveKey_MarshalJSON key = VMap [(''have-key'', key)]"

definition ContainElement_MarshalJSON :: "val \<Rightarrow> val" where
  [simp]: "ContainElement_MarshalJSON element = VMap [(''contain-element'', element)]"

definition ContainElements_MarshalJSON :: "val list \<Rightarrow> val" where
  [simp]: "ContainElements_MarshalJSON elements = VMap [(''contain-elements'', json_slice elements)]"

definition ConsistOf_MarshalJSON :: "val list \<Rightarrow> val" where
  [simp]: "ConsistOf_MarshalJSON elements = VMap [(''consist-of'', json_slice elements)]"

definition And_MarshalJSON :: "val list \<Rightarrow> val" where
  [simp]: "And_MarshalJSON ms = (case ms of [j] \<Rightarrow> j | js \<Rightarrow> VMap [(''and'', json_slice js)])"

definition Or_MarshalJSON :: "val list \<Rightarrow> val" where
  [simp]: "Or_MarshalJSON ms = VMap [(''or'', json_slice ms)]"

definition Not_MarshalJSON :: "val \<Rightarrow> val" where
  [simp]: "Not_MarshalJSON m = VMap [(''not'', m)]"

text \<open>
  The dispatch. The last case is \<^verbatim>\<open>getTransformerChainAndMatcher\<close>: it descends to the first matcher that is not a transforming
  one.
\<close>

fun MarshalJSON :: "matcher \<Rightarrow> val" where
  "MarshalJSON (EqualMatcher expected) = Equal_MarshalJSON expected"
| "MarshalJSON (HavePrefixMatcher pre) = HavePrefix_MarshalJSON pre"
| "MarshalJSON (HaveSuffixMatcher suf) = HaveSuffix_MarshalJSON suf"
| "MarshalJSON (MatchRegexpMatcher regexp) = MatchRegexp_MarshalJSON regexp"
| "MarshalJSON (ContainSubstringMatcher substr) = ContainSubstring_MarshalJSON substr"
| "MarshalJSON (HaveLenMatcher n) = HaveLen_MarshalJSON n"
| "MarshalJSON (BeNumericallyMatcher comparator compareTo) = BeNumerically_MarshalJSON comparator compareTo"
| "MarshalJSON (BeSemverConstraintMatcher constraint) = BeSemverConstraint_MarshalJSON constraint"
| "MarshalJSON (HavePatternsMatcher elements st) = HavePatterns_MarshalJSON elements"
| "MarshalJSON (HaveKeyMatcher key) = HaveKey_MarshalJSON (MarshalJSON key)"
| "MarshalJSON (ContainElementMatcher element) = ContainElement_MarshalJSON (MarshalJSON element)"
| "MarshalJSON (ContainElementsMatcher elements missing) = ContainElements_MarshalJSON (map MarshalJSON elements)"
| "MarshalJSON (ConsistOfMatcher elements missing extra) = ConsistOf_MarshalJSON (map MarshalJSON elements)"
| "MarshalJSON (AndMatcher ms failed) = And_MarshalJSON (map MarshalJSON ms)"
| "MarshalJSON (OrMatcher ms successful) = Or_MarshalJSON (map MarshalJSON ms)"
| "MarshalJSON (NotMatcher m) = Not_MarshalJSON (MarshalJSON m)"
| "MarshalJSON (WithSafeTransformMatcher t m transformed was) = MarshalJSON m"

section \<open>What reads back\<close>

text \<open>
  The gossfile values whose matcher prints as something a gossfile can say: no number stands alone (it prints with the
  comparison \<^verbatim>\<open>eq\<close>, which no gossfile can name), an \<^verbatim>\<open>equal\<close> compares strings or booleans, no list is empty, and what
  \<^verbatim>\<open>contain-element\<close> gets does not print as a boolean.
\<close>

definition element_arg :: "val \<Rightarrow> bool" where
  "element_arg v =
     (case v of VStr _ \<Rightarrow> True | VMap [(k, _)] \<Rightarrow> k \<notin> {''equal'', ''and'', ''gjson''} | _ \<Rightarrow> False)"

fun printable :: "val \<Rightarrow> bool" where
  "printable (VStr s) = True"
| "printable (VBool b) = True"
| "printable (VList vs) = (vs \<noteq> [] \<and> list_all printable vs)"
| "printable (VMap [(k, v)]) =
     (if k = ''equal'' then (case v of VStr _ \<Rightarrow> True | VBool _ \<Rightarrow> True | _ \<Rightarrow> False)
      else if k = ''contain-element'' then printable v \<and> element_arg v
      else if k \<in> {''have-key'', ''not'', ''contain-elements'', ''consist-of'', ''and'', ''or''} then printable v
      else if k = ''gjson'' then (case v of VMap es \<Rightarrow> es \<noteq> [] \<and> list_all (\<lambda>e. printable (snd e)) es | _ \<Rightarrow> False)
      else True)"
| "printable v = False"

text \<open>\<open>j\<close> is a gossfile value whose matcher prints as \<open>j\<close> again.\<close>

definition reads_back :: "val \<Rightarrow> bool" where
  "reads_back j \<longleftrightarrow> (\<exists>m. matcherToGomegaMatcher j = Ret m \<and> MarshalJSON m = j)"

lemma encode_val_idem [simp]: "encode_val (encode_val v) = encode_val v"
  by (induction v rule: encode_val.induct) auto

lemma json_slice_map [simp]: "xs \<noteq> [] \<Longrightarrow> json_slice (map f xs) = VList (map f xs)"
  by (simp add: json_slice_def)

subsection \<open>The matcher of each keyword\<close>

lemma keyed_simps:
  "keyed_matcher ''equal'' v = Ret (Equal v)"
  "keyed_matcher ''have-prefix'' v = string_matcher ''have-prefix'' HavePrefix v"
  "keyed_matcher ''have-suffix'' v = string_matcher ''have-suffix'' HaveSuffix v"
  "keyed_matcher ''match-regexp'' v = string_matcher ''match-regexp'' MatchRegexp v"
  "keyed_matcher ''contain-substring'' v = string_matcher ''contain-substring'' ContainSubstring v"
  "keyed_matcher ''have-len'' v = have_len_matcher v"
  "keyed_matcher ''have-patterns'' v = have_patterns_matcher v"
  "keyed_matcher ''have-key'' v = ret_map HaveKey (matcherToGomegaMatcher v)"
  "keyed_matcher ''contain-element'' v =
     (if \<not> contain_element_arg v then Err (InvalidArgSyntax ''contain-element'' ''matcher, string or numeric'' v)
      else ret_map (\<lambda>m. WithSafeTransform ToArray (ContainElement m)) (matcherToGomegaMatcher v))"
  "keyed_matcher ''contain-elements'' v =
     ret_map (\<lambda>ms. WithSafeTransform ToArray (ContainElements ms)) (sliceToGomega v ''contains-elements'')"
  "keyed_matcher ''not'' v = ret_map Not_m (matcherToGomegaMatcher v)"
  "keyed_matcher ''consist-of'' v = ret_map ConsistOf (sliceToGomega v ''consist-of'')"
  "keyed_matcher ''and'' v = ret_map And (sliceToGomega v ''and'')"
  "keyed_matcher ''or'' v = ret_map Or (sliceToGomega v ''or'')"
  "keyed_matcher ''semver-constraint'' v = semver_matcher v"
  "keyed_matcher ''gjson'' v =
     (case v of VMap es \<Rightarrow> ret_map And (gjson_loop es) | _ \<Rightarrow> Err (InvalidArgSyntax ''gjson'' ''map'' v))"
  by simp_all

lemma keyed_compare:
  "k \<in> {''gt'', ''ge'', ''lt'', ''le''} \<Longrightarrow> keyed_matcher k v = Ret (WithSafeTransform ToNumeric (BeNumerically k v))"
  by (elim insertE emptyE) simp_all

definition leaf_keys :: "string set" where
  "leaf_keys = {''have-prefix'', ''have-suffix'', ''match-regexp'', ''contain-substring'', ''have-len'', ''have-patterns'',
     ''semver-constraint''}"

lemma keyed_known:
  assumes "keyed_matcher k v = Ret m"
  shows "k = ''equal'' \<or> k \<in> leaf_keys \<or> k \<in> {''gt'', ''ge'', ''lt'', ''le''} \<or> k \<in> {''have-key'', ''not''} \<or>
    k = ''contain-element'' \<or> k \<in> {''contain-elements'', ''consist-of'', ''and'', ''or''} \<or> k = ''gjson''"
proof (rule ccontr)
  assume k: "\<not> ?thesis"
  then have "keyed_matcher k v = Err (UnknownMatcher k)" unfolding leaf_keys_def keyed_matcher.simps by simp
  with assms show False by simp
qed

declare keyed_matcher.simps [simp del]

subsection \<open>Objects that read back\<close>

lemma reads_back_keyed: "keyed_matcher k v = Ret m \<Longrightarrow> MarshalJSON m = VMap [(k, v)] \<Longrightarrow> reads_back (VMap [(k, v)])"
  by (simp add: reads_back_def)

lemma reads_back_scalars [simp]: "reads_back (VStr s)" "reads_back (VBool b)"
  by (simp_all add: reads_back_def WithSafeTransform_def)

lemma reads_back_compare: "k \<in> {''gt'', ''ge'', ''lt'', ''le''} \<Longrightarrow> reads_back (VMap [(k, encode_val v)])"
  by (rule reads_back_keyed[OF keyed_compare]) (simp_all add: WithSafeTransform_def)

lemma leaf_reads_back:
  assumes "k \<in> leaf_keys" and "keyed_matcher k v = Ret m"
  shows "reads_back (MarshalJSON m)"
proof -
  have "\<exists>w. MarshalJSON m = VMap [(k, w)] \<and> (\<exists>m'. keyed_matcher k w = Ret m' \<and> MarshalJSON m' = VMap [(k, w)])"
    using assms unfolding leaf_keys_def
    by (cases v) (auto simp: keyed_simps string_matcher_def have_len_matcher_def have_patterns_matcher_def semver_matcher_def
        WithSafeTransform_def HavePatterns_def)
  then show ?thesis using reads_back_keyed by auto
qed

lemma reads_back_parts:
  assumes "reads_back j"
  shows "k \<in> {''have-key'', ''not''} \<Longrightarrow> reads_back (VMap [(k, j)])"
    and "contain_element_arg j \<Longrightarrow> reads_back (VMap [(''contain-element'', j)])"
  using assms by (auto simp: reads_back_def keyed_simps WithSafeTransform_def)

lemma slice_reads_back:
  "list_all reads_back js \<Longrightarrow> \<exists>ms. slice_loop js = Ret ms \<and> map MarshalJSON ms = js"
  by (induction js) (auto simp: reads_back_def)

lemma reads_back_slices:
  assumes "list_all reads_back js" and "js \<noteq> []" and "k \<in> {''contain-elements'', ''consist-of'', ''or''} \<or> k = ''and'' \<and> length js \<noteq> 1"
  shows "reads_back (VMap [(k, VList js)])"
proof -
  obtain ms where ms: "slice_loop js = Ret ms" "js = map MarshalJSON ms" using slice_reads_back[OF assms(1)] by blast
  then have "ms \<noteq> []" using assms(2) by auto
  with ms assms(3) show ?thesis
    by (intro reads_back_keyed[where m = "case_outcome (\<lambda>m. m) (\<lambda>_. Equal VNil) (Equal VNil) (keyed_matcher k (VList js))"])
      (auto simp: keyed_simps ContainElements_def ConsistOf_def And_def Or_def WithSafeTransform_def json_slice_def split: list.split)
qed

lemma reads_back_and:
  assumes "list_all reads_back (map MarshalJSON ms)" and "ms \<noteq> []"
  shows "reads_back (MarshalJSON (AndMatcher ms failed))"
proof -
  consider m where "ms = [m]" | m n ns where "ms = m # n # ns" using assms(2) by (metis neq_Nil_conv)
  then show ?thesis
  proof cases
    case 1
    then show ?thesis using assms(1) by simp
  next
    case 2
    then show ?thesis using reads_back_slices[OF assms(1), of "''and''"] by (simp add: json_slice_def)
  qed
qed

subsection \<open>Printable values\<close>

lemma element_arg_prints:
  assumes "element_arg v" and "matcherToGomegaMatcher v = Ret m"
  shows "contain_element_arg (MarshalJSON m)"
proof (cases v)
  case (VMap es)
  with assms(1) obtain k w where es: "es = [(k, w)]" and k: "k \<notin> {''equal'', ''and'', ''gjson''}"
    by (auto simp: element_arg_def split: list.splits)
  with assms(2) VMap have m: "keyed_matcher k w = Ret m" by simp
  have "\<exists>k' j. MarshalJSON m = VMap [(k', j)]"
    using keyed_known[OF m] m k unfolding leaf_keys_def
    by (elim disjE insertE emptyE; cases w)
      (auto simp: keyed_simps keyed_compare string_matcher_def have_len_matcher_def have_patterns_matcher_def semver_matcher_def
        WithSafeTransform_def HavePatterns_def ContainElements_def ConsistOf_def Or_def split: if_splits)
  then show ?thesis by (auto simp: contain_element_arg_def)
qed (use assms in \<open>auto simp: element_arg_def WithSafeTransform_def contain_element_arg_def\<close>)

text \<open>Below \<open>v\<close>, printable values have been dealt with.\<close>

definition below_ok :: "val \<Rightarrow> bool" where
  "below_ok v \<longleftrightarrow> (\<forall>w m. size w < size v \<longrightarrow> printable w \<longrightarrow> matcherToGomegaMatcher w = Ret m \<longrightarrow> reads_back (MarshalJSON m))"

lemma slice_ok:
  assumes "list_all (\<lambda>w. printable w \<and> size w < size v) vs" and "below_ok v" and "slice_loop vs = Ret ms"
  shows "list_all reads_back (map MarshalJSON ms) \<and> length ms = length vs"
  using assms by (induction vs arbitrary: ms) (auto simp: go_outcome below_ok_def)

lemma gjson_ok:
  assumes "list_all (\<lambda>e. printable (snd e) \<and> size (snd e) < size v) es" and "below_ok v" and "gjson_loop es = Ret ms"
  shows "list_all reads_back (map MarshalJSON ms) \<and> length ms = length es"
  using assms by (induction es arbitrary: ms) (auto simp: go_outcome below_ok_def WithSafeTransform_def)

lemma size_list_elem: "w \<in> set vs \<Longrightarrow> size w < size (VList vs)"
  by (induction vs) auto

lemma size_map_elem: "e \<in> set es \<Longrightarrow> size (snd e) < size (VMap es)"
  by (induction es) (auto simp: size_prod_simp)

lemma keyed_ok:
  assumes p: "printable (VMap [(k, v)])" and b: "below_ok (VMap [(k, v)])" and m: "keyed_matcher k v = Ret m"
  shows "reads_back (MarshalJSON m)"
proof -
  have v: "size v < size (VMap [(k, v)])" by (simp add: size_prod_simp)
  have part: "reads_back (MarshalJSON m')" if "printable v" "matcherToGomegaMatcher v = Ret m'" for m'
    using b that v unfolding below_ok_def by blast
  from keyed_known[OF m] show ?thesis
  proof (elim disjE)
    assume "k = ''equal''"
    then show ?thesis using m p by (auto simp: keyed_simps split: val.splits)
  next
    assume "k \<in> leaf_keys"
    then show ?thesis using m by (rule leaf_reads_back)
  next
    assume k: "k \<in> {''gt'', ''ge'', ''lt'', ''le''}"
    then have "m = WithSafeTransform ToNumeric (BeNumerically k v)" using m keyed_compare[OF k, of v] by simp
    then show ?thesis using reads_back_compare[OF k] by (simp add: WithSafeTransform_def)
  next
    assume k: "k \<in> {''have-key'', ''not''}"
    then have "printable v" using p by auto
    with k m part show ?thesis using reads_back_parts(1)[OF _ k] by (auto simp: keyed_simps)
  next
    assume k: "k = ''contain-element''"
    then have "printable v" "element_arg v" using p by simp_all
    with k m part show ?thesis
      using reads_back_parts(2) element_arg_prints by (auto simp: keyed_simps WithSafeTransform_def split: if_splits)
  next
    assume k: "k \<in> {''contain-elements'', ''consist-of'', ''and'', ''or''}"
    then obtain vs where vs: "v = VList vs" using m by (cases v) (auto simp: keyed_simps)
    obtain ms where ms: "slice_loop vs = Ret ms" using k m vs by (auto simp: keyed_simps)
    have "list_all (\<lambda>w. printable w \<and> size w < size (VMap [(k, v)])) vs" "vs \<noteq> []"
      using p k vs size_list_elem v by (fastforce simp: list_all_iff)+
    with slice_ok[OF _ b ms] have l: "list_all reads_back (map MarshalJSON ms)" "ms \<noteq> []" by auto
    then show ?thesis using k m ms vs reads_back_and reads_back_slices[OF l(1)]
      by (auto simp: keyed_simps ContainElements_def ConsistOf_def And_def Or_def WithSafeTransform_def)
  next
    assume k: "k = ''gjson''"
    then obtain es ms where es: "v = VMap es" and ms: "gjson_loop es = Ret ms" and meq: "m = And ms"
      using m by (auto simp: keyed_simps split: val.splits)
    have "list_all (\<lambda>e. printable (snd e) \<and> size (snd e) < size (VMap [(k, v)])) es" "es \<noteq> []"
      using p k es size_map_elem v by (fastforce simp: list_all_iff)+
    with gjson_ok[OF _ b ms] have "list_all reads_back (map MarshalJSON ms)" "ms \<noteq> []" by auto
    then show ?thesis unfolding meq And_def by (rule reads_back_and)
  qed
qed

lemma printable_reads_back:
  "printable v \<Longrightarrow> matcherToGomegaMatcher v = Ret m \<Longrightarrow> reads_back (MarshalJSON m)"
proof (induction v arbitrary: m rule: measure_induct_rule[where f = size])
  case (less v)
  then have b: "below_ok v" by (auto simp: below_ok_def)
  show ?case
  proof (cases v)
    case (VList vs)
    with less.prems obtain ms where ms: "slice_loop vs = Ret ms" and m: "m = ContainElements ms" by auto
    have "list_all (\<lambda>w. printable w \<and> size w < size v) vs" "vs \<noteq> []"
      using less.prems(1) VList size_list_elem by (fastforce simp: list_all_iff)+
    with slice_ok[OF _ b ms] have "list_all reads_back (map MarshalJSON ms)" "ms \<noteq> []" by auto
    then show ?thesis using reads_back_slices[of "map MarshalJSON ms" "''contain-elements''"] by (simp add: m ContainElements_def)
  next
    case (VMap es)
    with less.prems(1) obtain k w where es: "es = [(k, w)]" by (cases v rule: printable.cases) auto
    then show ?thesis using keyed_ok[of k w m] less.prems b VMap by simp
  qed (use less.prems in \<open>auto simp: WithSafeTransform_def\<close>)
qed

section \<open>Properties\<close>



text \<open>
  Outside the printable values the JSON says something else: a number cannot be read back at all, an expected array reads back as
  the elements it contains, and the path of a \<^verbatim>\<open>gjson\<close> matcher is not in it.
\<close>

lemma number_not_readable:
  assumes "matcherToGomegaMatcher (VInt n) = Ret m"
  shows "matcherToGomegaMatcher (MarshalJSON m) = Err (UnknownMatcher ''eq'')"
  using assms by (auto simp: WithSafeTransform_def keyed_matcher.simps)

lemma gjson_path_lost:
  assumes "matcherToGomegaMatcher (VMap [(''gjson'', VMap [(path, v)])]) = Ret m"
    and "matcherToGomegaMatcher (VMap [(''gjson'', VMap [(path', v)])]) = Ret m'"
  shows "MarshalJSON m = MarshalJSON m'"
  using assms by (auto simp: keyed_simps go_outcome And_def WithSafeTransform_def)

end
