(* ===== verification/Validate_Value.thy ===== *)
theory Validate_Value
  imports Matcher_Config
begin

text \<open>
  resource/validate.go, resource/skip.go and the helpers of resource/resource.go: a test result,
  the validation of one property of a resource against the value a system query returns, and the
  rules that decide which later properties are skipped. The readings of \<^verbatim>\<open>time.Now()\<close> are arguments.
\<close>

section \<open>Test results\<close>

datatype result_code = SUCCESS | FAIL | SKIP | UNKNOWN

record TestResult =
  Successful :: bool
  Skipped :: bool
  ResourceId :: string
  ResourceType :: string
  Property :: string
  Title :: string
  Meta :: "(string \<times> val) list option"
  Result :: result_code
  ErrField :: "go_error option"
  MatcherRes :: "MatcherResult option"
  StartTime :: int
  EndTime :: int
  Duration :: int

fun ToOutcome_code :: "result_code \<Rightarrow> string" where
  "ToOutcome_code SUCCESS = ''pass''"
| "ToOutcome_code FAIL = ''fail''"
| "ToOutcome_code SKIP = ''skip''"
| "ToOutcome_code UNKNOWN = ''unknown''"

definition ToOutcome :: "TestResult \<Rightarrow> string" where
  "ToOutcome tr = ToOutcome_code (Result tr)"

definition SortKey :: "TestResult \<Rightarrow> string" where
  "SortKey t = ResourceType t @ '':'' @ ResourceId t"

text \<open>What \<^verbatim>\<open>ValidateValue\<close> reads of a resource: \<^verbatim>\<open>ID()\<close>, \<^verbatim>\<open>GetTitle()\<close>, \<^verbatim>\<open>GetMeta()\<close> and its Go type.\<close>

record res_info =
  ri_id :: string
  ri_title :: string
  ri_meta :: "(string \<times> val) list option"
  ri_type :: string

text \<open>The two clock readings of a property's validation.\<close>

type_synonym clock = "string \<Rightarrow> int \<times> int"

definition base_result :: "res_info \<Rightarrow> string \<Rightarrow> result_code \<Rightarrow> int \<times> int \<Rightarrow> TestResult" where
  "base_result res prop code t =
     \<lparr>Successful = False, Skipped = False, ResourceId = ri_id res, ResourceType = ri_type res,
      Property = prop, Title = ri_title res, Meta = ri_meta res, Result = code, ErrField = None,
      MatcherRes = None, StartTime = fst t, EndTime = snd t, Duration = snd t - fst t\<rparr>"

definition skipResult :: "res_info \<Rightarrow> string \<Rightarrow> int \<times> int \<Rightarrow> TestResult" where
  "skipResult res prop t = (base_result res prop SKIP t)\<lparr>Skipped := True\<rparr>"

section \<open>Validating one value\<close>

text \<open>
  The method values a resource passes as \<^verbatim>\<open>actual\<close>, by their Go type, with the result of calling
  them. A reader that is read to its end may itself fail.
\<close>

datatype getter =
    GBool "go_error + bool"
  | GString "go_error + string"
  | GInt "go_error + int"
  | GStrings "go_error + string list"
  | GInts "go_error + int list"
  | GAny "go_error + val"
  | GReader "go_error + (go_error + string)"
  | GUnknown

fun sum_bind :: "'e + 'a \<Rightarrow> ('a \<Rightarrow> 'e + 'b) \<Rightarrow> 'e + 'b" where
  "sum_bind (Inl e) f = Inl e"
| "sum_bind (Inr x) f = f x"

text \<open>\<^verbatim>\<open>ValidateValue\<close>: a reader whose expectation is not a list is read as a string first.\<close>

definition read_as_string :: "val \<Rightarrow> getter \<Rightarrow> getter" where
  "read_as_string expectedValue actual =
     (case actual of
        GReader f \<Rightarrow>
          (case expectedValue of
             VList _ \<Rightarrow> actual
           | _ \<Rightarrow> GString (sum_bind f (\<lambda>content. content)))
      | _ \<Rightarrow> actual)"

text \<open>The type switch of \<^verbatim>\<open>ValidateGomegaValue\<close>: the found value, and the matcher it fixes.\<close>

definition found_value :: "getter \<Rightarrow> go_error + val" where
  "found_value actual =
     (case actual of
        GBool f \<Rightarrow> map_sum id VBool f
      | GString f \<Rightarrow> map_sum id VStr f
      | GInt f \<Rightarrow> map_sum id VInt f
      | GStrings f \<Rightarrow> map_sum id VStrs f
      | GInts f \<Rightarrow> map_sum id VInts f
      | GAny f \<Rightarrow> f
      | GReader f \<Rightarrow> map_sum id VStr (sum_bind f (\<lambda>content. content))
      | GUnknown \<Rightarrow> Inl UnknownSignature)"

definition is_reader :: "getter \<Rightarrow> bool" where
  "is_reader actual = (case actual of GReader _ \<Rightarrow> True | _ \<Rightarrow> False)"

definition expected_matcher :: "getter \<Rightarrow> val \<Rightarrow> (go_error, matcher) outcome" where
  "expected_matcher actual expectedValue =
     (if is_reader actual then Ret (HavePatterns expectedValue)
      else matcherToGomegaMatcher expectedValue)"

text \<open>
  \<^verbatim>\<open>ValidateGomegaValue\<close>; \<open>None\<close> is a panic. \<^verbatim>\<open>FailureResult\<close> is called whenever the match did not
  succeed, also when it returned an error.
\<close>

definition match_result ::
  "ext \<Rightarrow> res_info \<Rightarrow> string \<Rightarrow> val \<Rightarrow> matcher \<Rightarrow> val \<Rightarrow> int \<times> int \<Rightarrow> TestResult option" where
  "match_result X res prop expectedValue gomegaMatcher foundValue t =
     (let (m', (success, err)) = Match X gomegaMatcher foundValue
      in if success
         then Some ((base_result res prop SUCCESS t)
                \<lparr>ErrField := err,
                 MatcherRes :=
                   Some (plain_result foundValue ''matches expectation'' (SVal expectedValue))\<rparr>)
         else (case FailureResult m' foundValue of
                 None \<Rightarrow> None
               | Some mr \<Rightarrow>
                   Some ((base_result res prop FAIL t)\<lparr>ErrField := err, MatcherRes := Some mr\<rparr>)))"

definition ValidateGomegaValue ::
  "ext \<Rightarrow> res_info \<Rightarrow> string \<Rightarrow> val \<Rightarrow> getter \<Rightarrow> bool \<Rightarrow> clock \<Rightarrow> TestResult option" where
  "ValidateGomegaValue X res prop expectedValue actual skip clk =
     (if skip then Some (skipResult res prop (clk prop))
      else (case found_value actual of
              Inl e \<Rightarrow> Some ((base_result res prop FAIL (clk prop))\<lparr>ErrField := Some e\<rparr>)
            | Inr foundValue \<Rightarrow>
                (case expected_matcher actual expectedValue of
                   Panic \<Rightarrow> None
                 | Err e \<Rightarrow> Some ((base_result res prop FAIL (clk prop))\<lparr>ErrField := Some e\<rparr>)
                 | Ret m \<Rightarrow> match_result X res prop expectedValue m foundValue (clk prop))))"

definition ValidateValue ::
  "ext \<Rightarrow> res_info \<Rightarrow> string \<Rightarrow> val \<Rightarrow> getter \<Rightarrow> bool \<Rightarrow> clock \<Rightarrow> TestResult option" where
  "ValidateValue X res prop expectedValue actual skip clk =
     ValidateGomegaValue X res prop expectedValue (read_as_string expectedValue actual) skip clk"

section \<open>Helpers of the resources\<close>

text \<open>
  \<^verbatim>\<open>shouldSkip\<close>: the first result has an error, is not a success, or found the boolean \<^verbatim>\<open>false\<close>.
\<close>

definition found_false :: "TestResult \<Rightarrow> bool" where
  "found_false r = (case MatcherRes r of Some mr \<Rightarrow> Actual mr = VBool False | None \<Rightarrow> False)"

definition shouldSkip :: "TestResult list \<Rightarrow> bool" where
  "shouldSkip results =
     (case results of
        [] \<Rightarrow> False
      | r # _ \<Rightarrow> ErrField r \<noteq> None \<or> Result r \<noteq> SUCCESS \<or> found_false r)"

definition isSet :: "val \<Rightarrow> bool" where
  "isSet v = (case v of VList xs \<Rightarrow> xs \<noteq> [] | VNil \<Rightarrow> False | _ \<Rightarrow> True)"

text \<open>\<^verbatim>\<open>deprecateAtoI\<close> panics on a string that is not an integer.\<close>

definition deprecateAtoI :: "val \<Rightarrow> val option" where
  "deprecateAtoI depr =
     (case depr of
        VStr s \<Rightarrow> map_option (\<lambda>i. VFloat (of_int i)) (atoi s)
      | _ \<Rightarrow> Some depr)"

text \<open>resource/skip.go: the single result of a resource whose dependency did not pass.\<close>

definition SkipResourceResults :: "res_info \<Rightarrow> string \<Rightarrow> go_error \<Rightarrow> int \<Rightarrow> TestResult list" where
  "SkipResourceResults res typeName reason now =
     [(base_result res ''depends-on'' SKIP (now, now))
        \<lparr>Skipped := True, ResourceType := typeName, ErrField := Some reason, Duration := 0\<rparr>]"

section \<open>Properties of one validation\<close>

text \<open>A result that a validation can produce.\<close>

definition wf_result :: "TestResult \<Rightarrow> bool" where
  "wf_result r \<longleftrightarrow>
     Result r \<in> {SUCCESS, FAIL, SKIP} \<and>
     (Skipped r \<longleftrightarrow> Result r = SKIP) \<and>
     (Result r = SUCCESS \<longrightarrow> ErrField r = None \<and> MatcherRes r \<noteq> None) \<and>
     (Result r = FAIL \<longrightarrow> ErrField r \<noteq> None \<or> MatcherRes r \<noteq> None)"

lemma base_result_simps [simp]:
  "Result (base_result res prop code t) = code"
  "Skipped (base_result res prop code t) = False"
  "ErrField (base_result res prop code t) = None"
  "MatcherRes (base_result res prop code t) = None"
  "ResourceId (base_result res prop code t) = ri_id res"
  "ResourceType (base_result res prop code t) = ri_type res"
  "Property (base_result res prop code t) = prop"
  by (simp_all add: base_result_def)

lemma skipResult_simps [simp]:
  "Result (skipResult res prop t) = SKIP"
  "Skipped (skipResult res prop t)"
  "Property (skipResult res prop t) = prop"
  "ErrField (skipResult res prop t) = None"
  "ResourceId (skipResult res prop t) = ri_id res"
  by (simp_all add: skipResult_def)

lemma match_result_wf:
  assumes "gomega_ok X" and "match_result X res prop e m v t = Some r"
  shows "wf_result r"
proof -
  have "clean (snd (Match X m v))" by (rule Match_clean_all(1)[OF assms(1)])
  with assms(2) show ?thesis
    by (auto simp: match_result_def wf_result_def clean_iff split: prod.splits if_splits
        option.splits)
qed

lemma ValidateGomegaValue_wf:
  assumes "gomega_ok X" and "ValidateGomegaValue X res prop e actual skip clk = Some r"
  shows "wf_result r"
  using assms(2) match_result_wf[OF assms(1)]
  by (auto simp: ValidateGomegaValue_def wf_result_def[of "base_result _ _ _ _\<lparr>ErrField := _\<rparr>"]
      wf_result_def[of "skipResult _ _ _"] split: if_splits sum.splits outcome.splits)

lemma ValidateValue_skip [simp]:
  "ValidateValue X res prop e actual True clk = Some (skipResult res prop (clk prop))"
  by (simp add: ValidateValue_def ValidateGomegaValue_def)

lemma match_result_prop:
  "match_result X res prop e m v t = Some r \<Longrightarrow> Property r = prop \<and> ResourceId r = ri_id res"
  by (auto simp: match_result_def split: prod.splits if_splits option.splits)

lemma ValidateValue_prop:
  "ValidateValue X res prop e actual skip clk = Some r \<Longrightarrow> Property r = prop \<and> ResourceId r = ri_id res"
  by (auto simp: ValidateValue_def ValidateGomegaValue_def dest: match_result_prop
      split: if_splits sum.splits outcome.splits)

section \<open>Properties\<close>

text \<open>Every result of a validation is well formed: it is a pass, a failure or a skip; it is marked skipped exactly
  when it is a skip; a pass carries no error; a failure carries an error or a report; and it names the property and the
  resource it is about.\<close>

lemma ValidateValue_wf:
  assumes "gomega_ok X" and "ValidateValue X res prop expectedValue actual skip clk = Some r"
  shows "wf_result r \<and> Property r = prop \<and> ResourceId r = ri_id res"
  using ValidateGomegaValue_wf[OF assms(1)] ValidateValue_prop[OF assms(2)] assms(2)
  unfolding ValidateValue_def by blast

definition sample_info :: res_info where
  "sample_info = \<lparr>ri_id = ''/etc/passwd'', ri_title = [], ri_meta = None, ri_type = ''File''\<rparr>"

lemma ValidateValue_wf_witness:
  "\<exists>r. ValidateValue sample_ext sample_info ''exists'' (VBool True) (GBool (Inr False)) False (\<lambda>_. (0, 0)) = Some r \<and>
     wf_result r \<and> Property r = ''exists'' \<and> Result r = FAIL"
proof -
  have "\<exists>r. ValidateValue sample_ext sample_info ''exists'' (VBool True) (GBool (Inr False)) False (\<lambda>_. (0, 0)) = Some r \<and>
      Result r = FAIL"
    by (simp add: ValidateValue_def ValidateGomegaValue_def read_as_string_def found_value_def expected_matcher_def
        is_reader_def match_result_def sample_ext_def)
  then show ?thesis using ValidateValue_wf[OF sample_ext_ok] by blast
qed



end
