(* ===== verification/Util_Config.thy ===== *)
theory Util_Config
  imports Goss_Values
begin

text \<open>
  util/config.go: the runtime configuration with its option functions, the attribute whitelist a
  gossfile section is checked against, and the case-insensitive list lookup. A duration is an
  \<^typ>\<open>int\<close> of nanoseconds; the output writer is an opaque name. Struct types are given by their
  fields: the reflection of \<^verbatim>\<open>WhitelistAttrs\<close> reads the tags off that description.
\<close>

section \<open>Config\<close>

type_synonym duration = int

record Config =
  AllowInsecure :: bool
  AnnounceToCLI :: bool
  Cache :: duration
  Debug :: bool
  Endpoint :: string
  FormatOptions :: "string list"
  IgnoreList :: "string list"
  ListenAddress :: string
  LocalAddress :: string
  LogLevel :: string
  MaxConcurrent :: int
  Method :: string
  NoColor :: "bool option"
  NoFollowRedirects :: bool
  OutputFormat :: string
  OutputWriter :: "string option"
  PackageManager :: string
  Password :: string
  RequestBody :: string
  Proxy :: string
  RequestHeader :: "string list"
  RequestQueryParams :: "(string \<times> string list) list"
  RetryTimeout :: duration
  RunLevel :: string
  Server :: string
  Sleep :: duration
  Spec :: string
  Timeout :: duration
  Username :: string
  CAFile :: string
  CertFile :: string
  KeyFile :: string
  VarsFiles :: "string list"
  VarsInline :: string
  DiscoverSpec :: string
  DisabledResourceTypes :: "string list"

definition millisecond :: duration where "millisecond = 1000000"
definition second :: duration where "second = 1000 * millisecond"

text \<open>Go's integer division truncates towards zero.\<close>

definition go_div :: "int \<Rightarrow> int \<Rightarrow> int" where
  "go_div a b = sgn a * sgn b * (\<bar>a\<bar> div \<bar>b\<bar>)"

definition TimeOutMilliSeconds :: "Config \<Rightarrow> int" where
  "TimeOutMilliSeconds c = go_div (Timeout c) millisecond"

definition zero_config :: Config where
  "zero_config =
     \<lparr>AllowInsecure = False, AnnounceToCLI = False, Cache = 0, Debug = False, Endpoint = [],
      FormatOptions = [], IgnoreList = [], ListenAddress = [], LocalAddress = [], LogLevel = [],
      MaxConcurrent = 0, Method = [], NoColor = None, NoFollowRedirects = False,
      OutputFormat = [], OutputWriter = None, PackageManager = [], Password = [],
      RequestBody = [], Proxy = [], RequestHeader = [], RequestQueryParams = [],
      RetryTimeout = 0, RunLevel = [], Server = [], Sleep = 0, Spec = [], Timeout = 0,
      Username = [], CAFile = [], CertFile = [], KeyFile = [], VarsFiles = [], VarsInline = [],
      DiscoverSpec = [], DisabledResourceTypes = []\<rparr>"

section \<open>Options\<close>

type_synonym ConfigOption = "Config \<Rightarrow> (go_error, Config) outcome"

definition WithSpecFile :: "string \<Rightarrow> ConfigOption" where
  "WithSpecFile f c = Ret (c\<lparr>Spec := f\<rparr>)"

definition WithOutputFormat :: "string \<Rightarrow> ConfigOption" where
  "WithOutputFormat f c = Ret (c\<lparr>OutputFormat := f\<rparr>)"

definition WithFormatOptions :: "string list \<Rightarrow> ConfigOption" where
  "WithFormatOptions opts c = Ret (c\<lparr>FormatOptions := FormatOptions c @ opts\<rparr>)"

definition WithResultWriter :: "string \<Rightarrow> ConfigOption" where
  "WithResultWriter w c = Ret (c\<lparr>OutputWriter := Some w\<rparr>)"

definition WithSleep :: "duration \<Rightarrow> ConfigOption" where
  "WithSleep d c = Ret (c\<lparr>Sleep := d\<rparr>)"

definition WithRetryTimeout :: "duration \<Rightarrow> ConfigOption" where
  "WithRetryTimeout d c = Ret (c\<lparr>RetryTimeout := d\<rparr>)"

definition WithCache :: "duration \<Rightarrow> ConfigOption" where
  "WithCache d c = Ret (c\<lparr>Cache := d\<rparr>)"

definition WithMaxConcurrency :: "int \<Rightarrow> ConfigOption" where
  "WithMaxConcurrency mc c = Ret (c\<lparr>MaxConcurrent := mc\<rparr>)"

definition WithNoColor :: ConfigOption where
  "WithNoColor c = Ret (c\<lparr>NoColor := Some True\<rparr>)"

definition WithColor :: ConfigOption where
  "WithColor c = Ret (c\<lparr>NoColor := Some False\<rparr>)"

definition WithPackageManager :: "string \<Rightarrow> ConfigOption" where
  "WithPackageManager p c = Ret (c\<lparr>PackageManager := p\<rparr>)"

definition WithDebug :: ConfigOption where
  "WithDebug c = Ret (c\<lparr>Debug := True\<rparr>)"

definition WithVarsFiles :: "string list \<Rightarrow> ConfigOption" where
  "WithVarsFiles files c = Ret (c\<lparr>VarsFiles := files\<rparr>)"

definition WithVarsFile :: "string \<Rightarrow> ConfigOption" where
  "WithVarsFile file = WithVarsFiles [file]"

text \<open>\<^verbatim>\<open>WithVarsData\<close> marshals to JSON: the encoder is an argument, \<open>None\<close> its error.\<close>

definition WithVarsData :: "(val \<Rightarrow> string option) \<Rightarrow> val \<Rightarrow> ConfigOption" where
  "WithVarsData json_marshal v c =
     (case json_marshal v of
        None \<Rightarrow> Err (LibErr ''json'')
      | Some jv \<Rightarrow> Ret (c\<lparr>VarsInline := jv\<rparr>))"

definition WithVarsString :: "string \<Rightarrow> ConfigOption" where
  "WithVarsString v c = Ret (c\<lparr>VarsInline := v\<rparr>)"

definition WithVarsBytes :: "string \<Rightarrow> ConfigOption" where
  "WithVarsBytes v = WithVarsString v"

definition WithDiscoverFile :: "string \<Rightarrow> ConfigOption" where
  "WithDiscoverFile f c = Ret (c\<lparr>DiscoverSpec := f\<rparr>)"

definition WithDisabledResourceTypes :: "string list \<Rightarrow> ConfigOption" where
  "WithDisabledResourceTypes t c =
     Ret (c\<lparr>DisabledResourceTypes := DisabledResourceTypes c @ t\<rparr>)"

definition default_config :: Config where
  "default_config =
     zero_config\<lparr>Cache := 5 * second, Endpoint := ''/healthz'', ListenAddress := '':8080'',
       LogLevel := ''ERROR'', MaxConcurrent := 50, OutputFormat := ''structured'',
       Sleep := second, NoColor := Some True\<rparr>"

fun apply_options :: "ConfigOption list \<Rightarrow> ConfigOption" where
  "apply_options [] c = Ret c"
| "apply_options (opt # opts) c = bind_outcome (opt c) (apply_options opts)"

definition NewConfig :: "ConfigOption list \<Rightarrow> (go_error, Config) outcome" where
  "NewConfig opts = apply_options opts default_config"

section \<open>Lists of names\<close>

fun IsValueInList :: "string \<Rightarrow> string list \<Rightarrow> bool" where
  "IsValueInList value [] = False"
| "IsValueInList value (v # vs) = (if equal_fold v value then True else IsValueInList value vs)"

section \<open>The attributes of a section\<close>

text \<open>
  A struct type: its fields, each with the struct tag of the format at hand, or anonymous with the
  embedded struct's own fields.
\<close>

datatype field = Field string | Embedded "field list"

definition tag_name :: "string \<Rightarrow> string" where
  "tag_name tag = hd (split_on (CHR '','') tag)"

fun WhitelistAttrs :: "field list \<Rightarrow> string set" where
  "WhitelistAttrs [] = {}"
| "WhitelistAttrs (Embedded fs # rest) = WhitelistAttrs fs \<union> WhitelistAttrs rest"
| "WhitelistAttrs (Field tag # rest) =
     (if tag = [] \<or> tag = ''-'' then WhitelistAttrs rest
      else insert (tag_name tag) (WhitelistAttrs rest))"

text \<open>A section as decoded generically: the attribute names under each resource id.\<close>

type_synonym attr_section = "(string \<times> string list) list"

fun first_invalid :: "string set \<Rightarrow> attr_section \<Rightarrow> (string \<times> string) option" where
  "first_invalid whitelist [] = None"
| "first_invalid whitelist ((id', attrs) # rest) =
     (case filter (\<lambda>k. k \<notin> whitelist) attrs of
        k # _ \<Rightarrow> Some (id', k)
      | [] \<Rightarrow> first_invalid whitelist rest)"

definition ValidateSections ::
  "string \<Rightarrow> string set \<Rightarrow> go_error + attr_section \<Rightarrow> (go_error, unit) outcome" where
  "ValidateSections typs whitelist decoded =
     (case decoded of
        Inl e \<Rightarrow> Err e
      | Inr toValidate \<Rightarrow>
          (case first_invalid whitelist toValidate of
             Some (id', k) \<Rightarrow>
               Err (LibErr (''invalid Attribute for '' @ typs @ '':'' @ id' @ '': '' @ k))
           | None \<Rightarrow> Ret ()))"

section \<open>Lemmas\<close>

lemma IsValueInList_iff: "IsValueInList value vs \<longleftrightarrow> (\<exists>v \<in> set vs. equal_fold v value)"
  by (induction vs) auto

lemma first_invalid_None:
  "first_invalid w sec = None \<longleftrightarrow> (\<forall>e \<in> set sec. set (snd e) \<subseteq> w)"
proof (induction sec)
  case (Cons e sec)
  obtain i attrs where e: "e = (i, attrs)" by force
  show ?case
  proof (cases "filter (\<lambda>k. k \<notin> w) attrs")
    case Nil
    then have "set attrs \<subseteq> w" by (auto simp: filter_empty_conv)
    with Nil Cons e show ?thesis by simp
  next
    case (Cons k ks)
    then have "k \<in> set (filter (\<lambda>k. k \<notin> w) attrs)" by simp
    then have "\<not> set attrs \<subseteq> w" by auto
    with Cons e show ?thesis by simp
  qed
qed simp

lemma apply_options_append:
  "apply_options (xs @ ys) c = bind_outcome (apply_options xs c) (apply_options ys)"
proof (induction xs arbitrary: c)
  case (Cons x xs)
  then show ?case by (cases "x c") auto
qed simp

end
