(* ===== verification/Sys_Iface.thy ===== *)
theory Sys_Iface
  imports Util_Config
begin

text \<open>
  The interfaces of the package system that the resources call: one record per system resource,
  with the value and the error each query method returns, and the \<^verbatim>\<open>System\<close> struct as the record of its constructor
  functions. The answers come from the operating system and are arguments of the model.
\<close>

type_synonym 'a query = "'a \<times> go_error option"

text \<open>A query as its value or its error, for callers that drop the value on an error.\<close>

definition q_sum :: "'a query \<Rightarrow> go_error + 'a" where
  "q_sum q = (case snd q of None \<Rightarrow> Inr (fst q) | Some e \<Rightarrow> Inl e)"

record SysFile =
  sf_Path :: string
  sf_Exists :: "bool query"
  sf_Contents :: "(string query) query"
  sf_Mode :: "string query"
  sf_Size :: "int query"
  sf_Filetype :: "string query"
  sf_Owner :: "string query"
  sf_Uid :: "int query"
  sf_Group :: "string query"
  sf_Gid :: "int query"
  sf_LinkedTo :: "string query"
  sf_Md5 :: "string query"
  sf_Sha256 :: "string query"
  sf_Sha512 :: "string query"

record SysPackage =
  sp_Name :: string
  sp_Exists :: "bool query"
  sp_Installed :: "bool query"
  sp_Versions :: "string list query"

record SysAddr =
  sa_Address :: string
  sa_Exists :: "bool query"
  sa_Reachable :: "bool query"

record SysPort =
  so_Port :: string
  so_Exists :: "bool query"
  so_Listening :: "bool query"
  so_IP :: "string list query"
  so_PID :: "int list query"

record SysService =
  ss_Service :: string
  ss_Exists :: "bool query"
  ss_Enabled :: "bool query"
  ss_Running :: "bool query"
  ss_RunLevels :: "string list query"

record SysUser =
  su_Username :: string
  su_Exists :: "bool query"
  su_UID :: "int query"
  su_GID :: "int query"
  su_Groups :: "string list query"
  su_Home :: "string query"
  su_Shell :: "string query"

record SysGroup =
  sg_Groupname :: string
  sg_Exists :: "bool query"
  sg_GID :: "int query"

record SysCommand =
  sc_Command :: string
  sc_Exists :: "bool query"
  sc_ExitStatus :: "int query"
  sc_Stdout :: "string query"
  sc_Stderr :: "string query"

record SysDNS =
  sd_Host :: string
  sd_Qtype :: string
  sd_Server :: string
  sd_Exists :: "bool query"
  sd_Resolvable :: "bool query"
  sd_Addrs :: "string list query"

record SysProcess =
  sr_Executable :: string
  sr_Exists :: "bool query"
  sr_Running :: "bool query"
  sr_Pids :: "int list query"
  sr_Status :: "string list query"
  sr_User :: "string list query"

record SysKernelParam =
  sk_Key :: string
  sk_Exists :: "bool query"
  sk_Value :: "string query"

record SysMount =
  sm_MountPoint :: string
  sm_Exists :: "bool query"
  sm_Opts :: "string list query"
  sm_VfsOpts :: "string list query"
  sm_Source :: "string query"
  sm_Filesystem :: "string query"
  sm_Usage :: "int query"

record SysInterface =
  si_Name :: string
  si_Exists :: "bool query"
  si_Addrs :: "string list query"
  si_MTU :: "int query"

record SysHTTP =
  sh_HTTP :: string
  sh_Exists :: "bool query"
  sh_Status :: "int query"
  sh_Headers :: "(string query) query"
  sh_Body :: "(string query) query"

record SysRegistry =
  sy_Key :: string
  sy_Exists :: "bool query"
  sy_Value :: "string query"
  sy_Type :: "string query"

record SysGossfile =
  sq_Path :: string
  sq_Exists :: "bool query"

record System =
  NewSysFile :: "string \<Rightarrow> Config \<Rightarrow> SysFile"
  NewSysPackage :: "string \<Rightarrow> Config \<Rightarrow> SysPackage"
  NewSysAddr :: "string \<Rightarrow> Config \<Rightarrow> SysAddr"
  NewSysPort :: "string \<Rightarrow> Config \<Rightarrow> SysPort"
  NewSysService :: "string \<Rightarrow> Config \<Rightarrow> SysService"
  NewSysUser :: "string \<Rightarrow> Config \<Rightarrow> SysUser"
  NewSysGroup :: "string \<Rightarrow> Config \<Rightarrow> SysGroup"
  NewSysCommand :: "string \<Rightarrow> Config \<Rightarrow> SysCommand"
  NewSysDNS :: "string \<Rightarrow> Config \<Rightarrow> SysDNS"
  NewSysProcess :: "string \<Rightarrow> Config \<Rightarrow> SysProcess"
  NewSysGossfile :: "string \<Rightarrow> Config \<Rightarrow> SysGossfile"
  NewSysKernelParam :: "string \<Rightarrow> Config \<Rightarrow> SysKernelParam"
  NewSysMount :: "string \<Rightarrow> Config \<Rightarrow> SysMount"
  NewSysInterface :: "string \<Rightarrow> Config \<Rightarrow> SysInterface"
  NewSysHTTP :: "string \<Rightarrow> Config \<Rightarrow> SysHTTP"
  NewSysRegistry :: "string \<Rightarrow> Config \<Rightarrow> SysRegistry"

text \<open>A system on which nothing is found and no query fails.\<close>

definition sample_system :: System where
  "sample_system =
     \<lparr>NewSysFile = \<lambda>name config. \<lparr>sf_Path = name, sf_Exists = (False, None),
          sf_Contents = (([], None), None), sf_Mode = ([], None), sf_Size = (0, None),
          sf_Filetype = ([], None), sf_Owner = ([], None), sf_Uid = (0, None),
          sf_Group = ([], None), sf_Gid = (0, None), sf_LinkedTo = ([], None),
          sf_Md5 = ([], None), sf_Sha256 = ([], None), sf_Sha512 = ([], None)\<rparr>,
      NewSysPackage = \<lambda>name config. \<lparr>sp_Name = name, sp_Exists = (False, None),
          sp_Installed = (False, None), sp_Versions = ([], None)\<rparr>,
      NewSysAddr = \<lambda>name config. \<lparr>sa_Address = name, sa_Exists = (False, None),
          sa_Reachable = (False, None)\<rparr>,
      NewSysPort = \<lambda>name config. \<lparr>so_Port = name, so_Exists = (False, None),
          so_Listening = (False, None), so_IP = ([], None), so_PID = ([], None)\<rparr>,
      NewSysService = \<lambda>name config. \<lparr>ss_Service = name, ss_Exists = (False,
          None), ss_Enabled = (False, None), ss_Running = (False, None),
          ss_RunLevels = ([], None)\<rparr>,
      NewSysUser = \<lambda>name config. \<lparr>su_Username = name, su_Exists = (False,
          None), su_UID = (0, None), su_GID = (0, None), su_Groups = ([], None),
          su_Home = ([], None), su_Shell = ([], None)\<rparr>,
      NewSysGroup = \<lambda>name config. \<lparr>sg_Groupname = name, sg_Exists = (False,
          None), sg_GID = (0, None)\<rparr>,
      NewSysCommand = \<lambda>name config. \<lparr>sc_Command = name, sc_Exists = (False,
          None), sc_ExitStatus = (0, None), sc_Stdout = ([], None), sc_Stderr = ([],
          None)\<rparr>,
      NewSysDNS = \<lambda>name config. \<lparr>sd_Host = name, sd_Qtype = [], sd_Server = [],
          sd_Exists = (False, None), sd_Resolvable = (False, None), sd_Addrs = ([],
          None)\<rparr>,
      NewSysProcess = \<lambda>name config. \<lparr>sr_Executable = name, sr_Exists = (False,
          None), sr_Running = (False, None), sr_Pids = ([], None), sr_Status = ([],
          None), sr_User = ([], None)\<rparr>,
      NewSysGossfile = \<lambda>name config. \<lparr>sq_Path = name, sq_Exists = (False,
          None)\<rparr>,
      NewSysKernelParam = \<lambda>name config. \<lparr>sk_Key = name, sk_Exists = (False,
          None), sk_Value = ([], None)\<rparr>,
      NewSysMount = \<lambda>name config. \<lparr>sm_MountPoint = name, sm_Exists = (False,
          None), sm_Opts = ([], None), sm_VfsOpts = ([], None), sm_Source = ([], None),
          sm_Filesystem = ([], None), sm_Usage = (0, None)\<rparr>,
      NewSysInterface = \<lambda>name config. \<lparr>si_Name = name, si_Exists = (False,
          None), si_Addrs = ([], None), si_MTU = (0, None)\<rparr>,
      NewSysHTTP = \<lambda>name config. \<lparr>sh_HTTP = name, sh_Exists = (False, None),
          sh_Status = (0, None), sh_Headers = (([], None), None), sh_Body = (([], None),
          None)\<rparr>,
      NewSysRegistry = \<lambda>name config. \<lparr>sy_Key = name, sy_Exists = (False, None),
          sy_Value = ([], None), sy_Type = ([], None)\<rparr>\<rparr>"

end
