(* ===== verification/Resources.thy ===== *)
theory Resources
  imports Validate_Value Sys_Iface
begin

text \<open>
  The package resource: the seventeen resource types as records over the fields they share, their
  \<^verbatim>\<open>Validate\<close> methods and the \<^verbatim>\<open>New...\<close> functions that describe an existing system resource. A matcher
  field that is absent from the gossfile is \<^verbatim>\<open>nil\<close>, here \<open>VNil\<close>. A \<^verbatim>\<open>Validate\<close> method returns the
  resource as well, because some fill in a default; \<open>None\<close> as its results is a panic.
\<close>

section \<open>What all resources share\<close>

record res_base =
  rb_id :: string
  rb_Register :: string
  rb_DependsOn :: "string list"
  rb_Title :: string
  rb_Meta :: "(string \<times> val) list option"
  rb_Skip :: bool

definition empty_base :: res_base where
  "empty_base = \<lparr>rb_id = [], rb_Register = [], rb_DependsOn = [], rb_Title = [], rb_Meta = None,
                 rb_Skip = False\<rparr>"

text \<open>\<^verbatim>\<open>ID()\<close> of a resource with an alternative name, and the name it queries.\<close>

definition id_or_alias :: "string \<Rightarrow> string \<Rightarrow> string" where
  "id_or_alias i alias = (if alias \<noteq> [] \<and> alias \<noteq> i then i @ '': '' @ alias else i)"

definition name_or_id :: "string \<Rightarrow> string \<Rightarrow> string" where
  "name_or_id alias i = (if alias \<noteq> [] then alias else i)"

definition info_of :: "'a res_base_scheme \<Rightarrow> string \<Rightarrow> string \<Rightarrow> res_info" where
  "info_of r i ty = \<lparr>ri_id = i, ri_title = rb_Title r, ri_meta = rb_Meta r, ri_type = ty\<rparr>"

text \<open>
  A property to check: its name, the expectation (\<open>None\<close> if computing it panics) and the query.
  \<open>opt_check\<close> is the guard \<^verbatim>\<open>!= nil\<close>, \<open>set_check\<close> the guard \<^verbatim>\<open>isSet\<close>.
\<close>

type_synonym check = "string \<times> val option \<times> getter"

definition opt_check :: "string \<Rightarrow> val \<Rightarrow> getter \<Rightarrow> check list" where
  "opt_check prop e g = (if e \<noteq> VNil then [(prop, Some e, g)] else [])"

definition set_check :: "string \<Rightarrow> val \<Rightarrow> getter \<Rightarrow> check list" where
  "set_check prop e g = (if isSet e then [(prop, Some e, g)] else [])"

definition atoi_check :: "string \<Rightarrow> val \<Rightarrow> getter \<Rightarrow> check list" where
  "atoi_check prop e g = (if e \<noteq> VNil then [(prop, deprecateAtoI e, g)] else [])"

fun run_checks ::
  "ext \<Rightarrow> res_info \<Rightarrow> clock \<Rightarrow> bool \<Rightarrow> check list \<Rightarrow> TestResult list option" where
  "run_checks X ri clk skip [] = Some []"
| "run_checks X ri clk skip ((prop, e, g) # cs) =
     (case e of
        None \<Rightarrow> None
      | Some ev \<Rightarrow>
          (case ValidateValue X ri prop ev g skip clk of
             None \<Rightarrow> None
           | Some r \<Rightarrow> map_option ((#) r) (run_checks X ri clk skip cs)))"

text \<open>
  The common shape of \<^verbatim>\<open>Validate\<close>: one leading property, and the others skipped when
  \<^verbatim>\<open>shouldSkip(results)\<close>.
\<close>

definition guarded_checks ::
  "ext \<Rightarrow> res_info \<Rightarrow> clock \<Rightarrow> bool \<Rightarrow> string \<times> val \<times> getter \<Rightarrow> check list \<Rightarrow>
   TestResult list option" where
  "guarded_checks X ri clk skip first rest =
     (case first of (prop, e, g) \<Rightarrow>
        (case ValidateValue X ri prop e g skip clk of
           None \<Rightarrow> None
         | Some r \<Rightarrow>
             let skip' = (if shouldSkip [r] then True else skip)
             in map_option ((#) r) (run_checks X ri clk skip' rest)))"

abbreviation "gbool q \<equiv> GBool (q_sum q)"
abbreviation "gstring q \<equiv> GString (q_sum q)"
abbreviation "gint q \<equiv> GInt (q_sum q)"
abbreviation "gstrings q \<equiv> GStrings (q_sum q)"
abbreviation "gints q \<equiv> GInts (q_sum q)"
abbreviation "greader q \<equiv> GReader (map_sum id q_sum (q_sum q))"

definition timeout_config :: "int \<Rightarrow> Config" where
  "timeout_config ms = zero_config\<lparr>Timeout := ms * millisecond\<rparr>"

text \<open>
  \<^verbatim>\<open>contains\<close>: some pattern of the ignore list matches the attribute. \<^verbatim>\<open>filepath.Match\<close> is an argument;
  a malformed pattern counts as no match.
\<close>

type_synonym glob = "string \<Rightarrow> string \<Rightarrow> bool"

definition contains :: "glob \<Rightarrow> string list \<Rightarrow> string \<Rightarrow> bool" where
  "contains fmatch a s = list_ex (\<lambda>e. fmatch e s) a"

text \<open>The value a \<^verbatim>\<open>New...\<close> function stores for an attribute that is not ignored and not failing.\<close>

definition attr :: "glob \<Rightarrow> Config \<Rightarrow> string \<Rightarrow> ('a \<Rightarrow> val) \<Rightarrow> 'a query \<Rightarrow> val" where
  "attr fmatch config name mk q =
     (if contains fmatch (IgnoreList config) name then VNil
      else (case snd q of None \<Rightarrow> mk (fst q) | Some _ \<Rightarrow> VNil))"

section \<open>File\<close>

record File = res_base +
  f_Path :: string
  f_Exists :: val
  f_Mode :: val
  f_Size :: val
  f_Owner :: val
  f_Uid :: val
  f_Group :: val
  f_Gid :: val
  f_LinkedTo :: val
  f_Filetype :: val
  f_Contains :: val
  f_Contents :: val
  f_Md5 :: val
  f_Sha256 :: val
  f_Sha512 :: val

definition File_ID :: "File \<Rightarrow> string" where
  "File_ID f = id_or_alias (rb_id f) (f_Path f)"

definition File_GetPath :: "File \<Rightarrow> string" where
  "File_GetPath f = name_or_id (f_Path f) (rb_id f)"

definition File_Validate ::
  "ext \<Rightarrow> System \<Rightarrow> clock \<Rightarrow> File \<Rightarrow> File \<times> TestResult list option" where
  "File_Validate X sys clk f =
     (let sysFile = NewSysFile sys (File_GetPath f) zero_config
      in (f, guarded_checks X (info_of f (File_ID f) ''File'') clk (rb_Skip f)
               (''exists'', f_Exists f, gbool (sf_Exists sysFile))
               (opt_check ''mode'' (f_Mode f) (gstring (sf_Mode sysFile)) @
                opt_check ''owner'' (f_Owner f) (gstring (sf_Owner sysFile)) @
                opt_check ''uid'' (f_Uid f) (gint (sf_Uid sysFile)) @
                opt_check ''group'' (f_Group f) (gstring (sf_Group sysFile)) @
                opt_check ''gid'' (f_Gid f) (gint (sf_Gid sysFile)) @
                opt_check ''linkedto'' (f_LinkedTo f) (gstring (sf_LinkedTo sysFile)) @
                opt_check ''filetype'' (f_Filetype f) (gstring (sf_Filetype sysFile)) @
                set_check ''contains'' (f_Contains f) (greader (sf_Contents sysFile)) @
                set_check ''contents'' (f_Contents f) (greader (sf_Contents sysFile)) @
                opt_check ''size'' (f_Size f) (gint (sf_Size sysFile)) @
                opt_check ''md5'' (f_Md5 f) (gstring (sf_Md5 sysFile)) @
                opt_check ''sha256'' (f_Sha256 f) (gstring (sf_Sha256 sysFile)) @
                opt_check ''sha512'' (f_Sha512 f) (gstring (sf_Sha512 sysFile)))))"

definition zero_File :: File where
  "zero_File = res_base.extend empty_base
     (File.fields [] VNil VNil VNil VNil VNil VNil VNil VNil VNil VNil VNil VNil VNil VNil)"

definition NewFile :: "glob \<Rightarrow> SysFile \<Rightarrow> Config \<Rightarrow> (go_error, File) outcome" where
  "NewFile fmatch sysFile config =
     (case snd (sf_Exists sysFile) of
        Some e \<Rightarrow> Err e
      | None \<Rightarrow>
          Ret (zero_File\<lparr>rb_id := sf_Path sysFile,
                 f_Exists := VBool (fst (sf_Exists sysFile)),
                 f_Contents := VStrs [],
                 f_Mode := attr fmatch config ''mode'' VStr (sf_Mode sysFile),
                 f_Owner := attr fmatch config ''owner'' VStr (sf_Owner sysFile),
                 f_Group := attr fmatch config ''group'' VStr (sf_Group sysFile),
                 f_LinkedTo := attr fmatch config ''linked-to'' VStr (sf_LinkedTo sysFile),
                 f_Filetype := attr fmatch config ''filetype'' VStr (sf_Filetype sysFile)\<rparr>))"

section \<open>Package\<close>

record Package = res_base +
  p_Name :: string
  p_Installed :: val
  p_Versions :: val

definition Package_ID :: "Package \<Rightarrow> string" where
  "Package_ID p = id_or_alias (rb_id p) (p_Name p)"

definition Package_GetName :: "Package \<Rightarrow> string" where
  "Package_GetName p = name_or_id (p_Name p) (rb_id p)"

definition Package_Validate ::
  "ext \<Rightarrow> System \<Rightarrow> clock \<Rightarrow> Package \<Rightarrow> Package \<times> TestResult list option" where
  "Package_Validate X sys clk p =
     (let sysPkg = NewSysPackage sys (Package_GetName p) zero_config
      in (p, guarded_checks X (info_of p (Package_ID p) ''Package'') clk (rb_Skip p)
               (''installed'', p_Installed p, gbool (sp_Installed sysPkg))
               (opt_check ''version'' (p_Versions p) (gstrings (sp_Versions sysPkg)))))"

definition zero_Package :: Package where
  "zero_Package = res_base.extend empty_base (Package.fields [] VNil VNil)"

definition NewPackage :: "glob \<Rightarrow> SysPackage \<Rightarrow> Config \<Rightarrow> (go_error, Package) outcome" where
  "NewPackage fmatch sysPackage config =
     Ret (zero_Package\<lparr>rb_id := sp_Name sysPackage,
            p_Installed := VBool (fst (sp_Installed sysPackage)),
            p_Versions := attr fmatch config ''versions'' VStrs (sp_Versions sysPackage)\<rparr>)"

section \<open>Addr\<close>

record Addr = res_base +
  a_Address :: string
  a_LocalAddress :: string
  a_Reachable :: val
  a_Timeout :: int

definition Addr_ID :: "Addr \<Rightarrow> string" where
  "Addr_ID a = id_or_alias (rb_id a) (a_Address a)"

definition Addr_GetAddress :: "Addr \<Rightarrow> string" where
  "Addr_GetAddress a = name_or_id (a_Address a) (rb_id a)"

definition Addr_Validate ::
  "ext \<Rightarrow> System \<Rightarrow> clock \<Rightarrow> Addr \<Rightarrow> Addr \<times> TestResult list option" where
  "Addr_Validate X sys clk a0 =
     (let a = (if a_Timeout a0 = 0 then a0\<lparr>a_Timeout := 500\<rparr> else a0);
          sysAddr = NewSysAddr sys (Addr_GetAddress a)
                      ((timeout_config (a_Timeout a))\<lparr>LocalAddress := a_LocalAddress a\<rparr>)
      in (a, run_checks X (info_of a (Addr_ID a) ''Addr'') clk (rb_Skip a)
               [(''reachable'', Some (a_Reachable a), gbool (sa_Reachable sysAddr))]))"

definition zero_Addr :: Addr where
  "zero_Addr = res_base.extend empty_base (Addr.fields [] [] VNil 0)"

definition NewAddr :: "glob \<Rightarrow> SysAddr \<Rightarrow> Config \<Rightarrow> (go_error, Addr) outcome" where
  "NewAddr fmatch sysAddr config =
     (case snd (sa_Reachable sysAddr) of
        Some e \<Rightarrow> Err e
      | None \<Rightarrow>
          Ret (zero_Addr\<lparr>rb_id := sa_Address sysAddr,
                 a_Reachable := VBool (fst (sa_Reachable sysAddr)),
                 a_Timeout := TimeOutMilliSeconds config,
                 a_LocalAddress := LocalAddress config\<rparr>))"

section \<open>Port\<close>

record Port = res_base +
  o_Port :: string
  o_Listening :: val
  o_IP :: val
  o_PID :: val

definition Port_ID :: "Port \<Rightarrow> string" where
  "Port_ID p = id_or_alias (rb_id p) (o_Port p)"

definition Port_GetPort :: "Port \<Rightarrow> string" where
  "Port_GetPort p = name_or_id (o_Port p) (rb_id p)"

definition Port_Validate ::
  "ext \<Rightarrow> System \<Rightarrow> clock \<Rightarrow> Port \<Rightarrow> Port \<times> TestResult list option" where
  "Port_Validate X sys clk p =
     (let sysPort = NewSysPort sys (Port_GetPort p) zero_config
      in (p, guarded_checks X (info_of p (Port_ID p) ''Port'') clk (rb_Skip p)
               (''listening'', o_Listening p, gbool (so_Listening sysPort))
               (opt_check ''ip'' (o_IP p) (gstrings (so_IP sysPort)) @
                opt_check ''pid'' (o_PID p) (gints (so_PID sysPort)))))"

definition zero_Port :: Port where
  "zero_Port = res_base.extend empty_base (Port.fields [] VNil VNil VNil)"

definition NewPort :: "glob \<Rightarrow> SysPort \<Rightarrow> Config \<Rightarrow> (go_error, Port) outcome" where
  "NewPort fmatch sysPort config =
     Ret (zero_Port\<lparr>rb_id := so_Port sysPort,
            o_Listening := VBool (fst (so_Listening sysPort)),
            o_IP := attr fmatch config ''ip'' VStrs (so_IP sysPort)\<rparr>)"

section \<open>Service\<close>

record Service = res_base +
  s_Name :: string
  s_Enabled :: val
  s_Running :: val
  s_RunLevels :: val

definition Service_ID :: "Service \<Rightarrow> string" where
  "Service_ID s = id_or_alias (rb_id s) (s_Name s)"

definition Service_GetName :: "Service \<Rightarrow> string" where
  "Service_GetName s = name_or_id (s_Name s) (rb_id s)"

definition Service_Validate ::
  "ext \<Rightarrow> System \<Rightarrow> clock \<Rightarrow> Service \<Rightarrow> Service \<times> TestResult list option" where
  "Service_Validate X sys clk s =
     (let sysservice = NewSysService sys (Service_GetName s) zero_config
      in (s, run_checks X (info_of s (Service_ID s) ''Service'') clk (rb_Skip s)
               (opt_check ''enabled'' (s_Enabled s) (gbool (ss_Enabled sysservice)) @
                opt_check ''running'' (s_Running s) (gbool (ss_Running sysservice)) @
                opt_check ''runlevels'' (s_RunLevels s) (gstrings (ss_RunLevels sysservice)))))"

definition zero_Service :: Service where
  "zero_Service = res_base.extend empty_base (Service.fields [] VNil VNil VNil)"

definition NewService :: "glob \<Rightarrow> SysService \<Rightarrow> Config \<Rightarrow> (go_error, Service) outcome" where
  "NewService fmatch sysService config =
     (case snd (ss_Enabled sysService) of
        Some e \<Rightarrow> Err e
      | None \<Rightarrow>
          (case snd (ss_Running sysService) of
             Some e \<Rightarrow> Err e
           | None \<Rightarrow>
               Ret (zero_Service\<lparr>rb_id := ss_Service sysService,
                      s_Enabled := VBool (fst (ss_Enabled sysService)),
                      s_Running := VBool (fst (ss_Running sysService))\<rparr>)))"

section \<open>User\<close>

record User = res_base +
  u_Username :: string
  u_Exists :: val
  u_UID :: val
  u_GID :: val
  u_Groups :: val
  u_Home :: val
  u_Shell :: val

definition User_ID :: "User \<Rightarrow> string" where
  "User_ID u = id_or_alias (rb_id u) (u_Username u)"

definition User_GetUsername :: "User \<Rightarrow> string" where
  "User_GetUsername u = name_or_id (u_Username u) (rb_id u)"

definition User_Validate ::
  "ext \<Rightarrow> System \<Rightarrow> clock \<Rightarrow> User \<Rightarrow> User \<times> TestResult list option" where
  "User_Validate X sys clk u =
     (let sysuser = NewSysUser sys (User_GetUsername u) zero_config
      in (u, guarded_checks X (info_of u (User_ID u) ''User'') clk (rb_Skip u)
               (''exists'', u_Exists u, gbool (su_Exists sysuser))
               (atoi_check ''uid'' (u_UID u) (gint (su_UID sysuser)) @
                atoi_check ''gid'' (u_GID u) (gint (su_GID sysuser)) @
                opt_check ''home'' (u_Home u) (gstring (su_Home sysuser)) @
                opt_check ''groups'' (u_Groups u) (gstrings (su_Groups sysuser)) @
                opt_check ''shell'' (u_Shell u) (gstring (su_Shell sysuser)))))"

definition zero_User :: User where
  "zero_User = res_base.extend empty_base (User.fields [] VNil VNil VNil VNil VNil VNil)"

definition NewUser :: "glob \<Rightarrow> SysUser \<Rightarrow> Config \<Rightarrow> (go_error, User) outcome" where
  "NewUser fmatch sysUser config =
     Ret (zero_User\<lparr>rb_id := su_Username sysUser,
            u_Exists := VBool (fst (su_Exists sysUser)),
            u_UID := attr fmatch config ''uid'' VInt (su_UID sysUser),
            u_GID := attr fmatch config ''gid'' VInt (su_GID sysUser),
            u_Groups := attr fmatch config ''groups'' VStrs (su_Groups sysUser),
            u_Home := attr fmatch config ''home'' VStr (su_Home sysUser),
            u_Shell := attr fmatch config ''shell'' VStr (su_Shell sysUser)\<rparr>)"

section \<open>Group\<close>

record Group = res_base +
  g_Groupname :: string
  g_Exists :: val
  g_GID :: val

definition Group_ID :: "Group \<Rightarrow> string" where
  "Group_ID g = id_or_alias (rb_id g) (g_Groupname g)"

definition Group_GetGroupname :: "Group \<Rightarrow> string" where
  "Group_GetGroupname g = name_or_id (g_Groupname g) (rb_id g)"

definition Group_Validate ::
  "ext \<Rightarrow> System \<Rightarrow> clock \<Rightarrow> Group \<Rightarrow> Group \<times> TestResult list option" where
  "Group_Validate X sys clk g =
     (let sysgroup = NewSysGroup sys (Group_GetGroupname g) zero_config
      in (g, guarded_checks X (info_of g (Group_ID g) ''Group'') clk (rb_Skip g)
               (''exists'', g_Exists g, gbool (sg_Exists sysgroup))
               (atoi_check ''gid'' (g_GID g) (gint (sg_GID sysgroup)))))"

definition zero_Group :: Group where
  "zero_Group = res_base.extend empty_base (Group.fields [] VNil VNil)"

text \<open>The code looks for the attribute \<^verbatim>\<open>stderr\<close> in the ignore list here, not \<^verbatim>\<open>gid\<close>.\<close>

definition NewGroup :: "glob \<Rightarrow> SysGroup \<Rightarrow> Config \<Rightarrow> (go_error, Group) outcome" where
  "NewGroup fmatch sysGroup config =
     Ret (zero_Group\<lparr>rb_id := sg_Groupname sysGroup,
            g_Exists := VBool (fst (sg_Exists sysGroup)),
            g_GID := attr fmatch config ''stderr'' VInt (sg_GID sysGroup)\<rparr>)"

section \<open>Command\<close>

record Command = res_base +
  c_Exec :: string
  c_ExitStatus :: val
  c_Stdout :: val
  c_Stderr :: val
  c_Timeout :: int

definition Command_ID :: "Command \<Rightarrow> string" where
  "Command_ID c = rb_id c"

definition Command_GetExec :: "Command \<Rightarrow> string" where
  "Command_GetExec c = name_or_id (c_Exec c) (rb_id c)"

definition Command_Validate ::
  "ext \<Rightarrow> System \<Rightarrow> clock \<Rightarrow> Command \<Rightarrow> Command \<times> TestResult list option" where
  "Command_Validate X sys clk c0 =
     (let c = (if c_Timeout c0 = 0 then c0\<lparr>c_Timeout := 10000\<rparr> else c0);
          sysCommand = NewSysCommand sys (Command_GetExec c) (timeout_config (c_Timeout c));
          reader = (\<lambda>q. GReader (map_sum id Inr (q_sum q)))
      in (c, run_checks X (info_of c (Command_ID c) ''Command'') clk (rb_Skip c)
               ((''exit-status'', deprecateAtoI (c_ExitStatus c), gint (sc_ExitStatus sysCommand)) #
                set_check ''stdout'' (c_Stdout c) (reader (sc_Stdout sysCommand)) @
                set_check ''stderr'' (c_Stderr c) (reader (sc_Stderr sysCommand)))))"

definition zero_Command :: Command where
  "zero_Command = res_base.extend empty_base (Command.fields [] VNil VNil VNil 0)"

definition output_attr :: "glob \<Rightarrow> Config \<Rightarrow> string \<Rightarrow> string query \<Rightarrow> val" where
  "output_attr fmatch config name q =
     (if contains fmatch (IgnoreList config) name then VStr []
      else let outSlice = readerToSlice (fst q)
           in if outSlice \<noteq> [] then VStrs outSlice else VStr [])"

definition NewCommand :: "glob \<Rightarrow> SysCommand \<Rightarrow> Config \<Rightarrow> (go_error, Command) outcome" where
  "NewCommand fmatch sysCommand config =
     (case snd (sc_ExitStatus sysCommand) of
        Some e \<Rightarrow> Err e
      | None \<Rightarrow>
          Ret (zero_Command\<lparr>rb_id := sc_Command sysCommand,
                 c_ExitStatus := VInt (fst (sc_ExitStatus sysCommand)),
                 c_Stdout := output_attr fmatch config ''stdout'' (sc_Stdout sysCommand),
                 c_Stderr := output_attr fmatch config ''stderr'' (sc_Stderr sysCommand),
                 c_Timeout := TimeOutMilliSeconds config\<rparr>))"

section \<open>DNS\<close>

record DNS = res_base +
  d_Resolve :: string
  d_Resolveable :: val
  d_Resolvable :: val
  d_Addrs :: val
  d_Timeout :: int
  d_Server :: string

definition DNS_ID :: "DNS \<Rightarrow> string" where
  "DNS_ID d = id_or_alias (rb_id d) (d_Resolve d)"

definition DNS_GetResolve :: "DNS \<Rightarrow> string" where
  "DNS_GetResolve d = name_or_id (d_Resolve d) (rb_id d)"

definition DNS_Validate ::
  "ext \<Rightarrow> System \<Rightarrow> clock \<Rightarrow> DNS \<Rightarrow> DNS \<times> TestResult list option" where
  "DNS_Validate X sys clk d0 =
     (let d1 = (if d_Timeout d0 = 0 then d0\<lparr>d_Timeout := 500\<rparr> else d0);
          sysDNS = NewSysDNS sys (DNS_GetResolve d1)
                     ((timeout_config (d_Timeout d1))\<lparr>Server := d_Server d1\<rparr>);
          d = (if d_Resolvable d1 = VNil then d1\<lparr>d_Resolvable := d_Resolveable d1\<rparr> else d1)
      in (d, guarded_checks X (info_of d (DNS_ID d) ''DNS'') clk (rb_Skip d)
               (''resolvable'', d_Resolvable d, gbool (sd_Resolvable sysDNS))
               (opt_check ''addrs'' (d_Addrs d) (gstrings (sd_Addrs sysDNS)))))"

definition zero_DNS :: DNS where
  "zero_DNS = res_base.extend empty_base (DNS.fields [] VNil VNil VNil 0 [])"

definition NewDNS :: "glob \<Rightarrow> SysDNS \<Rightarrow> Config \<Rightarrow> (go_error, DNS) outcome" where
  "NewDNS fmatch sysDNS config =
     (let host = (if sd_Qtype sysDNS \<noteq> [] then join '':'' [sd_Qtype sysDNS, sd_Host sysDNS]
                  else sd_Host sysDNS)
      in (case snd (sd_Resolvable sysDNS) of
            Some e \<Rightarrow> Err e
          | None \<Rightarrow>
              Ret (zero_DNS\<lparr>rb_id := host,
                     d_Resolvable := VBool (fst (sd_Resolvable sysDNS)),
                     d_Timeout := TimeOutMilliSeconds config,
                     d_Server := sd_Server sysDNS,
                     d_Addrs := (if contains fmatch (IgnoreList config) ''addrs'' then VNil
                                 else VStrs (fst (sd_Addrs sysDNS)))\<rparr>)))"

section \<open>Process\<close>

record Process = res_base +
  r_Comm :: string
  r_Running :: val
  r_Status :: val
  r_User :: val

definition Process_ID :: "Process \<Rightarrow> string" where
  "Process_ID p = id_or_alias (rb_id p) (r_Comm p)"

definition Process_GetComm :: "Process \<Rightarrow> string" where
  "Process_GetComm p = name_or_id (r_Comm p) (rb_id p)"

definition Process_Validate ::
  "ext \<Rightarrow> System \<Rightarrow> clock \<Rightarrow> Process \<Rightarrow> Process \<times> TestResult list option" where
  "Process_Validate X sys clk p =
     (let sysProcess = NewSysProcess sys (Process_GetComm p) zero_config
      in (p, guarded_checks X (info_of p (Process_ID p) ''Process'') clk (rb_Skip p)
               (''running'', r_Running p, gbool (sr_Running sysProcess))
               (opt_check ''status'' (r_Status p) (gstrings (sr_Status sysProcess)) @
                opt_check ''user'' (r_User p) (gstrings (sr_User sysProcess)))))"

definition zero_Process :: Process where
  "zero_Process = res_base.extend empty_base (Process.fields [] VNil VNil VNil)"

definition NewProcess :: "glob \<Rightarrow> SysProcess \<Rightarrow> Config \<Rightarrow> (go_error, Process) outcome" where
  "NewProcess fmatch sysProcess config =
     (case snd (sr_Running sysProcess) of
        Some e \<Rightarrow> Err e
      | None \<Rightarrow>
          Ret (zero_Process\<lparr>rb_id := sr_Executable sysProcess,
                 r_Running := VBool (fst (sr_Running sysProcess)),
                 r_Status := attr fmatch config ''status'' VStrs (sr_Status sysProcess),
                 r_User := attr fmatch config ''user'' VStrs (sr_User sysProcess)\<rparr>))"

section \<open>KernelParam\<close>

record KernelParam = res_base +
  k_Name :: string
  k_Key :: string
  k_Value :: val

definition KernelParam_ID :: "KernelParam \<Rightarrow> string" where
  "KernelParam_ID k = id_or_alias (rb_id k) (k_Name k)"

definition KernelParam_GetName :: "KernelParam \<Rightarrow> string" where
  "KernelParam_GetName k = name_or_id (k_Name k) (rb_id k)"

definition KernelParam_Validate ::
  "ext \<Rightarrow> System \<Rightarrow> clock \<Rightarrow> KernelParam \<Rightarrow> KernelParam \<times> TestResult list option" where
  "KernelParam_Validate X sys clk k =
     (let sysKernelParam = NewSysKernelParam sys (KernelParam_GetName k) zero_config
      in (k, run_checks X (info_of k (KernelParam_ID k) ''KernelParam'') clk (rb_Skip k)
               [(''value'', Some (k_Value k), gstring (sk_Value sysKernelParam))]))"

definition zero_KernelParam :: KernelParam where
  "zero_KernelParam = res_base.extend empty_base (KernelParam.fields [] [] VNil)"

definition NewKernelParam ::
  "glob \<Rightarrow> SysKernelParam \<Rightarrow> Config \<Rightarrow> (go_error, KernelParam) outcome" where
  "NewKernelParam fmatch sysKernelParam config =
     (case snd (sk_Value sysKernelParam) of
        Some e \<Rightarrow> Err e
      | None \<Rightarrow> Ret (zero_KernelParam\<lparr>rb_id := sk_Key sysKernelParam,
                       k_Value := VStr (fst (sk_Value sysKernelParam))\<rparr>))"

section \<open>Mount\<close>

record Mount = res_base +
  m_MountPoint :: string
  m_Exists :: val
  m_Opts :: val
  m_VfsOpts :: val
  m_Source :: val
  m_Filesystem :: val
  m_Timeout :: int
  m_Usage :: val

definition Mount_ID :: "Mount \<Rightarrow> string" where
  "Mount_ID m = id_or_alias (rb_id m) (m_MountPoint m)"

definition Mount_GetMountPoint :: "Mount \<Rightarrow> string" where
  "Mount_GetMountPoint m = name_or_id (m_MountPoint m) (rb_id m)"

definition Mount_Validate ::
  "ext \<Rightarrow> System \<Rightarrow> clock \<Rightarrow> Mount \<Rightarrow> Mount \<times> TestResult list option" where
  "Mount_Validate X sys clk m0 =
     (let m = (if m_Timeout m0 = 0 then m0\<lparr>m_Timeout := 1000\<rparr> else m0);
          sysMount = NewSysMount sys (Mount_GetMountPoint m) (timeout_config (m_Timeout m))
      in (m, guarded_checks X (info_of m (Mount_ID m) ''Mount'') clk (rb_Skip m)
               (''exists'', m_Exists m, gbool (sm_Exists sysMount))
               (opt_check ''opts'' (m_Opts m) (gstrings (sm_Opts sysMount)) @
                opt_check ''vfs-opts'' (m_VfsOpts m) (gstrings (sm_VfsOpts sysMount)) @
                opt_check ''source'' (m_Source m) (gstring (sm_Source sysMount)) @
                opt_check ''filesystem'' (m_Filesystem m) (gstring (sm_Filesystem sysMount)) @
                opt_check ''usage'' (m_Usage m) (gint (sm_Usage sysMount)))))"

definition zero_Mount :: Mount where
  "zero_Mount = res_base.extend empty_base (Mount.fields [] VNil VNil VNil VNil VNil 0 VNil)"

definition NewMount :: "glob \<Rightarrow> SysMount \<Rightarrow> Config \<Rightarrow> (go_error, Mount) outcome" where
  "NewMount fmatch sysMount config =
     Ret (zero_Mount\<lparr>rb_id := sm_MountPoint sysMount,
            m_Exists := VBool (fst (sm_Exists sysMount)),
            m_Timeout := TimeOutMilliSeconds config,
            m_Opts := attr fmatch config ''opts'' VStrs (sm_Opts sysMount),
            m_VfsOpts := attr fmatch config ''vfs-opts'' VStrs (sm_VfsOpts sysMount),
            m_Source := attr fmatch config ''source'' VStr (sm_Source sysMount),
            m_Filesystem := attr fmatch config ''filesystem'' VStr (sm_Filesystem sysMount)\<rparr>)"

section \<open>Interface\<close>

record Interface = res_base +
  i_Name :: string
  i_Exists :: val
  i_Addrs :: val
  i_MTU :: val

definition Interface_ID :: "Interface \<Rightarrow> string" where
  "Interface_ID i = id_or_alias (rb_id i) (i_Name i)"

definition Interface_GetName :: "Interface \<Rightarrow> string" where
  "Interface_GetName i = name_or_id (i_Name i) (rb_id i)"

definition Interface_Validate ::
  "ext \<Rightarrow> System \<Rightarrow> clock \<Rightarrow> Interface \<Rightarrow> Interface \<times> TestResult list option" where
  "Interface_Validate X sys clk i =
     (let sysInterface = NewSysInterface sys (Interface_GetName i) zero_config
      in (i, guarded_checks X (info_of i (Interface_ID i) ''Interface'') clk (rb_Skip i)
               (''exists'', i_Exists i, gbool (si_Exists sysInterface))
               (opt_check ''addrs'' (i_Addrs i) (gstrings (si_Addrs sysInterface)) @
                opt_check ''mtu'' (i_MTU i) (gint (si_MTU sysInterface)))))"

definition zero_Interface :: Interface where
  "zero_Interface = res_base.extend empty_base (Interface.fields [] VNil VNil VNil)"

definition NewInterface ::
  "glob \<Rightarrow> SysInterface \<Rightarrow> Config \<Rightarrow> (go_error, Interface) outcome" where
  "NewInterface fmatch sysInterface config =
     Ret (zero_Interface\<lparr>rb_id := si_Name sysInterface,
            i_Exists := VBool (fst (si_Exists sysInterface)),
            i_Addrs := attr fmatch config ''addrs'' VStrs (si_Addrs sysInterface),
            i_MTU := attr fmatch config ''mtu'' VInt (si_MTU sysInterface)\<rparr>)"

section \<open>HTTP\<close>

record HTTP = res_base +
  h_URL :: string
  h_Method :: string
  h_Status :: val
  h_AllowInsecure :: bool
  h_NoFollowRedirects :: bool
  h_Timeout :: int
  h_RequestHeader :: "string list"
  h_RequestQueryParams :: "(string \<times> string list) list"
  h_RequestBody :: string
  h_Headers :: val
  h_Body :: val
  h_Username :: string
  h_Password :: string
  h_CAFile :: string
  h_CertFile :: string
  h_KeyFile :: string
  h_Proxy :: string

definition HTTP_ID :: "HTTP \<Rightarrow> string" where
  "HTTP_ID h = id_or_alias (rb_id h) (h_URL h)"

definition HTTP_getURL :: "HTTP \<Rightarrow> string" where
  "HTTP_getURL h = name_or_id (h_URL h) (rb_id h)"

text \<open>
  \<^verbatim>\<open>SetAllowInsecure\<close> and \<^verbatim>\<open>SetNoFollowRedirects\<close> store again what the configuration already carries;
  closing the response body has no result.
\<close>

definition HTTP_config :: "HTTP \<Rightarrow> Config" where
  "HTTP_config u =
     (timeout_config (h_Timeout u))
       \<lparr>AllowInsecure := h_AllowInsecure u, CAFile := h_CAFile u, CertFile := h_CertFile u,
        KeyFile := h_KeyFile u, NoFollowRedirects := h_NoFollowRedirects u,
        Username := h_Username u, Password := h_Password u, Proxy := h_Proxy u,
        RequestHeader := h_RequestHeader u, RequestBody := h_RequestBody u,
        RequestQueryParams := h_RequestQueryParams u, Method := h_Method u\<rparr>"

definition HTTP_Validate ::
  "ext \<Rightarrow> System \<Rightarrow> clock \<Rightarrow> HTTP \<Rightarrow> HTTP \<times> TestResult list option" where
  "HTTP_Validate X sys clk u0 =
     (let u = (if h_Timeout u0 = 0 then u0\<lparr>h_Timeout := 5000\<rparr> else u0);
          sysHTTP = NewSysHTTP sys (HTTP_getURL u) (HTTP_config u)
      in (u, guarded_checks X (info_of u (HTTP_ID u) ''HTTP'') clk (rb_Skip u)
               (''status'', h_Status u, gint (sh_Status sysHTTP))
               (set_check ''Headers'' (h_Headers u) (greader (sh_Headers sysHTTP)) @
                set_check ''Body'' (h_Body u) (greader (sh_Body sysHTTP)))))"

definition zero_HTTP :: HTTP where
  "zero_HTTP = res_base.extend empty_base
     (HTTP.fields [] [] VNil False False 0 [] [] [] VNil VNil [] [] [] [] [] [])"

definition NewHTTP :: "glob \<Rightarrow> SysHTTP \<Rightarrow> Config \<Rightarrow> (go_error, HTTP) outcome" where
  "NewHTTP fmatch sysHTTP config =
     (case snd (sh_Status sysHTTP) of
        Some e \<Rightarrow> Err e
      | None \<Rightarrow>
          Ret (zero_HTTP\<lparr>rb_id := sh_HTTP sysHTTP,
                 h_Status := VInt (fst (sh_Status sysHTTP)),
                 h_Body := VStrs [],
                 h_AllowInsecure := AllowInsecure config,
                 h_NoFollowRedirects := NoFollowRedirects config,
                 h_Timeout := TimeOutMilliSeconds config,
                 h_Username := Username config,
                 h_Password := Password config,
                 h_Proxy := Proxy config\<rparr>))"

section \<open>Matching\<close>

record Matching = res_base +
  x_Content :: val
  x_AsReader :: bool
  x_Matches :: val

definition Matching_Validate ::
  "ext \<Rightarrow> System \<Rightarrow> clock \<Rightarrow> Matching \<Rightarrow> Matching \<times> TestResult list option" where
  "Matching_Validate X sys clk a =
     (let stub = (if x_AsReader a then GReader (Inr (Inr (sprint_val X (x_Content a))))
                  else GAny (Inr (x_Content a)))
      in (a, run_checks X (info_of a (rb_id a) ''Matching'') clk (rb_Skip a)
               [(''matches'', Some (x_Matches a), stub)]))"

section \<open>Registry\<close>

record Registry = res_base +
  y_Name :: string
  y_Exists :: val
  y_Value :: val
  y_Type :: val

definition Registry_ID :: "Registry \<Rightarrow> string" where
  "Registry_ID r = id_or_alias (rb_id r) (y_Name r)"

definition Registry_GetName :: "Registry \<Rightarrow> string" where
  "Registry_GetName r = name_or_id (y_Name r) (rb_id r)"

definition Registry_Validate ::
  "ext \<Rightarrow> System \<Rightarrow> clock \<Rightarrow> Registry \<Rightarrow> Registry \<times> TestResult list option" where
  "Registry_Validate X sys clk r =
     (let sysRegistry = NewSysRegistry sys (Registry_GetName r) zero_config
      in (r, guarded_checks X (info_of r (Registry_ID r) ''Registry'') clk (rb_Skip r)
               (''exists'', y_Exists r, gbool (sy_Exists sysRegistry))
               (opt_check ''value'' (y_Value r) (gstring (sy_Value sysRegistry)) @
                opt_check ''type'' (y_Type r) (gstring (sy_Type sysRegistry)))))"

definition zero_Registry :: Registry where
  "zero_Registry = res_base.extend empty_base (Registry.fields [] VNil VNil VNil)"

definition NewRegistry :: "glob \<Rightarrow> SysRegistry \<Rightarrow> Config \<Rightarrow> (go_error, Registry) outcome" where
  "NewRegistry fmatch sysRegistry config =
     (let exists = fst (sy_Exists sysRegistry);
          r = zero_Registry\<lparr>rb_id := sy_Key sysRegistry, y_Exists := VBool exists\<rparr>
      in if \<not> exists then Ret r
         else (case snd (sy_Value sysRegistry) of
                 Some e \<Rightarrow> Err e
               | None \<Rightarrow>
                   (case snd (sy_Type sysRegistry) of
                      Some e \<Rightarrow> Err e
                    | None \<Rightarrow> Ret (r\<lparr>y_Value := VStr (fst (sy_Value sysRegistry)),
                                     y_Type := VStr (fst (sy_Type sysRegistry))\<rparr>))))"

section \<open>Gossfile\<close>

text \<open>A gossfile entry keeps its map key in \<^verbatim>\<open>Path\<close>; the model stores it in \<open>rb_id\<close> like the others.\<close>

record Gossfile = res_base +
  q_File :: string

definition Gossfile_GetGossfile :: "Gossfile \<Rightarrow> string" where
  "Gossfile_GetGossfile g = name_or_id (q_File g) (rb_id g)"

definition Gossfile_Validate ::
  "ext \<Rightarrow> System \<Rightarrow> clock \<Rightarrow> Gossfile \<Rightarrow> Gossfile \<times> TestResult list option" where
  "Gossfile_Validate X sys clk g = (g, Some [])"

definition NewGossfile :: "glob \<Rightarrow> SysGossfile \<Rightarrow> Config \<Rightarrow> (go_error, Gossfile) outcome" where
  "NewGossfile fmatch sysGossfile config =
     Ret (res_base.extend (empty_base\<lparr>rb_id := sq_Path sysGossfile\<rparr>) (Gossfile.fields []))"

end
