(* ===== verification/Resource_Types.thy ===== *)
theory Resource_Types
  imports Resources
begin

text \<open>
  The interface \<^verbatim>\<open>Resource\<close> of resource/resource.go with resource/key.go and resource/discovery_meta.go:
  a resource of any of the seventeen types, its type key and name, its reference, and the dispatch of
  \<^verbatim>\<open>SetID\<close>, \<^verbatim>\<open>SetSkip\<close> and \<^verbatim>\<open>Validate\<close>. The locale \<open>resource_type\<close> is what the callers of \<^verbatim>\<open>Validate\<close>
  rely on; every type, and the whole interface, is an instance.
\<close>

section \<open>The interface\<close>

datatype resource =
    RFile File
  | RPackage Package
  | RAddr Addr
  | RPort Port
  | RService Service
  | RUser User
  | RGroup Group
  | RCommand Command
  | RDNS DNS
  | RProcess Process
  | RGossfile Gossfile
  | RKernelParam KernelParam
  | RMount Mount
  | RInterface Interface
  | RHTTP HTTP
  | RRegistry Registry
  | RMatching Matching

fun res_base_of :: "resource \<Rightarrow> res_base" where
  "res_base_of (RFile r) = res_base.truncate r"
| "res_base_of (RPackage r) = res_base.truncate r"
| "res_base_of (RAddr r) = res_base.truncate r"
| "res_base_of (RPort r) = res_base.truncate r"
| "res_base_of (RService r) = res_base.truncate r"
| "res_base_of (RUser r) = res_base.truncate r"
| "res_base_of (RGroup r) = res_base.truncate r"
| "res_base_of (RCommand r) = res_base.truncate r"
| "res_base_of (RDNS r) = res_base.truncate r"
| "res_base_of (RProcess r) = res_base.truncate r"
| "res_base_of (RGossfile r) = res_base.truncate r"
| "res_base_of (RKernelParam r) = res_base.truncate r"
| "res_base_of (RMount r) = res_base.truncate r"
| "res_base_of (RInterface r) = res_base.truncate r"
| "res_base_of (RHTTP r) = res_base.truncate r"
| "res_base_of (RRegistry r) = res_base.truncate r"
| "res_base_of (RMatching r) = res_base.truncate r"

fun TypeKey :: "resource \<Rightarrow> string" where
  "TypeKey (RFile r) = ''file''"
| "TypeKey (RPackage r) = ''package''"
| "TypeKey (RAddr r) = ''addr''"
| "TypeKey (RPort r) = ''port''"
| "TypeKey (RService r) = ''service''"
| "TypeKey (RUser r) = ''user''"
| "TypeKey (RGroup r) = ''group''"
| "TypeKey (RCommand r) = ''command''"
| "TypeKey (RDNS r) = ''dns''"
| "TypeKey (RProcess r) = ''process''"
| "TypeKey (RGossfile r) = ''gossfile''"
| "TypeKey (RKernelParam r) = ''kernel-param''"
| "TypeKey (RMount r) = ''mount''"
| "TypeKey (RInterface r) = ''interface''"
| "TypeKey (RHTTP r) = ''http''"
| "TypeKey (RRegistry r) = ''registry''"
| "TypeKey (RMatching r) = ''mount''"

fun TypeName :: "resource \<Rightarrow> string" where
  "TypeName (RFile r) = ''File''"
| "TypeName (RPackage r) = ''Package''"
| "TypeName (RAddr r) = ''Addr''"
| "TypeName (RPort r) = ''Port''"
| "TypeName (RService r) = ''Service''"
| "TypeName (RUser r) = ''User''"
| "TypeName (RGroup r) = ''Group''"
| "TypeName (RCommand r) = ''Command''"
| "TypeName (RDNS r) = ''DNS''"
| "TypeName (RProcess r) = ''Process''"
| "TypeName (RGossfile r) = ''Gossfile''"
| "TypeName (RKernelParam r) = ''KernelParam''"
| "TypeName (RMount r) = ''Mount''"
| "TypeName (RInterface r) = ''Interface''"
| "TypeName (RHTTP r) = ''HTTP''"
| "TypeName (RRegistry r) = ''Registry''"
| "TypeName (RMatching r) = ''Mount''"

fun SetID :: "string \<Rightarrow> resource \<Rightarrow> resource" where
  "SetID i (RFile r) = RFile (r\<lparr>rb_id := i\<rparr>)"
| "SetID i (RPackage r) = RPackage (r\<lparr>rb_id := i\<rparr>)"
| "SetID i (RAddr r) = RAddr (r\<lparr>rb_id := i\<rparr>)"
| "SetID i (RPort r) = RPort (r\<lparr>rb_id := i\<rparr>)"
| "SetID i (RService r) = RService (r\<lparr>rb_id := i\<rparr>)"
| "SetID i (RUser r) = RUser (r\<lparr>rb_id := i\<rparr>)"
| "SetID i (RGroup r) = RGroup (r\<lparr>rb_id := i\<rparr>)"
| "SetID i (RCommand r) = RCommand (r\<lparr>rb_id := i\<rparr>)"
| "SetID i (RDNS r) = RDNS (r\<lparr>rb_id := i\<rparr>)"
| "SetID i (RProcess r) = RProcess (r\<lparr>rb_id := i\<rparr>)"
| "SetID i (RGossfile r) = RGossfile (r\<lparr>rb_id := i\<rparr>)"
| "SetID i (RKernelParam r) = RKernelParam (r\<lparr>rb_id := i\<rparr>)"
| "SetID i (RMount r) = RMount (r\<lparr>rb_id := i\<rparr>)"
| "SetID i (RInterface r) = RInterface (r\<lparr>rb_id := i\<rparr>)"
| "SetID i (RHTTP r) = RHTTP (r\<lparr>rb_id := i\<rparr>)"
| "SetID i (RRegistry r) = RRegistry (r\<lparr>rb_id := i\<rparr>)"
| "SetID i (RMatching r) = RMatching (r\<lparr>rb_id := i\<rparr>)"

fun SetSkip :: "resource \<Rightarrow> resource" where
  "SetSkip (RFile r) = RFile (r\<lparr>rb_Skip := True\<rparr>)"
| "SetSkip (RPackage r) = RPackage (r\<lparr>rb_Skip := True\<rparr>)"
| "SetSkip (RAddr r) = RAddr (r\<lparr>rb_Skip := True\<rparr>)"
| "SetSkip (RPort r) = RPort (r\<lparr>rb_Skip := True\<rparr>)"
| "SetSkip (RService r) = RService (r\<lparr>rb_Skip := True\<rparr>)"
| "SetSkip (RUser r) = RUser (r\<lparr>rb_Skip := True\<rparr>)"
| "SetSkip (RGroup r) = RGroup (r\<lparr>rb_Skip := True\<rparr>)"
| "SetSkip (RCommand r) = RCommand (r\<lparr>rb_Skip := True\<rparr>)"
| "SetSkip (RDNS r) = RDNS (r\<lparr>rb_Skip := True\<rparr>)"
| "SetSkip (RProcess r) = RProcess (r\<lparr>rb_Skip := True\<rparr>)"
| "SetSkip (RGossfile r) = RGossfile r"
| "SetSkip (RKernelParam r) = RKernelParam (r\<lparr>rb_Skip := True\<rparr>)"
| "SetSkip (RMount r) = RMount (r\<lparr>rb_Skip := True\<rparr>)"
| "SetSkip (RInterface r) = RInterface (r\<lparr>rb_Skip := True\<rparr>)"
| "SetSkip (RHTTP r) = RHTTP (r\<lparr>rb_Skip := True\<rparr>)"
| "SetSkip (RRegistry r) = RRegistry (r\<lparr>rb_Skip := True\<rparr>)"
| "SetSkip (RMatching r) = RMatching r"

fun ID :: "resource \<Rightarrow> string" where
  "ID (RFile r) = File_ID r"
| "ID (RPackage r) = Package_ID r"
| "ID (RAddr r) = Addr_ID r"
| "ID (RPort r) = Port_ID r"
| "ID (RService r) = Service_ID r"
| "ID (RUser r) = User_ID r"
| "ID (RGroup r) = Group_ID r"
| "ID (RCommand r) = Command_ID r"
| "ID (RDNS r) = DNS_ID r"
| "ID (RProcess r) = Process_ID r"
| "ID (RGossfile r) = rb_id r"
| "ID (RKernelParam r) = KernelParam_ID r"
| "ID (RMount r) = Mount_ID r"
| "ID (RInterface r) = Interface_ID r"
| "ID (RHTTP r) = HTTP_ID r"
| "ID (RRegistry r) = Registry_ID r"
| "ID (RMatching r) = rb_id r"

fun Validate :: "ext \<Rightarrow> System \<Rightarrow> clock \<Rightarrow> resource \<Rightarrow> resource \<times> TestResult list option" where
  "Validate X sys clk (RFile r) = map_prod RFile id (File_Validate X sys clk r)"
| "Validate X sys clk (RPackage r) = map_prod RPackage id (Package_Validate X sys clk r)"
| "Validate X sys clk (RAddr r) = map_prod RAddr id (Addr_Validate X sys clk r)"
| "Validate X sys clk (RPort r) = map_prod RPort id (Port_Validate X sys clk r)"
| "Validate X sys clk (RService r) = map_prod RService id (Service_Validate X sys clk r)"
| "Validate X sys clk (RUser r) = map_prod RUser id (User_Validate X sys clk r)"
| "Validate X sys clk (RGroup r) = map_prod RGroup id (Group_Validate X sys clk r)"
| "Validate X sys clk (RCommand r) = map_prod RCommand id (Command_Validate X sys clk r)"
| "Validate X sys clk (RDNS r) = map_prod RDNS id (DNS_Validate X sys clk r)"
| "Validate X sys clk (RProcess r) = map_prod RProcess id (Process_Validate X sys clk r)"
| "Validate X sys clk (RGossfile r) = map_prod RGossfile id (Gossfile_Validate X sys clk r)"
| "Validate X sys clk (RKernelParam r) = map_prod RKernelParam id (KernelParam_Validate X sys clk r)"
| "Validate X sys clk (RMount r) = map_prod RMount id (Mount_Validate X sys clk r)"
| "Validate X sys clk (RInterface r) = map_prod RInterface id (Interface_Validate X sys clk r)"
| "Validate X sys clk (RHTTP r) = map_prod RHTTP id (HTTP_Validate X sys clk r)"
| "Validate X sys clk (RRegistry r) = map_prod RRegistry id (Registry_Validate X sys clk r)"
| "Validate X sys clk (RMatching r) = map_prod RMatching id (Matching_Validate X sys clk r)"

definition GetRegister :: "resource \<Rightarrow> string" where
  "GetRegister res = rb_Register (res_base_of res)"

definition GetDependsOn :: "resource \<Rightarrow> string list" where
  "GetDependsOn res = rb_DependsOn (res_base_of res)"

text \<open>
  \<^verbatim>\<open>YAMLKey\<close> reads the field \<^verbatim>\<open>id\<close>, or \<^verbatim>\<open>ID()\<close> of a gossfile entry, which is its \<^verbatim>\<open>Path\<close>.
\<close>

definition YAMLKey :: "resource \<Rightarrow> string" where
  "YAMLKey res = rb_id (res_base_of res)"

definition Ref :: "resource \<Rightarrow> string" where
  "Ref res = TypeKey res @ '':'' @ YAMLKey res"

definition resource_info :: "resource \<Rightarrow> res_info" where
  "resource_info res =
     \<lparr>ri_id = ID res, ri_title = rb_Title (res_base_of res), ri_meta = rb_Meta (res_base_of res),
      ri_type = TypeName res\<rparr>"

section \<open>The contract of a resource type\<close>

text \<open>A run of the checks yields well-formed results, all skipped when \<^verbatim>\<open>skip\<close> is set.\<close>

lemma run_checks_wf:
  assumes "gomega_ok X" and "run_checks X ri clk skip cs = Some rs" and "x \<in> set rs"
  shows "wf_result x \<and> ResourceId x = ri_id ri"
  using assms(2,3)
proof (induction cs arbitrary: rs)
  case (Cons c cs)
  then show ?case
    by (cases c) (auto simp: ValidateValue_def
        dest: ValidateGomegaValue_wf[OF assms(1)] ValidateValue_prop[unfolded ValidateValue_def]
        split: option.splits)
qed simp

lemma run_checks_skip:
  "run_checks X ri clk True cs = Some rs \<Longrightarrow> x \<in> set rs \<Longrightarrow> Result x = SKIP"
proof (induction cs arbitrary: rs)
  case (Cons c cs)
  then show ?case by (cases c) (auto split: option.splits)
qed simp

lemma run_checks_props:
  "run_checks X ri clk skip cs = Some rs \<Longrightarrow> map Property rs = map fst cs"
proof (induction cs arbitrary: rs)
  case (Cons c cs)
  then show ?case by (cases c) (auto dest: ValidateValue_prop split: option.splits)
qed simp

lemma guarded_checks_wf:
  assumes "gomega_ok X" and "guarded_checks X ri clk skip first rest = Some rs" and "x \<in> set rs"
  shows "wf_result x \<and> ResourceId x = ri_id ri"
  using assms(2,3)
  by (auto simp: guarded_checks_def ValidateValue_def Let_def
      dest: ValidateGomegaValue_wf[OF assms(1)] ValidateValue_prop[unfolded ValidateValue_def]
        run_checks_wf[OF assms(1)]
      split: option.splits prod.splits)

lemma guarded_checks_skip:
  "guarded_checks X ri clk True first rest = Some rs \<Longrightarrow> x \<in> set rs \<Longrightarrow> Result x = SKIP"
  by (auto simp: guarded_checks_def Let_def dest: run_checks_skip
      split: option.splits prod.splits if_splits)

text \<open>The other properties are skipped once the leading one has not been found to hold.\<close>

lemma guarded_checks_rest:
  assumes "guarded_checks X ri clk skip first rest = Some rs"
  obtains r rs' where "rs = r # rs'" and "map Property rs' = map fst rest"
    and "shouldSkip [r] \<Longrightarrow> \<forall>x\<in>set rs'. Result x = SKIP"
proof -
  obtain p e g where "first = (p, e, g)" by (cases first)
  with assms obtain r rs' where r: "rs = r # rs'"
    "run_checks X ri clk (if shouldSkip [r] then True else skip) rest = Some rs'"
    by (auto simp: guarded_checks_def Let_def split: option.splits)
  show thesis
  proof (rule that[OF r(1) run_checks_props[OF r(2)]])
    show "\<forall>x\<in>set rs'. Result x = SKIP" if "shouldSkip [r]"
      using r(2) that run_checks_skip by auto
  qed
qed

lemmas check_wf = run_checks_wf guarded_checks_wf
lemmas check_skip = run_checks_skip guarded_checks_skip

locale resource_type =
  fixes validate :: "ext \<Rightarrow> System \<Rightarrow> clock \<Rightarrow> 'r \<Rightarrow> 'r \<times> TestResult list option"
    and skipping :: "'r \<Rightarrow> bool"
    and ident :: "'r \<Rightarrow> string"
  assumes results_wf:
      "gomega_ok X \<Longrightarrow> snd (validate X sys clk r) = Some rs \<Longrightarrow> x \<in> set rs \<Longrightarrow>
       wf_result x \<and> ResourceId x = ident r"
    and results_skipped:
      "skipping r \<Longrightarrow> snd (validate X sys clk r) = Some rs \<Longrightarrow> x \<in> set rs \<Longrightarrow> Result x = SKIP"
    and validate_again:
      "validate X sys clk (fst (validate X sys clk r)) = validate X sys clk r"
    and validate_keeps:
      "skipping (fst (validate X sys clk r)) = skipping r"
      "ident (fst (validate X sys clk r)) = ident r"
begin

text \<open>What the callers use: a skipped resource has no failing result, and no result has an unknown code.\<close>

lemma skipped_passes:
  "skipping r \<Longrightarrow> snd (validate X sys clk r) = Some rs \<Longrightarrow> x \<in> set rs \<Longrightarrow> Result x \<noteq> FAIL"
  using results_skipped by fastforce

lemma results_known_code:
  "gomega_ok X \<Longrightarrow> snd (validate X sys clk r) = Some rs \<Longrightarrow> x \<in> set rs \<Longrightarrow> Result x \<noteq> UNKNOWN"
  using results_wf by (fastforce simp: wf_result_def)

end

interpretation File_res: resource_type File_Validate rb_Skip File_ID
  by unfold_locales (auto simp: File_Validate_def File_ID_def info_of_def Let_def simp del: run_checks.simps
      dest: check_wf check_skip split: if_splits)

interpretation Package_res: resource_type Package_Validate rb_Skip Package_ID
  by unfold_locales (auto simp: Package_Validate_def Package_ID_def info_of_def Let_def simp del: run_checks.simps
      dest: check_wf check_skip split: if_splits)

interpretation Addr_res: resource_type Addr_Validate rb_Skip Addr_ID
  by unfold_locales (auto simp: Addr_Validate_def Addr_ID_def info_of_def Let_def simp del: run_checks.simps
      dest: check_wf check_skip split: if_splits)

interpretation Port_res: resource_type Port_Validate rb_Skip Port_ID
  by unfold_locales (auto simp: Port_Validate_def Port_ID_def info_of_def Let_def simp del: run_checks.simps
      dest: check_wf check_skip split: if_splits)

interpretation Service_res: resource_type Service_Validate rb_Skip Service_ID
  by unfold_locales (auto simp: Service_Validate_def Service_ID_def info_of_def Let_def simp del: run_checks.simps
      dest: check_wf check_skip split: if_splits)

interpretation User_res: resource_type User_Validate rb_Skip User_ID
  by unfold_locales (auto simp: User_Validate_def User_ID_def info_of_def Let_def simp del: run_checks.simps
      dest: check_wf check_skip split: if_splits)

interpretation Group_res: resource_type Group_Validate rb_Skip Group_ID
  by unfold_locales (auto simp: Group_Validate_def Group_ID_def info_of_def Let_def simp del: run_checks.simps
      dest: check_wf check_skip split: if_splits)

interpretation Command_res: resource_type Command_Validate rb_Skip Command_ID
  by unfold_locales (auto simp: Command_Validate_def Command_ID_def info_of_def Let_def simp del: run_checks.simps
      dest: check_wf check_skip split: if_splits)

interpretation DNS_res: resource_type DNS_Validate rb_Skip DNS_ID
  by unfold_locales (auto simp: DNS_Validate_def DNS_ID_def DNS_GetResolve_def info_of_def Let_def simp del: run_checks.simps
      dest: check_wf check_skip split: if_splits)

interpretation Process_res: resource_type Process_Validate rb_Skip Process_ID
  by unfold_locales (auto simp: Process_Validate_def Process_ID_def info_of_def Let_def simp del: run_checks.simps
      dest: check_wf check_skip split: if_splits)

interpretation Gossfile_res: resource_type Gossfile_Validate rb_Skip rb_id
  by unfold_locales (auto simp: Gossfile_Validate_def)

interpretation KernelParam_res: resource_type KernelParam_Validate rb_Skip KernelParam_ID
  by unfold_locales (auto simp: KernelParam_Validate_def KernelParam_ID_def info_of_def Let_def simp del: run_checks.simps
      dest: check_wf check_skip split: if_splits)

interpretation Mount_res: resource_type Mount_Validate rb_Skip Mount_ID
  by unfold_locales (auto simp: Mount_Validate_def Mount_ID_def info_of_def Let_def simp del: run_checks.simps
      dest: check_wf check_skip split: if_splits)

interpretation Interface_res: resource_type Interface_Validate rb_Skip Interface_ID
  by unfold_locales (auto simp: Interface_Validate_def Interface_ID_def info_of_def Let_def simp del: run_checks.simps
      dest: check_wf check_skip split: if_splits)

interpretation HTTP_res: resource_type HTTP_Validate rb_Skip HTTP_ID
  by unfold_locales (auto simp: HTTP_Validate_def HTTP_ID_def info_of_def Let_def simp del: run_checks.simps
      dest: check_wf check_skip split: if_splits)

interpretation Registry_res: resource_type Registry_Validate rb_Skip Registry_ID
  by unfold_locales (auto simp: Registry_Validate_def Registry_ID_def info_of_def Let_def simp del: run_checks.simps
      dest: check_wf check_skip split: if_splits)

interpretation Matching_res: resource_type Matching_Validate rb_Skip rb_id
  by unfold_locales (auto simp: Matching_Validate_def info_of_def Let_def simp del: run_checks.simps
      dest: check_wf check_skip split: if_splits)

lemmas res_results_wf =
  File_res.results_wf Package_res.results_wf Addr_res.results_wf Port_res.results_wf Service_res.results_wf User_res.results_wf Group_res.results_wf Command_res.results_wf DNS_res.results_wf Process_res.results_wf Gossfile_res.results_wf KernelParam_res.results_wf Mount_res.results_wf Interface_res.results_wf HTTP_res.results_wf Registry_res.results_wf Matching_res.results_wf

lemmas res_results_skipped =
  File_res.results_skipped Package_res.results_skipped Addr_res.results_skipped Port_res.results_skipped Service_res.results_skipped User_res.results_skipped Group_res.results_skipped Command_res.results_skipped DNS_res.results_skipped Process_res.results_skipped Gossfile_res.results_skipped KernelParam_res.results_skipped Mount_res.results_skipped Interface_res.results_skipped HTTP_res.results_skipped Registry_res.results_skipped Matching_res.results_skipped

lemmas res_validate_again =
  File_res.validate_again Package_res.validate_again Addr_res.validate_again Port_res.validate_again Service_res.validate_again User_res.validate_again Group_res.validate_again Command_res.validate_again DNS_res.validate_again Process_res.validate_again Gossfile_res.validate_again KernelParam_res.validate_again Mount_res.validate_again Interface_res.validate_again HTTP_res.validate_again Registry_res.validate_again Matching_res.validate_again

lemmas res_validate_keeps =
  File_res.validate_keeps Package_res.validate_keeps Addr_res.validate_keeps Port_res.validate_keeps Service_res.validate_keeps User_res.validate_keeps Group_res.validate_keeps Command_res.validate_keeps DNS_res.validate_keeps Process_res.validate_keeps Gossfile_res.validate_keeps KernelParam_res.validate_keeps Mount_res.validate_keeps Interface_res.validate_keeps HTTP_res.validate_keeps Registry_res.validate_keeps Matching_res.validate_keeps

lemmas validate_defs =
  File_Validate_def Package_Validate_def Addr_Validate_def Port_Validate_def Service_Validate_def User_Validate_def Group_Validate_def Command_Validate_def DNS_Validate_def Process_Validate_def Gossfile_Validate_def KernelParam_Validate_def Mount_Validate_def Interface_Validate_def HTTP_Validate_def Registry_Validate_def Matching_Validate_def

interpretation resource_iface: resource_type Validate "\<lambda>r. rb_Skip (res_base_of r)" ID
proof unfold_locales
  fix X sys clk r rs x
  show "wf_result x \<and> ResourceId x = ID r"
    if "gomega_ok X" "snd (Validate X sys clk r) = Some rs" "x \<in> set rs"
    using that by (cases r) (simp_all add: res_results_wf)
  show "Result x = SKIP"
    if "rb_Skip (res_base_of r)" "snd (Validate X sys clk r) = Some rs" "x \<in> set rs"
    using that by (cases r) (simp_all add: res_results_skipped res_base.defs)
  show "Validate X sys clk (fst (Validate X sys clk r)) = Validate X sys clk r"
    by (cases r) (simp_all add: res_validate_again)
  show "rb_Skip (res_base_of (fst (Validate X sys clk r))) = rb_Skip (res_base_of r)"
    "ID (fst (Validate X sys clk r)) = ID r"
    by (cases r; simp add: res_validate_keeps res_base.defs)+
qed

section \<open>Properties\<close>

text \<open>C19: Whatever the type of a resource, \<^verbatim>\<open>Validate\<close> returns well-formed results about that resource.\<close>

theorem Validate_results_wf:
  assumes "gomega_ok X" and "snd (Validate X sys clk res) = Some rs" and "x \<in> set rs"
  shows "wf_result x \<and> ResourceId x = ID res"
  by (rule resource_iface.results_wf[OF assms])

definition skipped_matching :: resource where
  "skipped_matching =
     RMatching (res_base.extend (empty_base\<lparr>rb_id := ''m'', rb_Skip := True\<rparr>)
       (Matching.fields (VInt 1) False (VInt 2)))"

lemma skipped_matching_results:
  "snd (Validate sample_ext sys clk skipped_matching) =
     Some [skipResult \<lparr>ri_id = ''m'', ri_title = [], ri_meta = None, ri_type = ''Matching''\<rparr> ''matches'' (clk ''matches'')]"
  by (simp add: skipped_matching_def Matching_Validate_def info_of_def empty_base_def res_base.defs Matching.defs)

theorem Validate_results_wf_witness:
  "wf_result (skipResult \<lparr>ri_id = ''m'', ri_title = [], ri_meta = None, ri_type = ''Matching''\<rparr> ''matches'' (0, 0))"
  using Validate_results_wf[OF sample_ext_ok skipped_matching_results[of sample_system "\<lambda>_. (0, 0)"]]
  by (simp add: skipped_matching_def empty_base_def res_base.defs Matching.defs)

text \<open>A resource with \<^verbatim>\<open>skip\<close> set produces only skipped results, so it never fails a run and never holds back
  the resources that depend on it.\<close>

lemma Validate_skip:
  assumes "rb_Skip (res_base_of res)" and "snd (Validate X sys clk res) = Some rs" and "x \<in> set rs"
  shows "Result x = SKIP"
  by (rule resource_iface.results_skipped[OF assms])

lemma Validate_skip_witness:
  "Result (skipResult \<lparr>ri_id = ''m'', ri_title = [], ri_meta = None, ri_type = ''Matching''\<rparr> ''matches'' (0, 0)) = SKIP"
  using Validate_skip[OF _ skipped_matching_results[of sample_system "\<lambda>_. (0, 0)"]]
  by (simp add: skipped_matching_def empty_base_def res_base.defs Matching.defs)

lemma single_result: "run_checks X ri clk skip [c] = Some (r # rs) \<Longrightarrow> rs = []"
  by (cases c) (auto split: option.splits)


definition missing_file :: resource where
  "missing_file = RFile (zero_File\<lparr>rb_id := ''/x'', f_Exists := VBool True, f_Mode := VStr ''0644''\<rparr>)"

definition missing_system :: System where
  "missing_system = sample_system\<lparr>NewSysFile := \<lambda>path config.
     \<lparr>sf_Path = path, sf_Exists = (False, None), sf_Contents = (([], None), Some (SysErr ''no file'')),
      sf_Mode = ([], Some (SysErr ''no file'')), sf_Size = (0, None), sf_Filetype = ([], None), sf_Owner = ([], None),
      sf_Uid = (0, None), sf_Group = ([], None), sf_Gid = (0, None), sf_LinkedTo = ([], None), sf_Md5 = ([], None),
      sf_Sha256 = ([], None), sf_Sha512 = ([], None)\<rparr>\<rparr>"


text \<open>Validating a resource again, as the retry loop and the server do, gives the same results on the same
  answers of the system: the defaults that \<^verbatim>\<open>Validate\<close> stores in the resource are stable.\<close>

lemma Validate_again:
  "Validate X sys clk (fst (Validate X sys clk res)) = Validate X sys clk res"
  by (rule resource_iface.validate_again)

end
