(* ===== verification/Config_Merge.thy ===== *)
theory Config_Merge
  imports Resource_Types "HOL-Library.AList"
begin

text \<open>
  goss_config.go and discovery_config.go: the configuration with one map per resource type, its
  discovery section, merging, the list of all resources and the list of discovery entries. A Go map is
  an association list with distinct keys whose order stands for one iteration order; what the
  properties say holds for all of them. A nil map is the empty list: nothing is written to one here.
\<close>

section \<open>Maps\<close>

type_synonym 'a gomap = "(string \<times> 'a) list"

definition mergeType :: "string \<Rightarrow> 'a \<Rightarrow> 'a gomap \<Rightarrow> 'a gomap" where
  "mergeType k v m = AList.update k v m"

text \<open>The loop \<^verbatim>\<open>for k, v := range g2.X { mergeType(c.X, ...) }\<close>.\<close>

definition merge_map :: "'a gomap \<Rightarrow> 'a gomap \<Rightarrow> 'a gomap" where
  "merge_map m2 m1 = fold (\<lambda>(k, v). mergeType k v) m2 m1"

definition wf_map :: "'a gomap \<Rightarrow> bool" where
  "wf_map m = distinct (map fst m)"

text \<open>The value that wins when two maps are laid over each other.\<close>

definition over :: "'a option \<Rightarrow> 'a option \<Rightarrow> 'a option" where
  "over a b = (case a of Some v \<Rightarrow> Some v | None \<Rightarrow> b)"

lemma over_simps [simp]: "over (Some v) b = Some v" "over None b = b" "over a None = a"
  by (auto simp: over_def split: option.splits)

lemma over_assoc: "over (over a b) c = over a (over b c)"
  by (cases a) simp_all

lemma map_option_over: "map_option f (over a b) = over (map_option f a) (map_option f b)"
  by (cases a) simp_all

text \<open>The laws of a map that is written by key and read by key.\<close>

locale go_map =
  fixes get :: "'m \<Rightarrow> string \<Rightarrow> 'v option"
    and put :: "string \<Rightarrow> 'v \<Rightarrow> 'm \<Rightarrow> 'm"
    and inv :: "'m \<Rightarrow> bool"
  assumes get_put: "get (put k v m) k' = (if k' = k then Some v else get m k')"
    and inv_put: "inv m \<Longrightarrow> inv (put k v m)"
begin

lemma inv_puts: "inv m \<Longrightarrow> inv (fold (\<lambda>(k, v). put k v) es m)"
  by (induction es arbitrary: m) (auto intro: inv_put)

lemma get_puts:
  "distinct (map fst es) \<Longrightarrow>
   get (fold (\<lambda>(k, v). put k v) es m) k = over (map_of es k) (get m k)"
proof (induction es arbitrary: m)
  case (Cons e es)
  then have "map_of es (fst e) = None" by (simp add: map_of_eq_None_iff)
  with Cons show ?case by (cases e) (auto simp: get_put)
qed simp

end

interpretation alist_map: go_map map_of mergeType wf_map
  by unfold_locales (auto simp: mergeType_def update_conv wf_map_def intro: distinct_update)

lemma merge_map_wf: "wf_map m \<Longrightarrow> wf_map (merge_map m2 m)"
  unfolding merge_map_def by (rule alist_map.inv_puts)

lemma map_of_merge_map:
  "wf_map m2 \<Longrightarrow> map_of (merge_map m2 m1) k = over (map_of m2 k) (map_of m1 k)"
  unfolding merge_map_def wf_map_def by (rule alist_map.get_puts)

lemmas merge_map_simps = map_of_merge_map merge_map_wf

section \<open>The configuration\<close>

record DiscoveryConfig =
  d_Files :: "File gomap"
  d_Packages :: "Package gomap"
  d_Addrs :: "Addr gomap"
  d_Ports :: "Port gomap"
  d_Services :: "Service gomap"
  d_Users :: "User gomap"
  d_Groups :: "Group gomap"
  d_Commands :: "Command gomap"
  d_DNSs :: "DNS gomap"
  d_Processes :: "Process gomap"
  d_KernelParams :: "KernelParam gomap"
  d_Mounts :: "Mount gomap"
  d_Interfaces :: "Interface gomap"
  d_HTTPs :: "HTTP gomap"
  d_Matchings :: "Matching gomap"
  d_Registries :: "Registry gomap"

record GossConfig =
  Discovery :: DiscoveryConfig
  c_Files :: "File gomap"
  c_Packages :: "Package gomap"
  c_Addrs :: "Addr gomap"
  c_Ports :: "Port gomap"
  c_Services :: "Service gomap"
  c_Users :: "User gomap"
  c_Groups :: "Group gomap"
  c_Commands :: "Command gomap"
  c_DNSs :: "DNS gomap"
  c_Processes :: "Process gomap"
  c_Gossfiles :: "Gossfile gomap"
  c_KernelParams :: "KernelParam gomap"
  c_Mounts :: "Mount gomap"
  c_Interfaces :: "Interface gomap"
  c_HTTPs :: "HTTP gomap"
  c_Matchings :: "Matching gomap"
  c_Registries :: "Registry gomap"

definition empty_discovery :: DiscoveryConfig where
  "empty_discovery =
     \<lparr>d_Files = [],
      d_Packages = [],
      d_Addrs = [],
      d_Ports = [],
      d_Services = [],
      d_Users = [],
      d_Groups = [],
      d_Commands = [],
      d_DNSs = [],
      d_Processes = [],
      d_KernelParams = [],
      d_Mounts = [],
      d_Interfaces = [],
      d_HTTPs = [],
      d_Matchings = [],
      d_Registries = []\<rparr>"

definition NewGossConfig :: GossConfig where
  "NewGossConfig =
     \<lparr>Discovery = empty_discovery,
      c_Files = [],
      c_Packages = [],
      c_Addrs = [],
      c_Ports = [],
      c_Services = [],
      c_Users = [],
      c_Groups = [],
      c_Commands = [],
      c_DNSs = [],
      c_Processes = [],
      c_Gossfiles = [],
      c_KernelParams = [],
      c_Mounts = [],
      c_Interfaces = [],
      c_HTTPs = [],
      c_Matchings = [],
      c_Registries = []\<rparr>"

definition Discovery_Merge :: "DiscoveryConfig \<Rightarrow> DiscoveryConfig \<Rightarrow> DiscoveryConfig" where
  "Discovery_Merge c g2 =
     \<lparr>d_Files = merge_map (d_Files g2) (d_Files c),
      d_Packages = merge_map (d_Packages g2) (d_Packages c),
      d_Addrs = merge_map (d_Addrs g2) (d_Addrs c),
      d_Ports = merge_map (d_Ports g2) (d_Ports c),
      d_Services = merge_map (d_Services g2) (d_Services c),
      d_Users = merge_map (d_Users g2) (d_Users c),
      d_Groups = merge_map (d_Groups g2) (d_Groups c),
      d_Commands = merge_map (d_Commands g2) (d_Commands c),
      d_DNSs = merge_map (d_DNSs g2) (d_DNSs c),
      d_Processes = merge_map (d_Processes g2) (d_Processes c),
      d_KernelParams = merge_map (d_KernelParams g2) (d_KernelParams c),
      d_Mounts = merge_map (d_Mounts g2) (d_Mounts c),
      d_Interfaces = merge_map (d_Interfaces g2) (d_Interfaces c),
      d_HTTPs = merge_map (d_HTTPs g2) (d_HTTPs c),
      d_Matchings = merge_map (d_Matchings g2) (d_Matchings c),
      d_Registries = merge_map (d_Registries g2) (d_Registries c)\<rparr>"

definition Merge :: "GossConfig \<Rightarrow> GossConfig \<Rightarrow> GossConfig" where
  "Merge c g2 =
     \<lparr>Discovery = Discovery_Merge (Discovery c) (Discovery g2),
      c_Files = merge_map (c_Files g2) (c_Files c),
      c_Packages = merge_map (c_Packages g2) (c_Packages c),
      c_Addrs = merge_map (c_Addrs g2) (c_Addrs c),
      c_Ports = merge_map (c_Ports g2) (c_Ports c),
      c_Services = merge_map (c_Services g2) (c_Services c),
      c_Users = merge_map (c_Users g2) (c_Users c),
      c_Groups = merge_map (c_Groups g2) (c_Groups c),
      c_Commands = merge_map (c_Commands g2) (c_Commands c),
      c_DNSs = merge_map (c_DNSs g2) (c_DNSs c),
      c_Processes = merge_map (c_Processes g2) (c_Processes c),
      c_Gossfiles = c_Gossfiles c,
      c_KernelParams = merge_map (c_KernelParams g2) (c_KernelParams c),
      c_Mounts = merge_map (c_Mounts g2) (c_Mounts c),
      c_Interfaces = merge_map (c_Interfaces g2) (c_Interfaces c),
      c_HTTPs = merge_map (c_HTTPs g2) (c_HTTPs c),
      c_Matchings = merge_map (c_Matchings g2) (c_Matchings c),
      c_Registries = merge_map (c_Registries g2) (c_Registries c)\<rparr>"

definition mergeGoss :: "GossConfig \<Rightarrow> GossConfig \<Rightarrow> GossConfig" where
  "mergeGoss g1 g2 = Merge (g1\<lparr>c_Gossfiles := []\<rparr>) g2"

text \<open>\<^verbatim>\<open>genericConcatMaps\<close> in the order of its arguments, as resources with their keys.\<close>

definition concat_maps :: "GossConfig \<Rightarrow> resource gomap list" where
  "concat_maps c =
     [map (apsnd RCommand) (c_Commands c),
      map (apsnd RHTTP) (c_HTTPs c),
      map (apsnd RAddr) (c_Addrs c),
      map (apsnd RDNS) (c_DNSs c),
      map (apsnd RPackage) (c_Packages c),
      map (apsnd RService) (c_Services c),
      map (apsnd RFile) (c_Files c),
      map (apsnd RProcess) (c_Processes c),
      map (apsnd RUser) (c_Users c),
      map (apsnd RGroup) (c_Groups c),
      map (apsnd RPort) (c_Ports c),
      map (apsnd RKernelParam) (c_KernelParams c),
      map (apsnd RMount) (c_Mounts c),
      map (apsnd RInterface) (c_Interfaces c),
      map (apsnd RMatching) (c_Matchings c),
      map (apsnd RRegistry) (c_Registries c)]"

definition discovery_maps :: "DiscoveryConfig \<Rightarrow> resource gomap list" where
  "discovery_maps c =
     [map (apsnd RCommand) (d_Commands c),
      map (apsnd RHTTP) (d_HTTPs c),
      map (apsnd RAddr) (d_Addrs c),
      map (apsnd RDNS) (d_DNSs c),
      map (apsnd RPackage) (d_Packages c),
      map (apsnd RService) (d_Services c),
      map (apsnd RFile) (d_Files c),
      map (apsnd RProcess) (d_Processes c),
      map (apsnd RUser) (d_Users c),
      map (apsnd RGroup) (d_Groups c),
      map (apsnd RPort) (d_Ports c),
      map (apsnd RKernelParam) (d_KernelParams c),
      map (apsnd RMount) (d_Mounts c),
      map (apsnd RInterface) (d_Interfaces c),
      map (apsnd RMatching) (d_Matchings c),
      map (apsnd RRegistry) (d_Registries c)]"

definition Resources :: "GossConfig \<Rightarrow> resource list" where
  "Resources c = concat (map (map snd) (concat_maps c))"

section \<open>Discovery entries\<close>

record DiscoveryEntry =
  Register :: string
  Resource :: resource

datatype discovery_error = MissingRegister string | DuplicateRegister string

text \<open>The nested loops of \<^verbatim>\<open>Entries\<close>, with the entries collected so far.\<close>

fun entries_loop ::
  "resource list \<Rightarrow> DiscoveryEntry list \<Rightarrow> (discovery_error, DiscoveryEntry list) outcome" where
  "entries_loop [] entries = Ret entries"
| "entries_loop (res # rest) entries =
     (let register = GetRegister res
      in if register = [] then Err (MissingRegister (TypeKey res @ '':'' @ ID res))
         else if list_ex (\<lambda>existing. Register existing = register) entries
         then Err (DuplicateRegister register)
         else entries_loop rest (entries @ [\<lparr>Register = register, Resource = res\<rparr>]))"

definition discovery_resources :: "DiscoveryConfig \<Rightarrow> resource list" where
  "discovery_resources c = concat (map (map snd) (discovery_maps c))"

definition Entries :: "DiscoveryConfig \<Rightarrow> (discovery_error, DiscoveryEntry list) outcome" where
  "Entries c = entries_loop (discovery_resources c) []"

definition entriesWithoutValidation :: "DiscoveryConfig \<Rightarrow> DiscoveryEntry list" where
  "entriesWithoutValidation c =
     map (\<lambda>res. \<lparr>Register = GetRegister res, Resource = res\<rparr>) (discovery_resources c)"

definition IsEmpty :: "DiscoveryConfig \<Rightarrow> bool" where
  "IsEmpty c \<longleftrightarrow> length (entriesWithoutValidation c) = 0"

section \<open>Reading a configuration by section and key\<close>

definition sections :: "GossConfig \<Rightarrow> (string \<times> resource gomap) list" where
  "sections c =
     [(''file'', map (apsnd RFile) (c_Files c)),
      (''package'', map (apsnd RPackage) (c_Packages c)),
      (''addr'', map (apsnd RAddr) (c_Addrs c)),
      (''port'', map (apsnd RPort) (c_Ports c)),
      (''service'', map (apsnd RService) (c_Services c)),
      (''user'', map (apsnd RUser) (c_Users c)),
      (''group'', map (apsnd RGroup) (c_Groups c)),
      (''command'', map (apsnd RCommand) (c_Commands c)),
      (''dns'', map (apsnd RDNS) (c_DNSs c)),
      (''process'', map (apsnd RProcess) (c_Processes c)),
      (''gossfile'', map (apsnd RGossfile) (c_Gossfiles c)),
      (''kernel-param'', map (apsnd RKernelParam) (c_KernelParams c)),
      (''mount'', map (apsnd RMount) (c_Mounts c)),
      (''interface'', map (apsnd RInterface) (c_Interfaces c)),
      (''http'', map (apsnd RHTTP) (c_HTTPs c)),
      (''matching'', map (apsnd RMatching) (c_Matchings c)),
      (''registry'', map (apsnd RRegistry) (c_Registries c))]"

definition lookup :: "GossConfig \<Rightarrow> string \<Rightarrow> string \<Rightarrow> resource option" where
  "lookup c t k = (case map_of (sections c) t of None \<Rightarrow> None | Some m \<Rightarrow> map_of m k)"

definition wf_discovery :: "DiscoveryConfig \<Rightarrow> bool" where
  "wf_discovery c \<longleftrightarrow>
     wf_map (d_Files c) \<and>
     wf_map (d_Packages c) \<and>
     wf_map (d_Addrs c) \<and>
     wf_map (d_Ports c) \<and>
     wf_map (d_Services c) \<and>
     wf_map (d_Users c) \<and>
     wf_map (d_Groups c) \<and>
     wf_map (d_Commands c) \<and>
     wf_map (d_DNSs c) \<and>
     wf_map (d_Processes c) \<and>
     wf_map (d_KernelParams c) \<and>
     wf_map (d_Mounts c) \<and>
     wf_map (d_Interfaces c) \<and>
     wf_map (d_HTTPs c) \<and>
     wf_map (d_Matchings c) \<and>
     wf_map (d_Registries c)"

definition wf_config :: "GossConfig \<Rightarrow> bool" where
  "wf_config c \<longleftrightarrow>
     wf_discovery (Discovery c) \<and>
     wf_map (c_Files c) \<and>
     wf_map (c_Packages c) \<and>
     wf_map (c_Addrs c) \<and>
     wf_map (c_Ports c) \<and>
     wf_map (c_Services c) \<and>
     wf_map (c_Users c) \<and>
     wf_map (c_Groups c) \<and>
     wf_map (c_Commands c) \<and>
     wf_map (c_DNSs c) \<and>
     wf_map (c_Processes c) \<and>
     wf_map (c_Gossfiles c) \<and>
     wf_map (c_KernelParams c) \<and>
     wf_map (c_Mounts c) \<and>
     wf_map (c_Interfaces c) \<and>
     wf_map (c_HTTPs c) \<and>
     wf_map (c_Matchings c) \<and>
     wf_map (c_Registries c)"

lemma map_of_apsnd [simp]: "map_of (map (apsnd f) m) k = map_option f (map_of m k)"
  by (induction m) auto

lemma section_names_distinct: "distinct (map fst (sections c))"
  by (simp add: sections_def)

lemma wf_config_new [simp]: "wf_config NewGossConfig"
  by (simp add: wf_config_def wf_discovery_def wf_map_def NewGossConfig_def empty_discovery_def)

lemma lookup_new [simp]: "lookup NewGossConfig t k = None"
  by (simp add: lookup_def sections_def NewGossConfig_def)

lemma Discovery_Merge_wf: "wf_discovery c \<Longrightarrow> wf_discovery (Discovery_Merge c g2)"
  by (simp add: wf_discovery_def Discovery_Merge_def merge_map_wf)

lemma Merge_wf: "wf_config c \<Longrightarrow> wf_config (Merge c g2)"
  by (simp add: wf_config_def Merge_def merge_map_wf Discovery_Merge_wf)

lemma mergeGoss_wf: "wf_config c \<Longrightarrow> wf_config (mergeGoss c g2)"
  unfolding mergeGoss_def by (rule Merge_wf) (simp add: wf_config_def wf_map_def)

lemma lookup_Merge:
  assumes "wf_config g2" and "t \<noteq> ''gossfile''"
  shows "lookup (Merge c g2) t k = over (lookup g2 t k) (lookup c t k)"
  using assms by (simp add: lookup_def sections_def wf_config_def Merge_def map_of_merge_map map_option_over)

lemma lookup_mergeGoss:
  assumes "wf_config g2"
  shows "lookup (mergeGoss c g2) t k =
     (if t = ''gossfile'' then None
      else over (lookup g2 t k) (lookup c t k))"
proof (cases "t = ''gossfile''")
  case True
  then show ?thesis by (simp add: lookup_def sections_def mergeGoss_def Merge_def)
next
  case False
  then have "lookup (c\<lparr>c_Gossfiles := []\<rparr>) t k = lookup c t k" by (simp add: lookup_def sections_def)
  then show ?thesis
    unfolding mergeGoss_def lookup_Merge[OF assms False] using False by simp
qed

lemma values_of_map:
  "wf_map m \<Longrightarrow> r \<in> set (map snd m) \<longleftrightarrow> (\<exists>k. map_of m k = Some r)"
  unfolding wf_map_def by (force simp: map_of_eq_Some_iff)

lemma wf_map_apsnd [simp]: "wf_map (map (apsnd f) m) = wf_map m"
  by (simp add: wf_map_def comp_def)

lemma sections_wf: "wf_config c \<Longrightarrow> s \<in> set (sections c) \<Longrightarrow> wf_map (snd s)"
  by (auto simp: sections_def wf_config_def)

lemma concat_maps_sections:
  "set (concat_maps c) = set (map snd (filter (\<lambda>s. fst s \<noteq> ''gossfile'') (sections c)))"
  by (rule equalityI; simp add: concat_maps_def sections_def)

lemma lookup_section: "lookup c t k = Some r \<longleftrightarrow> (\<exists>m. (t, m) \<in> set (sections c) \<and> map_of m k = Some r)"
proof -
  have "lookup c t k = Some r \<longleftrightarrow> (\<exists>m. map_of (sections c) t = Some m \<and> map_of m k = Some r)"
    by (simp add: lookup_def split: option.split)
  then show ?thesis unfolding map_of_eq_Some_iff[OF section_names_distinct] .
qed

lemma bex_map_filter: "(\<exists>m\<in>set (map snd (filter P xs)). Q m) \<longleftrightarrow> (\<exists>s\<in>set xs. P s \<and> Q (snd s))"
  by (induction xs) auto

lemma in_concat_map: "r \<in> set (concat (map f xs)) \<longleftrightarrow> (\<exists>m\<in>set xs. r \<in> set (f m))"
  by (induction xs) auto

section \<open>Properties\<close>


definition one_file :: "string \<Rightarrow> string \<Rightarrow> GossConfig" where
  "one_file key title = NewGossConfig\<lparr>c_Files := [(key, zero_File\<lparr>rb_id := key, rb_Title := title\<rparr>)]\<rparr>"

lemma one_file_wf: "wf_config (one_file key title)"
  by (simp add: one_file_def wf_config_def wf_discovery_def wf_map_def NewGossConfig_def empty_discovery_def)


text \<open>The list of tests that is run holds exactly the resources of the configuration, each as often as it
  occurs there, and no gossfile entry.\<close>

lemma Resources_exact:
  assumes "wf_config c"
  shows "set (Resources c) = {r. \<exists>t k. t \<noteq> ''gossfile'' \<and> lookup c t k = Some r} \<and>
     length (Resources c) = sum_list (map length (concat_maps c))"
proof
  have "r \<in> set (Resources c) \<longleftrightarrow> (\<exists>t k. t \<noteq> ''gossfile'' \<and> lookup c t k = Some r)" for r
  proof -
    have "r \<in> set (Resources c) \<longleftrightarrow> (\<exists>s\<in>set (sections c). fst s \<noteq> ''gossfile'' \<and> r \<in> set (map snd (snd s)))"
      unfolding Resources_def in_concat_map concat_maps_sections by (rule bex_map_filter)
    also have "\<dots> \<longleftrightarrow> (\<exists>s\<in>set (sections c). fst s \<noteq> ''gossfile'' \<and> (\<exists>k. map_of (snd s) k = Some r))"
      by (rule bex_cong[OF refl]) (simp only: values_of_map[OF sections_wf[OF assms]])
    finally show ?thesis unfolding lookup_section by (metis fst_conv snd_conv surj_pair)
  qed
  then show "set (Resources c) = {r. \<exists>t k. t \<noteq> ''gossfile'' \<and> lookup c t k = Some r}" by blast
  show "length (Resources c) = sum_list (map length (concat_maps c))"
    by (simp add: Resources_def length_concat comp_def)
qed

lemma Resources_exact_witness:
  "set (Resources (one_file ''a'' [])) = {r. \<exists>t k. t \<noteq> ''gossfile'' \<and> lookup (one_file ''a'' []) t k = Some r}"
  using Resources_exact[OF one_file_wf] by blast

lemma entries_loop_spec:
  "entries_loop rs es = Ret es' \<longleftrightarrow>
     (\<forall>r\<in>set rs. GetRegister r \<noteq> []) \<and> distinct (map GetRegister rs) \<and>
     set (map GetRegister rs) \<inter> set (map Register es) = {} \<and>
     es' = es @ map (\<lambda>res. \<lparr>Register = GetRegister res, Resource = res\<rparr>) rs"
proof (induction rs arbitrary: es)
  case (Cons r rs)
  show ?case
  proof (cases "GetRegister r = [] \<or> GetRegister r \<in> Register ` set es")
    case True
    then show ?thesis by (auto simp: Let_def list_ex_iff)
  next
    case False
    then have "entries_loop (r # rs) es = entries_loop rs (es @ [\<lparr>Register = GetRegister r, Resource = r\<rparr>])"
      by (simp add: Let_def list_ex_iff image_iff) metis
    with Cons.IH[of "es @ [\<lparr>Register = GetRegister r, Resource = r\<rparr>]"] False show ?thesis by auto
  qed
qed auto

text \<open>The discovery entries are accepted exactly when every discovery test has a register name and no two share
  one; the entries are then all the discovery tests, in order, under their register names.\<close>

lemma Entries_exact:
  "Entries c = Ret es \<longleftrightarrow>
     [] \<notin> set (map GetRegister (discovery_resources c)) \<and>
     distinct (map GetRegister (discovery_resources c)) \<and> es = entriesWithoutValidation c"
  by (auto simp: Entries_def entries_loop_spec entriesWithoutValidation_def image_iff)

end
