(* ===== verification/Store.thy ===== *)
theory Store
  imports Config_Merge
begin

text \<open>
  store.go: the format of a gossfile, reading one, and \<^verbatim>\<open>mergeJSONData\<close>, which follows the gossfile
  entries of a configuration, with the functions of \<^verbatim>\<open>path/filepath\<close> it uses on Unix paths. The files, the
  glob expansion, the template filter and the JSON and YAML decoders are arguments (\<open>store_env\<close>); the
  package variables \<^verbatim>\<open>outStoreFormat\<close> and \<^verbatim>\<open>currentTemplateFilter\<close> are fields of it.
\<close>

section \<open>Package path/filepath\<close>

text \<open>One step of \<^verbatim>\<open>Clean\<close> on the reversed list of elements kept so far.\<close>

fun clean_step :: "bool \<Rightarrow> string list \<Rightarrow> string \<Rightarrow> string list" where
  "clean_step rooted kept el =
     (if el = [] \<or> el = ''.'' then kept
      else if el = ''..''
      then (case kept of
              [] \<Rightarrow> if rooted then [] else [''..'']
            | prev # rest \<Rightarrow> if prev = ''..'' then ''..'' # kept else rest)
      else el # kept)"

definition path_Clean :: "string \<Rightarrow> string" where
  "path_Clean path =
     (let rooted = has_prefix path ''/'';
          els = rev (foldl (clean_step rooted) [] (split_on (CHR ''/'') path));
          body = join ''/'' els
      in if rooted then CHR ''/'' # body else if body = [] then ''.'' else body)"

definition path_Join :: "string list \<Rightarrow> string" where
  "path_Join elems =
     (let es = dropWhile (\<lambda>e. e = []) elems
      in if es = [] then [] else path_Clean (join ''/'' es))"

definition path_Dir :: "string \<Rightarrow> string" where
  "path_Dir path = path_Clean (rev (dropWhile (\<lambda>c. c \<noteq> CHR ''/'') (rev path)))"

definition path_Ext :: "string \<Rightarrow> string" where
  "path_Ext path =
     (let base = rev (takeWhile (\<lambda>c. c \<noteq> CHR ''/'') (rev path))
      in (case last_index base ''.'' of None \<Rightarrow> [] | Some i \<Rightarrow> drop i base))"

section \<open>Formats\<close>

datatype store_format = UNSET | JSON | YAML

datatype store_error =
    UnknownExtension string
  | CannotDetermineFormat
  | MaxDepth
  | StoreFormatUnset
  | FileError string
  | DecodeError string
  | TemplateError string
  | BadGlob string
  | NoMatchedFiles string
  | CouldNotRead string store_error
  | CouldNotWrite store_error
  | ZeroTests string
  | LoadingVarsFile string store_error
  | MergingVarsFile string
  | LoadingInlineVars store_error
  | LoadingVars "string list" store_error
  | RenderingFailed store_error
  | WriteFailed string store_error

record store_env =
  se_file :: "string \<Rightarrow> string option"
  se_glob :: "string \<Rightarrow> string list option"
  se_filter :: "(string \<Rightarrow> (store_error, string) outcome) option"
  se_format :: store_format
  se_json :: "string \<Rightarrow> (store_error, GossConfig) outcome"
  se_yaml :: "string \<Rightarrow> (store_error, GossConfig) outcome"
  se_json_ok :: "string \<Rightarrow> bool"
  se_yaml_ok :: "string \<Rightarrow> bool"

definition getStoreFormatFromFileName :: "string \<Rightarrow> (store_error, store_format) outcome" where
  "getStoreFormatFromFileName f =
     (let ext = path_Ext f
      in if ext = ''.json'' then Ret JSON
         else if ext = ''.yaml'' \<or> ext = ''.yml'' then Ret YAML
         else Err (UnknownExtension ext))"

definition getStoreFormatFromData :: "store_env \<Rightarrow> string \<Rightarrow> (store_error, store_format) outcome" where
  "getStoreFormatFromData env data =
     (if se_json_ok env data then Ret JSON
      else if se_yaml_ok env data then Ret YAML
      else Err CannotDetermineFormat)"

definition unmarshal :: "store_env \<Rightarrow> string \<Rightarrow> store_format \<Rightarrow> (store_error, GossConfig) outcome" where
  "unmarshal env data fmt =
     (case fmt of
        JSON \<Rightarrow> se_json env data
      | YAML \<Rightarrow> se_yaml env data
      | UNSET \<Rightarrow> Err StoreFormatUnset)"

section \<open>Reading and merging\<close>

definition ReadJSONData :: "store_env \<Rightarrow> string \<Rightarrow> bool \<Rightarrow> (store_error, GossConfig) outcome" where
  "ReadJSONData env data0 detectFormat =
     bind_outcome (case se_filter env of None \<Rightarrow> Ret data0 | Some f \<Rightarrow> f data0)
       (\<lambda>data. bind_outcome
          (if detectFormat then getStoreFormatFromData env data else Ret (se_format env))
          (\<lambda>fmt. unmarshal env data fmt))"

definition ReadJSON :: "store_env \<Rightarrow> string \<Rightarrow> (store_error, GossConfig) outcome" where
  "ReadJSON env filePath =
     (case se_file env filePath of
        None \<Rightarrow> Err (FileError filePath)
      | Some data \<Rightarrow> ReadJSONData env data False)"

definition gossfile_path :: "string \<Rightarrow> Gossfile \<Rightarrow> string" where
  "gossfile_path path g =
     (if has_prefix (Gossfile_GetGossfile g) ''/'' then Gossfile_GetGossfile g
      else path_Join [path, Gossfile_GetGossfile g])"

text \<open>
  \<^verbatim>\<open>mergeJSONData\<close> with its two loops: over the sorted keys of the gossfile section, and over the
  matches of one entry. \<open>depth\<close> is the caller's, and each call adds one to it.
\<close>

function (sequential) mergeJSONData ::
    "store_env \<Rightarrow> GossConfig \<Rightarrow> nat \<Rightarrow> string \<Rightarrow> (store_error, GossConfig) outcome"
  and merge_keys ::
    "store_env \<Rightarrow> GossConfig \<Rightarrow> nat \<Rightarrow> string \<Rightarrow> string list \<Rightarrow> GossConfig \<Rightarrow> (store_error, GossConfig) outcome"
  and merge_matches ::
    "store_env \<Rightarrow> nat \<Rightarrow> string list \<Rightarrow> GossConfig \<Rightarrow> (store_error, GossConfig) outcome" where
  "mergeJSONData env gossConfig depth path =
     (if 50 \<le> depth + 1 then Err MaxDepth
      else merge_keys env gossConfig (depth + 1) path (sort (map fst (c_Gossfiles gossConfig)))
             (mergeGoss NewGossConfig gossConfig))"
| "merge_keys env gossConfig depth path [] ret = Ret ret"
| "merge_keys env gossConfig depth path (k # keys) ret =
     (case map_of (c_Gossfiles gossConfig) k of
        None \<Rightarrow> Panic
      | Some g \<Rightarrow>
          if rb_Skip g then merge_keys env gossConfig depth path keys ret
          else (case se_glob env (gossfile_path path g) of
                  None \<Rightarrow> Err (BadGlob (gossfile_path path g))
                | Some [] \<Rightarrow> Err (NoMatchedFiles (gossfile_path path g))
                | Some (match # matches) \<Rightarrow>
                    bind_outcome (merge_matches env depth (match # matches) ret)
                      (\<lambda>ret'. merge_keys env gossConfig depth path keys ret')))"
| "merge_matches env depth [] ret = Ret ret"
| "merge_matches env depth (match # matches) ret =
     (case ReadJSON env match of
        Err e \<Rightarrow> Err (CouldNotRead match e)
      | Panic \<Rightarrow> Panic
      | Ret j \<Rightarrow>
          (case mergeJSONData env j depth (path_Dir match) of
             Err e \<Rightarrow> Err (CouldNotWrite e)
           | Panic \<Rightarrow> Panic
           | Ret j' \<Rightarrow> merge_matches env depth matches (mergeGoss ret j')))"
  by pat_completeness auto
termination
  by (relation "measures
        [\<lambda>x. case x of Inl (env, c, d, p) \<Rightarrow> 3 * (51 - d)
             | Inr (Inl (env, c, d, p, ks, r)) \<Rightarrow> 3 * (51 - d) + 2
             | Inr (Inr (env, d, ms, r)) \<Rightarrow> 3 * (51 - d) + 1,
         \<lambda>x. case x of Inl (env, c, d, p) \<Rightarrow> 0
             | Inr (Inl (env, c, d, p, ks, r)) \<Rightarrow> length ks
             | Inr (Inr (env, d, ms, r)) \<Rightarrow> length ms]") auto

section \<open>Following gossfiles\<close>

declare mergeJSONData.simps [simp del]

text \<open>What is assumed of the decoders and the template filter: they do not panic.\<close>

definition no_panic_env :: "store_env \<Rightarrow> bool" where
  "no_panic_env env \<longleftrightarrow> (\<forall>f. ReadJSON env f \<noteq> Panic)"

lemma merge_no_panic:
  "no_panic_env env \<Longrightarrow> mergeJSONData env c depth path \<noteq> Panic"
  "no_panic_env env \<Longrightarrow> set keys \<subseteq> fst ` set (c_Gossfiles c) \<Longrightarrow> merge_keys env c depth path keys ret \<noteq> Panic"
  "no_panic_env env \<Longrightarrow> merge_matches env depth ms ret \<noteq> Panic"
proof (induction env c depth path and env c depth path keys ret and env depth ms ret
    rule: mergeJSONData_merge_keys_merge_matches.induct)
  case (1 env c depth path)
  then show ?case by (simp add: mergeJSONData.simps)
next
  case (3 env c depth path k keys ret)
  then have "map_of (c_Gossfiles c) k \<noteq> None" by (auto simp: map_of_eq_None_iff)
  with 3 show ?case by (auto simp: go_outcome split: option.splits list.splits)
next
  case (5 env depth m ms ret)
  then show ?case by (auto simp: no_panic_env_def split: outcome.splits)
qed auto

lemma merge_result:
  "mergeJSONData env c depth path = Ret r \<Longrightarrow> wf_config r \<and> c_Gossfiles r = []"
  "merge_keys env c depth path keys ret = Ret r \<Longrightarrow> wf_config ret \<Longrightarrow> c_Gossfiles ret = [] \<Longrightarrow>
     wf_config r \<and> c_Gossfiles r = []"
  "merge_matches env depth ms ret = Ret r \<Longrightarrow> wf_config ret \<Longrightarrow> c_Gossfiles ret = [] \<Longrightarrow>
     wf_config r \<and> c_Gossfiles r = []"
proof (induction env c depth path and env c depth path keys ret and env depth ms ret
    arbitrary: r and r and r rule: mergeJSONData_merge_keys_merge_matches.induct)
  case (1 env c depth path)
  have "wf_config (mergeGoss NewGossConfig c)" "c_Gossfiles (mergeGoss NewGossConfig c) = []"
    by (simp_all add: mergeGoss_wf, simp add: mergeGoss_def Merge_def)
  with 1 show ?case by (simp add: mergeJSONData.simps split: if_splits)
next
  case (3 env c depth path k keys ret)
  from "3.prems"(1) obtain g where g: "map_of (c_Gossfiles c) k = Some g" by (auto split: option.splits)
  show ?case
  proof (cases "rb_Skip g")
    case True
    with "3.prems"(1) g have "merge_keys env c depth path keys ret = Ret r" by simp
    from "3.IH"(1)[OF g True this "3.prems"(2,3)] show ?thesis .
  next
    case False
    with "3.prems"(1) g obtain m ms ret' where m: "se_glob env (gossfile_path path g) = Some (m # ms)"
      "merge_matches env depth (m # ms) ret = Ret ret'" "merge_keys env c depth path keys ret' = Ret r"
      by (auto simp: go_outcome simp del: merge_matches.simps split: option.splits list.splits)
    from "3.IH"(2)[OF g False m(1) refl m(2) "3.prems"(2,3)] "3.IH"(3)[OF g False m(1) refl m(3)]
    show ?thesis by blast
  qed
next
  case (5 env depth m ms ret)
  from "5.prems"(1) obtain j j' where j: "ReadJSON env m = Ret j" "mergeJSONData env j depth (path_Dir m) = Ret j'"
    "merge_matches env depth ms (mergeGoss ret j') = Ret r"
    by (auto split: outcome.splits)
  moreover have "c_Gossfiles (mergeGoss ret j') = []" by (simp add: mergeGoss_def Merge_def)
  ultimately show ?case using "5.IH"(2) mergeGoss_wf "5.prems"(2) by blast
qed auto

text \<open>
  A set of configurations, each with a gossfile entry that leads back into the set: loading any of
  them fails, at every depth.
\<close>

definition leads_to :: "store_env \<Rightarrow> GossConfig \<times> string \<Rightarrow> GossConfig \<times> string \<Rightarrow> bool" where
  "leads_to env p q \<longleftrightarrow>
     (\<exists>k g matches match. map_of (c_Gossfiles (fst p)) k = Some g \<and> \<not> rb_Skip g \<and>
        se_glob env (gossfile_path (snd p) g) = Some matches \<and> match \<in> set matches \<and>
        ReadJSON env match = Ret (fst q) \<and> path_Dir match = snd q)"

lemma matches_fail:
  assumes "match \<in> set ms" and "ReadJSON env match = Ret j"
    and "\<And>r. mergeJSONData env j depth (path_Dir match) \<noteq> Ret r"
  shows "merge_matches env depth ms ret \<noteq> Ret r"
  using assms by (induction ms arbitrary: ret) (auto split: outcome.splits)

lemma keys_fail:
  assumes "k \<in> set keys" and "map_of (c_Gossfiles c) k = Some g" and "\<not> rb_Skip g"
    and "se_glob env (gossfile_path path g) = Some ms"
    and "\<And>ret r. merge_matches env depth ms ret \<noteq> Ret r"
  shows "merge_keys env c depth path keys ret \<noteq> Ret r"
  using assms
  by (induction keys arbitrary: ret)
    (auto simp: go_outcome split: option.splits list.splits)

lemma cycle_fails:
  assumes closed: "\<And>p. p \<in> S \<Longrightarrow> \<exists>q\<in>S. leads_to env p q"
  shows "(c, path) \<in> S \<Longrightarrow> mergeJSONData env c depth path \<noteq> Ret r"
proof (induction "50 - depth" arbitrary: c path depth r rule: less_induct)
  case less
  show ?case
  proof (cases "50 \<le> depth + 1")
    case True
    then show ?thesis by (simp add: mergeJSONData.simps)
  next
    case False
    obtain q where q: "q \<in> S" "leads_to env (c, path) q" using closed less.prems by blast
    then obtain k g ms m where kg: "map_of (c_Gossfiles c) k = Some g" "\<not> rb_Skip g"
        "se_glob env (gossfile_path path g) = Some ms" "m \<in> set ms"
        "ReadJSON env m = Ret (fst q)" "path_Dir m = snd q"
      by (auto simp: leads_to_def)
    have "mergeJSONData env (fst q) (depth + 1) (path_Dir m) \<noteq> Ret r'" for r'
      using less.hyps[of "depth + 1" "fst q" "snd q"] q(1) kg(6) False by simp
    then have "merge_matches env (depth + 1) ms ret \<noteq> Ret r'" for ret r'
      using matches_fail[OF kg(4,5)] by blast
    moreover have "k \<in> set (sort (map fst (c_Gossfiles c)))" using kg(1) by (force dest: map_of_SomeD)
    ultimately show ?thesis
      using keys_fail[OF _ kg(1-3)] False by (simp add: mergeJSONData.simps)
  qed
qed

text \<open>The iteration order of the gossfile section does not matter: its keys are sorted.\<close>

lemma merge_keys_lookup:
  assumes "map_of (c_Gossfiles c) = map_of (c_Gossfiles c')"
  shows "merge_keys env c depth path keys ret = merge_keys env c' depth path keys ret"
proof (induction keys arbitrary: ret)
  case (Cons k keys)
  then have "merge_keys env c depth path keys = merge_keys env c' depth path keys" by blast
  then show ?case by (simp add: assms split: option.splits list.splits)
qed simp

section \<open>Properties\<close>


definition self_config :: GossConfig where
  "self_config =
     NewGossConfig\<lparr>c_Gossfiles :=
       [(''a.yaml'', res_base.extend (empty_base\<lparr>rb_id := ''a.yaml''\<rparr>) (Gossfile.fields []))]\<rparr>"

definition self_env :: store_env where
  "self_env =
     \<lparr>se_file = \<lambda>_. Some [], se_glob = \<lambda>_. Some [''/a.yaml''], se_filter = None, se_format = YAML,
      se_json = \<lambda>_. Err CannotDetermineFormat, se_yaml = \<lambda>_. Ret self_config,
      se_json_ok = \<lambda>_. False, se_yaml_ok = \<lambda>_. True\<rparr>"

lemma self_reads: "ReadJSON self_env f = Ret self_config"
  by (simp add: ReadJSON_def ReadJSONData_def self_env_def unmarshal_def)


text \<open>A merged configuration has no gossfile section left, keeps distinct keys, and does not depend on the order in
  which the gossfile section is iterated.\<close>

lemma mergeJSONData_result:
  assumes "wf_map (c_Gossfiles c)" and "mset gs = mset (c_Gossfiles c)"
  shows "mergeJSONData env (c\<lparr>c_Gossfiles := gs\<rparr>) depth path = mergeJSONData env c depth path \<and>
     (\<forall>r. mergeJSONData env c depth path = Ret r \<longrightarrow> wf_config r \<and> c_Gossfiles r = [])"
proof -
  have "distinct (map fst gs)"
    using assms by (metis mset_eq_imp_distinct_iff mset_map wf_map_def)
  then have m: "map_of gs = map_of (c_Gossfiles c)"
    using assms by (metis map_of_eqI map_of_eq_Some_iff mset_eq_setD mset_map set_map wf_map_def ext not_Some_eq)
  have "sort (map fst gs) = sort (map fst (c_Gossfiles c))"
    using properties_for_sort[of "sort (map fst (c_Gossfiles c))" "map fst gs"] assms(2) by simp
  moreover have "mergeGoss NewGossConfig (c\<lparr>c_Gossfiles := gs\<rparr>) = mergeGoss NewGossConfig c"
    by (simp add: mergeGoss_def Merge_def)
  ultimately show ?thesis
    using merge_keys_lookup[of "c\<lparr>c_Gossfiles := gs\<rparr>" c] m merge_result(1)
    by (auto simp: mergeJSONData.simps)
qed

lemma mergeJSONData_result_witness:
  "mergeJSONData self_env (self_config\<lparr>c_Gossfiles := c_Gossfiles self_config\<rparr>) 49 ''/'' =
   mergeJSONData self_env self_config 49 ''/''"
  using mergeJSONData_result[of self_config "c_Gossfiles self_config" self_env 49 "''/''"]
  by (simp add: self_config_def wf_map_def)

end
