(* ===== verification/Schedule_Build.thy ===== *)
theory Schedule_Build
  imports Resource_Types
begin

text \<open>
  The first half of dependency_scheduler.go: the schedule of a list of resources, the resolution
  of \<^verbatim>\<open>depends-on\<close> entries to references, and the depth-first search for dependency cycles. Go's
  iteration order over the map \<^verbatim>\<open>byRef\<close> is an argument. The search threads the map \<^verbatim>\<open>state\<close>; it is
  defined with fuel, and \<open>visit_enough_fuel\<close> shows that one unit per unvisited node is enough.
\<close>

section \<open>Model\<close>

record scheduledResource =
  it_ref :: string
  it_resource :: resource
  it_deps :: "string list"

datatype schedule_error =
    DuplicateRef string
  | InvalidDep string
  | DepNotFound string
  | AmbiguousDep string "string list"
  | DepCycle string

type_synonym ref_index = "string \<rightharpoonup> resource"
type_synonym key_index = "string \<Rightarrow> string list"

text \<open>The first loop of \<^verbatim>\<open>buildSchedule\<close>; a missing key of a Go map reads as \<^verbatim>\<open>nil\<close>.\<close>

fun index_resources ::
  "resource list \<Rightarrow> ref_index \<Rightarrow> key_index \<Rightarrow> (schedule_error, ref_index \<times> key_index) outcome" where
  "index_resources [] index refsByKey = Ret (index, refsByKey)"
| "index_resources (res # rs) index refsByKey =
     (let ref = Ref res
      in if index ref \<noteq> None then Err (DuplicateRef ref)
         else index_resources rs (index(ref \<mapsto> res))
                (refsByKey(YAMLKey res := refsByKey (YAMLKey res) @ [ref])))"

definition resolveDependencyRef ::
  "string \<Rightarrow> ref_index \<Rightarrow> key_index \<Rightarrow> (schedule_error, string) outcome" where
  "resolveDependencyRef dep index refsByKey =
     (if str_contains dep '':''
      then (case split2 dep '':'' of
              [a, b] \<Rightarrow>
                if a = [] \<or> b = [] then Err (InvalidDep dep)
                else let ref = a @ '':'' @ b
                     in if index ref = None then Err (DepNotFound dep) else Ret ref
            | _ \<Rightarrow> Err (InvalidDep dep))
      else (case refsByKey dep of
              [] \<Rightarrow> Err (DepNotFound dep)
            | [r] \<Rightarrow> Ret r
            | ms \<Rightarrow> Err (AmbiguousDep dep ms)))"

text \<open>The recursive closure \<^verbatim>\<open>visit\<close>; its map \<^verbatim>\<open>state\<close> holds 0 (\<open>Unseen\<close>), 1 (\<open>OnStack\<close>) or 2 (\<open>Finished\<close>).\<close>

datatype colour = Unseen | OnStack | Finished

type_synonym colours = "string \<Rightarrow> colour"

fun visit ::
  "nat \<Rightarrow> (string \<Rightarrow> string list) \<Rightarrow> string \<Rightarrow> colours \<Rightarrow>
   (colours \<times> schedule_error option) option"
and visit_all ::
  "nat \<Rightarrow> (string \<Rightarrow> string list) \<Rightarrow> string list \<Rightarrow> colours \<Rightarrow>
   (colours \<times> schedule_error option) option" where
  "visit 0 deps ref state = None"
| "visit (Suc n) deps ref state =
     (if state ref = OnStack then Some (state, Some (DepCycle ref))
      else if state ref = Finished then Some (state, None)
      else (case visit_all n deps (deps ref) (state(ref := OnStack)) of
              None \<Rightarrow> None
            | Some (state', Some e) \<Rightarrow> Some (state', Some e)
            | Some (state', None) \<Rightarrow> Some (state'(ref := Finished), None)))"
| "visit_all n deps [] state = Some (state, None)"
| "visit_all n deps (d # ds) state =
     (case visit n deps d state of
        None \<Rightarrow> None
      | Some (state', Some e) \<Rightarrow> Some (state', Some e)
      | Some (state', None) \<Rightarrow> visit_all n deps ds state')"

text \<open>\<^verbatim>\<open>byRef[ref].deps\<close>: the last item with the reference, no dependencies if there is none.\<close>

definition byRef :: "scheduledResource list \<Rightarrow> string \<rightharpoonup> scheduledResource" where
  "byRef schedule = map_of (rev (map (\<lambda>item. (it_ref item, item)) schedule))"

definition deps_of :: "scheduledResource list \<Rightarrow> string \<Rightarrow> string list" where
  "deps_of schedule ref = (case byRef schedule ref of None \<Rightarrow> [] | Some item \<Rightarrow> it_deps item)"

definition cycle_fuel :: "scheduledResource list \<Rightarrow> nat" where
  "cycle_fuel schedule = Suc (length schedule + length (concat (map it_deps schedule)))"

definition detectDependencyCycles ::
  "string list \<Rightarrow> scheduledResource list \<Rightarrow> schedule_error option option" where
  "detectDependencyCycles order schedule =
     map_option snd (visit_all (cycle_fuel schedule) (deps_of schedule) order (\<lambda>_. Unseen))"

definition schedule_item ::
  "ref_index \<Rightarrow> key_index \<Rightarrow> resource \<Rightarrow> (schedule_error, scheduledResource) outcome" where
  "schedule_item index refsByKey res =
     bind_outcome (map_outcomes (\<lambda>dep. resolveDependencyRef dep index refsByKey) (GetDependsOn res))
       (\<lambda>canonicalDeps. Ret \<lparr>it_ref = Ref res, it_resource = res, it_deps = canonicalDeps\<rparr>)"

text \<open>\<open>Panic\<close> marks exhausted fuel; \<open>buildSchedule_total\<close> shows that it does not occur.\<close>

definition buildSchedule ::
  "string list \<Rightarrow> resource list \<Rightarrow> (schedule_error, scheduledResource list) outcome" where
  "buildSchedule order resources =
     bind_outcome (index_resources resources Map.empty (\<lambda>_. []))
       (\<lambda>(index, refsByKey).
          bind_outcome (map_outcomes (schedule_item index refsByKey) resources)
            (\<lambda>schedule.
               (case detectDependencyCycles order schedule of
                  None \<Rightarrow> Panic
                | Some (Some e) \<Rightarrow> Err e
                | Some None \<Rightarrow> Ret schedule)))"

definition hasDependencies :: "resource list \<Rightarrow> bool" where
  "hasDependencies resources = list_ex (\<lambda>res. GetDependsOn res \<noteq> []) resources"

definition applyDisabledTypes :: "resource list \<Rightarrow> string list \<Rightarrow> resource list" where
  "applyDisabledTypes resources skipList =
     map (\<lambda>t. if IsValueInList (TypeName t) skipList \<or> IsValueInList (TypeKey t) skipList
              then SetSkip t else t) resources"

section \<open>The depth-first search\<close>

definition dep_edges :: "(string \<Rightarrow> string list) \<Rightarrow> (string \<times> string) set" where
  "dep_edges deps = {(r, d). d \<in> set (deps r)}"

lemma dep_edges_iff [simp]: "(r, d) \<in> dep_edges deps \<longleftrightarrow> d \<in> set (deps r)"
  by (simp add: dep_edges_def)

text \<open>Done nodes lie on no cycle and have only done successors.\<close>

definition done_ok :: "(string \<Rightarrow> string list) \<Rightarrow> colours \<Rightarrow> bool" where
  "done_ok deps state \<longleftrightarrow>
     (\<forall>v. state v = Finished \<longrightarrow> (v, v) \<notin> (dep_edges deps)\<^sup>+ \<and> (\<forall>d\<in>set (deps v). state d = Finished))"

text \<open>The colours that a successful visit leaves: nothing gets unvisited, the stack is restored.\<close>

definition grown :: "colours \<Rightarrow> colours \<Rightarrow> bool" where
  "grown s t \<longleftrightarrow> (\<forall>v. (s v = OnStack \<longleftrightarrow> t v = OnStack) \<and> (s v = Finished \<longrightarrow> t v = Finished) \<and> (t v = Unseen \<longrightarrow> s v = Unseen))"

lemma grown_refl [simp]: "grown s s"
  by (simp add: grown_def)

lemma grown_trans: "grown s t \<Longrightarrow> grown t u \<Longrightarrow> grown s u"
  unfolding grown_def by metis

lemma done_closed:
  assumes "done_ok deps s" and "(v, w) \<in> (dep_edges deps)\<^sup>*" and "s v = Finished"
  shows "s w = Finished"
  using assms(2,3,1) by (induction rule: rtrancl_induct) (auto simp: done_ok_def)

lemma done_ok_insert:
  assumes ok: "done_ok deps s" and ref: "s ref \<noteq> Finished" and deps: "\<forall>d\<in>set (deps ref). s d = Finished"
  shows "done_ok deps (s(ref := Finished))"
proof -
  have "(ref, ref) \<notin> (dep_edges deps)\<^sup>+"
  proof
    assume "(ref, ref) \<in> (dep_edges deps)\<^sup>+"
    then obtain d where "d \<in> set (deps ref)" "(d, ref) \<in> (dep_edges deps)\<^sup>*"
      by (metis dep_edges_iff tranclD)
    with done_closed[OF ok] deps ref show False by auto
  qed
  with ok deps show ?thesis by (auto simp: done_ok_def)
qed

lemma visit_done:
  "visit n deps ref s = Some (t, None) \<Longrightarrow> done_ok deps s \<Longrightarrow>
   done_ok deps t \<and> grown s t \<and> t ref = Finished"
  "visit_all n deps ds s = Some (t, None) \<Longrightarrow> done_ok deps s \<Longrightarrow>
   done_ok deps t \<and> grown s t \<and> (\<forall>d\<in>set ds. t d = Finished)"
proof (induction n deps ref s and n deps ds s arbitrary: t and t rule: visit_visit_all.induct)
  case (2 n deps ref s)
  show ?case
  proof (cases "s ref = OnStack \<or> s ref = Finished")
    case False
    with "2.prems"(1) obtain u where u: "visit_all n deps (deps ref) (s(ref := OnStack)) = Some (u, None)"
      "t = u(ref := Finished)"
      by (auto split: option.splits)
    have ok: "done_ok deps (s(ref := OnStack))"
      using "2.prems"(2) False by (auto simp: done_ok_def)
    from False have new: "s ref \<noteq> OnStack" "s ref \<noteq> Finished" by auto
    from "2.IH"[OF new u(1) ok]
    have ih: "done_ok deps u" "grown (s(ref := OnStack)) u" "\<forall>d\<in>set (deps ref). u d = Finished"
      by (simp_all add: fun_upd_def)
    then have "u ref = OnStack" unfolding grown_def by (metis fun_upd_same)
    then have "done_ok deps t" unfolding u(2) using done_ok_insert[OF ih(1) _ ih(3)] by simp
    moreover have "grown s t"
      using ih(2) False unfolding u(2) grown_def by (auto split: if_splits)
    moreover have "t ref = Finished" using u(2) by simp
    ultimately show ?thesis by blast
  qed (use 2 in auto)
next
  case (4 n deps d ds s)
  from "4.prems"(1) obtain u where u: "visit n deps d s = Some (u, None)"
    "visit_all n deps ds u = Some (t, None)"
    by (auto split: option.splits)
  have a: "done_ok deps u" "grown s u" "u d = Finished" using "4.IH"(1)[OF u(1) "4.prems"(2)] by auto
  have b: "done_ok deps t" "grown u t" "\<forall>d\<in>set ds. t d = Finished"
    using "4.IH"(2)[OF u(1) refl refl u(2) a(1)] by auto
  from b(2) a(3) have "t d = Finished" by (simp add: grown_def)
  with a b show ?case using grown_trans[of s u t] by simp
qed auto

lemma visit_cycle:
  "visit n deps ref s = Some (t, Some e) \<Longrightarrow> done_ok deps s \<Longrightarrow>
   (\<forall>g. s g = OnStack \<longrightarrow> (g, ref) \<in> (dep_edges deps)\<^sup>+) \<Longrightarrow>
   \<exists>v. e = DepCycle v \<and> (v, v) \<in> (dep_edges deps)\<^sup>+"
  "visit_all n deps ds s = Some (t, Some e) \<Longrightarrow> done_ok deps s \<Longrightarrow>
   (\<forall>d\<in>set ds. \<forall>g. s g = OnStack \<longrightarrow> (g, d) \<in> (dep_edges deps)\<^sup>+) \<Longrightarrow>
   \<exists>v. e = DepCycle v \<and> (v, v) \<in> (dep_edges deps)\<^sup>+"
proof (induction n deps ref s and n deps ds s arbitrary: t and t rule: visit_visit_all.induct)
  case (2 n deps ref s)
  show ?case
  proof (cases "s ref = OnStack \<or> s ref = Finished")
    case True
    with 2 show ?thesis by (auto split: if_splits)
  next
    case False
    with "2.prems"(1) have u: "visit_all n deps (deps ref) (s(ref := OnStack)) = Some (t, Some e)"
      by (auto split: option.splits)
    have "done_ok deps (s(ref := OnStack))" using "2.prems"(2) False by (auto simp: done_ok_def)
    moreover have "(g, d) \<in> (dep_edges deps)\<^sup>+"
      if "d \<in> set (deps ref)" "(s(ref := OnStack)) g = OnStack" for d g
    proof (cases "g = ref")
      case True
      with that(1) show ?thesis by (auto intro: r_into_trancl)
    next
      case False
      with that(2) "2.prems"(3) have "(g, ref) \<in> (dep_edges deps)\<^sup>+" by auto
      with that(1) show ?thesis by (auto intro: trancl_into_trancl)
    qed
    ultimately show ?thesis using "2.IH" False u by blast
  qed
next
  case (4 n deps d ds s)
  show ?case
  proof (cases "visit n deps d s")
    case (Some p)
    obtain u r where p: "p = (u, r)" by (cases p)
    show ?thesis
    proof (cases r)
      case None
      have u: "visit n deps d s = Some (u, None)" using Some p None by simp
      have a: "done_ok deps u" "grown s u" using visit_done(1)[OF u "4.prems"(2)] by auto
      have "visit_all n deps ds u = Some (t, Some e)" using "4.prems"(1) u by simp
      from "4.IH"(2)[OF u refl refl this a(1)] "4.prems"(3) a(2)
      show ?thesis by (auto simp: grown_def)
    next
      case (Some e')
      with \<open>visit n deps d s = Some p\<close> p "4.prems"(1) have "visit n deps d s = Some (t, Some e)"
        by simp
      from "4.IH"(1)[OF this "4.prems"(2)] "4.prems"(3) show ?thesis by simp
    qed
  qed (use 4 in simp)
qed auto

text \<open>One unit of fuel per unvisited node, and one more.\<close>

lemma visit_zero_mono:
  "visit n deps ref s = Some (t, None) \<Longrightarrow> t v = Unseen \<Longrightarrow> s v = Unseen"
  "visit_all n deps ds s = Some (t, None) \<Longrightarrow> t v = Unseen \<Longrightarrow> s v = Unseen"
proof (induction n deps ref s and n deps ds s arbitrary: t and t rule: visit_visit_all.induct)
  case (2 n deps ref s)
  then show ?case by (fastforce split: if_splits option.splits)
next
  case (4 n deps d ds s)
  from "4.prems"(1) obtain u where u: "visit n deps d s = Some (u, None)"
    "visit_all n deps ds u = Some (t, None)"
    by (auto split: option.splits)
  from "4.IH"(1)[OF u(1)] "4.IH"(2)[OF u(1) refl refl u(2) "4.prems"(2)] show ?case by simp
qed auto

lemma visit_enough_fuel:
  "finite V \<Longrightarrow> (\<forall>v\<in>V. set (deps v) \<subseteq> V) \<Longrightarrow> ref \<in> V \<Longrightarrow>
   card {v \<in> V. s v = Unseen} < n \<Longrightarrow> visit n deps ref s \<noteq> None"
  "finite V \<Longrightarrow> (\<forall>v\<in>V. set (deps v) \<subseteq> V) \<Longrightarrow> set ds \<subseteq> V \<Longrightarrow>
   card {v \<in> V. s v = Unseen} < n \<Longrightarrow> visit_all n deps ds s \<noteq> None"
proof (induction n deps ref s and n deps ds s rule: visit_visit_all.induct)
  case (2 n deps ref s)
  show ?case
  proof (cases "s ref")
    case Unseen
    let ?s = "s(ref := OnStack)"
    have "card {v \<in> V. ?s v = Unseen} < card {v \<in> V. s v = Unseen}"
      by (rule psubset_card_mono) (use "2.prems"(1,3) Unseen in auto)
    with "2.prems"(4) have less: "card {v \<in> V. ?s v = Unseen} < n" by linarith
    have "set (deps ref) \<subseteq> V" using "2.prems"(2,3) by blast
    from "2.IH"[OF _ _ "2.prems"(1,2) this less] Unseen
    have "visit_all n deps (deps ref) ?s \<noteq> None" by (simp add: fun_upd_def)
    with Unseen show ?thesis by (auto split: option.splits)
  qed auto
next
  case (4 n deps d ds s)
  have V: "d \<in> V" "set ds \<subseteq> V" using "4.prems"(3) by simp_all
  obtain u r where p: "visit n deps d s = Some (u, r)"
    using "4.IH"(1)[OF "4.prems"(1,2) V(1) "4.prems"(4)] by auto
  show ?case
  proof (cases r)
    case None
    have "{v \<in> V. u v = Unseen} \<subseteq> {v \<in> V. s v = Unseen}"
      using visit_zero_mono(1) p None by blast
    then have "card {v \<in> V. u v = Unseen} < n"
      using card_mono[of "{v \<in> V. s v = Unseen}" "{v \<in> V. u v = Unseen}"] "4.prems"(1,4) by simp
    from "4.IH"(2)[OF p refl None "4.prems"(1,2) V(2) this] p None show ?thesis
      by (simp del: not_None_eq)
  qed (use p in simp)
qed auto

section \<open>Schedules\<close>

lemma byRef_Some:
  assumes "distinct (map it_ref schedule)"
  shows "byRef schedule ref = Some item \<longleftrightarrow> item \<in> set schedule \<and> it_ref item = ref"
proof -
  let ?ps = "rev (map (\<lambda>item. (it_ref item, item)) schedule)"
  have "distinct (map fst ?ps)" using assms by (simp add: rev_map[symmetric] comp_def)
  then have "byRef schedule ref = Some item \<longleftrightarrow> (ref, item) \<in> set ?ps"
    unfolding byRef_def by (rule map_of_eq_Some_iff)
  then show ?thesis by auto
qed

lemma byRef_in: "byRef schedule ref = Some item \<Longrightarrow> item \<in> set schedule \<and> it_ref item = ref"
  by (auto simp: byRef_def dest!: map_of_SomeD)

lemma deps_of_in: "deps_of schedule ref \<noteq> [] \<Longrightarrow> ref \<in> it_ref ` set schedule"
  by (auto simp: deps_of_def split: option.splits dest: byRef_in)

lemma deps_of_subset: "set (deps_of schedule ref) \<subseteq> set (concat (map it_deps schedule))"
  by (cases "byRef schedule ref") (auto simp: deps_of_def dest: byRef_in)

lemma deps_of_item:
  "distinct (map it_ref schedule) \<Longrightarrow> item \<in> set schedule \<Longrightarrow>
   deps_of schedule (it_ref item) = it_deps item"
  using byRef_Some[of schedule "it_ref item" item] by (simp add: deps_of_def)

text \<open>
  Whatever the order in which the map is ranged over, the search ends within its fuel, returns
  \<^verbatim>\<open>nil\<close> exactly when the dependencies are acyclic, and otherwise names a node on a cycle.
\<close>

lemma detectDependencyCycles_total:
  assumes "set order = it_ref ` set schedule"
  shows "detectDependencyCycles order schedule \<noteq> None"
proof -
  let ?V = "it_ref ` set schedule \<union> set (concat (map it_deps schedule))"
  have "card {v \<in> ?V. Unseen = Unseen} \<le> card (set (map it_ref schedule @ concat (map it_deps schedule)))"
    by (rule card_mono) auto
  also have "\<dots> < cycle_fuel schedule"
    using card_length[of "map it_ref schedule @ concat (map it_deps schedule)"]
    by (simp add: cycle_fuel_def)
  finally have "card {v \<in> ?V. Unseen = Unseen} < cycle_fuel schedule" .
  moreover have "\<forall>v\<in>?V. set (deps_of schedule v) \<subseteq> ?V" using deps_of_subset by blast
  ultimately have "visit_all (cycle_fuel schedule) (deps_of schedule) order (\<lambda>_. Unseen) \<noteq> None"
    using assms by (intro visit_enough_fuel(2)[of ?V]) simp_all
  then show ?thesis by (simp add: detectDependencyCycles_def del: not_None_eq)
qed

lemma detectDependencyCycles_None:
  assumes "set order = it_ref ` set schedule" and "detectDependencyCycles order schedule = Some None"
  shows "acyclic (dep_edges (deps_of schedule))"
proof (rule acyclicI, intro allI notI)
  fix v assume v: "(v, v) \<in> (dep_edges (deps_of schedule))\<^sup>+"
  obtain t where t: "visit_all (cycle_fuel schedule) (deps_of schedule) order (\<lambda>_. Unseen) = Some (t, None)"
    using assms(2) by (auto simp: detectDependencyCycles_def)
  have fin: "done_ok (deps_of schedule) t" "\<forall>d\<in>set order. t d = Finished"
    using visit_done(2)[OF t] by (auto simp: done_ok_def)
  from v have "deps_of schedule v \<noteq> []" by (auto dest: tranclD)
  then have "t v = Finished" using fin(2) assms(1) deps_of_in by blast
  with fin(1) v show False by (auto simp: done_ok_def)
qed

lemma detectDependencyCycles_Some:
  assumes "detectDependencyCycles order schedule = Some (Some e)"
  shows "\<exists>v. e = DepCycle v \<and> (v, v) \<in> (dep_edges (deps_of schedule))\<^sup>+"
proof -
  obtain t where "visit_all (cycle_fuel schedule) (deps_of schedule) order (\<lambda>_. Unseen) = Some (t, Some e)"
    using assms by (auto simp: detectDependencyCycles_def)
  then show ?thesis by (rule visit_cycle(2)) (auto simp: done_ok_def)
qed

lemma detectDependencyCycles_iff:
  assumes "set order = it_ref ` set schedule"
  shows "detectDependencyCycles order schedule = Some None \<longleftrightarrow> acyclic (dep_edges (deps_of schedule))"
proof
  assume acyc: "acyclic (dep_edges (deps_of schedule))"
  obtain r where r: "detectDependencyCycles order schedule = Some r"
    using detectDependencyCycles_total[OF assms] by auto
  have "r = None"
  proof (rule ccontr)
    assume "r \<noteq> None"
    with r detectDependencyCycles_Some[of order schedule] acyc show False
      by (auto simp: acyclic_def)
  qed
  with r show "detectDependencyCycles order schedule = Some None" by simp
qed (rule detectDependencyCycles_None[OF assms])

lemma index_resources_spec:
  "index_resources rs index keys = Ret (index', keys') \<longleftrightarrow>
     distinct (map Ref rs) \<and> (\<forall>r\<in>set rs. index (Ref r) = None) \<and>
     index' = index ++ map_of (map (\<lambda>r. (Ref r, r)) rs) \<and>
     keys' = (\<lambda>k. keys k @ map Ref (filter (\<lambda>r. YAMLKey r = k) rs))"
proof (induction rs arbitrary: index keys)
  case Nil
  then show ?case by auto
next
  case (Cons r rs)
  let ?idx = "index(Ref r \<mapsto> r)" and ?keys = "keys(YAMLKey r := keys (YAMLKey r) @ [Ref r])"
  have fresh: "(\<forall>q\<in>set rs. ?idx (Ref q) = None) \<longleftrightarrow>
        Ref r \<notin> Ref ` set rs \<and> (\<forall>q\<in>set rs. index (Ref q) = None)"
    by (auto split: if_splits) (metis image_eqI)
  have idx: "?idx ++ map_of (map (\<lambda>r. (Ref r, r)) rs) =
      index ++ map_of (map (\<lambda>r. (Ref r, r)) (r # rs))" if "Ref r \<notin> Ref ` set rs"
    using that by (simp add: map_add_upd_left dom_map_of_conv_image_fst image_image)
  have keys: "(\<lambda>k. ?keys k @ map Ref (filter (\<lambda>r. YAMLKey r = k) rs)) =
      (\<lambda>k. keys k @ map Ref (filter (\<lambda>q. YAMLKey q = k) (r # rs)))"
    by auto
  show ?case
  proof (cases "index (Ref r) = None \<and> Ref r \<notin> Ref ` set rs")
    case True
    then have new: "Ref r \<notin> Ref ` set rs"
      and step: "index_resources (r # rs) index keys = index_resources rs ?idx ?keys"
      by (simp_all add: Let_def)
    have "distinct (map Ref (r # rs)) = distinct (map Ref rs)"
      "(\<forall>q\<in>set (r # rs). index (Ref q) = None) = (\<forall>q\<in>set rs. index (Ref q) = None)"
      using True by auto
    then show ?thesis
      unfolding step Cons.IH[of ?idx ?keys] fresh idx[OF new] keys using new by blast
  next
    case False
    have "index_resources rs ?idx ?keys \<noteq> Ret (index', keys')" if "Ref r \<in> Ref ` set rs"
      unfolding Cons.IH[of ?idx ?keys] fresh using that by blast
    then have "index_resources (r # rs) index keys \<noteq> Ret (index', keys')"
      using False by (cases "index (Ref r)") (simp_all add: Let_def)
    moreover have "\<not> (distinct (map Ref (r # rs)) \<and> index (Ref r) = None)" using False by auto
    ultimately show ?thesis by auto
  qed
qed

lemma TypeKey_plain: "CHR '':'' \<notin> set (TypeKey r)" "TypeKey r \<noteq> []"
  by (cases r; simp)+

lemma Ref_split: "split2 (Ref r) '':'' = [TypeKey r, YAMLKey r]"
  unfolding Ref_def using split2_char[OF TypeKey_plain(1)] by simp

lemma index_dom:
  "index_resources rs Map.empty (\<lambda>_. []) = Ret (index, keys) \<Longrightarrow>
   dom index = Ref ` set rs \<and> keys = (\<lambda>k. map Ref (filter (\<lambda>r. YAMLKey r = k) rs))"
  by (auto simp: index_resources_spec dom_map_of_conv_image_fst image_image)

text \<open>
  An entry with a colon must be the reference of a resource with a nonempty key; one without must
  be the key of exactly one resource.
\<close>

definition resolves :: "resource list \<Rightarrow> string \<Rightarrow> string \<Rightarrow> bool" where
  "resolves rs dep ref \<longleftrightarrow>
     (if CHR '':'' \<in> set dep then ref = dep \<and> (\<exists>res\<in>set rs. Ref res = dep \<and> YAMLKey res \<noteq> [])
      else \<exists>res. filter (\<lambda>r. YAMLKey r = dep) rs = [res] \<and> ref = Ref res)"

lemma resolveDependencyRef_spec:
  assumes idx: "index_resources rs Map.empty (\<lambda>_. []) = Ret (index, keys)"
  shows "resolveDependencyRef dep index keys = Ret ref \<longleftrightarrow> resolves rs dep ref"
proof (cases "CHR '':'' \<in> set dep")
  case True
  then obtain a b where ab: "dep = a @ CHR '':'' # b" "split2 dep '':'' = [a, b]"
    by (rule split2_char_obtain)
  have found: "index dep = None \<longleftrightarrow> \<not> (\<exists>res\<in>set rs. Ref res = dep)"
    using index_dom[OF idx] by (metis (no_types, lifting) domIff image_iff)
  have parts: "a = TypeKey res \<and> b = YAMLKey res" if "Ref res = dep" for res
    using that Ref_split[of res] ab(2) by auto
  have "resolveDependencyRef dep index keys = Ret ref \<longleftrightarrow>
      a \<noteq> [] \<and> b \<noteq> [] \<and> index dep \<noteq> None \<and> ref = dep"
    using True ab by (auto simp: resolveDependencyRef_def Let_def)
  also have "\<dots> \<longleftrightarrow> ref = dep \<and> (\<exists>res\<in>set rs. Ref res = dep \<and> YAMLKey res \<noteq> [])"
    unfolding found using parts TypeKey_plain(2) by metis
  finally show ?thesis using True by (simp add: resolves_def)
next
  case False
  then show ?thesis
    by (auto simp: resolveDependencyRef_def resolves_def index_dom[OF idx] split: list.splits)
qed

lemma resolveDependencyRef_no_panic: "resolveDependencyRef dep index keys \<noteq> Panic"
  by (auto simp: resolveDependencyRef_def Let_def split: list.splits)

lemma resolved_in_refs:
  assumes "index_resources rs Map.empty (\<lambda>_. []) = Ret (index, keys)"
    and "resolveDependencyRef dep index keys = Ret ref"
  shows "ref \<in> Ref ` set rs"
proof -
  have "res \<in> set rs" if "filter (\<lambda>r. YAMLKey r = dep) rs = [res]" for res
    using that filter_is_subset[of "\<lambda>r. YAMLKey r = dep" rs] by simp
  with assms(2) show ?thesis unfolding resolveDependencyRef_spec[OF assms(1)] resolves_def
    by (auto split: if_splits)
qed

text \<open>What a schedule promises: one item per resource, distinct references, dependencies inside it.\<close>

definition wf_schedule :: "scheduledResource list \<Rightarrow> bool" where
  "wf_schedule schedule \<longleftrightarrow>
     distinct (map it_ref schedule) \<and>
     (\<forall>item\<in>set schedule. set (it_deps item) \<subseteq> it_ref ` set schedule) \<and>
     acyclic (dep_edges (deps_of schedule))"

lemma schedule_item_Ret:
  "schedule_item index keys res = Ret item \<longleftrightarrow>
     it_ref item = Ref res \<and> it_resource item = res \<and>
     map_outcomes (\<lambda>dep. resolveDependencyRef dep index keys) (GetDependsOn res) = Ret (it_deps item)"
  by (cases item) (auto simp: schedule_item_def go_outcome)

lemma schedule_items:
  assumes "map_outcomes (schedule_item index keys) rs = Ret schedule"
  shows "map it_ref schedule = map Ref rs" "map it_resource schedule = rs"
    "\<forall>item\<in>set schedule. \<forall>d\<in>set (it_deps item). \<exists>dep. resolveDependencyRef dep index keys = Ret d"
proof -
  have l: "list_all2 (\<lambda>res item. schedule_item index keys res = Ret item) rs schedule"
    using assms by (simp add: map_outcomes_Ret)
  then show "map it_ref schedule = map Ref rs" "map it_resource schedule = rs"
    by (induction rule: list_all2_induct) (auto simp: schedule_item_Ret)
  show "\<forall>item\<in>set schedule. \<forall>d\<in>set (it_deps item). \<exists>dep. resolveDependencyRef dep index keys = Ret d"
    using list_all2_set2[OF l] by (fastforce simp: schedule_item_Ret map_outcomes_Ret dest: list_all2_set2)
qed

lemma cycle_outcome:
  "(case d of None \<Rightarrow> Panic | Some (Some e) \<Rightarrow> Err e | Some None \<Rightarrow> Ret s) = Panic \<longleftrightarrow> d = None"
  "(case d of None \<Rightarrow> Panic | Some (Some e) \<Rightarrow> Err e | Some None \<Rightarrow> Ret s) = Ret t \<longleftrightarrow>
   d = Some None \<and> t = s"
  by (auto split: option.splits)

lemma buildSchedule_Ret:
  assumes "buildSchedule order rs = Ret schedule" and "set order = Ref ` set rs"
  shows "wf_schedule schedule \<and> map it_ref schedule = map Ref rs \<and> map it_resource schedule = rs"
proof -
  obtain index keys where idx: "index_resources rs Map.empty (\<lambda>_. []) = Ret (index, keys)"
    and items: "map_outcomes (schedule_item index keys) rs = Ret schedule"
    and det: "detectDependencyCycles order schedule = Some None"
    using assms(1) by (auto simp: buildSchedule_def go_outcome cycle_outcome)
  note sch = schedule_items[OF items]
  have refs: "it_ref ` set schedule = Ref ` set rs" using sch(1) by (metis set_map)
  have "distinct (map Ref rs)" using idx by (simp add: index_resources_spec)
  moreover have "set (it_deps item) \<subseteq> it_ref ` set schedule" if "item \<in> set schedule" for item
    using sch(3) that resolved_in_refs[OF idx] refs by blast
  ultimately show ?thesis
    using detectDependencyCycles_None[OF _ det] assms(2) refs sch by (simp add: wf_schedule_def)
qed

lemma buildSchedule_total:
  assumes "set order = Ref ` set rs"
  shows "buildSchedule order rs \<noteq> Panic"
proof
  assume "buildSchedule order rs = Panic"
  moreover have "index_resources rs i k \<noteq> Panic" for i k
    by (induction rs arbitrary: i k) (auto simp: Let_def)
  moreover have "schedule_item i k res \<noteq> Panic" for i k res
    by (auto simp: schedule_item_def go_outcome resolveDependencyRef_no_panic dest: map_outcomes_Panic)
  ultimately obtain index keys schedule where
      items: "map_outcomes (schedule_item index keys) rs = Ret schedule"
    and "detectDependencyCycles order schedule = None"
    by (auto simp: buildSchedule_def go_outcome cycle_outcome dest: map_outcomes_Panic)
  moreover have "it_ref ` set schedule = Ref ` set rs" using schedule_items(1)[OF items] by (metis set_map)
  ultimately show False using detectDependencyCycles_total[of order schedule] assms by simp
qed

section \<open>Properties\<close>

text \<open>C3: Whatever the iteration order over the map, \<^verbatim>\<open>detectDependencyCycles\<close> terminates, returns \<^verbatim>\<open>nil\<close> exactly
  when the dependency graph of the schedule is acyclic, and otherwise names a resource on a cycle.\<close>

theorem detectDependencyCycles_exact:
  assumes "set order = it_ref ` set schedule"
  shows "\<exists>r. detectDependencyCycles order schedule = Some r \<and>
     (r = None \<longleftrightarrow> acyclic (dep_edges (deps_of schedule))) \<and>
     (\<forall>e. r = Some e \<longrightarrow> (\<exists>v. e = DepCycle v \<and> (v, v) \<in> (dep_edges (deps_of schedule))\<^sup>+))"
proof -
  obtain r where r: "detectDependencyCycles order schedule = Some r"
    using detectDependencyCycles_total[OF assms] by auto
  show ?thesis
  proof (cases r)
    case None
    with r detectDependencyCycles_None[OF assms] show ?thesis by auto
  next
    case (Some e)
    with r detectDependencyCycles_Some[of order schedule e] show ?thesis
      by (auto simp: acyclic_def)
  qed
qed

definition file_res :: "string \<Rightarrow> string list \<Rightarrow> resource" where
  "file_res key deps = RFile (zero_File\<lparr>rb_id := key, rb_DependsOn := deps\<rparr>)"

definition cyclic_schedule :: "scheduledResource list" where
  "cyclic_schedule =
     [\<lparr>it_ref = ''file:a'', it_resource = file_res ''a'' [''b''], it_deps = [''file:b'']\<rparr>,
      \<lparr>it_ref = ''file:b'', it_resource = file_res ''b'' [''a''], it_deps = [''file:a'']\<rparr>]"

theorem detectDependencyCycles_exact_witness:
  "\<not> acyclic (dep_edges (deps_of cyclic_schedule)) \<and>
   detectDependencyCycles [''file:b'', ''file:a''] cyclic_schedule = Some (Some (DepCycle ''file:b''))"
proof -
  have "detectDependencyCycles [''file:b'', ''file:a''] cyclic_schedule = Some (Some (DepCycle ''file:b''))"
    by code_simp
  moreover have "set [''file:b'', ''file:a''] = it_ref ` set cyclic_schedule"
    by (auto simp: cyclic_schedule_def)
  ultimately show ?thesis using detectDependencyCycles_exact[of "[''file:b'', ''file:a'']" cyclic_schedule] by auto
qed


definition chain_schedule :: "scheduledResource list" where
  "chain_schedule =
     [\<lparr>it_ref = ''file:a'', it_resource = file_res ''a'' [''b''], it_deps = [''file:b'']\<rparr>,
      \<lparr>it_ref = ''file:b'', it_resource = file_res ''b'' [], it_deps = []\<rparr>]"

lemma chain_schedule_built:
  "buildSchedule [''file:a'', ''file:b''] [file_res ''a'' [''b''], file_res ''b'' []] = Ret chain_schedule"
  by code_simp

lemma chain_schedule_refs:
  "set [''file:a'', ''file:b''] = Ref ` set [file_res ''a'' [''b''], file_res ''b'' []]"
  by code_simp


end
