(* ===== verification/Schedule_Run.thy ===== *)
theory Schedule_Run
  imports Schedule_Build
begin

text \<open>
  The second half of dependency_scheduler.go: \<^verbatim>\<open>validateWithDependencies\<close> as a state machine. A round
  classifies the pending items (\<open>plan_item\<close>, \<open>plan_pass\<close>), then up to \<^verbatim>\<open>workerCount\<close> workers take the
  runnable items from the channel \<^verbatim>\<open>work\<close> and finish them in any order. The step relation leaves every
  interleaving open; a map write of a worker is one step. A panic inside \<^verbatim>\<open>Validate\<close> ends the program.
\<close>

section \<open>Model\<close>

text \<open>
  \<open>rs_out\<close> is what has been sent on the channel \<^verbatim>\<open>out\<close>, each with the item it is about; \<open>rs_work\<close>
  and \<open>rs_busy\<close> are the items on the channel \<^verbatim>\<open>work\<close> and in the hands of the workers.
\<close>

datatype emission = Ran "TestResult list" | SkippedBy go_error "TestResult list"

record run_state =
  rs_status :: "string \<Rightarrow> result_code"
  rs_completed :: "string \<Rightarrow> bool"
  rs_pending :: "scheduledResource list"
  rs_work :: "scheduledResource list"
  rs_busy :: "scheduledResource list"
  rs_out :: "(scheduledResource \<times> emission) list"
  rs_crashed :: bool

definition init_run :: "scheduledResource list \<Rightarrow> run_state" where
  "init_run schedule =
     \<lparr>rs_status = \<lambda>_. SUCCESS, rs_completed = \<lambda>_. False, rs_pending = schedule, rs_work = [],
      rs_busy = [], rs_out = [], rs_crashed = False\<rparr>"

definition workerCount :: "int \<Rightarrow> int \<Rightarrow> int" where
  "workerCount numCPU maxConcurrent =
     (let n = numCPU * 5;
          n = (if n > maxConcurrent then maxConcurrent else n)
      in if n < 1 then 1 else n)"

text \<open>The loop over \<^verbatim>\<open>item.deps\<close>: (blocked, reason to skip).\<close>

fun scan_deps ::
  "(string \<Rightarrow> result_code) \<Rightarrow> (string \<Rightarrow> bool) \<Rightarrow> string list \<Rightarrow> bool \<times> go_error option \<Rightarrow>
   bool \<times> go_error option" where
  "scan_deps status completed [] acc = acc"
| "scan_deps status completed (dep # deps) (blocked, skip) =
     (if \<not> completed dep then (True, skip)
      else (case status dep of
              SUCCESS \<Rightarrow> scan_deps status completed deps (blocked, skip)
            | FAIL \<Rightarrow> scan_deps status completed deps (blocked, Some (DepFailed dep))
            | SKIP \<Rightarrow> scan_deps status completed deps (blocked, Some (DepFailed dep))
            | UNKNOWN \<Rightarrow> scan_deps status completed deps (True, skip)))"

definition skip_emission :: "(resource \<Rightarrow> int) \<Rightarrow> scheduledResource \<Rightarrow> go_error \<Rightarrow> emission" where
  "skip_emission now item reason =
     SkippedBy reason
       (SkipResourceResults (resource_info (it_resource item)) (TypeName (it_resource item)) reason
          (now (it_resource item)))"

text \<open>
  One pass of the loop over \<^verbatim>\<open>pending\<close>: the state with the skips sent, \<^verbatim>\<open>runnable\<close> and \<^verbatim>\<open>nextPending\<close>.
\<close>

fun plan_pass ::
  "(resource \<Rightarrow> int) \<Rightarrow> scheduledResource list \<Rightarrow> run_state \<Rightarrow>
   scheduledResource list \<Rightarrow> scheduledResource list \<Rightarrow>
   run_state \<times> scheduledResource list \<times> scheduledResource list" where
  "plan_pass now [] s runnable nextPending = (s, runnable, nextPending)"
| "plan_pass now (item # items) s runnable nextPending =
     (if rs_completed s (it_ref item) then plan_pass now items s runnable nextPending
      else let (blocked, skip) =
                 scan_deps (rs_status s) (rs_completed s) (it_deps item) (False, None)
           in (case skip of
              Some reason \<Rightarrow>
                plan_pass now items
                  (s\<lparr>rs_out := rs_out s @ [(item, skip_emission now item reason)],
                     rs_status := (rs_status s)(it_ref item := SKIP),
                     rs_completed := (rs_completed s)(it_ref item := True)\<rparr>)
                  runnable nextPending
            | None \<Rightarrow>
                if blocked then plan_pass now items s runnable (nextPending @ [item])
                else plan_pass now items s (runnable @ [item]) nextPending))"

definition plan :: "(resource \<Rightarrow> int) \<Rightarrow> run_state \<Rightarrow> run_state" where
  "plan now s =
     (case plan_pass now (rs_pending s) s [] [] of
        (s', [], nextPending) \<Rightarrow>
          s'\<lparr>rs_pending := [],
             rs_out := rs_out s' @ map (\<lambda>item. (item, skip_emission now item UnsatisfiedDep)) nextPending\<rparr>
      | (s', runnable, nextPending) \<Rightarrow> s'\<lparr>rs_pending := nextPending, rs_work := runnable\<rparr>)"

definition passed_results :: "TestResult list \<Rightarrow> bool" where
  "passed_results results = list_all (\<lambda>result. Result result \<noteq> FAIL) results"

definition finish :: "scheduledResource \<Rightarrow> TestResult list \<Rightarrow> run_state \<Rightarrow> run_state" where
  "finish item results s =
     s\<lparr>rs_busy := remove1 item (rs_busy s),
       rs_status := (rs_status s)(it_ref item := (if passed_results results then SUCCESS else FAIL)),
       rs_completed := (rs_completed s)(it_ref item := True),
       rs_out := rs_out s @ [(item, Ran results)]\<rparr>"

inductive run_step ::
  "(resource \<Rightarrow> TestResult list option) \<Rightarrow> (resource \<Rightarrow> int) \<Rightarrow> int \<Rightarrow> run_state \<Rightarrow> run_state \<Rightarrow> bool"
  for validate :: "resource \<Rightarrow> TestResult list option" and now :: "resource \<Rightarrow> int" and workers :: int where
  round: "\<not> rs_crashed s \<Longrightarrow> rs_work s = [] \<Longrightarrow> rs_busy s = [] \<Longrightarrow> rs_pending s \<noteq> [] \<Longrightarrow>
          run_step validate now workers s (plan now s)"
| take_item: "\<not> rs_crashed s \<Longrightarrow> rs_work s = item # items \<Longrightarrow> int (length (rs_busy s)) < workers \<Longrightarrow>
          run_step validate now workers s (s\<lparr>rs_work := items, rs_busy := rs_busy s @ [item]\<rparr>)"
| finish_item: "\<not> rs_crashed s \<Longrightarrow> item \<in> set (rs_busy s) \<Longrightarrow> validate (it_resource item) = Some results \<Longrightarrow>
          run_step validate now workers s (finish item results s)"
| crash: "\<not> rs_crashed s \<Longrightarrow> item \<in> set (rs_busy s) \<Longrightarrow> validate (it_resource item) = None \<Longrightarrow>
          run_step validate now workers s (s\<lparr>rs_crashed := True\<rparr>)"

inductive_cases run_step_cases: "run_step validate now workers s s'"

definition run_final :: "run_state \<Rightarrow> bool" where
  "run_final s \<longleftrightarrow> rs_pending s = [] \<and> rs_work s = [] \<and> rs_busy s = []"

abbreviation run_reaches where
  "run_reaches validate now workers schedule \<equiv> (run_step validate now workers)\<^sup>*\<^sup>* (init_run schedule)"

section \<open>Specification\<close>

text \<open>
  A resource passes when it validates without a failing result and everything it depends on passes:
  the least solution, which mentions neither rounds nor workers.
\<close>

inductive dep_passed :: "scheduledResource list \<Rightarrow> (resource \<Rightarrow> TestResult list option) \<Rightarrow> string \<Rightarrow> bool"
  for schedule :: "scheduledResource list" and validate :: "resource \<Rightarrow> TestResult list option" where
  "item \<in> set schedule \<Longrightarrow> it_ref item = ref \<Longrightarrow>
   (\<And>d. d \<in> set (it_deps item) \<Longrightarrow> dep_passed schedule validate d) \<Longrightarrow>
   validate (it_resource item) = Some results \<Longrightarrow> passed_results results \<Longrightarrow>
   dep_passed schedule validate ref"

inductive_cases dep_passed_cases: "dep_passed schedule validate ref"

definition deps_passed ::
  "scheduledResource list \<Rightarrow> (resource \<Rightarrow> TestResult list option) \<Rightarrow> scheduledResource \<Rightarrow> bool" where
  "deps_passed schedule validate item \<longleftrightarrow> (\<forall>d\<in>set (it_deps item). dep_passed schedule validate d)"

text \<open>What may be sent for an item.\<close>

fun emission_ok ::
  "scheduledResource list \<Rightarrow> (resource \<Rightarrow> TestResult list option) \<Rightarrow> (resource \<Rightarrow> int) \<Rightarrow>
   scheduledResource \<times> emission \<Rightarrow> bool" where
  "emission_ok schedule validate now (item, Ran results) \<longleftrightarrow>
     deps_passed schedule validate item \<and> validate (it_resource item) = Some results"
| "emission_ok schedule validate now (item, SkippedBy reason results) \<longleftrightarrow>
     \<not> deps_passed schedule validate item \<and> SkippedBy reason results = skip_emission now item reason \<and>
     (reason = UnsatisfiedDep \<or>
      (\<exists>d\<in>set (it_deps item). reason = DepFailed d \<and> \<not> dep_passed schedule validate d))"

lemma dep_passed_item:
  assumes "wf_schedule schedule" and "item \<in> set schedule"
  shows "dep_passed schedule validate (it_ref item) \<longleftrightarrow>
     deps_passed schedule validate item \<and>
     (\<exists>results. validate (it_resource item) = Some results \<and> passed_results results)"
proof
  assume "dep_passed schedule validate (it_ref item)"
  then show "deps_passed schedule validate item \<and>
     (\<exists>results. validate (it_resource item) = Some results \<and> passed_results results)"
  proof (cases rule: dep_passed.cases)
    case (1 item' results)
    moreover have "item' = item"
      using assms 1(1,2) unfolding wf_schedule_def by (metis byRef_Some option.inject)
    ultimately show ?thesis by (auto simp: deps_passed_def)
  qed
qed (auto simp: deps_passed_def intro: dep_passed.intros[OF assms(2)])

section \<open>The state invariant\<close>

text \<open>The maps agree with what has been sent.\<close>

definition maps_ok ::
  "scheduledResource list \<Rightarrow> (resource \<Rightarrow> TestResult list option) \<Rightarrow> run_state \<Rightarrow> bool" where
  "maps_ok schedule validate s \<longleftrightarrow>
     (\<forall>r. rs_completed s r \<longrightarrow>
        r \<in> it_ref ` fst ` set (rs_out s) \<and> rs_status s r \<noteq> UNKNOWN \<and>
        (rs_status s r = SUCCESS \<longleftrightarrow> dep_passed schedule validate r))"

definition out_ok ::
  "scheduledResource list \<Rightarrow> (resource \<Rightarrow> TestResult list option) \<Rightarrow> (resource \<Rightarrow> int) \<Rightarrow> run_state \<Rightarrow> bool" where
  "out_ok schedule validate now s \<longleftrightarrow> (\<forall>p\<in>set (rs_out s). emission_ok schedule validate now p)"

definition run_inv ::
  "scheduledResource list \<Rightarrow> (resource \<Rightarrow> TestResult list option) \<Rightarrow> (resource \<Rightarrow> int) \<Rightarrow> run_state \<Rightarrow> bool" where
  "run_inv schedule validate now s \<longleftrightarrow>
     mset (map fst (rs_out s) @ rs_busy s @ rs_work s @ rs_pending s) = mset schedule \<and>
     maps_ok schedule validate s \<and> out_ok schedule validate now s \<and>
     (\<forall>item\<in>set (rs_busy s @ rs_work s). deps_passed schedule validate item) \<and>
     (\<not> run_final s \<longrightarrow> (\<forall>p\<in>set (rs_out s). rs_completed s (it_ref (fst p))))"

lemma scan_deps_skip:
  "scan_deps st c deps (b, sk) = (b', Some reason) \<Longrightarrow>
   sk = Some reason \<or> (\<exists>d\<in>set deps. reason = DepFailed d \<and> c d \<and> st d \<noteq> SUCCESS)"
  by (induction st c deps "(b, sk)" arbitrary: b sk rule: scan_deps.induct)
    (auto split: if_splits result_code.splits)

lemma scan_deps_none:
  "scan_deps st c deps (b, sk) = (b', None) \<Longrightarrow> (\<forall>d. c d \<longrightarrow> st d \<noteq> UNKNOWN) \<Longrightarrow>
   sk = None \<and> (if \<forall>d\<in>set deps. c d \<and> st d = SUCCESS then b' = b else b' \<and> (\<exists>d\<in>set deps. \<not> c d))"
proof (induction st c deps "(b, sk)" arbitrary: b sk rule: scan_deps.induct)
  case (2 st c d ds b sk)
  then show ?case by (cases "st d") (auto split: if_splits)
qed simp

text \<open>The invariant of the planning loop, with the items it still has to classify.\<close>

definition plan_inv ::
  "scheduledResource list \<Rightarrow> (resource \<Rightarrow> TestResult list option) \<Rightarrow> (resource \<Rightarrow> int) \<Rightarrow>
   scheduledResource list \<Rightarrow> run_state \<Rightarrow> scheduledResource list \<Rightarrow> scheduledResource list \<Rightarrow> bool" where
  "plan_inv schedule validate now items s runnable next \<longleftrightarrow>
     mset (map fst (rs_out s) @ runnable @ next @ items) = mset schedule \<and>
     maps_ok schedule validate s \<and> out_ok schedule validate now s \<and>
     (\<forall>p\<in>set (rs_out s). rs_completed s (it_ref (fst p))) \<and>
     (\<forall>item\<in>set runnable. deps_passed schedule validate item) \<and>
     (\<forall>item\<in>set next. \<exists>d\<in>set (it_deps item).
        d \<in> it_ref ` set (runnable @ next @ items) \<or> \<not> dep_passed schedule validate d)"

lemma mset_schedule_sets:
  assumes "wf_schedule schedule" and "mset (as @ bs) = mset schedule"
  shows "set as \<union> set bs = set schedule" and "it_ref ` set as \<inter> it_ref ` set bs = {}"
proof -
  show "set as \<union> set bs = set schedule" using assms(2) by (metis mset_eq_setD set_append)
  have "mset (map it_ref (as @ bs)) = mset (map it_ref schedule)"
    using assms(2) by (metis mset_map)
  then have "distinct (map it_ref (as @ bs))"
    using assms(1) by (metis distinct_count_atmost_1 mset_eq_imp_distinct_iff wf_schedule_def)
  then show "it_ref ` set as \<inter> it_ref ` set bs = {}" by simp
qed

lemma plan_inv_skip:
  assumes wf: "wf_schedule schedule"
    and inv: "plan_inv schedule validate now (item # items) s runnable next"
    and scan: "scan_deps (rs_status s) (rs_completed s) (it_deps item) (False, None) = (b, Some reason)"
  shows "plan_inv schedule validate now items
     (s\<lparr>rs_out := rs_out s @ [(item, skip_emission now item reason)],
        rs_status := (rs_status s)(it_ref item := SKIP),
        rs_completed := (rs_completed s)(it_ref item := True)\<rparr>) runnable next"
proof -
  have ms: "mset (map fst (rs_out s) @ runnable @ next @ item # items) = mset schedule"
    using inv by (simp add: plan_inv_def)
  obtain d where d: "d \<in> set (it_deps item)" "reason = DepFailed d" "rs_completed s d" "rs_status s d \<noteq> SUCCESS"
    using scan_deps_skip[OF scan] by auto
  then have nd: "\<not> dep_passed schedule validate d" using inv by (auto simp: plan_inv_def maps_ok_def)
  then have np: "\<not> deps_passed schedule validate item" using d(1) by (auto simp: deps_passed_def)
  have "item \<in> set schedule" using mset_schedule_sets(1)[OF wf ms] by auto
  then have ni: "\<not> dep_passed schedule validate (it_ref item)" using dep_passed_item[OF wf] np by simp
  let ?s = "s\<lparr>rs_out := rs_out s @ [(item, skip_emission now item reason)],
        rs_status := (rs_status s)(it_ref item := SKIP),
        rs_completed := (rs_completed s)(it_ref item := True)\<rparr>"
  have em: "emission_ok schedule validate now (item, skip_emission now item reason)"
    using np d(1,2) nd by (auto simp: skip_emission_def)
  have old: "maps_ok schedule validate s" "out_ok schedule validate now s"
    "\<forall>p\<in>set (rs_out s). rs_completed s (it_ref (fst p))"
    "\<forall>i\<in>set next. \<exists>d\<in>set (it_deps i).
       d \<in> it_ref ` set (runnable @ next @ item # items) \<or> \<not> dep_passed schedule validate d"
    using inv unfolding plan_inv_def by blast+
  have "maps_ok schedule validate ?s" using old(1) ni by (simp add: maps_ok_def)
  moreover have "out_ok schedule validate now ?s" using old(2) em by (simp add: out_ok_def)
  moreover have "\<forall>p\<in>set (rs_out ?s). rs_completed ?s (it_ref (fst p))" using old(3) by simp
  moreover have "\<forall>i\<in>set next. \<exists>d\<in>set (it_deps i).
       d \<in> it_ref ` set (runnable @ next @ items) \<or> \<not> dep_passed schedule validate d"
  proof
    fix i assume "i \<in> set next"
    with old(4) obtain d where "d \<in> set (it_deps i)"
      "d \<in> it_ref ` set (runnable @ next @ item # items) \<or> \<not> dep_passed schedule validate d" by blast
    moreover from this(2) ni
    have "d \<in> it_ref ` set (runnable @ next @ items) \<or> \<not> dep_passed schedule validate d" by auto
    ultimately show "\<exists>d\<in>set (it_deps i).
       d \<in> it_ref ` set (runnable @ next @ items) \<or> \<not> dep_passed schedule validate d" by blast
  qed
  ultimately show ?thesis using inv ms unfolding plan_inv_def by (simp add: ac_simps)
qed

lemma plan_inv_pass:
  assumes wf: "wf_schedule schedule"
  shows "plan_inv schedule validate now items s runnable next \<Longrightarrow>
    plan_pass now items s runnable next = (s', runnable', next') \<Longrightarrow>
    plan_inv schedule validate now [] s' runnable' next' \<and>
    rs_busy s' = rs_busy s \<and> rs_work s' = rs_work s \<and> rs_crashed s' = rs_crashed s"
proof (induction items arbitrary: s runnable "next")
  case (Cons item items)
  note inv = Cons.prems(1)
  have ms: "mset (map fst (rs_out s) @ runnable @ next @ item # items) = mset schedule"
    using inv by (simp add: plan_inv_def)
  note sets = mset_schedule_sets[OF wf ms]
  have fresh: "\<not> rs_completed s (it_ref item)"
    using sets(2) inv by (force simp: plan_inv_def maps_ok_def)
  have known: "\<forall>d. rs_completed s d \<longrightarrow> rs_status s d \<noteq> UNKNOWN"
    using inv by (simp add: plan_inv_def maps_ok_def)
  obtain b sk where scan: "scan_deps (rs_status s) (rs_completed s) (it_deps item) (False, None) = (b, sk)"
    by (cases "scan_deps (rs_status s) (rs_completed s) (it_deps item) (False, None)")
  show ?case
  proof (cases sk)
    case (Some reason)
    note sc = scan[unfolded Some]
    show ?thesis
      using Cons.IH[OF plan_inv_skip[OF wf inv sc]] Cons.prems(2) fresh sc by simp
  next
    case None
    note sc = scan[unfolded None]
    note none = scan_deps_none[OF sc known]
    show ?thesis
    proof (cases b)
      case True
      then obtain d where d: "d \<in> set (it_deps item)" "\<not> rs_completed s d"
        using none by (auto split: if_splits)
      have "d \<in> it_ref ` set schedule" using wf sets(1) d(1) by (auto simp: wf_schedule_def)
      then have "d \<in> it_ref ` set (runnable @ next @ item # items)"
        using d(2) sets(1) inv by (force simp: plan_inv_def)
      then have "plan_inv schedule validate now items s runnable (next @ [item])"
        using inv d(1) unfolding plan_inv_def by (simp add: ac_simps) blast
      from Cons.IH[OF this] Cons.prems(2) fresh sc True show ?thesis by simp
    next
      case False
      then have "\<forall>d\<in>set (it_deps item). rs_completed s d \<and> rs_status s d = SUCCESS"
        using none by (auto split: if_splits)
      then have "deps_passed schedule validate item"
        using inv by (auto simp: deps_passed_def plan_inv_def maps_ok_def)
      then have "plan_inv schedule validate now items s (runnable @ [item]) next"
        using inv unfolding plan_inv_def by (simp add: ac_simps)
      from Cons.IH[OF this] Cons.prems(2) fresh sc False show ?thesis by simp
    qed
  qed
qed simp

text \<open>Nothing runnable: every item still blocked has a dependency that does not pass.\<close>

lemma blocked_not_passed:
  assumes wf: "wf_schedule schedule" and sub: "set next \<subseteq> set schedule"
    and blocked: "\<forall>item\<in>set next. \<exists>d\<in>set (it_deps item).
        d \<in> it_ref ` set next \<or> \<not> dep_passed schedule validate d"
  shows "item \<in> set next \<Longrightarrow> \<not> deps_passed schedule validate item"
proof -
  have "dep_edges (deps_of schedule) \<subseteq> it_ref ` set schedule \<times> set (concat (map it_deps schedule))"
  proof (rule subrelI)
    fix r d assume "(r, d) \<in> dep_edges (deps_of schedule)"
    then have d: "d \<in> set (deps_of schedule r)" by simp
    then have "r \<in> it_ref ` set schedule" by (intro deps_of_in) auto
    with d show "(r, d) \<in> it_ref ` set schedule \<times> set (concat (map it_deps schedule))"
      using deps_of_subset by blast
  qed
  then have "finite (dep_edges (deps_of schedule))" by (rule finite_subset) simp
  then have "wf ((dep_edges (deps_of schedule))\<inverse>)"
    using wf by (simp add: wf_schedule_def finite_acyclic_wf_converse)
  then have "\<forall>item\<in>set next. it_ref item = r \<longrightarrow> \<not> deps_passed schedule validate item" for r
  proof (induction r rule: wf_induct_rule)
    case (less r)
    show ?case
    proof (intro ballI impI)
      fix item assume item: "item \<in> set next" "it_ref item = r"
      then obtain d where d: "d \<in> set (it_deps item)" "d \<in> it_ref ` set next \<or> \<not> dep_passed schedule validate d"
        using blocked by blast
      show "\<not> deps_passed schedule validate item"
      proof (cases "dep_passed schedule validate d")
        case True
        with d(2) obtain j where j: "j \<in> set next" "it_ref j = d" by blast
        have "deps_of schedule r = it_deps item"
          using wf item sub deps_of_item unfolding wf_schedule_def by blast
        then have "(d, r) \<in> (dep_edges (deps_of schedule))\<inverse>" using d(1) by simp
        with less j have "\<not> deps_passed schedule validate j" by blast
        with True j sub dep_passed_item[OF wf] show ?thesis by blast
      qed (use d(1) in \<open>auto simp: deps_passed_def\<close>)
    qed
  qed
  then show "item \<in> set next \<Longrightarrow> \<not> deps_passed schedule validate item" by blast
qed

lemma run_inv_init: "run_inv schedule validate now (init_run schedule)"
  by (simp add: run_inv_def init_run_def maps_ok_def out_ok_def)

lemma run_inv_plan:
  assumes wf: "wf_schedule schedule" and inv: "run_inv schedule validate now s"
    and idle: "rs_work s = []" "rs_busy s = []" "rs_pending s \<noteq> []"
  shows "run_inv schedule validate now (plan now s)"
proof -
  obtain s' runnable nxt where pp: "plan_pass now (rs_pending s) s [] [] = (s', runnable, nxt)"
    by (cases "plan_pass now (rs_pending s) s [] []")
  have "plan_inv schedule validate now (rs_pending s) s [] []"
    using inv idle by (simp add: run_inv_def plan_inv_def run_final_def)
  from plan_inv_pass[OF wf this pp]
  have p: "plan_inv schedule validate now [] s' runnable nxt"
    and same: "rs_busy s' = []" "rs_work s' = []" using idle by simp_all
  show ?thesis
  proof (cases runnable)
    case Nil
    have "set nxt \<subseteq> set schedule"
      using p mset_schedule_sets(1)[OF wf, of "map fst (rs_out s')" nxt] Nil by (auto simp: plan_inv_def)
    then have np: "\<forall>item\<in>set nxt. \<not> deps_passed schedule validate item"
      using blocked_not_passed[OF wf, of nxt validate] p Nil by (auto simp: plan_inv_def)
    then have "\<forall>item\<in>set nxt. emission_ok schedule validate now (item, skip_emission now item UnsatisfiedDep)"
      by (simp add: skip_emission_def)
    with p same Nil pp show ?thesis
      by (auto simp: plan_def run_inv_def plan_inv_def maps_ok_def out_ok_def run_final_def comp_def image_image)
  next
    case (Cons item items)
    with p same pp show ?thesis
      by (auto simp: plan_def run_inv_def plan_inv_def maps_ok_def out_ok_def ac_simps)
  qed
qed

lemma run_inv_finish:
  assumes wf: "wf_schedule schedule" and inv: "run_inv schedule validate now s"
    and busy: "item \<in> set (rs_busy s)" and v: "validate (it_resource item) = Some results"
  shows "run_inv schedule validate now (finish item results s)"
proof -
  have ms: "mset (map fst (rs_out s) @ rs_busy s @ rs_work s @ rs_pending s) = mset schedule"
    and dp: "deps_passed schedule validate item" using inv busy by (auto simp: run_inv_def)
  have "item \<in> set schedule" using mset_schedule_sets(1)[OF wf ms] busy by auto
  then have "dep_passed schedule validate (it_ref item) \<longleftrightarrow> passed_results results"
    using dep_passed_item[OF wf] dp v by simp
  then have "maps_ok schedule validate (finish item results s)"
    using inv by (auto simp: run_inv_def maps_ok_def finish_def)
  moreover have "out_ok schedule validate now (finish item results s)"
    using inv dp v by (auto simp: run_inv_def out_ok_def finish_def)
  moreover have "\<forall>p\<in>set (rs_out s). rs_completed s (it_ref (fst p))"
    using inv busy by (auto simp: run_inv_def run_final_def)
  moreover obtain xs ys where "rs_busy s = xs @ item # ys" "remove1 item (rs_busy s) = xs @ ys"
    using split_list_first[OF busy] by (auto simp: remove1_append)
  ultimately show ?thesis
    using inv unfolding run_inv_def by (auto simp: finish_def)
qed

lemma run_inv_step:
  assumes wf: "wf_schedule schedule" and "run_step validate now workers s s'"
    and inv: "run_inv schedule validate now s"
  shows "run_inv schedule validate now s'"
  using assms(2)
proof cases
  case round
  then show ?thesis using run_inv_plan[OF wf inv] by simp
next
  case (take_item item items)
  then show ?thesis using inv
    by (auto simp: run_inv_def maps_ok_def out_ok_def run_final_def ac_simps)
next
  case (finish_item item results)
  then show ?thesis using run_inv_finish[OF wf inv] by simp
next
  case (crash item)
  then show ?thesis using inv by (simp add: run_inv_def maps_ok_def out_ok_def run_final_def)
qed

lemma run_inv_reaches:
  assumes "wf_schedule schedule" and "run_reaches validate now workers schedule s"
  shows "run_inv schedule validate now s"
  using assms(2) by (induction rule: rtranclp_induct) (auto intro: run_inv_init run_inv_step[OF assms(1)])

section \<open>Termination and progress\<close>

definition run_measure :: "run_state \<Rightarrow> nat" where
  "run_measure s = (if rs_crashed s then 0
     else Suc (3 * length (rs_pending s) + 2 * length (rs_work s) + length (rs_busy s)))"

lemma plan_pass_length:
  "plan_pass now items s runnable nxt = (s', runnable', nxt') \<Longrightarrow>
   length runnable' + length nxt' \<le> length runnable + length nxt + length items \<and>
   rs_busy s' = rs_busy s \<and> rs_work s' = rs_work s \<and> rs_crashed s' = rs_crashed s"
proof (induction items arbitrary: s runnable nxt)
  case (Cons item items)
  then show ?case by (fastforce simp: Let_def split: if_splits prod.splits option.splits)
qed simp

lemma plan_decreases:
  assumes "\<not> rs_crashed s" "rs_work s = []" "rs_busy s = []" "rs_pending s \<noteq> []"
  shows "run_measure (plan now s) < run_measure s"
proof -
  obtain s' runnable nxt where pp: "plan_pass now (rs_pending s) s [] [] = (s', runnable, nxt)"
    by (cases "plan_pass now (rs_pending s) s [] []")
  from plan_pass_length[OF pp] pp assms show ?thesis
    by (cases runnable) (auto simp: plan_def run_measure_def)
qed

lemma run_step_decreases:
  assumes "run_step validate now workers s s'"
  shows "run_measure s' < run_measure s"
  using assms
proof cases
  case round
  then show ?thesis using plan_decreases by simp
next
  case (finish_item item results)
  then have "0 < length (rs_busy s)" by auto
  with finish_item show ?thesis by (simp add: run_measure_def finish_def length_remove1)
qed (auto simp: run_measure_def)

lemma run_progress:
  assumes "\<not> run_final s" and "\<not> rs_crashed s" and "0 < workers"
  shows "\<exists>s'. run_step validate now workers s s'"
proof (cases "rs_busy s")
  case busy: Nil
  show ?thesis
  proof (cases "rs_work s")
    case Nil
    with busy assms(1,2) show ?thesis by (auto simp: run_final_def intro: run_step.round)
  next
    case (Cons item items)
    with run_step.take_item[OF assms(2) Cons] busy assms(3) show ?thesis by fastforce
  qed
next
  case (Cons item items)
  then show ?thesis
    using run_step.finish_item[of s item validate] run_step.crash[of s item validate] assms(2)
    by (cases "validate (it_resource item)") fastforce+
qed

lemma run_completes:
  assumes "0 < workers"
  shows "\<exists>s'. (run_step validate now workers)\<^sup>*\<^sup>* s s' \<and> (run_final s' \<or> rs_crashed s')"
proof (induction s rule: measure_induct_rule[of run_measure])
  case (less s)
  show ?case
  proof (cases "run_final s \<or> rs_crashed s")
    case False
    then obtain t where t: "run_step validate now workers s t" using run_progress[OF _ _ assms] by blast
    with less[OF run_step_decreases[OF t]] show ?thesis by (meson converse_rtranclp_into_rtranclp)
  qed blast
qed

lemma run_step_wf: "wfP (\<lambda>s' s. run_step validate now workers s s')"
  by (rule wfp_if_convertible_to_nat[of _ run_measure]) (rule run_step_decreases)

lemma workerCount_bounds:
  "1 \<le> workerCount numCPU maxConcurrent"
  "1 \<le> maxConcurrent \<Longrightarrow> workerCount numCPU maxConcurrent \<le> maxConcurrent"
  by (auto simp: workerCount_def Let_def)

section \<open>Order of the results\<close>

text \<open>A validated resource comes after everything it depends on.\<close>

fun ordered_from :: "string set \<Rightarrow> (scheduledResource \<times> emission) list \<Rightarrow> bool" where
  "ordered_from seen [] = True"
| "ordered_from seen ((item, Ran results) # out) =
     (set (it_deps item) \<subseteq> seen \<and> ordered_from (insert (it_ref item) seen) out)"
| "ordered_from seen ((item, SkippedBy reason results) # out) =
     ordered_from (insert (it_ref item) seen) out"

abbreviation "ordered_out \<equiv> ordered_from {}"

lemma ordered_from_append:
  "ordered_from seen (xs @ ys) \<longleftrightarrow>
     ordered_from seen xs \<and> ordered_from (seen \<union> it_ref ` fst ` set xs) ys"
  by (induction seen xs rule: ordered_from.induct) (auto simp: insert_commute)

lemma ordered_from_skips:
  "\<forall>p\<in>set ks. \<forall>results. snd p \<noteq> Ran results \<Longrightarrow> ordered_from seen ks"
  by (induction seen ks rule: ordered_from.induct) auto

lemma ordered_from_before:
  "ordered_from seen (before @ (item, Ran results) # after) \<Longrightarrow>
   set (it_deps item) \<subseteq> seen \<union> it_ref ` fst ` set before"
  by (simp add: ordered_from_append)

definition order_inv :: "run_state \<Rightarrow> bool" where
  "order_inv s \<longleftrightarrow>
     ordered_out (rs_out s) \<and>
     (\<forall>r. rs_completed s r \<longrightarrow> r \<in> it_ref ` fst ` set (rs_out s)) \<and>
     (\<forall>item\<in>set (rs_busy s @ rs_work s). \<forall>d\<in>set (it_deps item). rs_completed s d)"

lemma scan_deps_completed:
  "scan_deps st c deps (b, sk) = (False, sk') \<Longrightarrow> \<forall>d\<in>set deps. c d"
proof (induction deps arbitrary: b sk)
  case (Cons d ds)
  from Cons.prems have "c d" "\<exists>b sk. scan_deps st c ds (b, sk) = (False, sk')"
    by (cases "c d"; cases "st d"; auto)+
  with Cons.IH show ?case by auto
qed simp

lemma plan_pass_order:
  "plan_pass now items s runnable nxt = (s', runnable', nxt') \<Longrightarrow>
   \<forall>item\<in>set runnable. \<forall>d\<in>set (it_deps item). rs_completed s d \<Longrightarrow>
   \<forall>r. rs_completed s r \<longrightarrow> r \<in> it_ref ` fst ` set (rs_out s) \<Longrightarrow>
   (\<forall>item\<in>set runnable'. \<forall>d\<in>set (it_deps item). rs_completed s' d) \<and>
   (\<forall>r. rs_completed s' r \<longrightarrow> r \<in> it_ref ` fst ` set (rs_out s')) \<and>
   (\<exists>ks. rs_out s' = rs_out s @ ks \<and> (\<forall>p\<in>set ks. \<forall>results. snd p \<noteq> Ran results))"
proof (induction items arbitrary: s runnable nxt)
  case (Cons item items)
  obtain b sk where scan: "scan_deps (rs_status s) (rs_completed s) (it_deps item) (False, None) = (b, sk)"
    by (cases "scan_deps (rs_status s) (rs_completed s) (it_deps item) (False, None)")
  show ?case
  proof (cases "rs_completed s (it_ref item)")
    case True
    with Cons show ?thesis by simp
  next
    case False
    show ?thesis
    proof (cases sk)
      case (Some reason)
      let ?s = "s\<lparr>rs_out := rs_out s @ [(item, skip_emission now item reason)],
        rs_status := (rs_status s)(it_ref item := SKIP),
        rs_completed := (rs_completed s)(it_ref item := True)\<rparr>"
      have "plan_pass now items ?s runnable nxt = (s', runnable', nxt')"
        using Cons.prems(1) False scan Some by simp
      note ih = Cons.IH[OF this]
      have "(\<forall>item\<in>set runnable'. \<forall>d\<in>set (it_deps item). rs_completed s' d) \<and>
        (\<forall>r. rs_completed s' r \<longrightarrow> r \<in> it_ref ` fst ` set (rs_out s')) \<and>
        (\<exists>ks. rs_out s' = rs_out ?s @ ks \<and> (\<forall>p\<in>set ks. \<forall>results. snd p \<noteq> Ran results))"
        by (rule ih) (use Cons.prems(2,3) in auto)
      then obtain ks where "rs_out s' = rs_out s @ (item, skip_emission now item reason) # ks"
        "\<forall>p\<in>set ((item, skip_emission now item reason) # ks). \<forall>results. snd p \<noteq> Ran results"
        "\<forall>item\<in>set runnable'. \<forall>d\<in>set (it_deps item). rs_completed s' d"
        "\<forall>r. rs_completed s' r \<longrightarrow> r \<in> it_ref ` fst ` set (rs_out s')"
        by (auto simp: skip_emission_def)
      then show ?thesis by blast
    next
      case None
      with scan_deps_completed[of "rs_status s" "rs_completed s" "it_deps item" False None] Cons False scan
      show ?thesis by (cases b) auto
    qed
  qed
qed simp

lemma order_inv_step:
  assumes "run_step validate now workers s s'" and inv: "order_inv s"
  shows "order_inv s'"
  using assms(1)
proof cases
  case round
  obtain t runnable nxt where pp: "plan_pass now (rs_pending s) s [] [] = (t, runnable, nxt)"
    by (cases "plan_pass now (rs_pending s) s [] []")
  from plan_pass_order[OF pp] inv obtain ks where
    ks: "rs_out t = rs_out s @ ks" "\<forall>p\<in>set ks. \<forall>results. snd p \<noteq> Ran results"
    and c: "\<forall>item\<in>set runnable. \<forall>d\<in>set (it_deps item). rs_completed t d"
      "\<forall>r. rs_completed t r \<longrightarrow> r \<in> it_ref ` fst ` set (rs_out t)"
    by (auto simp: order_inv_def)
  have o: "ordered_out (rs_out t)" using inv ks ordered_from_skips by (simp add: order_inv_def ordered_from_append)
  have "ordered_out (rs_out t @ map (\<lambda>item. (item, skip_emission now item UnsatisfiedDep)) nxt)"
    unfolding ordered_from_append using o by (auto simp: skip_emission_def intro: ordered_from_skips)
  with o c plan_pass_length[OF pp] round pp show ?thesis
    by (cases runnable) (simp_all add: plan_def order_inv_def image_Un)
next
  case (finish_item item results)
  have "set (it_deps item) \<subseteq> it_ref ` fst ` set (rs_out s)"
    using inv finish_item(3) unfolding order_inv_def by (simp add: subset_iff) blast
  with finish_item inv show ?thesis
    by (auto simp: order_inv_def finish_def ordered_from_append dest: set_mp[OF set_remove1_subset])
next
  case (take_item item items)
  with inv show ?thesis by (auto simp: order_inv_def)
next
  case (crash item)
  with inv show ?thesis by (auto simp: order_inv_def)
qed

lemma order_inv_reaches:
  assumes "run_reaches validate now workers schedule s"
  shows "order_inv s"
  using assms
proof (induction rule: rtranclp_induct)
  case base
  show ?case by (simp add: order_inv_def init_run_def)
qed (rule order_inv_step)

section \<open>One interleaving, computed\<close>

text \<open>A run with a single worker that finishes what it has taken first.\<close>

fun run_seq ::
  "nat \<Rightarrow> (resource \<Rightarrow> TestResult list option) \<Rightarrow> (resource \<Rightarrow> int) \<Rightarrow> run_state \<Rightarrow> run_state" where
  "run_seq 0 validate now s = s"
| "run_seq (Suc n) validate now s =
     (if rs_crashed s then s
      else (case rs_busy s of
              item # _ \<Rightarrow>
                (case validate (it_resource item) of
                   None \<Rightarrow> s\<lparr>rs_crashed := True\<rparr>
                 | Some results \<Rightarrow> run_seq n validate now (finish item results s))
            | [] \<Rightarrow>
                (case rs_work s of
                   item # items \<Rightarrow> run_seq n validate now (s\<lparr>rs_work := items, rs_busy := [item]\<rparr>)
                 | [] \<Rightarrow> if rs_pending s = [] then s else run_seq n validate now (plan now s))))"

lemma run_seq_reaches:
  assumes "0 < workers"
  shows "(run_step validate now workers)\<^sup>*\<^sup>* s (run_seq n validate now s)"
proof (induction n validate now s rule: run_seq.induct)
  case (2 n validate now s)
  show ?case
  proof (cases "rs_crashed s \<or> rs_busy s = [] \<and> rs_work s = [] \<and> rs_pending s = []")
    case False
    then show ?thesis
      using run_step.round[of s validate now workers] run_step.take_item[of s "hd (rs_work s)" "tl (rs_work s)" workers validate now]
        run_step.finish_item[of s "hd (rs_busy s)" validate _ now workers]
        run_step.crash[of s "hd (rs_busy s)" validate now workers] 2 assms
      by (auto split: list.splits option.splits intro: converse_rtranclp_into_rtranclp)
  qed auto
qed simp

section \<open>Properties\<close>

text \<open>The whole function: a schedule is built and some interleaving of its run sends \<open>out\<close>.\<close>

definition validateWithDependencies ::
  "string list \<Rightarrow> (resource \<Rightarrow> TestResult list option) \<Rightarrow> (resource \<Rightarrow> int) \<Rightarrow> int \<Rightarrow> int \<Rightarrow> resource list \<Rightarrow>
   (scheduledResource \<times> emission) list \<Rightarrow> bool" where
  "validateWithDependencies order validate now numCPU maxConcurrent resources out \<longleftrightarrow>
     (\<exists>schedule s. buildSchedule order resources = Ret schedule \<and>
        run_reaches validate now (workerCount numCPU maxConcurrent) schedule s \<and>
        run_final s \<and> \<not> rs_crashed s \<and> rs_out s = out)"

lemma schedule_unique:
  "buildSchedule order rs = Ret schedule \<Longrightarrow>
   validateWithDependencies order validate now numCPU maxConcurrent rs out \<longleftrightarrow>
     (\<exists>s. run_reaches validate now (workerCount numCPU maxConcurrent) schedule s \<and>
        run_final s \<and> \<not> rs_crashed s \<and> rs_out s = out)"
  by (auto simp: validateWithDependencies_def)

lemma final_out:
  assumes "set order = Ref ` set rs" and "buildSchedule order rs = Ret schedule"
    and "validateWithDependencies order validate now numCPU maxConcurrent rs out"
  shows "mset (map fst out) = mset schedule" and "\<forall>p\<in>set out. emission_ok schedule validate now p"
    and "ordered_out out"
proof -
  have wf: "wf_schedule schedule" using buildSchedule_Ret[OF assms(2,1)] by blast
  obtain s where s: "run_reaches validate now (workerCount numCPU maxConcurrent) schedule s"
    "run_final s" "rs_out s = out"
    using assms(3) schedule_unique[OF assms(2)] by auto
  from run_inv_reaches[OF wf s(1)] s(2,3)
  show "mset (map fst out) = mset schedule" "\<forall>p\<in>set out. emission_ok schedule validate now p"
    by (auto simp: run_inv_def out_ok_def run_final_def)
  show "ordered_out out" using order_inv_reaches[OF s(1)] s(3) by (simp add: order_inv_def)
qed

lemma crash_cause:
  assumes "run_reaches validate now workers schedule s" and "rs_crashed s" and "wf_schedule schedule"
  shows "\<exists>item\<in>set schedule. validate (it_resource item) = None"
  using assms(1,2)
proof (induction rule: rtranclp_induct)
  case (step s t)
  have "set (rs_busy s) \<subseteq> set schedule"
    using run_inv_reaches[OF assms(3) step.hyps(1)] unfolding run_inv_def
    by (metis Un_iff mset_eq_setD set_append subsetI)
  with step show ?case
  proof (cases rule: run_step.cases[OF step.hyps(2)])
    case 1
    obtain t' a b where pp: "plan_pass now (rs_pending s) s [] [] = (t', a, b)"
      by (cases "plan_pass now (rs_pending s) s [] []")
    with plan_pass_length[OF pp] step.prems 1 show ?thesis
      by (cases a) (auto simp: plan_def)
  qed (auto simp: finish_def)
qed (simp add: init_run_def)

text \<open>Two files, the first depending on the second; the named one fails.\<close>

definition sample_validate :: "string \<Rightarrow> resource \<Rightarrow> TestResult list option" where
  "sample_validate failing r =
     Some [base_result (resource_info r) ''exists'' (if YAMLKey r = failing then FAIL else SUCCESS) (0, 0)]"

definition sample_files :: "resource list" where
  "sample_files = [file_res ''a'' [''b''], file_res ''b'' []]"

definition sample_out :: "string \<Rightarrow> int \<Rightarrow> (scheduledResource \<times> emission) list" where
  "sample_out failing t = rs_out (run_seq 9 (sample_validate failing) (\<lambda>_. t) (init_run chain_schedule))"

lemma sample_order: "set [''file:a'', ''file:b''] = Ref ` set sample_files"
  unfolding sample_files_def by (rule chain_schedule_refs)

lemma sample_built: "buildSchedule [''file:a'', ''file:b''] sample_files = Ret chain_schedule"
  unfolding sample_files_def by (rule chain_schedule_built)

lemma sample_run:
  assumes "run_final (run_seq 9 (sample_validate failing) (\<lambda>_. t) (init_run chain_schedule)) \<and>
    \<not> rs_crashed (run_seq 9 (sample_validate failing) (\<lambda>_. t) (init_run chain_schedule))"
  shows "validateWithDependencies [''file:a'', ''file:b''] (sample_validate failing) (\<lambda>_. t) n m sample_files
    (sample_out failing t)"
proof -
  have "0 < workerCount n m" using workerCount_bounds(1)[of n m] by linarith
  from run_seq_reaches[OF this] assms show ?thesis
    unfolding schedule_unique[OF sample_built] sample_out_def by blast
qed

lemma sample_run_b:
  "validateWithDependencies [''file:a'', ''file:b''] (sample_validate ''b'') (\<lambda>_. 0) n m sample_files (sample_out ''b'' 0)"
  by (rule sample_run) code_simp

lemma sample_run_b':
  "validateWithDependencies [''file:a'', ''file:b''] (sample_validate ''b'') (\<lambda>_. 7) n m sample_files (sample_out ''b'' 7)"
  by (rule sample_run) code_simp

lemma sample_run_ok:
  "validateWithDependencies [''file:a'', ''file:b''] (sample_validate []) (\<lambda>_. 0) n m sample_files (sample_out [] 0)"
  by (rule sample_run) code_simp

text \<open>C2: However the workers interleave, a run that ends sends exactly one answer for every resource; a
  resource is validated exactly when everything it depends on passes, and the answer is then the result of its
  \<^verbatim>\<open>Validate\<close>; otherwise the answer is a skip that names a dependency that did not pass (or no dependency).\<close>

theorem validateWithDependencies_results:
  assumes "set order = Ref ` set rs" and "buildSchedule order rs = Ret schedule"
    and "validateWithDependencies order validate now numCPU maxConcurrent rs out"
  shows "mset (map (it_resource \<circ> fst) out) = mset rs \<and> distinct (map (it_ref \<circ> fst) out) \<and>
     (\<forall>(item, e)\<in>set out.
        (if deps_passed schedule validate item
         then \<exists>results. e = Ran results \<and> validate (it_resource item) = Some results
         else \<exists>reason. e = skip_emission now item reason \<and>
                (reason = UnsatisfiedDep \<or>
                 (\<exists>d\<in>set (it_deps item). reason = DepFailed d \<and> \<not> dep_passed schedule validate d))))"
proof -
  note f = final_out[OF assms]
  have b: "wf_schedule schedule" "map it_resource schedule = rs"
    using buildSchedule_Ret[OF assms(2,1)] by auto
  have "mset (map (it_resource \<circ> fst) out) = image_mset it_resource (mset (map fst out))"
    by (simp add: image_mset.compositionality)
  also have "\<dots> = mset (map it_resource schedule)" using f(1) by simp
  finally have "mset (map (it_resource \<circ> fst) out) = mset rs" using b by simp
  moreover have "mset (map (it_ref \<circ> fst) out) = mset (map it_ref schedule)"
    using f(1) by (metis map_map mset_map)
  then have "distinct (map (it_ref \<circ> fst) out)"
    using b(1) unfolding wf_schedule_def by (metis mset_eq_imp_distinct_iff)
  moreover have "if deps_passed schedule validate item
         then \<exists>results. e = Ran results \<and> validate (it_resource item) = Some results
         else \<exists>reason. e = skip_emission now item reason \<and>
                (reason = UnsatisfiedDep \<or>
                 (\<exists>d\<in>set (it_deps item). reason = DepFailed d \<and> \<not> dep_passed schedule validate d))"
    if "(item, e) \<in> set out" for item e
    using bspec[OF f(2) that] by (cases e) auto
  ultimately show ?thesis by blast
qed

theorem validateWithDependencies_results_witness:
  "mset (map (it_resource \<circ> fst) (sample_out ''b'' 0)) = mset sample_files"
  using validateWithDependencies_results[OF sample_order sample_built sample_run_b] by blast





text \<open>C15: A resource that is validated has its results sent after those of everything it depends on.\<close>

theorem validateWithDependencies_ordered:
  assumes "set order = Ref ` set rs"
    and "validateWithDependencies order validate now numCPU maxConcurrent rs (before @ (item, Ran results) # after)"
  shows "set (it_deps item) \<subseteq> it_ref ` fst ` set before"
proof -
  obtain schedule where "buildSchedule order rs = Ret schedule"
    using assms(2) by (auto simp: validateWithDependencies_def)
  from ordered_from_before[OF final_out(3)[OF assms(1) this assms(2)]] show ?thesis by simp
qed

theorem validateWithDependencies_ordered_witness:
  "set (it_deps (fst (sample_out [] 0 ! 1))) \<subseteq> it_ref ` fst ` set (take 1 (sample_out [] 0))"
proof -
  have "length (sample_out [] 0) = 2" "case snd (sample_out [] 0 ! 1) of Ran _ \<Rightarrow> True | SkippedBy _ _ \<Rightarrow> False"
    by code_simp+
  then have eq: "sample_out [] 0 = take 1 (sample_out [] 0) @
      (fst (sample_out [] 0 ! 1), Ran (case snd (sample_out [] 0 ! 1) of Ran rs \<Rightarrow> rs | SkippedBy _ rs \<Rightarrow> rs)) # []"
    using id_take_nth_drop[of 1 "sample_out [] 0"]
    by (cases "sample_out [] 0 ! 1") (auto split: emission.splits)
  have "validateWithDependencies [''file:a'', ''file:b''] (sample_validate []) (\<lambda>_. 0) 1 1 sample_files
      (take 1 (sample_out [] 0) @
       (fst (sample_out [] 0 ! 1), Ran (case snd (sample_out [] 0 ! 1) of Ran rs \<Rightarrow> rs | SkippedBy _ rs \<Rightarrow> rs)) # [])"
    by (subst eq[symmetric]) (rule sample_run_ok)
  from validateWithDependencies_ordered[OF sample_order this] show ?thesis .
qed

end
