(* ===== verification/Worker_Pool.thy ===== *)
theory Worker_Pool
  imports Goss_Prelude
begin

text \<open>
  The pool of goroutines that validate.go and discovery_validate.go start: a feeder sends the items over
  an unbuffered channel, each worker takes an item, works on it and sends the answer, and the result
  channel is closed when all workers are done. Interleavings are a step relation; an item whose work
  panics takes the process down. The theory shows what every interleaving has in common: it is a
  refinement of mapping the work over the items.
\<close>

section \<open>Steps\<close>

record ('a, 'b) pool =
  po_work :: "'a list"
  po_busy :: "'a list"
  po_out :: "('a \<times> 'b) list"
  po_crashed :: bool

definition init_pool :: "'a list \<Rightarrow> ('a, 'b) pool" where
  "init_pool items = \<lparr>po_work = items, po_busy = [], po_out = [], po_crashed = False\<rparr>"

inductive pool_step :: "('a \<Rightarrow> 'b option) \<Rightarrow> int \<Rightarrow> ('a, 'b) pool \<Rightarrow> ('a, 'b) pool \<Rightarrow> bool"
  for work :: "'a \<Rightarrow> 'b option" and workers :: int where
  take_work: "\<not> po_crashed s \<Longrightarrow> po_work s = x # xs \<Longrightarrow> int (length (po_busy s)) < workers \<Longrightarrow>
     pool_step work workers s (s\<lparr>po_work := xs, po_busy := po_busy s @ [x]\<rparr>)"
| send_answer: "\<not> po_crashed s \<Longrightarrow> x \<in> set (po_busy s) \<Longrightarrow> work x = Some y \<Longrightarrow>
     pool_step work workers s (s\<lparr>po_busy := remove1 x (po_busy s), po_out := po_out s @ [(x, y)]\<rparr>)"
| work_panics: "\<not> po_crashed s \<Longrightarrow> x \<in> set (po_busy s) \<Longrightarrow> work x = None \<Longrightarrow>
     pool_step work workers s (s\<lparr>po_crashed := True\<rparr>)"

inductive_cases pool_stepE: "pool_step work workers s t"

abbreviation pool_reaches where
  "pool_reaches work workers items \<equiv> (pool_step work workers)\<^sup>*\<^sup>* (init_pool items)"

text \<open>\<^verbatim>\<open>wg.Wait\<close> returns: no worker is busy and none can still receive; without workers it returns at once.\<close>

definition pool_final :: "int \<Rightarrow> ('a, 'b) pool \<Rightarrow> bool" where
  "pool_final workers s \<longleftrightarrow> po_busy s = [] \<and> (po_work s = [] \<or> workers \<le> 0)"

definition pool_run :: "('a \<Rightarrow> 'b option) \<Rightarrow> int \<Rightarrow> 'a list \<Rightarrow> ('a \<times> 'b) list \<Rightarrow> bool" where
  "pool_run work workers items out \<longleftrightarrow>
     (\<exists>s. pool_reaches work workers items s \<and> pool_final workers s \<and> \<not> po_crashed s \<and> po_out s = out)"

section \<open>What every interleaving does\<close>

definition pool_inv :: "('a \<Rightarrow> 'b option) \<Rightarrow> 'a list \<Rightarrow> ('a, 'b) pool \<Rightarrow> bool" where
  "pool_inv work items s \<longleftrightarrow>
     mset (map fst (po_out s) @ po_busy s @ po_work s) = mset items \<and>
     (\<forall>(x, y)\<in>set (po_out s). work x = Some y)"

lemma pool_inv_step: "pool_step work workers s t \<Longrightarrow> pool_inv work items s \<Longrightarrow> pool_inv work items t"
  by (induction rule: pool_step.induct) (auto simp: pool_inv_def)

lemma pool_inv_reaches: "pool_reaches work workers items s \<Longrightarrow> pool_inv work items s"
proof (induction rule: rtranclp_induct)
  case base
  show ?case by (simp add: pool_inv_def init_pool_def)
qed (rule pool_inv_step)

lemma pool_out_exact:
  assumes "\<forall>(x, y)\<in>set out. work x = Some y"
  shows "out = map (\<lambda>x. (x, the (work x))) (map fst out)"
  using assms by (induction out) auto

lemma pool_run_exact:
  assumes "0 < workers" and "pool_run work workers items out"
  shows "mset out = mset (map (\<lambda>x. (x, the (work x))) items)" and "\<forall>x\<in>set items. work x \<noteq> None"
proof -
  obtain s where "pool_inv work items s" and "pool_final workers s" and "po_out s = out"
    using assms(2) pool_inv_reaches unfolding pool_run_def by blast
  then have i: "mset (map fst out) = mset items" and o: "\<forall>(x, y)\<in>set out. work x = Some y"
    using assms(1) by (auto simp: pool_inv_def pool_final_def)
  have "mset out = image_mset (\<lambda>x. (x, the (work x))) (mset (map fst out))"
    by (subst pool_out_exact[OF o]) (simp only: mset_map)
  then show "mset out = mset (map (\<lambda>x. (x, the (work x))) items)" using i by simp
  have "set items = fst ` set out" using mset_eq_setD[OF i] by simp
  then show "\<forall>x\<in>set items. work x \<noteq> None" using o by fastforce
qed

lemma no_workers:
  assumes "workers \<le> 0"
  shows "pool_run work workers items out \<longleftrightarrow> out = []"
proof -
  have idle: "\<not> pool_step work workers s t" if "po_busy s = []" for s t :: "('a, 'b) pool"
    using that assms by (auto elim!: pool_stepE)
  have only: "s = init_pool items" if "pool_reaches work workers items s" for s :: "('a, 'b) pool"
    using that by (induction rule: rtranclp_induct) (use idle in \<open>auto simp: init_pool_def\<close>)
  have "pool_final workers (init_pool items)" "po_out (init_pool items) = []" "\<not> po_crashed (init_pool items)"
    using assms by (simp_all add: pool_final_def init_pool_def)
  with only show ?thesis unfolding pool_run_def by (metis rtranclp.rtrancl_refl)
qed

section \<open>Every run ends\<close>

definition pool_measure :: "('a, 'b) pool \<Rightarrow> nat" where
  "pool_measure s = (if po_crashed s then 0 else Suc (2 * length (po_work s) + length (po_busy s)))"

lemma pool_step_measure: "pool_step work workers s t \<Longrightarrow> pool_measure t < pool_measure s"
  by (induction rule: pool_step.induct) (auto simp: pool_measure_def length_remove1 dest: length_pos_if_in_set)

lemma pool_wf: "wfP (\<lambda>t s. pool_step work workers s t)"
  by (rule wfp_if_convertible_to_nat[of _ pool_measure]) (rule pool_step_measure)

lemma pool_progress:
  assumes "\<not> pool_final workers s" and "\<not> po_crashed s"
  shows "\<exists>t. pool_step work workers s t"
proof (cases "po_busy s")
  case Nil
  then obtain x xs where "po_work s = x # xs" "0 < workers"
    using assms(1) by (auto simp: pool_final_def neq_Nil_conv)
  then show ?thesis using pool_step.take_work[OF assms(2)] Nil by auto
next
  case (Cons x xs)
  then show ?thesis
    using pool_step.send_answer[OF assms(2), of x work] pool_step.work_panics[OF assms(2), of x work]
    by (cases "work x") auto
qed

lemma pool_completes: "\<exists>t. (pool_step work workers)\<^sup>*\<^sup>* s t \<and> (pool_final workers t \<or> po_crashed t)"
proof (induction s rule: wfp_induct[OF pool_wf[of work workers]])
  case (1 s)
  show ?case
  proof (cases "pool_final workers s \<or> po_crashed s")
    case False
    then obtain t where t: "pool_step work workers s t" using pool_progress by blast
    with 1 obtain u where "(pool_step work workers)\<^sup>*\<^sup>* t u" "pool_final workers u \<or> po_crashed u" by blast
    with t show ?thesis by (meson converse_rtranclp_into_rtranclp)
  qed blast
qed

lemma pool_crash_cause:
  assumes "pool_reaches work workers items s" and "po_crashed s"
  shows "\<exists>x\<in>set items. work x = None"
  using assms
proof (induction rule: rtranclp_induct)
  case (step s t)
  have "set (po_busy s) \<subseteq> set items"
    using pool_inv_reaches[OF step.hyps(1)] unfolding pool_inv_def
    by (metis Un_iff mset_eq_setD set_append subsetI)
  with step show ?case by (auto elim!: pool_stepE)
qed (simp add: init_pool_def)

lemma pool_run_exists:
  assumes "\<forall>x\<in>set items. work x \<noteq> None"
  shows "\<exists>out. pool_run work workers items out"
proof -
  obtain t where "pool_reaches work workers items t" "pool_final workers t \<or> po_crashed t"
    using pool_completes by blast
  then show ?thesis using assms pool_crash_cause unfolding pool_run_def by blast
qed

end
