(* ===== verification/Outputs.thy ===== *)
theory Outputs
  imports Schedule_Run
begin

text \<open>
  The package outputs: what every output format writes for the groups of results it receives on its
  channel, and the exit code it returns. The groups are a list, in the order they arrive. Colours, the
  JSON and XML encoders, the diff library and the formatting of floats are the fields of \<open>renderer\<close>.
  \<^verbatim>\<open>sort.Slice\<close> is not stable; the model keeps groups with the same key in their order. A panic is \<open>None\<close>,
  a zero \<^verbatim>\<open>time.Time\<close> is 0.
\<close>

section \<open>Rendering one result\<close>

record renderer =
  rn_green :: "string \<Rightarrow> string"
  rn_red :: "string \<Rightarrow> string"
  rn_yellow :: "string \<Rightarrow> string"
  rn_json :: "shown \<Rightarrow> string"
  rn_json_chain :: "transformer list \<Rightarrow> string"
  rn_err :: "go_error \<Rightarrow> string"
  rn_diff :: "string \<Rightarrow> string \<Rightarrow> string"
  rn_secs :: "int \<Rightarrow> string"
  rn_v :: "val \<Rightarrow> string"
  rn_xml :: "string \<Rightarrow> string"
  rn_now :: string
  rn_json_out :: "bool \<Rightarrow> (TestResult \<times> bool \<times> string \<times> string) list \<Rightarrow> nat \<times> nat \<times> nat \<times> int \<Rightarrow> string \<Rightarrow> string"
  rn_structured :: "bool \<Rightarrow> (TestResult \<times> string \<times> string) list \<Rightarrow> nat \<times> nat \<times> int \<Rightarrow> string \<Rightarrow> string"

definition indentLines :: "string \<Rightarrow> string" where
  "indentLines text =
     join [newline] (map (\<lambda>j. ''    '' @ j) (split_on newline (trim_right text [newline])))"

definition prettyPrint :: "renderer \<Rightarrow> shown \<Rightarrow> bool \<Rightarrow> string" where
  "prettyPrint R i indent =
     (let b = trim_right (rn_json R i) white_space in if indent then indentLines b else b)"

text \<open>The class \<^verbatim>\<open>\s\<close> of the regular expression \<^verbatim>\<open>multiple_space\<close> has no vertical tab.\<close>

definition re_space :: string where
  "re_space = [CHR 0x09, CHR 0x0A, CHR 0x0C, CHR 0x0D, CHR 0x20]"

fun squeeze :: "string \<Rightarrow> string" where
  "squeeze [] = []"
| "squeeze (c # cs) =
     (if c \<in> set re_space
      then CHR '' '' # (case cs of [] \<Rightarrow> [] | d # ds \<Rightarrow> if d \<in> set re_space then tl (squeeze cs) else squeeze cs)
      else c # squeeze cs)"

definition mr_of :: "TestResult \<Rightarrow> MatcherResult" where
  "mr_of r = (case MatcherRes r of Some m \<Rightarrow> m | None \<Rightarrow> plain_result VNil [] SNone)"

definition maybeAddDiff :: "renderer \<Rightarrow> string list \<Rightarrow> shown \<Rightarrow> val \<Rightarrow> bool \<Rightarrow> string list" where
  "maybeAddDiff R ss expected actual brief =
     (if brief then ss
      else (case (expected, actual) of
              (SVal (VStr want), VStr got) \<Rightarrow>
                if want = got then ss else ss @ [''diff'', indentLines (rn_diff R want got)]
            | _ \<Rightarrow> ss))"

definition prettyPrintTestResult :: "renderer \<Rightarrow> TestResult \<Rightarrow> bool \<Rightarrow> bool \<Rightarrow> string" where
  "prettyPrintTestResult R t brief includeRaw =
     (let sep = (if brief then '' '' else [newline]);
          m = mr_of t;
          ss = (case ErrField t of
                  Some err \<Rightarrow>
                    [''Error'', if brief then squeeze (rn_err R err) else indentLines (rn_err R err)]
                | None \<Rightarrow>
                    maybeAddDiff R
                      [''Expected'', prettyPrint R (SVal (Actual m)) (\<not> brief), Message m,
                       prettyPrint R (Expected m) (\<not> brief)]
                      (Expected m) (Actual m) brief);
          ss = ss @ (if MissingElements m \<noteq> SNone
                     then [''the missing elements were'', prettyPrint R (MissingElements m) (\<not> brief)] else []);
          ss = ss @ (if ExtraElements m \<noteq> SNone
                     then [''the extra elements were'', prettyPrint R (ExtraElements m) (\<not> brief)] else []);
          chain = trim_right (rn_json_chain R (TransformerChain m)) white_space;
          ss = ss @ (if TransformerChain m \<noteq> []
                     then [''the transform chain was'', if brief then chain else indentLines chain] @
                          (if includeRaw
                           then [''the raw value was'', prettyPrint R (SVal (UntransformedValue m)) (\<not> brief)]
                           else [])
                     else [])
      in join sep ss)"

definition humanizeResult :: "renderer \<Rightarrow> TestResult \<Rightarrow> bool \<Rightarrow> bool \<Rightarrow> string option" where
  "humanizeResult R r brief includeRaw =
     (let name = join '': '' [ResourceType r, ResourceId r, Property r]
      in (case Result r of
            SUCCESS \<Rightarrow>
              Some (rn_green R (join '': '' [name, Message (mr_of r), prettyPrint R (Expected (mr_of r)) False]))
          | FAIL \<Rightarrow>
              Some (rn_red R (name @ '':'' @ (if brief then '' '' else [newline]) @
                              prettyPrintTestResult R r brief includeRaw))
          | SKIP \<Rightarrow> Some (rn_yellow R (name @ '': skipped''))
          | UNKNOWN \<Rightarrow> None))"

section \<open>Headers, summaries and sorting\<close>

definition header :: "renderer \<Rightarrow> TestResult \<Rightarrow> string" where
  "header R t =
     (if Title t \<noteq> [] then ''Title: '' @ Title t @ [newline] else []) @
     (case Meta t of
        None \<Rightarrow> []
      | Some meta \<Rightarrow>
          ''Meta:'' @ [newline] @
          concat (map (\<lambda>k. ''    '' @ k @ '': '' @ rn_v R (the (map_of meta k)) @ [newline])
                    (sort (map fst meta))))"

definition summary :: "renderer \<Rightarrow> int \<Rightarrow> int \<Rightarrow> nat \<Rightarrow> nat \<Rightarrow> nat \<Rightarrow> string" where
  "summary R startTime endTime n failed skipped =
     ''Total Duration: '' @ rn_secs R (endTime - startTime) @ ''s'' @ [newline] @
     (if failed > 0 then rn_red R else rn_green R)
       (''Count: '' @ nat_str n @ '', Failed: '' @ nat_str failed @ '', Skipped: '' @ nat_str skipped @ [newline])"

definition group_key :: "TestResult list \<Rightarrow> string" where
  "group_key g = SortKey (hd g)"

text \<open>Sorting by \<^verbatim>\<open>x[0].SortKey()\<close>: comparing two groups of which one is empty panics.\<close>

definition sort_groups :: "TestResult list list \<Rightarrow> TestResult list list option" where
  "sort_groups gs =
     (if 1 < length gs \<and> list_ex (\<lambda>g. g = []) gs then None else Some (sort_key group_key gs))"

fun map_opt :: "('a \<Rightarrow> 'b option) \<Rightarrow> 'a list \<Rightarrow> 'b list option" where
  "map_opt f [] = Some []"
| "map_opt f (x # xs) =
     (case f x of None \<Rightarrow> None | Some y \<Rightarrow> map_option ((#) y) (map_opt f xs))"

definition summary_group :: "renderer \<Rightarrow> bool \<Rightarrow> TestResult list \<Rightarrow> string option" where
  "summary_group R includeRaw failedGroup =
     map_option (\<lambda>lines. header R (hd failedGroup) @ concat (map (\<lambda>l. l @ [newline]) lines) @ [newline])
       (map_opt (\<lambda>r. humanizeResult R r False includeRaw) failedGroup)"

definition failedOrSkippedSummary :: "renderer \<Rightarrow> TestResult list list \<Rightarrow> bool \<Rightarrow> string option" where
  "failedOrSkippedSummary R failedOrSkipped includeRaw =
     (if failedOrSkipped = [] then Some []
      else (case sort_groups failedOrSkipped of
              None \<Rightarrow> None
            | Some gs \<Rightarrow>
                map_option (\<lambda>ts. ''Failures/Skipped:'' @ [newline, newline] @ concat ts)
                  (map_opt (summary_group R includeRaw) gs)))"

definition getResults :: "TestResult list list \<Rightarrow> bool \<Rightarrow> TestResult list list option" where
  "getResults tr doSort = (if \<not> doSort then Some tr else sort_groups tr)"

section \<open>Counting\<close>

record tally =
  t_start :: int
  t_end :: int
  t_count :: nat
  t_failed :: nat
  t_skipped :: nat

definition zero_tally :: tally where
  "zero_tally = \<lparr>t_start = 0, t_end = 0, t_count = 0, t_failed = 0, t_skipped = 0\<rparr>"

text \<open>The part of the loop body that all formats share.\<close>

definition tally_step :: "tally \<Rightarrow> TestResult \<Rightarrow> tally" where
  "tally_step t r =
     t\<lparr>t_start := (if t_start t = 0 \<or> StartTime r < t_start t then StartTime r else t_start t),
       t_end := (if t_end t = 0 \<or> t_end t < EndTime r then EndTime r else t_end t),
       t_count := t_count t + 1,
       t_failed := (if Result r = FAIL then t_failed t + 1 else t_failed t),
       t_skipped := (if Result r = SKIP then t_skipped t + 1 else t_skipped t)\<rparr>"

definition tally_of :: "TestResult list list \<Rightarrow> tally" where
  "tally_of results = foldl tally_step zero_tally (concat results)"

definition failed_or_skipped :: "TestResult list list \<Rightarrow> TestResult list list" where
  "failed_or_skipped results =
     filter (\<lambda>g. g \<noteq> []) (map (filter (\<lambda>r. Result r = SKIP \<or> Result r = FAIL)) results)"

definition exit_code :: "int \<Rightarrow> tally \<Rightarrow> int" where
  "exit_code code t = (if 0 < t_failed t then code else 0)"

section \<open>The formats\<close>

type_synonym output_fun = "renderer \<Rightarrow> string list \<Rightarrow> TestResult list list \<Rightarrow> (string \<times> int) option"

abbreviation "opt_set name opts \<equiv> IsValueInList name opts"

definition rspecish_mark :: "renderer \<Rightarrow> TestResult \<Rightarrow> string" where
  "rspecish_mark R r =
     (case Result r of
        SUCCESS \<Rightarrow> rn_green R ''.'' | SKIP \<Rightarrow> rn_yellow R ''S'' | FAIL \<Rightarrow> rn_red R ''F'' | UNKNOWN \<Rightarrow> [])"

definition end_text :: "renderer \<Rightarrow> TestResult list list \<Rightarrow> bool \<Rightarrow> string option" where
  "end_text R results includeRaw =
     (let t = tally_of results
      in map_option (\<lambda>s. [newline, newline] @ s @ summary R (t_start t) (t_end t) (t_count t) (t_failed t) (t_skipped t))
           (failedOrSkippedSummary R (failed_or_skipped results) includeRaw))"

definition Rspecish_Output :: output_fun where
  "Rspecish_Output R opts results0 =
     (case getResults results0 (opt_set ''sort'' opts) of
        None \<Rightarrow> None
      | Some results \<Rightarrow>
          map_option (\<lambda>s. (concat (map (rspecish_mark R) (concat results)) @ s, exit_code 1 (tally_of results)))
            (end_text R results (\<not> opt_set ''exclude_raw'' opts)))"

definition doc_group :: "renderer \<Rightarrow> bool \<Rightarrow> TestResult list \<Rightarrow> string option" where
  "doc_group R includeRaw g =
     (case g of
        [] \<Rightarrow> None
      | first # _ \<Rightarrow>
          map_option (\<lambda>lines. header R first @ concat (map (\<lambda>l. l @ [newline]) lines))
            (map_opt (\<lambda>r. humanizeResult R r False includeRaw) (filter (\<lambda>r. Result r \<noteq> UNKNOWN) g)))"

definition Documentation_Output :: output_fun where
  "Documentation_Output R opts results0 =
     (let includeRaw = (\<not> opt_set ''exclude_raw'' opts)
      in (case getResults results0 (opt_set ''sort'' opts) of
            None \<Rightarrow> None
          | Some results \<Rightarrow>
              (case map_opt (doc_group R includeRaw) results of
                 None \<Rightarrow> None
               | Some texts \<Rightarrow>
                   map_option (\<lambda>s. (concat texts @ s, exit_code 1 (tally_of results)))
                     (end_text R results includeRaw))))"

definition Silent_Output :: output_fun where
  "Silent_Output R opts results = Some ([], exit_code 1 (tally_of results))"

text \<open>\<^verbatim>\<open>color.NoColor = true\<close> turns the colours into plain formatting.\<close>

definition no_color :: "renderer \<Rightarrow> renderer" where
  "no_color R = R\<lparr>rn_green := \<lambda>s. s, rn_red := \<lambda>s. s, rn_yellow := \<lambda>s. s\<rparr>"

text \<open>\<^verbatim>\<open>Json\<close> counts the skipped results by the field \<^verbatim>\<open>Skipped\<close>.\<close>

definition json_entry :: "renderer \<Rightarrow> bool \<Rightarrow> TestResult \<Rightarrow> (TestResult \<times> bool \<times> string \<times> string) option" where
  "json_entry R includeRaw r =
     (case (humanizeResult R r False includeRaw, humanizeResult R r True includeRaw) of
        (Some l, Some c) \<Rightarrow> Some (r, Result r \<noteq> FAIL, l, c)
      | _ \<Rightarrow> None)"

definition Json_Output :: output_fun where
  "Json_Output R opts results0 =
     (case getResults results0 (opt_set ''sort'' opts) of
        None \<Rightarrow> None
      | Some results \<Rightarrow>
          (let t = tally_of results;
               skipped = length (filter Skipped (concat results));
               duration = t_end t - t_start t;
               line = ''Count: '' @ nat_str (t_count t) @ '', Failed: '' @ nat_str (t_failed t) @
                      '', Skipped: '' @ nat_str skipped @ '', Duration: '' @ rn_secs R duration @ ''s''
           in map_option
                (\<lambda>es. (rn_json_out R (opt_set ''pretty'' opts) es (t_count t, t_failed t, skipped, duration) line @ [newline],
                       exit_code 1 t))
                (map_opt (json_entry (no_color R) (\<not> opt_set ''exclude_raw'' opts)) (concat results))))"

definition Structured_Output :: output_fun where
  "Structured_Output R opts results0 =
     (case getResults results0 (opt_set ''sort'' opts) of
        None \<Rightarrow> None
      | Some results \<Rightarrow>
          (let t = tally_of results;
               duration = t_end t - t_start t;
               line = ''Count: '' @ nat_str (t_count t) @ '', Failed: '' @ nat_str (t_failed t) @
                      '', Duration: '' @ rn_secs R duration @ ''s''
           in map_option
                (\<lambda>es. (rn_structured R (opt_set ''pretty'' opts) (map (\<lambda>(r, _, l, c). (r, l, c)) es)
                         (t_count t, t_failed t, duration) line @ [newline], 0))
                (map_opt (json_entry R (\<not> opt_set ''exclude_raw'' opts)) (concat results))))"

definition junit_case :: "renderer \<Rightarrow> bool \<Rightarrow> TestResult \<Rightarrow> string option" where
  "junit_case R includeRaw r =
     map_option (\<lambda>h. let e = rn_xml R h in
        ''<testcase name='' @ [CHR 0x22] @ ResourceType r @ '' '' @ rn_xml R (ResourceId r) @ '' '' @ Property r @
        [CHR 0x22] @ '' time='' @ [CHR 0x22] @ rn_secs R (Duration r) @ [CHR 0x22] @ ''>'' @ [newline] @
        (if Result r = FAIL
         then ''<system-err>'' @ e @ ''</system-err>'' @ [newline] @
              ''<failure>'' @ e @ ''</failure>'' @ [newline] @ ''</testcase>'' @ [newline]
         else (if Result r = SKIP then ''<skipped/>'' else []) @
              ''<system-out>'' @ e @ ''</system-out>'' @ [newline] @ ''</testcase>'' @ [newline]))
       (humanizeResult R r True includeRaw)"

definition junit_attr :: "string \<Rightarrow> string \<Rightarrow> string" where
  "junit_attr name v = name @ ''='' @ [CHR 0x22] @ v @ [CHR 0x22]"

definition JUnit_Output :: output_fun where
  "JUnit_Output R opts results0 =
     (case getResults results0 (opt_set ''sort'' opts) of
        None \<Rightarrow> None
      | Some results \<Rightarrow>
          (let t = tally_of results
           in map_option (\<lambda>cases.
                (''<?xml '' @ junit_attr ''version'' ''1.0'' @ '' '' @ junit_attr ''encoding'' ''UTF-8'' @ ''?>'' @ [newline] @
                 ''<testsuite '' @ join '' ''
                    [junit_attr ''name'' ''goss'', junit_attr ''errors'' ''0'', junit_attr ''tests'' (nat_str (t_count t)),
                     junit_attr ''failures'' (nat_str (t_failed t)), junit_attr ''skipped'' (nat_str (t_skipped t)),
                     junit_attr ''time'' (rn_secs R (t_end t - t_start t)), junit_attr ''timestamp'' (rn_now R)] @
                 ''>'' @ [newline] @ concat cases @ ''</testsuite>'' @ [newline],
                 exit_code 1 t))
                (map_opt (junit_case (no_color R) (\<not> opt_set ''exclude_raw'' opts)) (concat results))))"

fun numbered :: "(nat \<Rightarrow> TestResult \<Rightarrow> string option) \<Rightarrow> nat \<Rightarrow> TestResult list \<Rightarrow> string list option" where
  "numbered f i [] = Some []"
| "numbered f i (r # rs) =
     (case f i r of None \<Rightarrow> None | Some l \<Rightarrow> map_option ((#) l) (numbered f (Suc i) rs))"

definition nagios_line :: "renderer \<Rightarrow> bool \<Rightarrow> nat \<Rightarrow> TestResult \<Rightarrow> string option" where
  "nagios_line R includeRaw i r =
     map_option (\<lambda>h. ''Fail '' @ nat_str (i + 1) @ '' - '' @ h @ [newline]) (humanizeResult R r True includeRaw)"

definition Nagios_Output :: output_fun where
  "Nagios_Output R opts results =
     (let t = tally_of results;
          includeRaw = (\<not> opt_set ''exclude_raw'' opts);
          secs = rn_secs R (t_end t - t_start t);
          counts = ''Count: '' @ nat_str (t_count t) @ '', Failed: '' @ nat_str (t_failed t) @
                   '', Skipped: '' @ nat_str (t_skipped t) @ '', Duration: '' @ secs @ ''s'';
          perf = (if opt_set ''perfdata'' opts
                  then ''|total='' @ nat_str (t_count t) @ '' failed='' @ nat_str (t_failed t) @
                       '' skipped='' @ nat_str (t_skipped t) @ '' duration='' @ secs @ ''s''
                  else []);
          failures = (if opt_set ''verbose'' opts
                      then numbered (nagios_line R includeRaw) 0 (filter (\<lambda>r. Result r = FAIL) (concat results))
                      else Some [])
      in map_option (\<lambda>ls.
           if 0 < t_failed t
           then (''GOSS CRITICAL - '' @ counts @ perf @ [newline] @ concat ls, 2)
           else (''GOSS OK - '' @ counts @ perf @ [newline], 0)) failures)"

definition tap_line :: "renderer \<Rightarrow> bool \<Rightarrow> nat \<Rightarrow> TestResult \<Rightarrow> string option" where
  "tap_line R includeRaw i r =
     map_option (\<lambda>h.
        (case Result r of FAIL \<Rightarrow> ''not ok '' | _ \<Rightarrow> ''ok '') @ nat_str (i + 1) @ '' - '' @
        (case Result r of SKIP \<Rightarrow> ''# SKIP '' | _ \<Rightarrow> []) @ h @ [newline])
       (humanizeResult R r True includeRaw)"

definition Tap_Output :: output_fun where
  "Tap_Output R opts results0 =
     (case getResults results0 (opt_set ''sort'' opts) of
        None \<Rightarrow> None
      | Some results \<Rightarrow>
          map_option (\<lambda>ls. (''1..'' @ nat_str (t_count (tally_of results)) @ [newline] @ concat ls,
                            exit_code 1 (tally_of results)))
            (numbered (tap_line R (\<not> opt_set ''exclude_raw'' opts)) 0 (concat results)))"

end
