(* ===== verification/Output_Formats.thy ===== *)
theory Output_Formats
  imports Outputs
begin

text \<open>
  The registry of output formats of outputs/outputs.go, the prometheus format with the counters it
  keeps between runs, the discovery output, and the contract that the formats share: the exit code
  tells whether a result failed, and the option \<^verbatim>\<open>sort\<close> makes the text independent of the order in
  which the groups of results arrive.
\<close>

section \<open>Prometheus\<close>

text \<open>The package variables \<^verbatim>\<open>registry\<close> (set once) and the four counter vectors registered with it; the
  number of labels of the test counters is fixed by the first run's option \<^verbatim>\<open>verbose\<close>.\<close>

record metrics =
  m_verbose :: bool
  m_outcomes :: "string list \<Rightarrow> nat"
  m_durations :: "string list \<Rightarrow> int"
  m_runs :: "string \<Rightarrow> nat"
  m_run_ms :: "string \<Rightarrow> int"

definition setupMetrics :: "bool \<Rightarrow> metrics" where
  "setupMetrics verbose =
     \<lparr>m_verbose = verbose, m_outcomes = (\<lambda>_. 0), m_durations = (\<lambda>_. 0), m_runs = (\<lambda>_. 0), m_run_ms = (\<lambda>_. 0)\<rparr>"

definition canChangeOverallOutcome :: "string \<Rightarrow> string \<Rightarrow> bool" where
  "canChangeOverallOutcome cur res =
     (if cur = ''skip'' then True
      else if cur = ''fail'' then False
      else if cur = ''pass'' then res \<noteq> ''skip''
      else res = ''fail'')"

text \<open>\<^verbatim>\<open>time.Duration.Milliseconds\<close> truncates toward zero; a counter panics when it is asked to decrease.\<close>

definition milliseconds :: "int \<Rightarrow> int" where
  "milliseconds d = (if d < 0 then - ((- d) div 1000000) else d div 1000000)"

definition prom_labels :: "bool \<Rightarrow> TestResult \<Rightarrow> string list" where
  "prom_labels verbose tr =
     [to_lower (ResourceType tr), ToOutcome tr] @ (if verbose then [ResourceId tr] else [])"

definition prom_count :: "bool \<Rightarrow> TestResult \<Rightarrow> metrics \<Rightarrow> metrics option" where
  "prom_count verbose tr m =
     (let l = prom_labels verbose tr; ms = milliseconds (Duration tr)
      in if m_verbose m \<noteq> verbose \<or> ms < 0 then None
         else Some (m\<lparr>m_outcomes := (m_outcomes m)(l := m_outcomes m l + 1),
                      m_durations := (m_durations m)(l := m_durations m l + ms)\<rparr>))"

fun prom_group :: "bool \<Rightarrow> nat \<Rightarrow> TestResult list \<Rightarrow> metrics \<times> string \<times> int \<Rightarrow> (metrics \<times> string \<times> int) option" where
  "prom_group verbose i [] st = Some st"
| "prom_group verbose i (tr # trs) (m, overallOutcome, startTime) =
     (let startTime = (if startTime = 0 \<or> StartTime tr < startTime then StartTime tr else startTime);
          outcome = ToOutcome tr
      in (case prom_count verbose tr m of
            None \<Rightarrow> None
          | Some m \<Rightarrow>
              prom_group verbose (Suc i) trs
                (m, if i = 0 \<or> canChangeOverallOutcome overallOutcome outcome then outcome else overallOutcome,
                 startTime)))"

fun prom_groups :: "bool \<Rightarrow> TestResult list list \<Rightarrow> metrics \<times> string \<times> int \<Rightarrow> (metrics \<times> string \<times> int) option" where
  "prom_groups verbose [] st = Some st"
| "prom_groups verbose (g # gs) st =
     (case prom_group verbose 0 g st of None \<Rightarrow> None | Some st \<Rightarrow> prom_groups verbose gs st)"

text \<open>What the prometheus client library and the clock give: \<^verbatim>\<open>registry.Gather\<close> fails (\<open>None\<close>) or returns the
  metric families, each with its text or a failure to encode it; the time of \<^verbatim>\<open>time.Since\<close>.\<close>

record prom_env =
  pe_families :: "metrics \<Rightarrow> string option list option"
  pe_now :: int

text \<open>\<^verbatim>\<open>time.Since\<close> of the zero time saturates.\<close>

definition since :: "int \<Rightarrow> int \<Rightarrow> int" where
  "since now start = (if start = 0 then 2 ^ 63 - 1 else now - start)"

fun prom_encode :: "string option list \<Rightarrow> string \<times> int" where
  "prom_encode [] = ([], 0)"
| "prom_encode (None # fs) = ([], -1)"
| "prom_encode (Some t # fs) = (let (ts, code) = prom_encode fs in (t @ ts, code))"

definition Prometheus_Output ::
  "prom_env \<Rightarrow> metrics option \<Rightarrow> string list \<Rightarrow> TestResult list list \<Rightarrow> (metrics \<times> string \<times> int) option" where
  "Prometheus_Output E reg opts results =
     (let verbose = opt_set ''verbose'' opts;
          m0 = (case reg of None \<Rightarrow> setupMetrics verbose | Some m \<Rightarrow> m)
      in (case prom_groups verbose results (m0, ''unknown'', 0) of
            None \<Rightarrow> None
          | Some (m, overallOutcome, startTime) \<Rightarrow>
              (let ms = milliseconds (since (pe_now E) startTime);
                   m = m\<lparr>m_runs := (m_runs m)(overallOutcome := m_runs m overallOutcome + 1),
                         m_run_ms := (m_run_ms m)(overallOutcome := m_run_ms m overallOutcome + ms)\<rparr>
               in if ms < 0 then None
                  else (case pe_families E m of
                          None \<Rightarrow> Some (m, [], -1)
                        | Some fs \<Rightarrow> Some (m, prom_encode fs)))))"

section \<open>The discovery output\<close>

text \<open>\<open>dj\<close> is \<^verbatim>\<open>json.Marshal\<close> or \<^verbatim>\<open>json.MarshalIndent\<close> of the object with the single key \<^verbatim>\<open>Discovered\<close>.\<close>

definition Discovery_Output ::
  "(bool \<Rightarrow> (string \<times> bool) list \<Rightarrow> string + string) \<Rightarrow> (string \<times> bool) list \<Rightarrow> string list \<Rightarrow> string \<times> int" where
  "Discovery_Output dj discovered opts =
     (case dj (opt_set ''pretty'' opts) discovered of
        Inl err \<Rightarrow> (''failed to marshal discovery output: '' @ err @ [newline], 1)
      | Inr payload \<Rightarrow> (payload @ [newline], 0))"

section \<open>The registry\<close>

datatype outputer = Documentation | Json | JUnit | Nagios | Prometheus | Rspecish | Structured | Tap | Silent

instantiation outputer :: enum
begin

definition enum_outputer :: "outputer list" where
  "enum_outputer = [Documentation, Json, JUnit, Nagios, Prometheus, Rspecish, Structured, Tap, Silent]"

definition enum_all_outputer :: "(outputer \<Rightarrow> bool) \<Rightarrow> bool" where
  "enum_all_outputer P = list_all P enum_class.enum"

definition enum_ex_outputer :: "(outputer \<Rightarrow> bool) \<Rightarrow> bool" where
  "enum_ex_outputer P = list_ex P enum_class.enum"

instance
proof
  show univ: "(UNIV :: outputer set) = set enum_class.enum"
    by (auto simp: enum_outputer_def intro: outputer.exhaust)
  show "distinct (enum_class.enum :: outputer list)"
    by (simp add: enum_outputer_def)
  show "enum_class.enum_all P = Ball UNIV P" for P :: "outputer \<Rightarrow> bool"
    by (simp add: univ enum_all_outputer_def list_all_iff)
  show "enum_class.enum_ex P = Bex UNIV P" for P :: "outputer \<Rightarrow> bool"
    by (simp add: univ enum_ex_outputer_def list_ex_iff)
qed

end

fun ValidOptions :: "outputer \<Rightarrow> string list" where
  "ValidOptions Documentation = [''sort'']"
| "ValidOptions Json = [''pretty'', ''sort'']"
| "ValidOptions JUnit = [''sort'']"
| "ValidOptions Nagios = [''perfdata'', ''verbose'']"
| "ValidOptions Prometheus = [''verbose'']"
| "ValidOptions Rspecish = []"
| "ValidOptions Structured = [''pretty'', ''sort'']"
| "ValidOptions Tap = [''sort'']"
| "ValidOptions Silent = []"

type_synonym registry = "(string \<times> outputer) list"

definition outputers :: registry where
  "outputers =
     [(''documentation'', Documentation), (''json'', Json), (''junit'', JUnit), (''nagios'', Nagios),
      (''prometheus'', Prometheus), (''rspecish'', Rspecish), (''structured'', Structured),
      (''tap'', Tap), (''silent'', Silent)]"

text \<open>Registering nothing, or a name that is taken, panics.\<close>

definition RegisterOutputer :: "string \<Rightarrow> outputer option \<Rightarrow> registry \<Rightarrow> registry option" where
  "RegisterOutputer name out reg =
     (case out of
        None \<Rightarrow> None
      | Some o' \<Rightarrow> (case map_of reg name of Some _ \<Rightarrow> None | None \<Rightarrow> Some (reg @ [(name, o')])))"

definition Outputers :: "registry \<Rightarrow> string list" where
  "Outputers reg = sort (map fst reg @ [''discovery''])"

definition FormatOptions :: "registry \<Rightarrow> string list" where
  "FormatOptions reg = sort (remdups (concat (map (\<lambda>(_, out). ValidOptions out) reg)))"

definition IsValidFormat :: "registry \<Rightarrow> string \<Rightarrow> bool" where
  "IsValidFormat reg f = (f = ''discovery'' \<or> list_ex (\<lambda>out. out = f) (Outputers reg))"

definition GetOutputer :: "registry \<Rightarrow> string \<Rightarrow> string + outputer" where
  "GetOutputer reg name =
     (case map_of reg name of
        None \<Rightarrow> Inl (''bad output format: '' @ name)
      | Some out \<Rightarrow> Inr out)"

text \<open>The call \<^verbatim>\<open>outputer.Output(w, results, config)\<close>; only prometheus keeps state.\<close>

fun Output ::
  "outputer \<Rightarrow> renderer \<Rightarrow> prom_env \<Rightarrow> metrics option \<Rightarrow> string list \<Rightarrow> TestResult list list \<Rightarrow>
   (string \<times> int \<times> metrics option) option" where
  "Output Prometheus R E reg opts gs =
     map_option (\<lambda>(m, txt, code). (txt, code, Some m)) (Prometheus_Output E reg opts gs)"
| "Output Documentation R E reg opts gs = map_option (\<lambda>(txt, code). (txt, code, reg)) (Documentation_Output R opts gs)"
| "Output Json R E reg opts gs = map_option (\<lambda>(txt, code). (txt, code, reg)) (Json_Output R opts gs)"
| "Output JUnit R E reg opts gs = map_option (\<lambda>(txt, code). (txt, code, reg)) (JUnit_Output R opts gs)"
| "Output Nagios R E reg opts gs = map_option (\<lambda>(txt, code). (txt, code, reg)) (Nagios_Output R opts gs)"
| "Output Rspecish R E reg opts gs = map_option (\<lambda>(txt, code). (txt, code, reg)) (Rspecish_Output R opts gs)"
| "Output Structured R E reg opts gs = map_option (\<lambda>(txt, code). (txt, code, reg)) (Structured_Output R opts gs)"
| "Output Tap R E reg opts gs = map_option (\<lambda>(txt, code). (txt, code, reg)) (Tap_Output R opts gs)"
| "Output Silent R E reg opts gs = map_option (\<lambda>(txt, code). (txt, code, reg)) (Silent_Output R opts gs)"

section \<open>Counting and rendering\<close>

lemma tally_fold:
  "t_count (foldl tally_step t rs) = t_count t + length rs"
  "t_failed (foldl tally_step t rs) = t_failed t + length (filter (\<lambda>r. Result r = FAIL) rs)"
  "t_skipped (foldl tally_step t rs) = t_skipped t + length (filter (\<lambda>r. Result r = SKIP) rs)"
  by (induction rs arbitrary: t) (simp_all add: tally_step_def)

lemma tally_of_counts [simp]:
  "t_count (tally_of gs) = length (concat gs)"
  "t_failed (tally_of gs) = length (filter (\<lambda>r. Result r = FAIL) (concat gs))"
  "t_skipped (tally_of gs) = length (filter (\<lambda>r. Result r = SKIP) (concat gs))"
  by (simp_all add: tally_of_def tally_fold zero_tally_def del: length_concat)

lemma exit_code_zero: "c \<noteq> 0 \<Longrightarrow> exit_code c (tally_of gs) = 0 \<longleftrightarrow> (\<forall>r\<in>set (concat gs). Result r \<noteq> FAIL)"
  by (auto simp: exit_code_def filter_empty_conv)

lemma map_opt_total: "(\<And>x. x \<in> set xs \<Longrightarrow> f x \<noteq> None) \<Longrightarrow> map_opt f xs \<noteq> None"
  by (induction xs) (auto split: option.splits)

lemma numbered_total: "(\<And>i x. x \<in> set xs \<Longrightarrow> f i x \<noteq> None) \<Longrightarrow> numbered f n xs \<noteq> None"
  by (induction xs arbitrary: n) (auto split: option.splits)

lemma humanizeResult_None: "humanizeResult R r brief raw = None \<longleftrightarrow> Result r = UNKNOWN"
  by (simp add: humanizeResult_def Let_def split: result_code.split)

section \<open>Sorting the groups\<close>

lemma sort_groups_perm:
  "sort_groups gs = Some gs' \<Longrightarrow> mset gs' = mset gs \<and> sorted (map group_key gs')"
  by (auto simp: sort_groups_def split: if_splits)

lemma getResults_perm: "getResults gs doSort = Some gs' \<Longrightarrow> mset gs' = mset gs"
  by (auto simp: getResults_def sort_groups_perm split: if_splits)

lemma getResults_concat: "getResults gs doSort = Some gs' \<Longrightarrow> set (concat gs') = set (concat gs)"
  using mset_eq_setD[OF getResults_perm] by fastforce

lemma sort_groups_total: "[] \<notin> set gs \<Longrightarrow> \<exists>gs'. sort_groups gs = Some gs'"
  by (auto simp: sort_groups_def list_ex_iff)

lemma getResults_total: "[] \<notin> set gs \<Longrightarrow> \<exists>gs'. getResults gs doSort = Some gs'"
  using sort_groups_total[of gs] by (auto simp: getResults_def)

lemma filter_key_singleton:
  assumes "distinct (map f xs)" and "k \<in> set xs"
  shows "filter (\<lambda>x. f k = f x) xs = [k]"
  using assms by (induction xs) (auto simp: filter_empty_conv image_iff)

lemma sort_key_unique:
  assumes "mset xs = mset ys" and "distinct (map f xs)"
  shows "sort_key f xs = sort_key f ys"
proof (rule properties_for_sort_key)
  have "mset (map f (sort_key f ys)) = mset (map f xs)"
    using assms(1) by (simp add: mset_map)
  then have dy: "distinct (map f (sort_key f ys))"
    using assms(2) mset_eq_imp_distinct_iff by blast
  have sy: "set (sort_key f ys) = set xs"
    using mset_eq_setD[OF assms(1)] by simp
  show "filter (\<lambda>x. f k = f x) (sort_key f ys) = filter (\<lambda>x. f k = f x) xs" if "k \<in> set (sort_key f ys)" for k
    using that dy assms sy by (simp add: filter_key_singleton)
qed (simp_all add: assms)

lemma getResults_order:
  assumes "mset gs = mset gs'" and "distinct (map group_key gs)"
  shows "getResults gs True = getResults gs' True"
  using sort_key_unique[OF assms] mset_eq_setD[OF assms(1)] mset_eq_length[OF assms(1)]
  by (simp add: getResults_def sort_groups_def list_ex_iff)

section \<open>What the formats promise\<close>

definition clean_groups :: "TestResult list list \<Rightarrow> bool" where
  "clean_groups gs = list_all (\<lambda>g. g \<noteq> [] \<and> list_all (\<lambda>r. Result r \<noteq> UNKNOWN) g) gs"

lemma clean_groups_nonempty: "clean_groups gs \<Longrightarrow> [] \<notin> set gs"
  by (auto simp: clean_groups_def list_all_iff)

lemma clean_groups_known: "clean_groups gs \<Longrightarrow> r \<in> set (concat gs) \<Longrightarrow> Result r \<noteq> UNKNOWN"
  by (auto simp: clean_groups_def list_all_iff)

lemma getResults_clean: "getResults gs doSort = Some gs' \<Longrightarrow> clean_groups gs' = clean_groups gs"
  by (drule getResults_perm, drule mset_eq_setD) (simp add: clean_groups_def list_all_iff)

text \<open>An output format whose exit code is the verdict of the run.\<close>

locale verdict_format =
  fixes out :: output_fun
  assumes total: "clean_groups gs \<Longrightarrow> \<exists>txt code. out R opts gs = Some (txt, code)"
    and verdict: "out R opts gs = Some (txt, code) \<Longrightarrow> code = 0 \<longleftrightarrow> (\<forall>r\<in>set (concat gs). Result r \<noteq> FAIL)"
begin

lemma report:
  "clean_groups gs \<Longrightarrow>
   \<exists>txt code. out R opts gs = Some (txt, code) \<and> (code = 0 \<longleftrightarrow> (\<forall>r\<in>set (concat gs). Result r \<noteq> FAIL))"
  using total verdict by meson

lemma verdict_order:
  assumes "mset gs = mset gs'" and "out R opts gs = Some (t, c)" and "out R' opts' gs' = Some (t', c')"
  shows "c = 0 \<longleftrightarrow> c' = 0"
  using verdict[OF assms(2)] verdict[OF assms(3)] mset_eq_setD[OF assms(1)] by simp

end

text \<open>A format that reads the groups through \<^verbatim>\<open>getResults\<close> only.\<close>

locale sorting_format =
  fixes out :: output_fun
  assumes through: "getResults gs (opt_set ''sort'' opts) = getResults gs' (opt_set ''sort'' opts) \<Longrightarrow>
    out R opts gs = out R opts gs'"
begin

lemma order_free:
  "\<lbrakk>opt_set ''sort'' opts; mset gs = mset gs'; distinct (map group_key gs)\<rbrakk> \<Longrightarrow> out R opts gs = out R opts gs'"
  by (rule through) (simp add: getResults_order)

end

lemma failedOrSkippedSummary_total: "failedOrSkippedSummary R (failed_or_skipped gs) raw \<noteq> None"
proof -
  let ?fs = "failed_or_skipped gs"
  have bad: "\<forall>g\<in>set ?fs. \<forall>r\<in>set g. Result r \<noteq> UNKNOWN" and "[] \<notin> set ?fs"
    by (auto simp: failed_or_skipped_def)
  then obtain fs where fs: "sort_groups ?fs = Some fs" using sort_groups_total by blast
  have "set fs = set ?fs" by (rule mset_eq_setD) (use sort_groups_perm[OF fs] in simp)
  then have "summary_group R raw g \<noteq> None" if "g \<in> set fs" for g
    using map_opt_total[of g "\<lambda>r. humanizeResult R r False raw"] that bad
    by (auto simp: summary_group_def humanizeResult_None)
  then have "map_opt (summary_group R raw) fs \<noteq> None" by (rule map_opt_total)
  with fs show ?thesis by (simp add: failedOrSkippedSummary_def)
qed

lemma end_text_total: "\<exists>t. end_text R gs raw = Some t"
  using failedOrSkippedSummary_total[of R gs raw] by (auto simp: end_text_def Let_def)

lemma doc_group_total:
  "g \<noteq> [] \<Longrightarrow> doc_group R raw g \<noteq> None"
  using map_opt_total[of "filter (\<lambda>r. Result r \<noteq> UNKNOWN) g" "\<lambda>r. humanizeResult R r False raw"]
  by (auto simp: doc_group_def humanizeResult_None split: list.split)

text \<open>The lines of the formats that render every result.\<close>

lemma render_total:
  assumes "clean_groups gs"
  shows "\<exists>es. map_opt (json_entry R raw) (concat gs) = Some es"
    and "\<exists>es. map_opt (junit_case R raw) (concat gs) = Some es"
    and "\<exists>es. numbered (tap_line R raw) n (concat gs) = Some es"
    and "\<exists>es. numbered (nagios_line R raw) n (filter P (concat gs)) = Some es"
proof -
  have known: "humanizeResult R r b raw \<noteq> None" if "r \<in> set (concat gs)" for r b R
    using clean_groups_known[OF assms that] by (simp add: humanizeResult_None)
  have "json_entry R raw r \<noteq> None" "junit_case R raw r \<noteq> None" "tap_line R raw i r \<noteq> None" "nagios_line R raw i r \<noteq> None"
    if "r \<in> set (concat gs)" for r i
    using known[OF that, of R True] known[OF that, of R False] by (auto simp: json_entry_def junit_case_def tap_line_def nagios_line_def split: option.splits)
  note one = this
  show "\<exists>es. map_opt (json_entry R raw) (concat gs) = Some es"
    using map_opt_total[of "concat gs" "json_entry R raw", OF one(1)] by blast
  show "\<exists>es. map_opt (junit_case R raw) (concat gs) = Some es"
    using map_opt_total[of "concat gs" "junit_case R raw", OF one(2)] by blast
  show "\<exists>es. numbered (tap_line R raw) n (concat gs) = Some es"
    using numbered_total[of "concat gs" "tap_line R raw", OF one(3)] by blast
  have "nagios_line R raw i r \<noteq> None" if "r \<in> set (filter P (concat gs))" for i r
    using that one(4) by simp
  then show "\<exists>es. numbered (nagios_line R raw) n (filter P (concat gs)) = Some es"
    using numbered_total[of "filter P (concat gs)" "nagios_line R raw"] by blast
qed

lemmas format_defs =
  Rspecish_Output_def Documentation_Output_def Json_Output_def JUnit_Output_def Tap_Output_def Structured_Output_def

lemma sorted_cases:
  assumes "clean_groups gs"
  obtains gs' where "getResults gs s = Some gs'" and "clean_groups gs'"
  using getResults_total[OF clean_groups_nonempty[OF assms], of s] getResults_clean assms by blast

lemma verdictI:
  assumes "getResults gs s = Some gs'" and "code = exit_code 1 (tally_of gs')"
  shows "code = 0 \<longleftrightarrow> (\<forall>r\<in>set (concat gs). Result r \<noteq> FAIL)"
  unfolding assms(2) getResults_concat[OF assms(1), symmetric] by (rule exit_code_zero) simp

interpretation rspecish: verdict_format Rspecish_Output
proof (unfold_locales, goal_cases)
  case (1 gs R opts)
  from sorted_cases[OF 1] obtain gs' where gs: "getResults gs (opt_set ''sort'' opts) = Some gs'" "clean_groups gs'" .
  from end_text_total[of R gs' "\<not> opt_set ''exclude_raw'' opts"]
  show ?case by (auto simp: Rspecish_Output_def Let_def gs(1))
next
  case 2
  then show ?case
    by (auto simp del: set_concat simp: Rspecish_Output_def Let_def split: option.splits intro!: verdictI)
qed

interpretation documentation: verdict_format Documentation_Output
proof (unfold_locales, goal_cases)
  case (1 gs R opts)
  from sorted_cases[OF 1] obtain gs' where gs: "getResults gs (opt_set ''sort'' opts) = Some gs'" "clean_groups gs'" .
  have "map_opt (doc_group R (\<not> opt_set ''exclude_raw'' opts)) gs' \<noteq> None"
    using clean_groups_nonempty[OF gs(2)] doc_group_total by (intro map_opt_total) metis
  with end_text_total[of R gs' "\<not> opt_set ''exclude_raw'' opts"]
  show ?case by (auto simp: Documentation_Output_def Let_def gs(1))
next
  case 2
  then show ?case
    by (auto simp del: set_concat simp: Documentation_Output_def Let_def split: option.splits intro!: verdictI)
qed

interpretation json: verdict_format Json_Output
proof (unfold_locales, goal_cases)
  case (1 gs R opts)
  from sorted_cases[OF 1] obtain gs' where gs: "getResults gs (opt_set ''sort'' opts) = Some gs'" "clean_groups gs'" .
  from render_total(1)[OF gs(2), of "no_color R" "\<not> opt_set ''exclude_raw'' opts"]
  show ?case by (auto simp: Json_Output_def Let_def gs(1))
next
  case 2
  then show ?case
    by (auto simp del: set_concat simp: Json_Output_def Let_def split: option.splits intro!: verdictI)
qed

interpretation junit: verdict_format JUnit_Output
proof (unfold_locales, goal_cases)
  case (1 gs R opts)
  from sorted_cases[OF 1] obtain gs' where gs: "getResults gs (opt_set ''sort'' opts) = Some gs'" "clean_groups gs'" .
  from render_total(2)[OF gs(2), of "no_color R" "\<not> opt_set ''exclude_raw'' opts"]
  show ?case by (auto simp: JUnit_Output_def Let_def gs(1))
next
  case 2
  then show ?case
    by (auto simp del: set_concat simp: JUnit_Output_def Let_def split: option.splits intro!: verdictI)
qed

interpretation tap: verdict_format Tap_Output
proof (unfold_locales, goal_cases)
  case (1 gs R opts)
  from sorted_cases[OF 1] obtain gs' where gs: "getResults gs (opt_set ''sort'' opts) = Some gs'" "clean_groups gs'" .
  from render_total(3)[OF gs(2), of R "\<not> opt_set ''exclude_raw'' opts" 0]
  show ?case by (auto simp: Tap_Output_def Let_def gs(1))
next
  case 2
  then show ?case
    by (auto simp del: set_concat simp: Tap_Output_def Let_def split: option.splits intro!: verdictI)
qed

interpretation nagios: verdict_format Nagios_Output
proof (unfold_locales, goal_cases)
  case (1 gs R opts)
  from render_total(4)[OF 1, of R "\<not> opt_set ''exclude_raw'' opts" 0 "\<lambda>r. Result r = FAIL"]
  have "Nagios_Output R opts gs \<noteq> None"
    by (simp only: Nagios_Output_def Let_def option.map_disc_iff split: if_split) auto
  then show ?case by (metis not_None_eq surj_pair)
next
  case 2
  then show ?case by (auto simp: Nagios_Output_def Let_def filter_empty_conv split: if_splits)
qed

interpretation silent: verdict_format Silent_Output
proof (unfold_locales, goal_cases)
  case 2
  then show ?case by (auto simp del: set_concat simp: Silent_Output_def exit_code_zero)
qed (simp add: Silent_Output_def)

interpretation rspecish: sorting_format Rspecish_Output
  by unfold_locales (simp add: Rspecish_Output_def)

interpretation documentation: sorting_format Documentation_Output
  by unfold_locales (simp add: Documentation_Output_def)

interpretation json: sorting_format Json_Output
  by unfold_locales (simp add: Json_Output_def)

interpretation junit: sorting_format JUnit_Output
  by unfold_locales (simp add: JUnit_Output_def)

interpretation tap: sorting_format Tap_Output
  by unfold_locales (simp add: Tap_Output_def)

interpretation structured: sorting_format Structured_Output
  by unfold_locales (simp add: Structured_Output_def)

lemmas order_free_all =
  rspecish.order_free documentation.order_free json.order_free junit.order_free tap.order_free structured.order_free

lemmas report_all =
  rspecish.report documentation.report json.report junit.report tap.report nagios.report silent.report

lemma keep_registry:
  "\<exists>txt code. out = Some (txt, code) \<and> V code \<Longrightarrow>
   \<exists>txt code. map_option (\<lambda>(txt, code). (txt, code, reg)) out = Some (txt, code, reg) \<and> V code"
  by auto

lemma Output_known:
  assumes "clean_groups gs" and "f \<noteq> Prometheus" and "f \<noteq> Structured"
  shows "\<exists>txt code. Output f R E reg opts gs = Some (txt, code, reg) \<and>
                    (code = 0 \<longleftrightarrow> (\<forall>r\<in>set (concat gs). Result r \<noteq> FAIL))"
  using assms(2,3) by (cases f) (simp_all only: Output.simps report_all[OF assms(1), THEN keep_registry] simp_thms)

section \<open>Properties of the formats\<close>

definition fail_result :: TestResult where
  "fail_result = skipResult sample_info ''p'' (1, 2) \<lparr>Result := FAIL, Skipped := False, MatcherRes := None\<rparr>"

definition skip_result :: TestResult where
  "skip_result = skipResult sample_info ''p'' (1, 2)"

definition plain_renderer :: renderer where
  "plain_renderer =
     \<lparr>rn_green = (\<lambda>s. s), rn_red = (\<lambda>s. s), rn_yellow = (\<lambda>s. s), rn_json = (\<lambda>_. ''j''), rn_json_chain = (\<lambda>_. ''c''),
      rn_err = (\<lambda>_. ''e''), rn_diff = (\<lambda>a b. a @ b), rn_secs = (\<lambda>_. ''0''), rn_v = (\<lambda>_. ''v''), rn_xml = (\<lambda>s. s),
      rn_now = ''now'', rn_json_out = (\<lambda>_ _ _ l. l), rn_structured = (\<lambda>_ _ _ l. l)\<rparr>"

definition quiet_env :: prom_env where
  "quiet_env = \<lparr>pe_families = (\<lambda>_. Some []), pe_now = 5\<rparr>"

text \<open>C36: A run that produced results without unknown codes or empty groups is always reported by every format but
  prometheus and structured, without a panic, and the exit code is 0 exactly when no result failed.\<close>

theorem Output_verdict:
  assumes "clean_groups gs" and "f \<noteq> Prometheus" and "f \<noteq> Structured"
  shows "\<exists>txt code. Output f R E reg opts gs = Some (txt, code, reg) \<and>
                    (code = 0 \<longleftrightarrow> (\<forall>r\<in>set (concat gs). Result r \<noteq> FAIL))"
  by (rule Output_known[OF assms])

theorem Output_verdict_witness:
  "\<exists>txt code. Output Tap plain_renderer quiet_env None [''sort''] [[fail_result], [skip_result]] = Some (txt, code, None) \<and> code \<noteq> 0"
proof -
  have c: "clean_groups [[fail_result], [skip_result]]"
    by (simp add: clean_groups_def fail_result_def skip_result_def skipResult_def)
  show ?thesis
    using Output_verdict[OF c, of Tap plain_renderer quiet_env None "[''sort'']"] by (auto simp: fail_result_def)
qed

text \<open>C37: With the option sort, what a sorting format writes and returns does not depend on the order in which the
  groups arrive, provided the groups belong to different resources: the interleaving of the workers is invisible.\<close>

theorem Output_sorted_order_free:
  assumes "f \<in> {Rspecish, Documentation, Json, JUnit, Tap, Structured}" and "opt_set ''sort'' opts"
    and "mset gs = mset gs'" and "distinct (map group_key gs)"
  shows "Output f R E reg opts gs = Output f R E reg opts gs'"
  using assms(1) order_free_all[OF assms(2-4), of R] by auto

theorem Output_sorted_order_free_witness:
  "Output Json plain_renderer quiet_env None [''sort''] [[fail_result], [skip_result\<lparr>ResourceId := ''z''\<rparr>]] =
   Output Json plain_renderer quiet_env None [''sort''] [[skip_result\<lparr>ResourceId := ''z''\<rparr>], [fail_result]]"
  by (rule Output_sorted_order_free)
    (simp_all add: equal_fold_def group_key_def SortKey_def fail_result_def skip_result_def skipResult_def sample_info_def)

section \<open>Properties of prometheus\<close>

lemma prom_count_run:
  assumes "prom_count v tr m = Some m'"
  shows "m_verbose m = v" and "m_verbose m' = v" and "m_runs m' = m_runs m"
    and "m_outcomes m' l = m_outcomes m l + (if prom_labels v tr = l then 1 else 0)"
  using assms by (auto simp: prom_count_def Let_def split: if_splits)

lemma prom_group_run:
  "prom_group v i trs (m, ov, st) = Some (m', ov', st') \<Longrightarrow>
   m_runs m' = m_runs m \<and>
   m_outcomes m' l = m_outcomes m l + length (filter (\<lambda>r. prom_labels v r = l) trs) \<and>
   (ov' = ov \<or> ov' \<in> ToOutcome ` set trs) \<and> (i = 0 \<longrightarrow> trs \<noteq> [] \<longrightarrow> ov' \<in> ToOutcome ` set trs)"
proof (induction trs arbitrary: i m ov st)
  case (Cons tr trs)
  then obtain m1 where m1: "prom_count v tr m = Some m1"
    and rest: "prom_group v (Suc i) trs
      (m1, if i = 0 \<or> canChangeOverallOutcome ov (ToOutcome tr) then ToOutcome tr else ov,
       if st = 0 \<or> StartTime tr < st then StartTime tr else st) = Some (m', ov', st')"
    by (auto simp: Let_def split: option.splits)
  from Cons.IH[OF rest] prom_count_run(3,4)[OF m1] show ?case by (auto split: if_splits)
qed simp

lemma prom_groups_run:
  "prom_groups v gs (m, ov, st) = Some (m', ov', st') \<Longrightarrow>
   m_runs m' = m_runs m \<and>
   m_outcomes m' l = m_outcomes m l + length (filter (\<lambda>r. prom_labels v r = l) (concat gs))"
proof (induction gs arbitrary: m ov st)
  case (Cons g gs)
  then obtain m1 ov1 st1 where g: "prom_group v 0 g (m, ov, st) = Some (m1, ov1, st1)"
    and rest: "prom_groups v gs (m1, ov1, st1) = Some (m', ov', st')"
    by (auto split: option.splits)
  from Cons.IH[OF rest] prom_group_run[OF g] show ?case by simp
qed simp

lemma prom_groups_append:
  "prom_groups v (gs @ hs) st =
     (case prom_groups v gs st of None \<Rightarrow> None | Some st' \<Rightarrow> prom_groups v hs st')"
  by (induction gs arbitrary: st) (auto split: option.splits)

lemma Prometheus_Output_run:
  assumes "Prometheus_Output E reg opts gs = Some (m', txt, code)"
  obtains m ov st where
    "prom_groups (opt_set ''verbose'' opts) gs
       (case reg of None \<Rightarrow> setupMetrics (opt_set ''verbose'' opts) | Some m \<Rightarrow> m, ''unknown'', 0) = Some (m, ov, st)"
    and "m_runs m' = (m_runs m)(ov := m_runs m ov + 1)" and "m_outcomes m' = m_outcomes m"
  using assms by (auto simp: Prometheus_Output_def Let_def split: option.splits if_splits)

text \<open>The prometheus format adds to the counter of every label tuple exactly the number of results of the run with these
  labels, on top of what earlier runs of the process counted.\<close>

lemma Prometheus_counts:
  assumes "Prometheus_Output E reg opts gs = Some (m', txt, code)"
  shows "m_outcomes m' l =
     (case reg of None \<Rightarrow> 0 | Some m \<Rightarrow> m_outcomes m l) +
     length (filter (\<lambda>r. prom_labels (opt_set ''verbose'' opts) r = l) (concat gs))"
proof -
  from assms obtain m ov st where run: "prom_groups (opt_set ''verbose'' opts) gs
       (case reg of None \<Rightarrow> setupMetrics (opt_set ''verbose'' opts) | Some m \<Rightarrow> m, ''unknown'', 0) = Some (m, ov, st)"
    and m: "m_outcomes m' = m_outcomes m"
    by (rule Prometheus_Output_run)
  from prom_groups_run[OF run, of l] show ?thesis
    unfolding m by (simp add: setupMetrics_def split: option.splits)
qed

lemma sample_prometheus:
  "\<exists>m. Prometheus_Output quiet_env None [] [[fail_result], [skip_result]] = Some (m, [], 0)"
  by (simp add: Prometheus_Output_def prom_count_def setupMetrics_def milliseconds_def since_def quiet_env_def
      fail_result_def skip_result_def skipResult_def base_result_def sample_info_def Let_def)

lemma Prometheus_counts_witness:
  "\<exists>m. Prometheus_Output quiet_env None [] [[fail_result], [skip_result]] = Some (m, [], 0) \<and>
       m_outcomes m [''file'', ''fail''] = 1"
proof -
  obtain m where m: "Prometheus_Output quiet_env None [] [[fail_result], [skip_result]] = Some (m, [], 0)"
    using sample_prometheus by blast
  have "to_lower ''File'' = ''file''" by code_simp
  with Prometheus_counts[OF m, of "[''file'', ''fail'']"] show ?thesis
    using m by (simp add: prom_labels_def ToOutcome_def fail_result_def skip_result_def skipResult_def base_result_def
        sample_info_def)
qed

text \<open>Each group of results resets the outcome of the whole run, so a run whose last group has no failure is never
  counted as failed, whatever failed before.\<close>

lemma Prometheus_last_group:
  assumes "Prometheus_Output E reg opts (gs @ [g]) = Some (m', txt, code)"
    and "g \<noteq> []" and "\<forall>r\<in>set g. Result r \<noteq> FAIL"
  shows "m_runs m' ''fail'' = (case reg of None \<Rightarrow> 0 | Some m \<Rightarrow> m_runs m ''fail'')"
proof -
  let ?v = "opt_set ''verbose'' opts" and ?m0 = "case reg of None \<Rightarrow> setupMetrics (opt_set ''verbose'' opts) | Some m \<Rightarrow> m"
  from assms(1) obtain m ov st where run: "prom_groups ?v (gs @ [g]) (?m0, ''unknown'', 0) = Some (m, ov, st)"
    and m: "m_runs m' = (m_runs m)(ov := m_runs m ov + 1)"
    by (rule Prometheus_Output_run)
  from run obtain m1 ov1 st1 where "prom_group ?v 0 g (m1, ov1, st1) = Some (m, ov, st)"
    by (auto simp: prom_groups_append split: option.splits)
  from prom_group_run[OF this] assms(2) have "ov \<in> ToOutcome ` set g" by blast
  with assms(3) have "ov \<noteq> ''fail''" by (auto simp: ToOutcome_def elim: ToOutcome_code.elims)
  with prom_groups_run[OF run] show ?thesis unfolding m by (simp add: setupMetrics_def split: option.splits)
qed

lemma Prometheus_last_group_witness:
  "\<exists>m. Prometheus_Output quiet_env None [] [[fail_result], [skip_result]] = Some (m, [], 0) \<and> m_runs m ''fail'' = 0"
proof -
  obtain m where m: "Prometheus_Output quiet_env None [] ([[fail_result]] @ [[skip_result]]) = Some (m, [], 0)"
    using sample_prometheus by auto
  from Prometheus_last_group[OF m] show ?thesis
    using m by (auto simp: skip_result_def skipResult_def base_result_def)
qed

end
