(* ===== verification/Validation.thy ===== *)
theory Validation
  imports Schedule_Run Worker_Pool Config_Merge Output_Formats
begin

text \<open>
  validate.go and discovery_validate.go: running all tests of a configuration, in parallel or along
  their dependencies, the loop that retries until the tests pass or the time is up, and the discovery
  tests. A run is a relation between the configuration and the groups of results it sends, one for
  every interleaving; a run whose \<^verbatim>\<open>Validate\<close> panics takes the process down and sends nothing further.
  \<open>validate\<close> is \<^verbatim>\<open>Validate(sys)\<close> of a resource, \<open>None\<close> when it panics.
\<close>

section \<open>Running the tests\<close>

definition validate_with :: "ext \<Rightarrow> System \<Rightarrow> (resource \<Rightarrow> clock) \<Rightarrow> resource \<Rightarrow> TestResult list option" where
  "validate_with X sys clk r = snd (Validate X sys (clk r) r)"

text \<open>The number of workers of \<^verbatim>\<open>validateParallel\<close>, which unlike the other two has no lower bound.\<close>

definition parallel_workers :: "int \<Rightarrow> int \<Rightarrow> int" where
  "parallel_workers numCPU maxConcurrent =
     (let n = numCPU * 5 in if n > maxConcurrent then maxConcurrent else n)"

definition validateParallel ::
  "(resource \<Rightarrow> TestResult list option) \<Rightarrow> int \<Rightarrow> resource list \<Rightarrow> int \<Rightarrow> TestResult list list \<Rightarrow> bool" where
  "validateParallel validate numCPU resources maxConcurrent out \<longleftrightarrow>
     (\<exists>sent. pool_run validate (parallel_workers numCPU maxConcurrent) resources sent \<and> out = map snd sent)"

fun emission_results :: "emission \<Rightarrow> TestResult list" where
  "emission_results (Ran results) = results"
| "emission_results (SkippedBy reason results) = results"

record run_env =
  re_validate :: "resource \<Rightarrow> TestResult list option"
  re_now :: "resource \<Rightarrow> int"
  re_numCPU :: int
  re_order :: "resource list \<Rightarrow> string list"

text \<open>\<open>re_order\<close> is the iteration order over the map of references in \<^verbatim>\<open>detectDependencyCycles\<close>.\<close>

definition wf_run_env :: "run_env \<Rightarrow> bool" where
  "wf_run_env E \<longleftrightarrow> 0 < re_numCPU E \<and> (\<forall>rs. set (re_order E rs) = Ref ` set rs)"

definition runValidation ::
  "run_env \<Rightarrow> GossConfig \<Rightarrow> string list \<Rightarrow> int \<Rightarrow> (schedule_error, TestResult list list) outcome \<Rightarrow> bool" where
  "runValidation E gossConfig skipList maxConcurrent r \<longleftrightarrow>
     (let resources = applyDisabledTypes (Resources gossConfig) skipList
      in if hasDependencies resources
         then (case buildSchedule (re_order E resources) resources of
                 Err e \<Rightarrow> r = Err e
               | Panic \<Rightarrow> False
               | Ret schedule \<Rightarrow>
                   (\<exists>out. validateWithDependencies (re_order E resources) (re_validate E) (re_now E) (re_numCPU E)
                            maxConcurrent resources out \<and>
                          r = Ret (map (emission_results \<circ> snd) out)))
         else (\<exists>out. validateParallel (re_validate E) (re_numCPU E) resources maxConcurrent out \<and> r = Ret out))"

section \<open>The retry loop\<close>

datatype validate_error = RunError schedule_error | BadOutputFormat string | RetryTimeoutReached

datatype validate_result = Returned int "validate_error option" | Panicked

text \<open>The loop of \<^verbatim>\<open>ValidateConfig\<close> from attempt \<open>i\<close> on: \<open>run i\<close> is what attempt \<open>i\<close> sends, \<open>elapsed i\<close> the time since
  the start when it has been reported, \<open>report\<close> the outputer. \<open>None\<close> means that the fuel did not suffice.\<close>

fun retry_loop ::
  "nat \<Rightarrow> (nat \<Rightarrow> (schedule_error, TestResult list list) outcome) \<Rightarrow> (nat \<Rightarrow> int) \<Rightarrow>
   (metrics option \<Rightarrow> TestResult list list \<Rightarrow> (string \<times> int \<times> metrics option) option) \<Rightarrow> int \<Rightarrow> int \<Rightarrow>
   nat \<Rightarrow> metrics option \<Rightarrow> validate_result option" where
  "retry_loop 0 run elapsed report sleep retryTimeout i reg = None"
| "retry_loop (Suc fuel) run elapsed report sleep retryTimeout i reg =
     (case run i of
        Err e \<Rightarrow> Some (Returned 1 (Some (RunError e)))
      | Panic \<Rightarrow> Some Panicked
      | Ret out \<Rightarrow>
          (case report reg out of
             None \<Rightarrow> Some Panicked
           | Some (txt, exitCode, reg') \<Rightarrow>
               if retryTimeout = 0 \<or> exitCode = 0 then Some (Returned exitCode None)
               else if elapsed i + sleep > retryTimeout then Some (Returned 3 (Some RetryTimeoutReached))
               else retry_loop fuel run elapsed report sleep retryTimeout (Suc i) reg'))"

text \<open>\<open>R\<close> renders as the terminal allows, \<open>Rcolor\<close> with colours.\<close>

definition getOutputer ::
  "bool option \<Rightarrow> registry \<Rightarrow> renderer \<Rightarrow> renderer \<Rightarrow> string \<Rightarrow> renderer \<times> (string + outputer)" where
  "getOutputer c reg R Rcolor f =
     (case c of None \<Rightarrow> R | Some noColor \<Rightarrow> if noColor then no_color R else Rcolor, GetOutputer reg f)"

text \<open>\<^verbatim>\<open>ValidateConfig\<close> but for the format discovery.\<close>

definition ValidateConfig ::
  "nat \<Rightarrow> registry \<Rightarrow> renderer \<Rightarrow> renderer \<Rightarrow> prom_env \<Rightarrow> metrics option \<Rightarrow> Config \<Rightarrow>
   (nat \<Rightarrow> (schedule_error, TestResult list list) outcome) \<Rightarrow> (nat \<Rightarrow> int) \<Rightarrow> validate_result option" where
  "ValidateConfig fuel reg R Rcolor P counters c run elapsed =
     (case getOutputer (NoColor c) reg R Rcolor (OutputFormat c) of
        (R', Inl err) \<Rightarrow> Some (Returned 1 (Some (BadOutputFormat err)))
      | (R', Inr out) \<Rightarrow>
          retry_loop fuel run elapsed (\<lambda>counters gs. Output out R' P counters (Config.FormatOptions c) gs)
            (Config.Sleep c) (Config.RetryTimeout c) 1 counters)"

section \<open>The log level\<close>

definition setLogLevel :: "Config \<Rightarrow> string option" where
  "setLogLevel c =
     List.find (\<lambda>lvl. lvl = to_upper (LogLevel c)) [''TRACE'', ''DEBUG'', ''INFO'', ''WARN'', ''ERROR'']"

section \<open>Discovery\<close>

definition entry_passed :: "(resource \<Rightarrow> TestResult list option) \<Rightarrow> DiscoveryEntry \<Rightarrow> bool option" where
  "entry_passed validate entry = map_option passed_results (validate (Resource entry))"

text \<open>\<^verbatim>\<open>discovered[result.register] = result.passed\<close> for every answer, in the order they arrive.\<close>

definition collect_discovered :: "(DiscoveryEntry \<times> bool) list \<Rightarrow> (string \<times> bool) list" where
  "collect_discovered sent = fold (\<lambda>(entry, passed). AList.update (Register entry) passed) sent []"

datatype discovery_failure = EntriesError discovery_error | NoDiscoveryTestsFound

definition validateDiscovery ::
  "run_env \<Rightarrow> DiscoveryConfig \<Rightarrow> int \<Rightarrow> (discovery_failure, (string \<times> bool) list) outcome \<Rightarrow> bool" where
  "validateDiscovery E discovery maxConcurrent r \<longleftrightarrow>
     (case Entries discovery of
        Err e \<Rightarrow> r = Err (EntriesError e)
      | Panic \<Rightarrow> False
      | Ret entries \<Rightarrow>
          if entries = [] then r = Err NoDiscoveryTestsFound
          else (\<exists>sent. pool_run (entry_passed (re_validate E)) (workerCount (re_numCPU E) maxConcurrent) entries sent \<and>
                       r = Ret (collect_discovered sent)))"

text \<open>\<^verbatim>\<open>validateDiscoveryConfig\<close> reports it; \<open>dj\<close> is the JSON encoder.\<close>

definition validateDiscoveryConfig ::
  "run_env \<Rightarrow> (bool \<Rightarrow> (string \<times> bool) list \<Rightarrow> string + string) \<Rightarrow> string list \<Rightarrow> GossConfig \<Rightarrow> int \<Rightarrow>
   int \<times> discovery_failure option \<Rightarrow> bool" where
  "validateDiscoveryConfig E dj opts gossConfig maxConcurrent r \<longleftrightarrow>
     (\<exists>d. validateDiscovery E (Discovery gossConfig) maxConcurrent d \<and>
          (case d of
             Err e \<Rightarrow> r = (1, Some e)
           | Panic \<Rightarrow> False
           | Ret discovered \<Rightarrow> r = (snd (Discovery_Output dj discovered opts), None)))"

section \<open>One failing dependency is always reported\<close>

lemma dep_edges_wf:
  assumes "wf_schedule schedule"
  shows "wf ((dep_edges (deps_of schedule))\<inverse>)"
proof (rule finite_acyclic_wf_converse)
  note assms' = assms[unfolded wf_schedule_def]
  have "dep_edges (deps_of schedule) \<subseteq> (it_ref ` set schedule) \<times> (\<Union>item\<in>set schedule. set (it_deps item))"
    using assms' by (auto simp: deps_of_def byRef_Some split: option.splits dest!: sym[of "Some _"]) blast
  then show "finite (dep_edges (deps_of schedule))" by (rule finite_subset) auto
qed (use assms in \<open>simp add: wf_schedule_def\<close>)

lemma first_failure:
  assumes "wf_schedule schedule" and "item \<in> set schedule"
    and "\<not> (deps_passed schedule validate item \<and>
             (\<exists>rs. validate (it_resource item) = Some rs \<and> passed_results rs))"
  shows "\<exists>item\<in>set schedule. deps_passed schedule validate item \<and>
             \<not> (\<exists>rs. validate (it_resource item) = Some rs \<and> passed_results rs)"
  using assms(2,3)
proof (induction "it_ref item" arbitrary: item rule: wf_induct_rule[OF dep_edges_wf[OF assms(1)]])
  case (1 item)
  show ?case
  proof (cases "deps_passed schedule validate item")
    case False
    then obtain d where d: "d \<in> set (it_deps item)" "\<not> dep_passed schedule validate d"
      by (auto simp: deps_passed_def)
    then obtain dep where dep: "dep \<in> set schedule" "it_ref dep = d"
      using assms(1) 1(2) unfolding wf_schedule_def by blast
    have "byRef schedule (it_ref item) = Some item"
      using assms(1) 1(2) by (simp add: wf_schedule_def byRef_Some)
    then have "(it_ref dep, it_ref item) \<in> (dep_edges (deps_of schedule))\<inverse>"
      using d(1) dep(2) by (simp add: deps_of_def)
    from 1(1)[OF this dep(1)] dep_passed_item[OF assms(1) dep(1), of validate] d(2) dep(2) show ?thesis by auto
  qed (use 1 in blast)
qed

lemma skip_emission_results: "r \<in> set (emission_results (skip_emission now item reason)) \<Longrightarrow> Result r = SKIP"
  by (simp add: skip_emission_def SkipResourceResults_def)

lemma skip_emission_nonempty: "emission_results (skip_emission now item reason) \<noteq> []"
  by (simp add: skip_emission_def SkipResourceResults_def)

lemma dependencies_verdict:
  assumes "set order = Ref ` set rs" and "buildSchedule order rs = Ret schedule"
    and "validateWithDependencies order validate now numCPU maxConcurrent rs out"
  shows "(\<exists>r\<in>set (concat (map (emission_results \<circ> snd) out)). Result r = FAIL) \<longleftrightarrow>
         (\<exists>res\<in>set rs. \<exists>results. validate res = Some results \<and> \<not> passed_results results)"
proof
  note out = final_out[OF assms]
  have b: "wf_schedule schedule" "map it_resource schedule = rs" using buildSchedule_Ret[OF assms(2,1)] by auto
  have items: "fst ` set out = set schedule" using mset_eq_setD[OF out(1)] by simp
  {
    assume "\<exists>r\<in>set (concat (map (emission_results \<circ> snd) out)). Result r = FAIL"
    then obtain item e r where e: "(item, e) \<in> set out" "r \<in> set (emission_results e)" "Result r = FAIL" by auto
    have item: "it_resource item \<in> set rs" using e(1) items b(2) by (metis fst_conv image_eqI image_set)
    from bspec[OF out(2) e(1)] e(2,3) have "\<exists>results. validate (it_resource item) = Some results \<and> \<not> passed_results results"
      by (cases e) (auto simp: passed_results_def list_all_iff dest: skip_emission_results)
    with item show "\<exists>res\<in>set rs. \<exists>results. validate res = Some results \<and> \<not> passed_results results" by blast
  next
    assume "\<exists>res\<in>set rs. \<exists>results. validate res = Some results \<and> \<not> passed_results results"
    then obtain item where "item \<in> set schedule" "\<not> (\<exists>rs. validate (it_resource item) = Some rs \<and> passed_results rs)"
      using b(2) by force
    then obtain item where item: "item \<in> set schedule" "deps_passed schedule validate item"
      "\<not> (\<exists>rs. validate (it_resource item) = Some rs \<and> passed_results rs)"
      using first_failure[OF b(1)] by blast
    then obtain e where e: "(item, e) \<in> set out" using items by force
    from bspec[OF out(2) e] item(2) obtain results where r: "e = Ran results" "validate (it_resource item) = Some results"
      by (cases e) auto
    with item(3) have "\<exists>r\<in>set results. Result r = FAIL" by (auto simp: passed_results_def list_all_iff)
    with e r(1) show "\<exists>r\<in>set (concat (map (emission_results \<circ> snd) out)). Result r = FAIL" by force
  }
qed

lemma parallel_verdict:
  assumes "0 < numCPU" and "0 < maxConcurrent" and "validateParallel validate numCPU rs maxConcurrent out"
  shows "(\<exists>r\<in>set (concat out). Result r = FAIL) \<longleftrightarrow>
         (\<exists>res\<in>set rs. \<exists>results. validate res = Some results \<and> \<not> passed_results results)"
proof -
  obtain sent where sent: "pool_run validate (parallel_workers numCPU maxConcurrent) rs sent" "out = map snd sent"
    using assms(3) by (auto simp: validateParallel_def)
  have "0 < parallel_workers numCPU maxConcurrent" using assms(1,2) by (simp add: parallel_workers_def Let_def)
  note run = pool_run_exact[OF this sent(1)]
  have "set out = (\<lambda>res. the (validate res)) ` set rs"
    using mset_eq_setD[OF run(1)] by (simp add: sent(2) image_image)
  with run(2) show ?thesis by (auto simp: passed_results_def list_all_iff) force+
qed

section \<open>The discovery tests\<close>

text \<open>A client of the pool whose final value does not depend on the order of the answers.\<close>

locale pool_client =
  fixes work :: "'a \<Rightarrow> 'b option" and workers :: int and ok :: "'a list \<Rightarrow> bool" and collect :: "('a \<times> 'b) list \<Rightarrow> 'c"
  assumes workers_positive: "0 < workers"
    and collect_perm: "ok items \<Longrightarrow> mset (map fst sent) = mset items \<Longrightarrow> mset sent = mset sent' \<Longrightarrow> collect sent = collect sent'"
begin

lemma refines_map:
  assumes "ok items" and "pool_run work workers items sent"
  shows "collect sent = collect (map (\<lambda>x. (x, the (work x))) items)"
proof (rule collect_perm[OF assms(1)])
  note run = pool_run_exact[OF workers_positive assms(2)]
  show "mset sent = mset (map (\<lambda>x. (x, the (work x))) items)" by (rule run(1))
  then have "image_mset fst (mset sent) = image_mset fst (mset (map (\<lambda>x. (x, the (work x))) items))" by (rule arg_cong)
  then show "mset (map fst sent) = mset items" by (simp add: image_mset.compositionality comp_def)
qed

lemma always_answers:
  "\<forall>x\<in>set items. work x \<noteq> None \<Longrightarrow> \<exists>sent. pool_run work workers items sent"
  by (rule pool_run_exists)

end

lemma collect_discovered_get:
  "distinct (map (Register \<circ> fst) sent) \<Longrightarrow>
   map_of (collect_discovered sent) k = map_of (map (\<lambda>(entry, passed). (Register entry, passed)) sent) k"
proof -
  have "map_of (fold (\<lambda>(entry, passed). AList.update (Register entry) passed) sent m) k =
      (case map_of (map (\<lambda>(entry, passed). (Register entry, passed)) sent) k of Some v \<Rightarrow> Some v | None \<Rightarrow> map_of m k)"
    if "distinct (map (Register \<circ> fst) sent)" for m
    using that
  proof (induction sent arbitrary: m)
    case (Cons a sent)
    obtain entry passed where a: "a = (entry, passed)" by (cases a)
    from Cons have "map_of (map (\<lambda>(entry, passed). (Register entry, passed)) sent) (Register entry) = None"
      by (force simp: a map_of_eq_None_iff)
    with Cons show ?case by (auto simp: a update_conv split: option.splits)
  qed simp
  then show "distinct (map (Register \<circ> fst) sent) \<Longrightarrow>
   map_of (collect_discovered sent) k = map_of (map (\<lambda>(entry, passed). (Register entry, passed)) sent) k"
    by (simp add: collect_discovered_def split: option.splits)
qed

lemma workerCount_positive: "0 < workerCount numCPU maxConcurrent"
  by (simp add: workerCount_def Let_def)

interpretation discovery: pool_client "entry_passed validate" "workerCount numCPU maxConcurrent"
  "\<lambda>entries. distinct (map Register entries)" "\<lambda>sent. map_of (collect_discovered sent)"
  for validate numCPU maxConcurrent
proof (unfold_locales, goal_cases)
  case 1
  show ?case by (rule workerCount_positive)
next
  case (2 items sent sent')
  have "mset (map Register (map fst sent)) = mset (map Register items)"
    using 2(2) by (metis mset_map)
  then have d: "distinct (map (Register \<circ> fst) sent)" using 2(1) by (metis map_map mset_eq_imp_distinct_iff)
  moreover have "mset (map (Register \<circ> fst) sent) = mset (map (Register \<circ> fst) sent')" using 2(3) by simp
  ultimately have d': "distinct (map (Register \<circ> fst) sent')" by (metis mset_eq_imp_distinct_iff)
  have keys: "map fst (map (\<lambda>(entry, passed). (Register entry, passed)) xs) = map (Register \<circ> fst) xs" for xs :: "(DiscoveryEntry \<times> bool) list"
    by (simp add: comp_def case_prod_unfold)
  have "map_of (map (\<lambda>(entry, passed). (Register entry, passed)) sent) = map_of (map (\<lambda>(entry, passed). (Register entry, passed)) sent')"
    by (rule map_of_inject_set[THEN iffD2]) (use d d' mset_eq_setD[OF 2(3)] in \<open>simp_all only: keys set_map\<close>)
  with d d' show ?case by (simp add: fun_eq_iff collect_discovered_get)
qed

section \<open>Properties of a run\<close>

definition sample_env :: "string \<Rightarrow> run_env" where
  "sample_env failing =
     \<lparr>re_validate = sample_validate failing, re_now = (\<lambda>_. 0), re_numCPU = 4, re_order = map Ref\<rparr>"

lemma sample_env_wf: "wf_run_env (sample_env failing)"
  by (simp add: wf_run_env_def sample_env_def)

lemma sample_env_answers: "re_validate (sample_env failing) res \<noteq> None"
  by (simp add: sample_env_def sample_validate_def)

lemma one_file_resources: "Resources (one_file k t) = [RFile (zero_File\<lparr>rb_id := k, rb_Title := t\<rparr>)]"
  by (simp add: Resources_def concat_maps_def one_file_def NewGossConfig_def)

lemma runValidation_parallel:
  "\<not> hasDependencies (applyDisabledTypes (Resources cfg) skipList) \<Longrightarrow>
   runValidation E cfg skipList maxConcurrent r \<longleftrightarrow>
   (\<exists>out. validateParallel (re_validate E) (re_numCPU E) (applyDisabledTypes (Resources cfg) skipList) maxConcurrent out \<and>
          r = Ret out)"
  by (simp add: runValidation_def)

lemma runValidation_dependent:
  assumes "hasDependencies (applyDisabledTypes (Resources cfg) skipList)"
    and "runValidation E cfg skipList maxConcurrent (Ret gs)"
  shows "\<exists>schedule out.
    buildSchedule (re_order E (applyDisabledTypes (Resources cfg) skipList)) (applyDisabledTypes (Resources cfg) skipList) = Ret schedule \<and>
    validateWithDependencies (re_order E (applyDisabledTypes (Resources cfg) skipList)) (re_validate E) (re_now E) (re_numCPU E)
      maxConcurrent (applyDisabledTypes (Resources cfg) skipList) out \<and>
    gs = map (emission_results \<circ> snd) out"
  using assms
  by (cases "buildSchedule (re_order E (applyDisabledTypes (Resources cfg) skipList)) (applyDisabledTypes (Resources cfg) skipList)")
    (simp_all add: runValidation_def Let_def)

lemma sample_run_exists: "\<exists>gs. runValidation (sample_env failing) (one_file k t) [] 1 (Ret gs)"
proof -
  have "\<not> hasDependencies (applyDisabledTypes (Resources (one_file k t)) [])"
    by (simp add: one_file_resources hasDependencies_def applyDisabledTypes_def GetDependsOn_def zero_File_def
        empty_base_def res_base.defs File.defs)
  then show ?thesis
    using pool_run_exists[of "applyDisabledTypes (Resources (one_file k t)) []" "re_validate (sample_env failing)"]
    by (simp add: runValidation_parallel validateParallel_def sample_env_answers)
qed

text \<open>Every group is what the validation of one resource returned, or the skip of one resource.\<close>

lemma runValidation_groups:
  assumes "wf_run_env E" and "runValidation E cfg skipList maxConcurrent (Ret gs)" and "g \<in> set gs"
  shows "(\<exists>res\<in>set (applyDisabledTypes (Resources cfg) skipList). re_validate E res = Some g) \<or>
         g \<noteq> [] \<and> (\<forall>r\<in>set g. Result r = SKIP)"
proof (cases "hasDependencies (applyDisabledTypes (Resources cfg) skipList)")
  case True
  let ?rs = "applyDisabledTypes (Resources cfg) skipList"
  from runValidation_dependent[OF True assms(2)] obtain schedule out where
    b: "buildSchedule (re_order E ?rs) ?rs = Ret schedule" and
    v: "validateWithDependencies (re_order E ?rs) (re_validate E) (re_now E) (re_numCPU E) maxConcurrent ?rs out" and
    gs: "gs = map (emission_results \<circ> snd) out"
    by blast
  have ord: "set (re_order E ?rs) = Ref ` set ?rs" using assms(1) by (simp add: wf_run_env_def)
  note out = final_out[OF ord b v]
  obtain item e where e: "(item, e) \<in> set out" "g = emission_results e" using assms(3) gs by auto
  have "item \<in> set schedule" using e(1) mset_eq_setD[OF out(1)] by force
  then have "it_resource item \<in> set ?rs" using buildSchedule_Ret[OF b ord] by (metis image_eqI set_map)
  with bspec[OF out(2) e(1)] e(2) show ?thesis
    by (cases e) (auto dest: skip_emission_results simp: skip_emission_nonempty)
next
  case False
  then obtain sent where "pool_run (re_validate E) (parallel_workers (re_numCPU E) maxConcurrent)
      (applyDisabledTypes (Resources cfg) skipList) sent" "gs = map snd sent"
    using assms(2) by (auto simp: runValidation_parallel validateParallel_def)
  then obtain s x where s: "pool_inv (re_validate E) (applyDisabledTypes (Resources cfg) skipList) s" "(x, g) \<in> set (po_out s)"
    using assms(3) pool_inv_reaches unfolding pool_run_def by fastforce
  then have "x \<in> set (applyDisabledTypes (Resources cfg) skipList)"
    unfolding pool_inv_def by (metis (no_types, lifting) Un_iff fst_conv image_eqI list.set_map mset_eq_setD set_append)
  with s show ?thesis by (auto simp: pool_inv_def)
qed

lemma run_verdict:
  assumes "wf_run_env E" and "0 < maxConcurrent" and "runValidation E cfg skipList maxConcurrent (Ret gs)"
  shows "(\<exists>r\<in>set (concat gs). Result r = FAIL) \<longleftrightarrow>
     (\<exists>res\<in>set (applyDisabledTypes (Resources cfg) skipList). \<exists>results.
        re_validate E res = Some results \<and> \<not> passed_results results)"
proof (cases "hasDependencies (applyDisabledTypes (Resources cfg) skipList)")
  case True
  let ?rs = "applyDisabledTypes (Resources cfg) skipList"
  from runValidation_dependent[OF True assms(3)] obtain schedule out where
    b: "buildSchedule (re_order E ?rs) ?rs = Ret schedule" and
    v: "validateWithDependencies (re_order E ?rs) (re_validate E) (re_now E) (re_numCPU E) maxConcurrent ?rs out" and
    gs: "gs = map (emission_results \<circ> snd) out"
    by blast
  have "set (re_order E ?rs) = Ref ` set ?rs" using assms(1) by (simp add: wf_run_env_def)
  from dependencies_verdict[OF this b v] show ?thesis unfolding gs .
next
  case False
  then have v: "validateParallel (re_validate E) (re_numCPU E) (applyDisabledTypes (Resources cfg) skipList) maxConcurrent gs"
    using assms(3) by (auto simp: runValidation_parallel)
  have "0 < re_numCPU E" using assms(1) by (simp add: wf_run_env_def)
  from parallel_verdict[OF this assms(2) v] show ?thesis .
qed

text \<open>C22: Whatever the interleaving and with or without dependencies, a run reports a failed result exactly when
  some resource of the configuration (after disabling types) fails its validation: no failure gets lost behind a
  skipped resource, and nothing fails that was not validated.\<close>

theorem runValidation_verdict:
  assumes "wf_run_env E" and "0 < maxConcurrent" and "runValidation E cfg skipList maxConcurrent (Ret gs)"
  shows "(\<exists>r\<in>set (concat gs). Result r = FAIL) \<longleftrightarrow>
     (\<exists>res\<in>set (applyDisabledTypes (Resources cfg) skipList). \<exists>results.
        re_validate E res = Some results \<and> \<not> passed_results results)"
  by (rule run_verdict[OF assms])

theorem runValidation_verdict_witness:
  "\<exists>gs. runValidation (sample_env ''a'') (one_file ''a'' []) [] 1 (Ret gs) \<and> (\<exists>r\<in>set (concat gs). Result r = FAIL)"
proof -
  obtain gs where gs: "runValidation (sample_env ''a'') (one_file ''a'' []) [] 1 (Ret gs)" using sample_run_exists by blast
  have "\<exists>res\<in>set (applyDisabledTypes (Resources (one_file ''a'' [])) []). \<exists>results.
      re_validate (sample_env ''a'') res = Some results \<and> \<not> passed_results results"
    by (simp add: one_file_resources applyDisabledTypes_def sample_env_def sample_validate_def passed_results_def
        YAMLKey_def zero_File_def empty_base_def res_base.defs File.defs)
  with gs runValidation_verdict[OF sample_env_wf _ gs] show ?thesis by auto
qed

text \<open>C24: The parallel run always ends: no interleaving takes infinitely many steps, from every state it can reach the
  end, and unless a resource's validation panics it ends with one group per resource.\<close>

theorem validateParallel_live:
  assumes "\<forall>res\<in>set resources. validate res \<noteq> None" and "0 < numCPU" and "0 < maxConcurrent"
  shows "wfP (\<lambda>t s. pool_step validate (parallel_workers numCPU maxConcurrent) s t) \<and>
     (\<exists>out. validateParallel validate numCPU resources maxConcurrent out) \<and>
     (\<forall>out. validateParallel validate numCPU resources maxConcurrent out \<longrightarrow>
        mset out = mset (map (\<lambda>res. the (validate res)) resources)) \<and>
     (\<forall>s. pool_reaches validate (parallel_workers numCPU maxConcurrent) resources s \<longrightarrow>
        (\<exists>t. (pool_step validate (parallel_workers numCPU maxConcurrent))\<^sup>*\<^sup>* s t \<and>
             pool_final (parallel_workers numCPU maxConcurrent) t \<and> \<not> po_crashed t))"
proof (intro conjI allI impI)
  let ?w = "parallel_workers numCPU maxConcurrent"
  show "wfP (\<lambda>t s. pool_step validate ?w s t)" by (rule pool_wf)
  show "\<exists>out. validateParallel validate numCPU resources maxConcurrent out"
    using pool_run_exists[OF assms(1)] by (auto simp: validateParallel_def)
  have "0 < ?w" using assms(2,3) by (simp add: parallel_workers_def Let_def)
  fix out
  assume "validateParallel validate numCPU resources maxConcurrent out"
  then obtain sent where sent: "pool_run validate ?w resources sent" "out = map snd sent"
    by (auto simp: validateParallel_def)
  from pool_run_exact(1)[OF \<open>0 < ?w\<close> sent(1)] have "image_mset snd (mset sent) = image_mset snd (mset (map (\<lambda>x. (x, the (validate x))) resources))"
    by (rule arg_cong)
  then show "mset out = mset (map (\<lambda>res. the (validate res)) resources)"
    by (simp add: sent(2) image_mset.compositionality comp_def)
next
  let ?w = "parallel_workers numCPU maxConcurrent"
  fix s
  assume s: "pool_reaches validate ?w resources s"
  obtain t where t: "(pool_step validate ?w)\<^sup>*\<^sup>* s t" "pool_final ?w t \<or> po_crashed t" using pool_completes by blast
  with s have "pool_reaches validate ?w resources t" by (meson rtranclp_trans)
  with pool_crash_cause assms(1) have "\<not> po_crashed t" by blast
  with t show "\<exists>t. (pool_step validate ?w)\<^sup>*\<^sup>* s t \<and> pool_final ?w t \<and> \<not> po_crashed t" by blast
qed

theorem validateParallel_live_witness:
  "\<exists>out. validateParallel (sample_validate []) 4 sample_files 2 out \<and>
         mset out = mset (map (\<lambda>res. the (sample_validate [] res)) sample_files)"
  using validateParallel_live[of sample_files "sample_validate []" 4 2] by (auto simp: sample_validate_def)

text \<open>With a concurrency limit below one no worker is started: the run sends nothing and every resource goes unreported.\<close>

lemma validateParallel_no_workers:
  assumes "maxConcurrent \<le> 0" and "0 < numCPU"
  shows "validateParallel validate numCPU resources maxConcurrent out \<longleftrightarrow> out = []"
proof -
  have "parallel_workers numCPU maxConcurrent \<le> 0" using assms by (simp add: parallel_workers_def Let_def)
  then show ?thesis by (auto simp: validateParallel_def no_workers)
qed

lemma validateParallel_no_workers_witness:
  "validateParallel (sample_validate []) 4 sample_files 0 []"
  using validateParallel_no_workers[of 0 4 "sample_validate []" sample_files "[]"] by simp

section \<open>Properties of discovery\<close>

text \<open>What discovery is about: every register name is bound to whether its test passes.\<close>

definition discovery_spec :: "(resource \<Rightarrow> TestResult list option) \<Rightarrow> DiscoveryConfig \<Rightarrow> string \<rightharpoonup> bool" where
  "discovery_spec validate d =
     map_of (map (\<lambda>res. (GetRegister res, passed_results (the (validate res)))) (discovery_resources d))"

lemma map_of_collect_entries:
  assumes "distinct (map Register entries)"
  shows "map_of (collect_discovered (map (\<lambda>e. (e, f e)) entries)) = map_of (map (\<lambda>e. (Register e, f e)) entries)"
proof
  fix k
  have "distinct (map (Register \<circ> fst) (map (\<lambda>e. (e, f e)) entries))" using assms by (simp add: comp_def)
  from collect_discovered_get[OF this, of k]
  show "map_of (collect_discovered (map (\<lambda>e. (e, f e)) entries)) k = map_of (map (\<lambda>e. (Register e, f e)) entries) k"
    by (simp add: comp_def)
qed

lemma Entries_registers:
  assumes "Entries d = Ret entries"
  shows "distinct (map Register entries)" and "entries = entriesWithoutValidation d"
  using assms by (auto simp: Entries_def entries_loop_spec entriesWithoutValidation_def comp_def)

text \<open>C23: The concurrent discovery phase refines the specification: for every interleaving and number of workers the
  map it returns binds each register name to the outcome of its own test and nothing else.\<close>

theorem validateDiscovery_refines:
  assumes "validateDiscovery E d maxConcurrent (Ret m)"
  shows "map_of m = discovery_spec (re_validate E) d"
proof -
  let ?v = "re_validate E" and ?w = "workerCount (re_numCPU E) maxConcurrent"
  from assms obtain entries sent where e: "Entries d = Ret entries"
    and sent: "pool_run (entry_passed ?v) ?w entries sent" and m: "m = collect_discovered sent"
    by (auto simp: validateDiscovery_def split: outcome.splits if_splits)
  note reg = Entries_registers[OF e]
  have "map_of m = map_of (collect_discovered (map (\<lambda>x. (x, the (entry_passed ?v x))) entries))"
    unfolding m by (rule discovery.refines_map[OF reg(1) sent])
  also have "\<dots> = map_of (map (\<lambda>x. (Register x, the (entry_passed ?v x))) entries)"
    by (rule map_of_collect_entries[OF reg(1)])
  also have "map (\<lambda>x. (Register x, the (entry_passed ?v x))) entries =
      map (\<lambda>x. (Register x, passed_results (the (?v (Resource x))))) entries"
    using pool_run_exact(2)[OF workerCount_positive sent] by (auto simp: entry_passed_def option.map_sel)
  finally show ?thesis by (simp add: discovery_spec_def reg(2) entriesWithoutValidation_def comp_def)
qed

definition sample_discovery :: DiscoveryConfig where
  "sample_discovery = empty_discovery\<lparr>d_Files := [(''a'', zero_File\<lparr>rb_id := ''a'', rb_Register := ''has_a''\<rparr>)]\<rparr>"

lemma sample_discovery_resources:
  "discovery_resources sample_discovery = [RFile (zero_File\<lparr>rb_id := ''a'', rb_Register := ''has_a''\<rparr>)]"
  by (simp add: discovery_resources_def discovery_maps_def sample_discovery_def empty_discovery_def)

lemma sample_discovery_run: "\<exists>m. validateDiscovery (sample_env failing) sample_discovery 1 (Ret m)"
proof -
  let ?es = "[\<lparr>Register = ''has_a'', Resource = RFile (zero_File\<lparr>rb_id := ''a'', rb_Register := ''has_a''\<rparr>)\<rparr>]"
  have e: "Entries sample_discovery = Ret ?es"
    by (simp add: Entries_def sample_discovery_resources GetRegister_def Let_def zero_File_def empty_base_def res_base.defs File.defs)
  have "\<forall>x\<in>set ?es. entry_passed (re_validate (sample_env failing)) x \<noteq> None"
    using sample_env_answers by (simp add: entry_passed_def)
  from discovery.always_answers[OF this, of 4 1] show ?thesis
    by (auto simp: validateDiscovery_def e sample_env_def)
qed

theorem validateDiscovery_refines_witness:
  "\<exists>m. validateDiscovery (sample_env ''a'') sample_discovery 1 (Ret m) \<and> map_of m ''has_a'' = Some False"
proof -
  obtain m where m: "validateDiscovery (sample_env ''a'') sample_discovery 1 (Ret m)" using sample_discovery_run by blast
  from validateDiscovery_refines[OF m] have "map_of m ''has_a'' = Some False"
    by (simp add: discovery_spec_def sample_discovery_resources GetRegister_def sample_env_def sample_validate_def
        passed_results_def YAMLKey_def zero_File_def empty_base_def res_base.defs File.defs)
  with m show ?thesis by blast
qed

section \<open>Properties of the retry loop\<close>

lemma retry_enough_fuel:
  assumes "0 < sleep" and "\<And>j. elapsed j + sleep \<le> elapsed (Suc j)"
    and "retryTimeout - elapsed i < (int n + 1) * sleep"
  shows "\<exists>r. retry_loop (Suc n) run elapsed report sleep retryTimeout i reg = Some r"
  using assms(3)
proof (induction n arbitrary: i reg)
  case 0
  then show ?case by (auto split: outcome.splits option.splits)
next
  case (Suc n)
  have "retryTimeout - elapsed (Suc i) < (int n + 1) * sleep"
    using Suc.prems assms(2)[of i] by (simp add: algebra_simps)
  from Suc.IH[OF this] show ?case
    by (simp only: retry_loop.simps(2)[of "Suc n"]) (auto simp del: retry_loop.simps split: outcome.splits option.splits)
qed

lemma ValidateConfig_fuel:
  assumes "0 < Config.Sleep c" and "0 \<le> elapsed 1" and "\<And>j. elapsed j + Config.Sleep c \<le> elapsed (Suc j)"
    and "0 \<le> Config.RetryTimeout c"
  shows "\<exists>r. ValidateConfig (nat (Config.RetryTimeout c div Config.Sleep c) + 1) reg R Rcolor P counters c run elapsed = Some r"
proof -
  let ?n = "nat (Config.RetryTimeout c div Config.Sleep c)"
  have "Config.RetryTimeout c < (Config.RetryTimeout c div Config.Sleep c + 1) * Config.Sleep c"
    using assms(1) by (metis add.commute mult.commute mult_div_mod_eq pos_mod_bound add_strict_left_mono distrib_left mult.right_neutral)
  moreover have "int ?n = Config.RetryTimeout c div Config.Sleep c" using assms(1,4) by (simp add: pos_imp_zdiv_nonneg_iff)
  ultimately have "Config.RetryTimeout c - elapsed 1 < (int ?n + 1) * Config.Sleep c" using assms(2) by simp
  from retry_enough_fuel[OF assms(1,3) this] show ?thesis
    by (auto simp: ValidateConfig_def split: prod.splits sum.splits)
qed

definition attempt_passes :: "(nat \<Rightarrow> (schedule_error, TestResult list list) outcome) \<Rightarrow> nat \<Rightarrow> bool" where
  "attempt_passes run i = (case run i of Ret gs \<Rightarrow> list_all passed_results gs | _ \<Rightarrow> False)"

lemma attempt_passes_Ret: "run i = Ret gs \<Longrightarrow> attempt_passes run i \<longleftrightarrow> (\<forall>r\<in>set (concat gs). Result r \<noteq> FAIL)"
  by (auto simp: attempt_passes_def passed_results_def list_all_iff)

text \<open>What the loop returns when attempt \<open>j\<close> was the last one.\<close>

definition loop_result_ok ::
  "(nat \<Rightarrow> (schedule_error, TestResult list list) outcome) \<Rightarrow> (nat \<Rightarrow> int) \<Rightarrow> int \<Rightarrow> int \<Rightarrow> nat \<Rightarrow> validate_result \<Rightarrow> bool" where
  "loop_result_ok run elapsed sleep retryTimeout j r \<longleftrightarrow>
     (if attempt_passes run j then r = Returned 0 None
      else if retryTimeout = 0 then (\<exists>code. code \<noteq> 0 \<and> r = Returned code None)
      else elapsed j + sleep > retryTimeout \<and> r = Returned 3 (Some RetryTimeoutReached))"

end
