(* ===== verification/Load_Config.thy ===== *)
theory Load_Config
  imports Store Validation
begin

text \<open>
  The rest of store.go, template.go and validate.go that leads to a configuration: variables from files
  and from the command line, the template filter built from them, loading a gossfile with everything it
  includes, the discovery phase before it, rendering and writing. The package variables
  \<^verbatim>\<open>currentTemplateFilter\<close> and \<^verbatim>\<open>outStoreFormat\<close> are the fields \<open>se_filter\<close> and \<open>se_format\<close> of the environment, set
  by each load. The decoders, mergo and text/template are parameters.
\<close>

section \<open>Variables\<close>

type_synonym vars = "val gomap"

type_synonym template_func = "val list \<Rightarrow> (store_error, val) outcome"

text \<open>A compiled regular expression: \<^verbatim>\<open>MatchString\<close>, \<^verbatim>\<open>SubexpNames\<close> and \<^verbatim>\<open>FindStringSubmatch\<close>, nil when there is no match.\<close>

record compiled =
  co_MatchString :: "string \<Rightarrow> bool"
  co_SubexpNames :: "string list"
  co_FindStringSubmatch :: "string \<Rightarrow> string list"

record vars_env =
  ve_json :: "string \<Rightarrow> (store_error, vars) outcome"
  ve_yaml :: "string \<Rightarrow> (store_error, vars) outcome"
  ve_mergo :: "vars \<Rightarrow> vars \<Rightarrow> vars option"
  ve_getenv :: "string \<Rightarrow> string"
  ve_regexp :: "string \<Rightarrow> compiled option"
  ve_template :: "(string \<times> template_func) list \<Rightarrow> string \<Rightarrow> vars \<Rightarrow> vars \<Rightarrow> string \<Rightarrow> (store_error, string) outcome"

definition vars_from_data :: "store_env \<Rightarrow> vars_env \<Rightarrow> string \<Rightarrow> (store_error, vars) outcome" where
  "vars_from_data env V data =
     bind_outcome (getStoreFormatFromData env data)
       (\<lambda>fmt. case fmt of JSON \<Rightarrow> ve_json V data | YAML \<Rightarrow> ve_yaml V data | UNSET \<Rightarrow> Err StoreFormatUnset)"

definition varsFromFile :: "store_env \<Rightarrow> vars_env \<Rightarrow> string \<Rightarrow> (store_error, vars) outcome" where
  "varsFromFile env V varsFile =
     (if varsFile = [] then Ret []
      else (case se_file env varsFile of
              None \<Rightarrow> Err (FileError varsFile)
            | Some data \<Rightarrow> vars_from_data env V data))"

definition varsFromString :: "store_env \<Rightarrow> vars_env \<Rightarrow> string \<Rightarrow> (store_error, vars) outcome" where
  "varsFromString env V varsString = (if varsString = [] then Ret [] else vars_from_data env V varsString)"

fun merge_vars_files :: "store_env \<Rightarrow> vars_env \<Rightarrow> string list \<Rightarrow> vars \<Rightarrow> (store_error, vars) outcome" where
  "merge_vars_files env V [] mergedVars = Ret mergedVars"
| "merge_vars_files env V (varsFile # varsFiles) mergedVars =
     (case varsFromFile env V varsFile of
        Err e \<Rightarrow> Err (LoadingVarsFile varsFile e)
      | Panic \<Rightarrow> Panic
      | Ret vars \<Rightarrow>
          (case ve_mergo V mergedVars vars of
             None \<Rightarrow> Err (MergingVarsFile varsFile)
           | Some m \<Rightarrow> merge_vars_files env V varsFiles m))"

text \<open>\<^verbatim>\<open>for k, v := range varsExtra { mergedVars[k] = v }\<close> is \<^const>\<open>merge_map\<close>.\<close>

definition add_inline :: "store_env \<Rightarrow> vars_env \<Rightarrow> string \<Rightarrow> vars \<Rightarrow> (store_error, vars) outcome" where
  "add_inline env V varsInline mergedVars =
     (case varsFromString env V varsInline of
        Err e \<Rightarrow> Err (LoadingInlineVars e)
      | Panic \<Rightarrow> Panic
      | Ret varsExtra \<Rightarrow> Ret (merge_map varsExtra mergedVars))"

definition loadVars :: "store_env \<Rightarrow> vars_env \<Rightarrow> string list \<Rightarrow> string \<Rightarrow> (store_error, vars) outcome" where
  "loadVars env V varsFiles varsInline =
     bind_outcome (merge_vars_files env V varsFiles []) (add_inline env V varsInline)"

definition discoveredFromVars :: "vars \<Rightarrow> vars" where
  "discoveredFromVars vars =
     (case map_of vars ''Discovered'' of Some (VMap typed) \<Rightarrow> merge_map typed [] | _ \<Rightarrow> [])"

definition with_discovered :: "(string \<times> bool) list \<Rightarrow> vars \<Rightarrow> vars" where
  "with_discovered discovered mergedVars =
     (if discovered = [] then mergedVars
      else mergeType ''Discovered''
             (VMap (merge_map (map (\<lambda>(k, v). (k, VBool v)) discovered) (discoveredFromVars mergedVars))) mergedVars)"

definition loadVarsForTemplates ::
  "store_env \<Rightarrow> vars_env \<Rightarrow> string list \<Rightarrow> string \<Rightarrow> (string \<times> bool) list \<Rightarrow> (store_error, vars) outcome" where
  "loadVarsForTemplates env V varsFiles varsInline discovered =
     bind_outcome (loadVars env V varsFiles [])
       (\<lambda>mergedVars. add_inline env V varsInline (with_discovered discovered mergedVars))"

text \<open>\<^verbatim>\<open>TmplVars.Env\<close>: an entry of the environment without an equals sign panics.\<close>

definition env_entry :: "string \<Rightarrow> (string \<times> string) option" where
  "env_entry i = map_option (\<lambda>sep. (take sep i, drop (Suc sep) i)) (str_index i ''='')"

definition TmplVars_Env :: "string list \<Rightarrow> (string \<times> string) list option" where
  "TmplVars_Env environ = map_option (\<lambda>es. merge_map es []) (map_opt env_entry environ)"

section \<open>Templates\<close>

type_synonym template_filter = "string \<Rightarrow> (store_error, string) outcome"

text \<open>The functions that templates may call. A missing environment variable reads as the empty string.\<close>

definition mkSlice :: "val list \<Rightarrow> val" where
  "mkSlice args = VList args"

definition readFile :: "store_env \<Rightarrow> string \<Rightarrow> (store_error, string) outcome" where
  "readFile env f = (case se_file env f of None \<Rightarrow> Err (FileError f) | Some b \<Rightarrow> Ret (trim_space b))"

definition getEnv :: "(string \<Rightarrow> string) \<Rightarrow> string \<Rightarrow> string list \<Rightarrow> string" where
  "getEnv getenv key def =
     (let v = getenv key in if v = [] \<and> def \<noteq> [] then hd def else v)"

definition regexMatch :: "(string \<Rightarrow> compiled option) \<Rightarrow> string \<Rightarrow> string \<Rightarrow> (store_error, bool) outcome" where
  "regexMatch compile re s =
     (case compile re of None \<Rightarrow> Err (TemplateError re) | Some compiled \<Rightarrow> Ret (co_MatchString compiled s))"

text \<open>The two maps that \<^verbatim>\<open>findStringSubmatch\<close> fills, for the names and the text of the groups.\<close>

definition submatch_map :: "string list \<Rightarrow> string list \<Rightarrow> (string \<times> string) list" where
  "submatch_map names els =
     (let elsMap = map (\<lambda>i. (nat_str i, els ! i)) [0..<length els];
          elsMapNamed = merge_map (filter (\<lambda>(n, _). n \<noteq> []) (map (\<lambda>i. (names ! i, els ! i)) [0..<length els])) []
      in if elsMapNamed \<noteq> [] then elsMapNamed else elsMap)"

definition findStringSubmatch ::
  "(string \<Rightarrow> compiled option) \<Rightarrow> string \<Rightarrow> string \<Rightarrow> (store_error, (string \<times> string) list) outcome" where
  "findStringSubmatch compile pattern input =
     (case compile pattern of
        None \<Rightarrow> Panic
      | Some re \<Rightarrow> Ret (submatch_map (co_SubexpNames re) (co_FindStringSubmatch re input)))"

text \<open>
  A call from a template: text/template checks number and types of the arguments, and turns a panic of the function
  into an error of the execution.
\<close>

definition safe_call :: "string \<Rightarrow> (val list \<Rightarrow> (store_error, val) outcome option) \<Rightarrow> template_func" where
  "safe_call name f args =
     (case f args of None \<Rightarrow> Err (TemplateError name) | Some Panic \<Rightarrow> Err (TemplateError name) | Some r \<Rightarrow> r)"

fun strings_of :: "val list \<Rightarrow> string list option" where
  "strings_of [] = Some []"
| "strings_of (VStr s # vs) = map_option ((#) s) (strings_of vs)"
| "strings_of _ = None"

definition on_strings :: "(string list \<Rightarrow> (store_error, val) outcome option) \<Rightarrow> val list \<Rightarrow> (store_error, val) outcome option" where
  "on_strings f args = Option.bind (strings_of args) f"

definition funcMap :: "store_env \<Rightarrow> vars_env \<Rightarrow> (string \<times> template_func) list" where
  "funcMap env V =
     map (\<lambda>(name, f). (name, safe_call name f))
       [(''mkSlice'', \<lambda>args. Some (Ret (mkSlice args))),
        (''readFile'', on_strings (\<lambda>ss. case ss of [f] \<Rightarrow> Some (map_outcome id VStr (readFile env f)) | _ \<Rightarrow> None)),
        (''getEnv'', on_strings (\<lambda>ss. case ss of key # def \<Rightarrow> Some (Ret (VStr (getEnv (ve_getenv V) key def))) | [] \<Rightarrow> None)),
        (''regexMatch'', on_strings (\<lambda>ss. case ss of [re, s] \<Rightarrow> Some (map_outcome id VBool (regexMatch (ve_regexp V) re s)) | _ \<Rightarrow> None)),
        (''toUpper'', on_strings (\<lambda>ss. case ss of [s] \<Rightarrow> Some (Ret (VStr (to_upper s))) | _ \<Rightarrow> None)),
        (''toLower'', on_strings (\<lambda>ss. case ss of [s] \<Rightarrow> Some (Ret (VStr (to_lower s))) | _ \<Rightarrow> None)),
        (''findStringSubmatch'', on_strings (\<lambda>ss. case ss of
           [pattern, input] \<Rightarrow>
             Some (map_outcome id (\<lambda>m. VMap (map (\<lambda>(k, v). (k, VStr v)) m)) (findStringSubmatch (ve_regexp V) pattern input))
         | _ \<Rightarrow> None))]"

definition newTemplateFilter ::
  "store_env \<Rightarrow> vars_env \<Rightarrow> string list \<Rightarrow> string \<Rightarrow> (string \<times> bool) list \<Rightarrow> string \<Rightarrow>
   (store_error, template_filter) outcome" where
  "newTemplateFilter env V varsFiles varsInline discovered missingKey =
     (case loadVarsForTemplates env V varsFiles varsInline discovered of
        Err e \<Rightarrow> Err (LoadingVars varsFiles e)
      | Panic \<Rightarrow> Panic
      | Ret vars \<Rightarrow> Ret (ve_template V (funcMap env V) (''missingkey='' @ missingKey) vars (discoveredFromVars vars)))"

definition NewTemplateFilter ::
  "store_env \<Rightarrow> vars_env \<Rightarrow> string list \<Rightarrow> string \<Rightarrow> (string \<times> bool) list \<Rightarrow> (store_error, template_filter) outcome" where
  "NewTemplateFilter env V varsFiles varsInline discovered =
     newTemplateFilter env V varsFiles varsInline discovered ''error''"

definition NewPeekTemplateFilter ::
  "store_env \<Rightarrow> vars_env \<Rightarrow> string list \<Rightarrow> string \<Rightarrow> (store_error, template_filter) outcome" where
  "NewPeekTemplateFilter env V varsFiles varsInline = newTemplateFilter env V varsFiles varsInline [] ''zero''"

section \<open>Loading a gossfile\<close>

definition loadGossConfig ::
  "store_env \<Rightarrow> vars_env \<Rightarrow> string option \<Rightarrow> string list \<Rightarrow> string \<Rightarrow> string \<Rightarrow> (string \<times> bool) list \<Rightarrow> bool \<Rightarrow>
   (store_error, GossConfig) outcome" where
  "loadGossConfig env V stdin varsFiles varsInline specFile discovered peek =
     bind_outcome
       (if peek then NewPeekTemplateFilter env V varsFiles varsInline
        else NewTemplateFilter env V varsFiles varsInline discovered)
       (\<lambda>flt.
          let env = env\<lparr>se_filter := Some flt\<rparr>
          in bind_outcome
               (if specFile = ''-''
                then (case stdin of
                        None \<Rightarrow> Err (FileError ''STDIN'')
                      | Some data \<Rightarrow>
                          bind_outcome (getStoreFormatFromData env data)
                            (\<lambda>fmt. let env = env\<lparr>se_format := fmt\<rparr>
                                   in bind_outcome (ReadJSONData env data True)
                                        (\<lambda>gossConfig. mergeJSONData env gossConfig 0 [])))
                else bind_outcome (getStoreFormatFromFileName specFile)
                       (\<lambda>fmt. let env = env\<lparr>se_format := fmt\<rparr>
                              in bind_outcome (ReadJSON env specFile)
                                   (\<lambda>gossConfig. mergeJSONData env gossConfig 0 (path_Dir specFile))))
               (\<lambda>gossConfig.
                  if Resources gossConfig = [] \<and> IsEmpty (Discovery gossConfig)
                  then Err (ZeroTests (if specFile = ''-'' then ''STDIN'' else specFile))
                  else Ret gossConfig))"

definition getGossConfig ::
  "store_env \<Rightarrow> vars_env \<Rightarrow> string option \<Rightarrow> string list \<Rightarrow> string \<Rightarrow> string \<Rightarrow> (string \<times> bool) list \<Rightarrow>
   (store_error, GossConfig) outcome" where
  "getGossConfig env V stdin varsFiles varsInline specFile discovered =
     loadGossConfig env V stdin varsFiles varsInline specFile discovered False"

definition getGossConfigPeek ::
  "store_env \<Rightarrow> vars_env \<Rightarrow> string option \<Rightarrow> string list \<Rightarrow> string \<Rightarrow> string \<Rightarrow> (store_error, GossConfig) outcome" where
  "getGossConfigPeek env V stdin varsFiles varsInline specFile =
     loadGossConfig env V stdin varsFiles varsInline specFile [] True"

section \<open>The discovery phase\<close>

datatype load_error =
    LoadError store_error
  | DiscoverFile store_error
  | NoDiscoveryTests string
  | DiscoverPhase discovery_failure

fun map_err :: "('e \<Rightarrow> 'f) \<Rightarrow> ('e, 'a) outcome \<Rightarrow> ('f, 'a) outcome" where
  "map_err f (Ret x) = Ret x"
| "map_err f (Err e) = Err (f e)"
| "map_err f Panic = Panic"

text \<open>\<open>phase\<close> is what \<^verbatim>\<open>runDiscoveryPhase\<close> returns on this run: it calls \<^verbatim>\<open>validateDiscovery\<close> on the discovery section.\<close>

definition loadGossConfigWithDiscover ::
  "store_env \<Rightarrow> vars_env \<Rightarrow> string option \<Rightarrow> (DiscoveryConfig \<Rightarrow> (discovery_failure, (string \<times> bool) list) outcome) \<Rightarrow>
   Config \<Rightarrow> (load_error, GossConfig) outcome" where
  "loadGossConfigWithDiscover env V stdin phase c =
     (let load = (\<lambda>spec discovered. getGossConfig env V stdin (VarsFiles c) (VarsInline c) spec discovered);
          peek = (\<lambda>spec. getGossConfigPeek env V stdin (VarsFiles c) (VarsInline c) spec)
      in if OutputFormat c = ''discovery'' then map_err LoadError (load (Spec c) [])
         else if DiscoverSpec c \<noteq> []
         then bind_outcome (map_err DiscoverFile (load (DiscoverSpec c) []))
                (\<lambda>discoverCfg.
                   if IsEmpty (Discovery discoverCfg) then Err (NoDiscoveryTests (DiscoverSpec c))
                   else bind_outcome (map_err DiscoverPhase (phase (Discovery discoverCfg)))
                          (\<lambda>discovered.
                             if Spec c \<noteq> [] \<and> peek (Spec c) = Panic then Panic
                             else map_err LoadError (load (Spec c) discovered)))
         else bind_outcome (map_err LoadError (peek (Spec c)))
                (\<lambda>peeked.
                   if IsEmpty (Discovery peeked) then map_err LoadError (load (Spec c) [])
                   else bind_outcome (map_err DiscoverPhase (phase (Discovery peeked)))
                          (\<lambda>discovered. map_err LoadError (load (Spec c) discovered))))"

section \<open>Rendering and writing\<close>

record marshal_env =
  me_json :: "GossConfig \<Rightarrow> string option"
  me_yaml :: "GossConfig \<Rightarrow> string option"
  me_writable :: "string \<Rightarrow> bool"

definition marshal :: "marshal_env \<Rightarrow> store_format \<Rightarrow> GossConfig \<Rightarrow> (store_error, string) outcome" where
  "marshal M fmt gossConfig =
     (case fmt of
        JSON \<Rightarrow> (case me_json M gossConfig of None \<Rightarrow> Err (DecodeError ''json'') | Some b \<Rightarrow> Ret b)
      | YAML \<Rightarrow> (case me_yaml M gossConfig of None \<Rightarrow> Err (DecodeError ''yaml'') | Some b \<Rightarrow> Ret b)
      | UNSET \<Rightarrow> Err StoreFormatUnset)"

definition RenderJSON :: "store_env \<Rightarrow> vars_env \<Rightarrow> marshal_env \<Rightarrow> Config \<Rightarrow> (store_error, string) outcome" where
  "RenderJSON env V M c =
     bind_outcome (NewTemplateFilter env V (VarsFiles c) (VarsInline c) [])
       (\<lambda>flt. bind_outcome (getStoreFormatFromFileName (Spec c))
          (\<lambda>fmt. let env = env\<lparr>se_filter := Some flt, se_format := fmt\<rparr>
                 in bind_outcome (ReadJSON env (Spec c))
                      (\<lambda>j. bind_outcome (mergeJSONData env j 0 (path_Dir (Spec c)))
                         (\<lambda>gossConfig. map_err RenderingFailed (marshal M fmt gossConfig)))))"

text \<open>\<^verbatim>\<open>WriteJSON\<close> returns the files as they are afterwards; a configuration without content is not written.\<close>

definition WriteJSON ::
  "store_env \<Rightarrow> marshal_env \<Rightarrow> string \<Rightarrow> GossConfig \<Rightarrow> (store_error, store_env) outcome" where
  "WriteJSON env M filePath gossConfig =
     (case marshal M (se_format env) gossConfig of
        Err e \<Rightarrow> Err (WriteFailed filePath e)
      | Panic \<Rightarrow> Panic
      | Ret jsonData \<Rightarrow>
          (case marshal M (se_format env) NewGossConfig of
             Err e \<Rightarrow> Err (WriteFailed filePath e)
           | Panic \<Rightarrow> Panic
           | Ret emptyData \<Rightarrow>
               if emptyData = jsonData then Ret env
               else if me_writable M filePath then Ret (env\<lparr>se_file := (se_file env)(filePath \<mapsto> jsonData)\<rparr>)
               else Err (WriteFailed filePath (FileError filePath))))"

section \<open>Properties\<close>

lemma bind_Ret: "bind_outcome m f = Ret y \<longleftrightarrow> (\<exists>x. m = Ret x \<and> f x = Ret y)"
  by (cases m) simp_all

lemma add_inline_Ret:
  "add_inline env V inline m = Ret vars \<longleftrightarrow> (\<exists>extra. varsFromString env V inline = Ret extra \<and> vars = merge_map extra m)"
  by (auto simp: add_inline_def split: outcome.splits)

lemma add_no_inline [simp]: "add_inline env V [] m = Ret m"
  by (simp add: add_inline_def varsFromString_def merge_map_def)

lemma discovered_copy:
  assumes "map_of vars ''Discovered'' = Some (VMap typed)" and "wf_map typed"
  shows "map_of (discoveredFromVars vars) k = map_of typed k"
  using map_of_merge_map[OF assms(2), of "[]" k] assms(1) by (simp add: discoveredFromVars_def)

lemma discoveredFromVars_wf: "wf_map (discoveredFromVars vars)"
  by (auto simp: discoveredFromVars_def wf_map_def intro!: merge_map_wf[unfolded wf_map_def] split: option.splits val.splits)

lemma with_discovered_get:
  assumes "wf_map discovered" and "discovered \<noteq> []"
  obtains typed where "map_of (with_discovered discovered m) ''Discovered'' = Some (VMap typed)" and "wf_map typed"
    and "\<And>k. map_of typed k = over (map_option VBool (map_of discovered k)) (map_of (discoveredFromVars m) k)"
proof
  let ?d = "map (\<lambda>(k, v). (k, VBool v)) discovered"
  let ?typed = "merge_map ?d (discoveredFromVars m)"
  show "map_of (with_discovered discovered m) ''Discovered'' = Some (VMap ?typed)"
    using assms(2) by (simp add: with_discovered_def alist_map.get_put)
  show "wf_map ?typed" by (rule merge_map_wf[OF discoveredFromVars_wf])
  have "map fst ?d = map fst discovered" by (simp add: case_prod_unfold comp_def)
  then have "wf_map ?d" using assms(1) by (simp only: wf_map_def)
  moreover have "map_of ?d k = map_option VBool (map_of discovered k)" for k
    by (simp add: map_of_map)
  ultimately show "map_of ?typed k = over (map_option VBool (map_of discovered k)) (map_of (discoveredFromVars m) k)" for k
    by (simp add: map_of_merge_map)
qed

text \<open>A call from a template never panics, although \<^verbatim>\<open>findStringSubmatch\<close> does for a pattern that does not compile.\<close>

lemma template_call_returns:
  assumes "map_of (funcMap env V) name = Some f"
  shows "f args \<noteq> Panic"
proof -
  obtain g where "f = safe_call name g"
    using assms by (auto simp: funcMap_def split: if_splits)
  then show ?thesis by (auto simp: safe_call_def split: option.splits outcome.splits)
qed

text \<open>
  The groups of a match are found by number when no group has a name; as soon as one has, the named groups are found by name
  and the others are not found at all.
\<close>

lemma submatch_numbered:
  assumes "\<And>i. i < length els \<Longrightarrow> names ! i = []" and "i < length els"
  shows "map_of (submatch_map names els) (nat_str i) = Some (els ! i)"
proof -
  have "filter (\<lambda>(n, _). n \<noteq> []) (map (\<lambda>i. (names ! i, els ! i)) [0..<length els]) = []"
    using assms(1) by (simp add: filter_empty_conv)
  then have m: "submatch_map names els = map (\<lambda>i. (nat_str i, els ! i)) [0..<length els]"
    by (simp add: submatch_map_def Let_def merge_map_def)
  have "inj_on nat_str (set [0..<length els])" by (rule inj_onI) (simp add: nat_str_inj)
  then have "distinct (map fst (submatch_map names els))" by (simp add: m comp_def distinct_map)
  with assms(2) show ?thesis by (intro map_of_is_SomeI) (auto simp: m)
qed

lemma submatch_named:
  assumes "i < length els" and "names ! i \<noteq> []"
    and "distinct (filter (\<lambda>n. n \<noteq> []) (map ((!) names) [0..<length els]))"
  shows "map_of (submatch_map names els) (names ! i) = Some (els ! i)"
proof -
  let ?named = "filter (\<lambda>(n, _). n \<noteq> []) (map (\<lambda>i. (names ! i, els ! i)) [0..<length els])"
  have "map fst ?named = filter (\<lambda>n. n \<noteq> []) (map ((!) names) [0..<length els])"
    by (simp add: filter_map comp_def case_prod_beta)
  with assms(3) have wf: "wf_map ?named" by (simp only: wf_map_def)
  have "(names ! i, els ! i) \<in> set ?named" using assms(1,2) by auto
  then have "map_of ?named (names ! i) = Some (els ! i)" using wf unfolding wf_map_def by simp
  then have m: "map_of (merge_map ?named []) (names ! i) = Some (els ! i)" by (simp add: map_of_merge_map[OF wf] over_def)
  then have "merge_map ?named [] \<noteq> []" by auto
  with m show ?thesis by (simp add: submatch_map_def Let_def)
qed


definition plain_vars :: vars_env where
  "plain_vars =
     \<lparr>ve_json = (\<lambda>_. Ret [(''x'', VInt 1)]), ve_yaml = (\<lambda>_. Ret []), ve_mergo = (\<lambda>a b. Some (merge_map b a)),
      ve_getenv = (\<lambda>_. []), ve_regexp = (\<lambda>_. None), ve_template = (\<lambda>_ _ _ _ d. Ret d)\<rparr>"

definition one_env :: store_env where
  "one_env =
     \<lparr>se_file = (\<lambda>f. if f = ''g.yaml'' then Some ''data'' else None), se_glob = (\<lambda>_. None), se_filter = None,
      se_format = UNSET, se_json = (\<lambda>_. Ret NewGossConfig), se_yaml = (\<lambda>_. Ret (one_file ''a'' ''t'')),
      se_json_ok = (\<lambda>_. True), se_yaml_ok = (\<lambda>_. True)\<rparr>"




text \<open>Writing a configuration and reading it back gives the same configuration, provided the format's decoder inverts its
  encoder; an empty configuration leaves the file as it was.\<close>

lemma WriteJSON_ReadJSON:
  assumes "WriteJSON env M filePath cfg = Ret env'" and "se_filter env = None"
    and "\<And>data. marshal M (se_format env) cfg = Ret data \<Longrightarrow> unmarshal env data (se_format env) = Ret cfg"
  shows "if marshal M (se_format env) cfg = marshal M (se_format env) NewGossConfig then env' = env
         else ReadJSON env' filePath = Ret cfg \<and> (\<forall>f. f \<noteq> filePath \<longrightarrow> se_file env' f = se_file env f)"
  using assms
  by (auto simp: WriteJSON_def ReadJSON_def ReadJSONData_def unmarshal_def split: outcome.splits if_splits store_format.splits)

definition title_codec :: marshal_env where
  "title_codec =
     \<lparr>me_json = (\<lambda>c. Some []), me_yaml = (\<lambda>c. Some (concat (map fst (c_Files c)))), me_writable = (\<lambda>_. True)\<rparr>"

lemma WriteJSON_ReadJSON_witness:
  "\<exists>env'. WriteJSON (one_env\<lparr>se_format := YAML\<rparr>) title_codec ''h.yaml'' (one_file ''a'' ''t'') = Ret env' \<and>
          ReadJSON env' ''h.yaml'' = Ret (one_file ''a'' ''t'')"
proof -
  let ?env = "one_env\<lparr>se_format := YAML\<rparr>" and ?cfg = "one_file ''a'' ''t''"
  have d: "marshal title_codec YAML ?cfg \<noteq> marshal title_codec YAML NewGossConfig"
    by (simp add: marshal_def title_codec_def one_file_def NewGossConfig_def)
  obtain env' where w: "WriteJSON ?env title_codec ''h.yaml'' ?cfg = Ret env'"
    by (simp add: WriteJSON_def marshal_def title_codec_def one_file_def NewGossConfig_def)
  have "if marshal title_codec (se_format ?env) ?cfg = marshal title_codec (se_format ?env) NewGossConfig then env' = ?env
         else ReadJSON env' ''h.yaml'' = Ret ?cfg \<and> (\<forall>f. f \<noteq> ''h.yaml'' \<longrightarrow> se_file env' f = se_file ?env f)"
    by (rule WriteJSON_ReadJSON[OF w]) (simp_all add: one_env_def unmarshal_def)
  with d w show ?thesis by simp
qed

end
