(* ===== verification/Resource_Map.thy ===== *)
theory Resource_Map
  imports Config_Merge
begin

text \<open>
  resource_list.go: for each resource type the map from ids to resources, with the operations that
  \<^verbatim>\<open>goss add\<close> and the decoders call. The file is generated from resource_list_genny.go, one copy of the
  four operations per type; the model has the template as functions over the fields that all resources
  share, and one instance per type. Decoding itself is the JSON or YAML library: what the section decodes
  to, once generically and once as resources, is an argument. The maps are made by \<^verbatim>\<open>NewGossConfig\<close> or by a
  decoder and are not nil.
\<close>

section \<open>The template\<close>

text \<open>\<^verbatim>\<open>res.Title = old_res.Title; res.Meta = old_res.Meta\<close> if the id is taken.\<close>

definition keep_title_meta ::
  "('a res_base_scheme \<Rightarrow> string) \<Rightarrow> 'a res_base_scheme gomap \<Rightarrow> 'a res_base_scheme \<Rightarrow> 'a res_base_scheme" where
  "keep_title_meta ident r res =
     (case map_of r (ident res) of
        None \<Rightarrow> res
      | Some old_res \<Rightarrow> res\<lparr>rb_Title := rb_Title old_res, rb_Meta := rb_Meta old_res\<rparr>)"

definition AppendSysResource ::
  "('s \<Rightarrow> (go_error, 'a res_base_scheme) outcome) \<Rightarrow> ('a res_base_scheme \<Rightarrow> string) \<Rightarrow> 's \<Rightarrow>
   'a res_base_scheme gomap \<Rightarrow> (go_error, 'a res_base_scheme \<times> 'a res_base_scheme gomap) outcome" where
  "AppendSysResource new ident sysres r =
     bind_outcome (new sysres)
       (\<lambda>res. let res = keep_title_meta ident r res
              in Ret (res, AList.update (ident res) res r))"

definition AppendSysResourceIfExists ::
  "('s \<Rightarrow> (go_error, 'a res_base_scheme) outcome) \<Rightarrow> ('a res_base_scheme \<Rightarrow> string) \<Rightarrow> ('s \<Rightarrow> bool query) \<Rightarrow> 's \<Rightarrow>
   'a res_base_scheme gomap \<Rightarrow> (go_error, 'a res_base_scheme \<times> bool \<times> 'a res_base_scheme gomap) outcome" where
  "AppendSysResourceIfExists new ident exists sysres r =
     bind_outcome (new sysres)
       (\<lambda>res. if \<not> fst (exists sysres) then Ret (res, False, r)
              else let res = keep_title_meta ident r res
                   in Ret (res, True, AList.update (ident res) res r))"

fun set_ids ::
  "string \<Rightarrow> (string \<times> 'a res_base_scheme option) list \<Rightarrow> (go_error, 'a res_base_scheme gomap) outcome" where
  "set_ids typs [] = Ret []"
| "set_ids typs ((id', None) # rest) = Err (LibErr (''could not parse resource '' @ typs @ '':'' @ id'))"
| "set_ids typs ((id', Some res) # rest) =
     bind_outcome (set_ids typs rest) (\<lambda>tmp. Ret ((id', res\<lparr>rb_id := id'\<rparr>) # tmp))"

definition unmarshal_map ::
  "string \<Rightarrow> field list \<Rightarrow> go_error + attr_section \<Rightarrow> go_error + (string \<times> 'a res_base_scheme option) list \<Rightarrow>
   (go_error, 'a res_base_scheme gomap) outcome" where
  "unmarshal_map typs attrs decoded tmp =
     bind_outcome (ValidateSections typs (WhitelistAttrs attrs) decoded)
       (\<lambda>_. case tmp of Inl e \<Rightarrow> Err e | Inr m \<Rightarrow> set_ids typs m)"

section \<open>The tags of the fields\<close>

text \<open>The JSON and the YAML tag of every field agree.\<close>

definition DiscoveryMeta_fields :: "field list" where
  "DiscoveryMeta_fields = [Field ''register,omitempty'', Field ''depends-on,omitempty'']"

definition Addr_fields :: "field list" where
  "Addr_fields =
     [Embedded DiscoveryMeta_fields, Field ''title,omitempty'', Field ''meta,omitempty'', Field ''-'',
      Field ''address,omitempty'', Field ''local-address,omitempty'', Field ''reachable'',
      Field ''timeout'', Field ''skip,omitempty'']"

definition Command_fields :: "field list" where
  "Command_fields =
     [Embedded DiscoveryMeta_fields, Field ''title,omitempty'', Field ''meta,omitempty'', Field ''-'',
      Field ''exec,omitempty'', Field ''exit-status'', Field ''stdout'', Field ''stderr'',
      Field ''timeout'', Field ''skip,omitempty'']"

definition DNS_fields :: "field list" where
  "DNS_fields =
     [Embedded DiscoveryMeta_fields, Field ''title,omitempty'', Field ''meta,omitempty'', Field ''-'',
      Field ''resolve,omitempty'', Field ''resolveable,omitempty'', Field ''resolvable'',
      Field ''addrs,omitempty'', Field ''timeout'', Field ''server,omitempty'',
      Field ''skip,omitempty'']"

definition File_fields :: "field list" where
  "File_fields =
     [Embedded DiscoveryMeta_fields, Field ''title,omitempty'', Field ''meta,omitempty'', Field ''-'',
      Field ''path,omitempty'', Field ''exists'', Field ''mode,omitempty'', Field ''size,omitempty'',
      Field ''owner,omitempty'', Field ''uid,omitempty'', Field ''group,omitempty'',
      Field ''gid,omitempty'', Field ''linked-to,omitempty'', Field ''filetype,omitempty'',
      Field ''contains,omitempty'', Field ''contents'', Field ''md5,omitempty'',
      Field ''sha256,omitempty'', Field ''sha512,omitempty'', Field ''skip,omitempty'']"

definition Gossfile_fields :: "field list" where
  "Gossfile_fields =
     [Embedded DiscoveryMeta_fields, Field ''title,omitempty'', Field ''meta,omitempty'', Field ''-'',
      Field ''skip,omitempty'', Field ''file,omitempty'']"

definition Group_fields :: "field list" where
  "Group_fields =
     [Embedded DiscoveryMeta_fields, Field ''title,omitempty'', Field ''meta,omitempty'', Field ''-'',
      Field ''groupname,omitempty'', Field ''exists'', Field ''gid,omitempty'',
      Field ''skip,omitempty'']"

definition Package_fields :: "field list" where
  "Package_fields =
     [Embedded DiscoveryMeta_fields, Field ''title,omitempty'', Field ''meta,omitempty'', Field ''-'',
      Field ''name,omitempty'', Field ''installed'', Field ''versions,omitempty'',
      Field ''skip,omitempty'']"

definition Port_fields :: "field list" where
  "Port_fields =
     [Embedded DiscoveryMeta_fields, Field ''title,omitempty'', Field ''meta,omitempty'', Field ''-'',
      Field ''port,omitempty'', Field ''listening'', Field ''ip,omitempty'', Field ''pid,omitempty'',
      Field ''skip,omitempty'']"

definition Process_fields :: "field list" where
  "Process_fields =
     [Embedded DiscoveryMeta_fields, Field ''title,omitempty'', Field ''meta,omitempty'', Field ''-'',
      Field ''comm,omitempty'', Field ''running'', Field ''status,omitempty'',
      Field ''user,omitempty'', Field ''skip,omitempty'']"

definition Service_fields :: "field list" where
  "Service_fields =
     [Embedded DiscoveryMeta_fields, Field ''title,omitempty'', Field ''meta,omitempty'', Field ''-'',
      Field ''name,omitempty'', Field ''enabled'', Field ''running'', Field ''skip,omitempty'',
      Field ''runlevels,omitempty'']"

definition User_fields :: "field list" where
  "User_fields =
     [Embedded DiscoveryMeta_fields, Field ''title,omitempty'', Field ''meta,omitempty'', Field ''-'',
      Field ''username,omitempty'', Field ''exists'', Field ''uid,omitempty'', Field ''gid,omitempty'',
      Field ''groups,omitempty'', Field ''home,omitempty'', Field ''shell,omitempty'',
      Field ''skip,omitempty'']"

definition KernelParam_fields :: "field list" where
  "KernelParam_fields =
     [Embedded DiscoveryMeta_fields, Field ''title,omitempty'', Field ''meta,omitempty'', Field ''-'',
      Field ''name,omitempty'', Field ''-'', Field ''value'', Field ''skip,omitempty'']"

definition Mount_fields :: "field list" where
  "Mount_fields =
     [Embedded DiscoveryMeta_fields, Field ''title,omitempty'', Field ''meta,omitempty'', Field ''-'',
      Field ''mountpoint,omitempty'', Field ''exists'', Field ''opts,omitempty'',
      Field ''vfs-opts,omitempty'', Field ''source,omitempty'', Field ''filesystem,omitempty'',
      Field ''timeout'', Field ''skip,omitempty'', Field ''usage,omitempty'']"

definition Interface_fields :: "field list" where
  "Interface_fields =
     [Embedded DiscoveryMeta_fields, Field ''title,omitempty'', Field ''meta,omitempty'', Field ''-'',
      Field ''name,omitempty'', Field ''exists'', Field ''addrs,omitempty'', Field ''mtu,omitempty'',
      Field ''skip,omitempty'']"

definition HTTP_fields :: "field list" where
  "HTTP_fields =
     [Embedded DiscoveryMeta_fields, Field ''title,omitempty'', Field ''meta,omitempty'', Field ''-'',
      Field ''url,omitempty'', Field ''method,omitempty'', Field ''status'', Field ''allow-insecure'',
      Field ''no-follow-redirects'', Field ''timeout,omitempty'', Field ''request-headers,omitempty'',
      Field ''request-query-params,omitempty'', Field ''request-body,omitempty'',
      Field ''headers,omitempty'', Field ''body,omitempty'', Field ''username,omitempty'',
      Field ''password,omitempty'', Field ''ca-file,omitempty'', Field ''cert-file,omitempty'',
      Field ''key-file,omitempty'', Field ''skip,omitempty'', Field ''proxy,omitempty'']"

definition Registry_fields :: "field list" where
  "Registry_fields =
     [Embedded DiscoveryMeta_fields, Field ''title,omitempty'', Field ''meta,omitempty'', Field ''-'',
      Field ''name,omitempty'', Field ''exists'', Field ''value,omitempty'', Field ''type,omitempty'',
      Field ''skip,omitempty'']"

definition Matching_fields :: "field list" where
  "Matching_fields =
     [Embedded DiscoveryMeta_fields, Field ''title,omitempty'', Field ''meta,omitempty'',
      Field ''content,omitempty'', Field ''as-reader,omitempty'', Field ''-'', Field ''matches'',
      Field ''skip,omitempty'']"

section \<open>The instances\<close>

definition Addr_AppendSysResource ::
  "glob \<Rightarrow> string \<Rightarrow> System \<Rightarrow> Config \<Rightarrow> Addr gomap \<Rightarrow> (go_error, Addr \<times> Addr gomap) outcome" where
  "Addr_AppendSysResource fmatch sr sys config r =
     AppendSysResource (\<lambda>sysres. NewAddr fmatch sysres config) Addr_ID (NewSysAddr sys sr config) r"

definition Addr_AppendSysResourceIfExists ::
  "glob \<Rightarrow> string \<Rightarrow> System \<Rightarrow> Addr gomap \<Rightarrow> (go_error, Addr \<times> bool \<times> Addr gomap) outcome" where
  "Addr_AppendSysResourceIfExists fmatch sr sys r =
     AppendSysResourceIfExists (\<lambda>sysres. NewAddr fmatch sysres zero_config) Addr_ID sa_Exists
       (NewSysAddr sys sr zero_config) r"

definition Command_AppendSysResource ::
  "glob \<Rightarrow> string \<Rightarrow> System \<Rightarrow> Config \<Rightarrow> Command gomap \<Rightarrow> (go_error, Command \<times> Command gomap) outcome" where
  "Command_AppendSysResource fmatch sr sys config r =
     AppendSysResource (\<lambda>sysres. NewCommand fmatch sysres config) Command_ID (NewSysCommand sys sr config) r"

definition Command_AppendSysResourceIfExists ::
  "glob \<Rightarrow> string \<Rightarrow> System \<Rightarrow> Command gomap \<Rightarrow> (go_error, Command \<times> bool \<times> Command gomap) outcome" where
  "Command_AppendSysResourceIfExists fmatch sr sys r =
     AppendSysResourceIfExists (\<lambda>sysres. NewCommand fmatch sysres zero_config) Command_ID sc_Exists
       (NewSysCommand sys sr zero_config) r"

definition DNS_AppendSysResource ::
  "glob \<Rightarrow> string \<Rightarrow> System \<Rightarrow> Config \<Rightarrow> DNS gomap \<Rightarrow> (go_error, DNS \<times> DNS gomap) outcome" where
  "DNS_AppendSysResource fmatch sr sys config r =
     AppendSysResource (\<lambda>sysres. NewDNS fmatch sysres config) DNS_ID (NewSysDNS sys sr config) r"

definition DNS_AppendSysResourceIfExists ::
  "glob \<Rightarrow> string \<Rightarrow> System \<Rightarrow> DNS gomap \<Rightarrow> (go_error, DNS \<times> bool \<times> DNS gomap) outcome" where
  "DNS_AppendSysResourceIfExists fmatch sr sys r =
     AppendSysResourceIfExists (\<lambda>sysres. NewDNS fmatch sysres zero_config) DNS_ID sd_Exists
       (NewSysDNS sys sr zero_config) r"

definition File_AppendSysResource ::
  "glob \<Rightarrow> string \<Rightarrow> System \<Rightarrow> Config \<Rightarrow> File gomap \<Rightarrow> (go_error, File \<times> File gomap) outcome" where
  "File_AppendSysResource fmatch sr sys config r =
     AppendSysResource (\<lambda>sysres. NewFile fmatch sysres config) File_ID (NewSysFile sys sr config) r"

definition File_AppendSysResourceIfExists ::
  "glob \<Rightarrow> string \<Rightarrow> System \<Rightarrow> File gomap \<Rightarrow> (go_error, File \<times> bool \<times> File gomap) outcome" where
  "File_AppendSysResourceIfExists fmatch sr sys r =
     AppendSysResourceIfExists (\<lambda>sysres. NewFile fmatch sysres zero_config) File_ID sf_Exists
       (NewSysFile sys sr zero_config) r"

definition Gossfile_AppendSysResource ::
  "glob \<Rightarrow> string \<Rightarrow> System \<Rightarrow> Config \<Rightarrow> Gossfile gomap \<Rightarrow> (go_error, Gossfile \<times> Gossfile gomap) outcome" where
  "Gossfile_AppendSysResource fmatch sr sys config r =
     AppendSysResource (\<lambda>sysres. NewGossfile fmatch sysres config) rb_id (NewSysGossfile sys sr config) r"

definition Gossfile_AppendSysResourceIfExists ::
  "glob \<Rightarrow> string \<Rightarrow> System \<Rightarrow> Gossfile gomap \<Rightarrow> (go_error, Gossfile \<times> bool \<times> Gossfile gomap) outcome" where
  "Gossfile_AppendSysResourceIfExists fmatch sr sys r =
     AppendSysResourceIfExists (\<lambda>sysres. NewGossfile fmatch sysres zero_config) rb_id sq_Exists
       (NewSysGossfile sys sr zero_config) r"

definition Group_AppendSysResource ::
  "glob \<Rightarrow> string \<Rightarrow> System \<Rightarrow> Config \<Rightarrow> Group gomap \<Rightarrow> (go_error, Group \<times> Group gomap) outcome" where
  "Group_AppendSysResource fmatch sr sys config r =
     AppendSysResource (\<lambda>sysres. NewGroup fmatch sysres config) Group_ID (NewSysGroup sys sr config) r"

definition Group_AppendSysResourceIfExists ::
  "glob \<Rightarrow> string \<Rightarrow> System \<Rightarrow> Group gomap \<Rightarrow> (go_error, Group \<times> bool \<times> Group gomap) outcome" where
  "Group_AppendSysResourceIfExists fmatch sr sys r =
     AppendSysResourceIfExists (\<lambda>sysres. NewGroup fmatch sysres zero_config) Group_ID sg_Exists
       (NewSysGroup sys sr zero_config) r"

definition Package_AppendSysResource ::
  "glob \<Rightarrow> string \<Rightarrow> System \<Rightarrow> Config \<Rightarrow> Package gomap \<Rightarrow> (go_error, Package \<times> Package gomap) outcome" where
  "Package_AppendSysResource fmatch sr sys config r =
     AppendSysResource (\<lambda>sysres. NewPackage fmatch sysres config) Package_ID (NewSysPackage sys sr config) r"

definition Package_AppendSysResourceIfExists ::
  "glob \<Rightarrow> string \<Rightarrow> System \<Rightarrow> Package gomap \<Rightarrow> (go_error, Package \<times> bool \<times> Package gomap) outcome" where
  "Package_AppendSysResourceIfExists fmatch sr sys r =
     AppendSysResourceIfExists (\<lambda>sysres. NewPackage fmatch sysres zero_config) Package_ID sp_Exists
       (NewSysPackage sys sr zero_config) r"

definition Port_AppendSysResource ::
  "glob \<Rightarrow> string \<Rightarrow> System \<Rightarrow> Config \<Rightarrow> Port gomap \<Rightarrow> (go_error, Port \<times> Port gomap) outcome" where
  "Port_AppendSysResource fmatch sr sys config r =
     AppendSysResource (\<lambda>sysres. NewPort fmatch sysres config) Port_ID (NewSysPort sys sr config) r"

definition Port_AppendSysResourceIfExists ::
  "glob \<Rightarrow> string \<Rightarrow> System \<Rightarrow> Port gomap \<Rightarrow> (go_error, Port \<times> bool \<times> Port gomap) outcome" where
  "Port_AppendSysResourceIfExists fmatch sr sys r =
     AppendSysResourceIfExists (\<lambda>sysres. NewPort fmatch sysres zero_config) Port_ID so_Exists
       (NewSysPort sys sr zero_config) r"

definition Process_AppendSysResource ::
  "glob \<Rightarrow> string \<Rightarrow> System \<Rightarrow> Config \<Rightarrow> Process gomap \<Rightarrow> (go_error, Process \<times> Process gomap) outcome" where
  "Process_AppendSysResource fmatch sr sys config r =
     AppendSysResource (\<lambda>sysres. NewProcess fmatch sysres config) Process_ID (NewSysProcess sys sr config) r"

definition Process_AppendSysResourceIfExists ::
  "glob \<Rightarrow> string \<Rightarrow> System \<Rightarrow> Process gomap \<Rightarrow> (go_error, Process \<times> bool \<times> Process gomap) outcome" where
  "Process_AppendSysResourceIfExists fmatch sr sys r =
     AppendSysResourceIfExists (\<lambda>sysres. NewProcess fmatch sysres zero_config) Process_ID sr_Exists
       (NewSysProcess sys sr zero_config) r"

definition Service_AppendSysResource ::
  "glob \<Rightarrow> string \<Rightarrow> System \<Rightarrow> Config \<Rightarrow> Service gomap \<Rightarrow> (go_error, Service \<times> Service gomap) outcome" where
  "Service_AppendSysResource fmatch sr sys config r =
     AppendSysResource (\<lambda>sysres. NewService fmatch sysres config) Service_ID (NewSysService sys sr config) r"

definition Service_AppendSysResourceIfExists ::
  "glob \<Rightarrow> string \<Rightarrow> System \<Rightarrow> Service gomap \<Rightarrow> (go_error, Service \<times> bool \<times> Service gomap) outcome" where
  "Service_AppendSysResourceIfExists fmatch sr sys r =
     AppendSysResourceIfExists (\<lambda>sysres. NewService fmatch sysres zero_config) Service_ID ss_Exists
       (NewSysService sys sr zero_config) r"

definition User_AppendSysResource ::
  "glob \<Rightarrow> string \<Rightarrow> System \<Rightarrow> Config \<Rightarrow> User gomap \<Rightarrow> (go_error, User \<times> User gomap) outcome" where
  "User_AppendSysResource fmatch sr sys config r =
     AppendSysResource (\<lambda>sysres. NewUser fmatch sysres config) User_ID (NewSysUser sys sr config) r"

definition User_AppendSysResourceIfExists ::
  "glob \<Rightarrow> string \<Rightarrow> System \<Rightarrow> User gomap \<Rightarrow> (go_error, User \<times> bool \<times> User gomap) outcome" where
  "User_AppendSysResourceIfExists fmatch sr sys r =
     AppendSysResourceIfExists (\<lambda>sysres. NewUser fmatch sysres zero_config) User_ID su_Exists
       (NewSysUser sys sr zero_config) r"

definition KernelParam_AppendSysResource ::
  "glob \<Rightarrow> string \<Rightarrow> System \<Rightarrow> Config \<Rightarrow> KernelParam gomap \<Rightarrow> (go_error, KernelParam \<times> KernelParam gomap) outcome" where
  "KernelParam_AppendSysResource fmatch sr sys config r =
     AppendSysResource (\<lambda>sysres. NewKernelParam fmatch sysres config) KernelParam_ID (NewSysKernelParam sys sr config) r"

definition KernelParam_AppendSysResourceIfExists ::
  "glob \<Rightarrow> string \<Rightarrow> System \<Rightarrow> KernelParam gomap \<Rightarrow> (go_error, KernelParam \<times> bool \<times> KernelParam gomap) outcome" where
  "KernelParam_AppendSysResourceIfExists fmatch sr sys r =
     AppendSysResourceIfExists (\<lambda>sysres. NewKernelParam fmatch sysres zero_config) KernelParam_ID sk_Exists
       (NewSysKernelParam sys sr zero_config) r"

definition Mount_AppendSysResource ::
  "glob \<Rightarrow> string \<Rightarrow> System \<Rightarrow> Config \<Rightarrow> Mount gomap \<Rightarrow> (go_error, Mount \<times> Mount gomap) outcome" where
  "Mount_AppendSysResource fmatch sr sys config r =
     AppendSysResource (\<lambda>sysres. NewMount fmatch sysres config) Mount_ID (NewSysMount sys sr config) r"

definition Mount_AppendSysResourceIfExists ::
  "glob \<Rightarrow> string \<Rightarrow> System \<Rightarrow> Mount gomap \<Rightarrow> (go_error, Mount \<times> bool \<times> Mount gomap) outcome" where
  "Mount_AppendSysResourceIfExists fmatch sr sys r =
     AppendSysResourceIfExists (\<lambda>sysres. NewMount fmatch sysres zero_config) Mount_ID sm_Exists
       (NewSysMount sys sr zero_config) r"

definition Interface_AppendSysResource ::
  "glob \<Rightarrow> string \<Rightarrow> System \<Rightarrow> Config \<Rightarrow> Interface gomap \<Rightarrow> (go_error, Interface \<times> Interface gomap) outcome" where
  "Interface_AppendSysResource fmatch sr sys config r =
     AppendSysResource (\<lambda>sysres. NewInterface fmatch sysres config) Interface_ID (NewSysInterface sys sr config) r"

definition Interface_AppendSysResourceIfExists ::
  "glob \<Rightarrow> string \<Rightarrow> System \<Rightarrow> Interface gomap \<Rightarrow> (go_error, Interface \<times> bool \<times> Interface gomap) outcome" where
  "Interface_AppendSysResourceIfExists fmatch sr sys r =
     AppendSysResourceIfExists (\<lambda>sysres. NewInterface fmatch sysres zero_config) Interface_ID si_Exists
       (NewSysInterface sys sr zero_config) r"

definition HTTP_AppendSysResource ::
  "glob \<Rightarrow> string \<Rightarrow> System \<Rightarrow> Config \<Rightarrow> HTTP gomap \<Rightarrow> (go_error, HTTP \<times> HTTP gomap) outcome" where
  "HTTP_AppendSysResource fmatch sr sys config r =
     AppendSysResource (\<lambda>sysres. NewHTTP fmatch sysres config) HTTP_ID (NewSysHTTP sys sr config) r"

definition HTTP_AppendSysResourceIfExists ::
  "glob \<Rightarrow> string \<Rightarrow> System \<Rightarrow> HTTP gomap \<Rightarrow> (go_error, HTTP \<times> bool \<times> HTTP gomap) outcome" where
  "HTTP_AppendSysResourceIfExists fmatch sr sys r =
     AppendSysResourceIfExists (\<lambda>sysres. NewHTTP fmatch sysres zero_config) HTTP_ID sh_Exists
       (NewSysHTTP sys sr zero_config) r"

definition Registry_AppendSysResource ::
  "glob \<Rightarrow> string \<Rightarrow> System \<Rightarrow> Config \<Rightarrow> Registry gomap \<Rightarrow> (go_error, Registry \<times> Registry gomap) outcome" where
  "Registry_AppendSysResource fmatch sr sys config r =
     AppendSysResource (\<lambda>sysres. NewRegistry fmatch sysres config) Registry_ID (NewSysRegistry sys sr config) r"

definition Registry_AppendSysResourceIfExists ::
  "glob \<Rightarrow> string \<Rightarrow> System \<Rightarrow> Registry gomap \<Rightarrow> (go_error, Registry \<times> bool \<times> Registry gomap) outcome" where
  "Registry_AppendSysResourceIfExists fmatch sr sys r =
     AppendSysResourceIfExists (\<lambda>sysres. NewRegistry fmatch sysres zero_config) Registry_ID sy_Exists
       (NewSysRegistry sys sr zero_config) r"

definition Addr_UnmarshalJSON ::
  "go_error + attr_section \<Rightarrow> go_error + (string \<times> Addr option) list \<Rightarrow> (go_error, Addr gomap) outcome" where
  "Addr_UnmarshalJSON decoded tmp = unmarshal_map ''Addr'' Addr_fields decoded tmp"

definition Addr_UnmarshalYAML ::
  "go_error + attr_section \<Rightarrow> go_error + (string \<times> Addr option) list \<Rightarrow> (go_error, Addr gomap) outcome" where
  "Addr_UnmarshalYAML decoded tmp = unmarshal_map ''Addr'' Addr_fields decoded tmp"

definition Command_UnmarshalJSON ::
  "go_error + attr_section \<Rightarrow> go_error + (string \<times> Command option) list \<Rightarrow> (go_error, Command gomap) outcome" where
  "Command_UnmarshalJSON decoded tmp = unmarshal_map ''Command'' Command_fields decoded tmp"

definition Command_UnmarshalYAML ::
  "go_error + attr_section \<Rightarrow> go_error + (string \<times> Command option) list \<Rightarrow> (go_error, Command gomap) outcome" where
  "Command_UnmarshalYAML decoded tmp = unmarshal_map ''Command'' Command_fields decoded tmp"

definition DNS_UnmarshalJSON ::
  "go_error + attr_section \<Rightarrow> go_error + (string \<times> DNS option) list \<Rightarrow> (go_error, DNS gomap) outcome" where
  "DNS_UnmarshalJSON decoded tmp = unmarshal_map ''DNS'' DNS_fields decoded tmp"

definition DNS_UnmarshalYAML ::
  "go_error + attr_section \<Rightarrow> go_error + (string \<times> DNS option) list \<Rightarrow> (go_error, DNS gomap) outcome" where
  "DNS_UnmarshalYAML decoded tmp = unmarshal_map ''DNS'' DNS_fields decoded tmp"

definition File_UnmarshalJSON ::
  "go_error + attr_section \<Rightarrow> go_error + (string \<times> File option) list \<Rightarrow> (go_error, File gomap) outcome" where
  "File_UnmarshalJSON decoded tmp = unmarshal_map ''File'' File_fields decoded tmp"

definition File_UnmarshalYAML ::
  "go_error + attr_section \<Rightarrow> go_error + (string \<times> File option) list \<Rightarrow> (go_error, File gomap) outcome" where
  "File_UnmarshalYAML decoded tmp = unmarshal_map ''File'' File_fields decoded tmp"

definition Gossfile_UnmarshalJSON ::
  "go_error + attr_section \<Rightarrow> go_error + (string \<times> Gossfile option) list \<Rightarrow> (go_error, Gossfile gomap) outcome" where
  "Gossfile_UnmarshalJSON decoded tmp = unmarshal_map ''Gossfile'' Gossfile_fields decoded tmp"

definition Gossfile_UnmarshalYAML ::
  "go_error + attr_section \<Rightarrow> go_error + (string \<times> Gossfile option) list \<Rightarrow> (go_error, Gossfile gomap) outcome" where
  "Gossfile_UnmarshalYAML decoded tmp = unmarshal_map ''Gossfile'' Gossfile_fields decoded tmp"

definition Group_UnmarshalJSON ::
  "go_error + attr_section \<Rightarrow> go_error + (string \<times> Group option) list \<Rightarrow> (go_error, Group gomap) outcome" where
  "Group_UnmarshalJSON decoded tmp = unmarshal_map ''Group'' Group_fields decoded tmp"

definition Group_UnmarshalYAML ::
  "go_error + attr_section \<Rightarrow> go_error + (string \<times> Group option) list \<Rightarrow> (go_error, Group gomap) outcome" where
  "Group_UnmarshalYAML decoded tmp = unmarshal_map ''Group'' Group_fields decoded tmp"

definition Package_UnmarshalJSON ::
  "go_error + attr_section \<Rightarrow> go_error + (string \<times> Package option) list \<Rightarrow> (go_error, Package gomap) outcome" where
  "Package_UnmarshalJSON decoded tmp = unmarshal_map ''Package'' Package_fields decoded tmp"

definition Package_UnmarshalYAML ::
  "go_error + attr_section \<Rightarrow> go_error + (string \<times> Package option) list \<Rightarrow> (go_error, Package gomap) outcome" where
  "Package_UnmarshalYAML decoded tmp = unmarshal_map ''Package'' Package_fields decoded tmp"

definition Port_UnmarshalJSON ::
  "go_error + attr_section \<Rightarrow> go_error + (string \<times> Port option) list \<Rightarrow> (go_error, Port gomap) outcome" where
  "Port_UnmarshalJSON decoded tmp = unmarshal_map ''Port'' Port_fields decoded tmp"

definition Port_UnmarshalYAML ::
  "go_error + attr_section \<Rightarrow> go_error + (string \<times> Port option) list \<Rightarrow> (go_error, Port gomap) outcome" where
  "Port_UnmarshalYAML decoded tmp = unmarshal_map ''Port'' Port_fields decoded tmp"

definition Process_UnmarshalJSON ::
  "go_error + attr_section \<Rightarrow> go_error + (string \<times> Process option) list \<Rightarrow> (go_error, Process gomap) outcome" where
  "Process_UnmarshalJSON decoded tmp = unmarshal_map ''Process'' Process_fields decoded tmp"

definition Process_UnmarshalYAML ::
  "go_error + attr_section \<Rightarrow> go_error + (string \<times> Process option) list \<Rightarrow> (go_error, Process gomap) outcome" where
  "Process_UnmarshalYAML decoded tmp = unmarshal_map ''Process'' Process_fields decoded tmp"

definition Service_UnmarshalJSON ::
  "go_error + attr_section \<Rightarrow> go_error + (string \<times> Service option) list \<Rightarrow> (go_error, Service gomap) outcome" where
  "Service_UnmarshalJSON decoded tmp = unmarshal_map ''Service'' Service_fields decoded tmp"

definition Service_UnmarshalYAML ::
  "go_error + attr_section \<Rightarrow> go_error + (string \<times> Service option) list \<Rightarrow> (go_error, Service gomap) outcome" where
  "Service_UnmarshalYAML decoded tmp = unmarshal_map ''Service'' Service_fields decoded tmp"

definition User_UnmarshalJSON ::
  "go_error + attr_section \<Rightarrow> go_error + (string \<times> User option) list \<Rightarrow> (go_error, User gomap) outcome" where
  "User_UnmarshalJSON decoded tmp = unmarshal_map ''User'' User_fields decoded tmp"

definition User_UnmarshalYAML ::
  "go_error + attr_section \<Rightarrow> go_error + (string \<times> User option) list \<Rightarrow> (go_error, User gomap) outcome" where
  "User_UnmarshalYAML decoded tmp = unmarshal_map ''User'' User_fields decoded tmp"

definition KernelParam_UnmarshalJSON ::
  "go_error + attr_section \<Rightarrow> go_error + (string \<times> KernelParam option) list \<Rightarrow> (go_error, KernelParam gomap) outcome" where
  "KernelParam_UnmarshalJSON decoded tmp = unmarshal_map ''KernelParam'' KernelParam_fields decoded tmp"

definition KernelParam_UnmarshalYAML ::
  "go_error + attr_section \<Rightarrow> go_error + (string \<times> KernelParam option) list \<Rightarrow> (go_error, KernelParam gomap) outcome" where
  "KernelParam_UnmarshalYAML decoded tmp = unmarshal_map ''KernelParam'' KernelParam_fields decoded tmp"

definition Mount_UnmarshalJSON ::
  "go_error + attr_section \<Rightarrow> go_error + (string \<times> Mount option) list \<Rightarrow> (go_error, Mount gomap) outcome" where
  "Mount_UnmarshalJSON decoded tmp = unmarshal_map ''Mount'' Mount_fields decoded tmp"

definition Mount_UnmarshalYAML ::
  "go_error + attr_section \<Rightarrow> go_error + (string \<times> Mount option) list \<Rightarrow> (go_error, Mount gomap) outcome" where
  "Mount_UnmarshalYAML decoded tmp = unmarshal_map ''Mount'' Mount_fields decoded tmp"

definition Interface_UnmarshalJSON ::
  "go_error + attr_section \<Rightarrow> go_error + (string \<times> Interface option) list \<Rightarrow> (go_error, Interface gomap) outcome" where
  "Interface_UnmarshalJSON decoded tmp = unmarshal_map ''Interface'' Interface_fields decoded tmp"

definition Interface_UnmarshalYAML ::
  "go_error + attr_section \<Rightarrow> go_error + (string \<times> Interface option) list \<Rightarrow> (go_error, Interface gomap) outcome" where
  "Interface_UnmarshalYAML decoded tmp = unmarshal_map ''Interface'' Interface_fields decoded tmp"

definition HTTP_UnmarshalJSON ::
  "go_error + attr_section \<Rightarrow> go_error + (string \<times> HTTP option) list \<Rightarrow> (go_error, HTTP gomap) outcome" where
  "HTTP_UnmarshalJSON decoded tmp = unmarshal_map ''HTTP'' HTTP_fields decoded tmp"

definition HTTP_UnmarshalYAML ::
  "go_error + attr_section \<Rightarrow> go_error + (string \<times> HTTP option) list \<Rightarrow> (go_error, HTTP gomap) outcome" where
  "HTTP_UnmarshalYAML decoded tmp = unmarshal_map ''HTTP'' HTTP_fields decoded tmp"

definition Registry_UnmarshalJSON ::
  "go_error + attr_section \<Rightarrow> go_error + (string \<times> Registry option) list \<Rightarrow> (go_error, Registry gomap) outcome" where
  "Registry_UnmarshalJSON decoded tmp = unmarshal_map ''Registry'' Registry_fields decoded tmp"

definition Registry_UnmarshalYAML ::
  "go_error + attr_section \<Rightarrow> go_error + (string \<times> Registry option) list \<Rightarrow> (go_error, Registry gomap) outcome" where
  "Registry_UnmarshalYAML decoded tmp = unmarshal_map ''Registry'' Registry_fields decoded tmp"

definition Matching_UnmarshalJSON ::
  "go_error + attr_section \<Rightarrow> go_error + (string \<times> Matching option) list \<Rightarrow> (go_error, Matching gomap) outcome" where
  "Matching_UnmarshalJSON decoded tmp = unmarshal_map ''Matching'' Matching_fields decoded tmp"

definition Matching_UnmarshalYAML ::
  "go_error + attr_section \<Rightarrow> go_error + (string \<times> Matching option) list \<Rightarrow> (go_error, Matching gomap) outcome" where
  "Matching_UnmarshalYAML decoded tmp = unmarshal_map ''Matching'' Matching_fields decoded tmp"

section \<open>What adding promises\<close>

text \<open>The entries of a map after a resource was added under its id.\<close>

definition added_to ::
  "('a res_base_scheme \<Rightarrow> string) \<Rightarrow> 'a res_base_scheme gomap \<Rightarrow> 'a res_base_scheme \<Rightarrow> 'a res_base_scheme gomap \<Rightarrow> bool" where
  "added_to ident r res r' \<longleftrightarrow>
     map_of r' = (map_of r)(ident res \<mapsto> res) \<and> (wf_map r \<longrightarrow> wf_map r') \<and>
     (\<forall>old. map_of r (ident res) = Some old \<longrightarrow> rb_Title res = rb_Title old \<and> rb_Meta res = rb_Meta old)"

locale resource_map =
  fixes append :: "string \<Rightarrow> 'a res_base_scheme gomap \<Rightarrow> (go_error, 'a res_base_scheme \<times> 'a res_base_scheme gomap) outcome"
    and append_if_exists :: "string \<Rightarrow> 'a res_base_scheme gomap \<Rightarrow> (go_error, 'a res_base_scheme \<times> bool \<times> 'a res_base_scheme gomap) outcome"
    and ident :: "'a res_base_scheme \<Rightarrow> string"
  assumes append_adds: "append sr r = Ret (res, r') \<Longrightarrow> added_to ident r res r'"
    and if_exists_adds: "append_if_exists sr r = Ret (res, ok, r') \<Longrightarrow> if ok then added_to ident r res r' else r' = r"
begin

text \<open>What is there stays there, with its title and meta.\<close>

lemma append_keeps:
  assumes "append sr r = Ret (res, r')" and "map_of r k = Some old"
  shows "\<exists>new. map_of r' k = Some new \<and> rb_Title new = rb_Title old \<and> rb_Meta new = rb_Meta old \<and> (k \<noteq> ident res \<longrightarrow> new = old)"
  using append_adds[OF assms(1)] assms(2) by (cases "k = ident res") (simp_all add: added_to_def)

lemma append_wf: "append sr r = Ret (res, r') \<Longrightarrow> wf_map r \<Longrightarrow> wf_map r'"
  using append_adds[of sr r res r'] by (simp add: added_to_def)

lemma if_exists_wf: "append_if_exists sr r = Ret (res, ok, r') \<Longrightarrow> wf_map r \<Longrightarrow> wf_map r'"
  using if_exists_adds[of sr r res ok r'] by (auto simp: added_to_def split: if_splits)

end

lemma keep_title_meta_added:
  assumes "\<And>res t m. ident (res\<lparr>rb_Title := t, rb_Meta := m\<rparr>) = ident res"
  shows "added_to ident r (keep_title_meta ident r res) (AList.update (ident (keep_title_meta ident r res)) (keep_title_meta ident r res) r)"
proof -
  have "ident (keep_title_meta ident r res) = ident res"
    by (simp add: keep_title_meta_def assms split: option.splits)
  then show ?thesis
    by (auto simp: added_to_def update_conv' wf_map_def keep_title_meta_def assms intro: distinct_update split: option.splits)
qed

lemma AppendSysResource_added:
  assumes "\<And>res t m. ident (res\<lparr>rb_Title := t, rb_Meta := m\<rparr>) = ident res"
    and "AppendSysResource new ident sysres r = Ret (res, r')"
  shows "added_to ident r res r'"
  using assms(2) keep_title_meta_added[of ident, OF assms(1)]
  by (cases "new sysres") (auto simp: AppendSysResource_def Let_def)

lemma AppendSysResourceIfExists_added:
  assumes "\<And>res t m. ident (res\<lparr>rb_Title := t, rb_Meta := m\<rparr>) = ident res"
    and "AppendSysResourceIfExists new ident exists sysres r = Ret (res, ok, r')"
  shows "if ok then added_to ident r res r' else r' = r"
  using assms(2) keep_title_meta_added[of ident, OF assms(1)]
  by (cases "new sysres") (auto simp: AppendSysResourceIfExists_def Let_def split: if_splits)

lemma resource_mapI:
  assumes "\<And>res t m. ident (res\<lparr>rb_Title := t, rb_Meta := m\<rparr>) = ident res"
  shows "resource_map (\<lambda>sr. AppendSysResource new ident (sysres sr))
    (\<lambda>sr. AppendSysResourceIfExists new0 ident exists (sysres0 sr)) ident"
  by (unfold_locales; rule AppendSysResource_added AppendSysResourceIfExists_added; (rule assms | assumption))

interpretation addr_map: resource_map
  "\<lambda>sr. Addr_AppendSysResource fmatch sr sys config" "\<lambda>sr. Addr_AppendSysResourceIfExists fmatch sr sys" Addr_ID
  for fmatch sys config
  unfolding Addr_AppendSysResource_def Addr_AppendSysResourceIfExists_def by (rule resource_mapI) (simp add: Addr_ID_def)

interpretation command_map: resource_map
  "\<lambda>sr. Command_AppendSysResource fmatch sr sys config" "\<lambda>sr. Command_AppendSysResourceIfExists fmatch sr sys" Command_ID
  for fmatch sys config
  unfolding Command_AppendSysResource_def Command_AppendSysResourceIfExists_def by (rule resource_mapI) (simp add: Command_ID_def)

interpretation dns_map: resource_map
  "\<lambda>sr. DNS_AppendSysResource fmatch sr sys config" "\<lambda>sr. DNS_AppendSysResourceIfExists fmatch sr sys" DNS_ID
  for fmatch sys config
  unfolding DNS_AppendSysResource_def DNS_AppendSysResourceIfExists_def by (rule resource_mapI) (simp add: DNS_ID_def)

interpretation file_map: resource_map
  "\<lambda>sr. File_AppendSysResource fmatch sr sys config" "\<lambda>sr. File_AppendSysResourceIfExists fmatch sr sys" File_ID
  for fmatch sys config
  unfolding File_AppendSysResource_def File_AppendSysResourceIfExists_def by (rule resource_mapI) (simp add: File_ID_def)

interpretation gossfile_map: resource_map
  "\<lambda>sr. Gossfile_AppendSysResource fmatch sr sys config" "\<lambda>sr. Gossfile_AppendSysResourceIfExists fmatch sr sys" rb_id
  for fmatch sys config
  unfolding Gossfile_AppendSysResource_def Gossfile_AppendSysResourceIfExists_def by (rule resource_mapI) (simp)

interpretation group_map: resource_map
  "\<lambda>sr. Group_AppendSysResource fmatch sr sys config" "\<lambda>sr. Group_AppendSysResourceIfExists fmatch sr sys" Group_ID
  for fmatch sys config
  unfolding Group_AppendSysResource_def Group_AppendSysResourceIfExists_def by (rule resource_mapI) (simp add: Group_ID_def)

interpretation package_map: resource_map
  "\<lambda>sr. Package_AppendSysResource fmatch sr sys config" "\<lambda>sr. Package_AppendSysResourceIfExists fmatch sr sys" Package_ID
  for fmatch sys config
  unfolding Package_AppendSysResource_def Package_AppendSysResourceIfExists_def by (rule resource_mapI) (simp add: Package_ID_def)

interpretation port_map: resource_map
  "\<lambda>sr. Port_AppendSysResource fmatch sr sys config" "\<lambda>sr. Port_AppendSysResourceIfExists fmatch sr sys" Port_ID
  for fmatch sys config
  unfolding Port_AppendSysResource_def Port_AppendSysResourceIfExists_def by (rule resource_mapI) (simp add: Port_ID_def)

interpretation process_map: resource_map
  "\<lambda>sr. Process_AppendSysResource fmatch sr sys config" "\<lambda>sr. Process_AppendSysResourceIfExists fmatch sr sys" Process_ID
  for fmatch sys config
  unfolding Process_AppendSysResource_def Process_AppendSysResourceIfExists_def by (rule resource_mapI) (simp add: Process_ID_def)

interpretation service_map: resource_map
  "\<lambda>sr. Service_AppendSysResource fmatch sr sys config" "\<lambda>sr. Service_AppendSysResourceIfExists fmatch sr sys" Service_ID
  for fmatch sys config
  unfolding Service_AppendSysResource_def Service_AppendSysResourceIfExists_def by (rule resource_mapI) (simp add: Service_ID_def)

interpretation user_map: resource_map
  "\<lambda>sr. User_AppendSysResource fmatch sr sys config" "\<lambda>sr. User_AppendSysResourceIfExists fmatch sr sys" User_ID
  for fmatch sys config
  unfolding User_AppendSysResource_def User_AppendSysResourceIfExists_def by (rule resource_mapI) (simp add: User_ID_def)

interpretation kernelparam_map: resource_map
  "\<lambda>sr. KernelParam_AppendSysResource fmatch sr sys config" "\<lambda>sr. KernelParam_AppendSysResourceIfExists fmatch sr sys" KernelParam_ID
  for fmatch sys config
  unfolding KernelParam_AppendSysResource_def KernelParam_AppendSysResourceIfExists_def by (rule resource_mapI) (simp add: KernelParam_ID_def)

interpretation mount_map: resource_map
  "\<lambda>sr. Mount_AppendSysResource fmatch sr sys config" "\<lambda>sr. Mount_AppendSysResourceIfExists fmatch sr sys" Mount_ID
  for fmatch sys config
  unfolding Mount_AppendSysResource_def Mount_AppendSysResourceIfExists_def by (rule resource_mapI) (simp add: Mount_ID_def)

interpretation interface_map: resource_map
  "\<lambda>sr. Interface_AppendSysResource fmatch sr sys config" "\<lambda>sr. Interface_AppendSysResourceIfExists fmatch sr sys" Interface_ID
  for fmatch sys config
  unfolding Interface_AppendSysResource_def Interface_AppendSysResourceIfExists_def by (rule resource_mapI) (simp add: Interface_ID_def)

interpretation http_map: resource_map
  "\<lambda>sr. HTTP_AppendSysResource fmatch sr sys config" "\<lambda>sr. HTTP_AppendSysResourceIfExists fmatch sr sys" HTTP_ID
  for fmatch sys config
  unfolding HTTP_AppendSysResource_def HTTP_AppendSysResourceIfExists_def by (rule resource_mapI) (simp add: HTTP_ID_def)

interpretation registry_map: resource_map
  "\<lambda>sr. Registry_AppendSysResource fmatch sr sys config" "\<lambda>sr. Registry_AppendSysResourceIfExists fmatch sr sys" Registry_ID
  for fmatch sys config
  unfolding Registry_AppendSysResource_def Registry_AppendSysResourceIfExists_def by (rule resource_mapI) (simp add: Registry_ID_def)

section \<open>What decoding promises\<close>

text \<open>A section decodes exactly when every attribute is known and no resource is null; every resource then has its key as id.\<close>

definition decodes_to ::
  "field list \<Rightarrow> go_error + attr_section \<Rightarrow> go_error + (string \<times> 'a res_base_scheme option) list \<Rightarrow>
   'a res_base_scheme gomap \<Rightarrow> bool" where
  "decodes_to attrs decoded tmp m \<longleftrightarrow>
     (\<exists>sec es. decoded = Inr sec \<and> tmp = Inr es \<and>
        list_all (\<lambda>e. set (snd e) \<subseteq> WhitelistAttrs attrs) sec \<and> None \<notin> snd ` set es \<and>
        m = map (\<lambda>(k, r). (k, (the r)\<lparr>rb_id := k\<rparr>)) es)"

lemma set_ids_Ret:
  "set_ids typs es = Ret m \<longleftrightarrow> None \<notin> snd ` set es \<and> m = map (\<lambda>(k, r). (k, (the r)\<lparr>rb_id := k\<rparr>)) es"
proof (induction typs es arbitrary: m rule: set_ids.induct)
  case (3 typs i res rest)
  show ?case using 3 by (cases "set_ids typs rest") auto
qed auto

lemma unmarshal_map_Ret: "unmarshal_map typs attrs decoded tmp = Ret m \<longleftrightarrow> decodes_to attrs decoded tmp m"
proof (cases "\<exists>sec es. decoded = Inr sec \<and> tmp = Inr es")
  case True
  then obtain sec es where d: "decoded = Inr sec" "tmp = Inr es" by blast
  show ?thesis
    using first_invalid_None[of "WhitelistAttrs attrs" sec]
    by (cases "first_invalid (WhitelistAttrs attrs) sec")
      (auto simp: d unmarshal_map_def decodes_to_def ValidateSections_def list_all_iff set_ids_Ret)
next
  case False
  then show ?thesis
    by (cases decoded; cases tmp) (auto simp: unmarshal_map_def decodes_to_def ValidateSections_def split: option.splits)
qed

lemma decodes_to_ids:
  assumes "decodes_to attrs decoded tmp m" and "(k, res) \<in> set m"
  shows "rb_id res = k"
  using assms by (auto simp: decodes_to_def)

text \<open>A section of a gossfile decodes exactly when both decodings succeed, every attribute of every entry is a known one and no
  entry is null; the resources then carry their keys as ids.\<close>

lemma decoding_exact:
  "unmarshal_map typs attrs decoded tmp = Ret m \<longleftrightarrow> decodes_to attrs decoded tmp m"
  by (rule unmarshal_map_Ret)

end
