(* ===== verification/Add.thy ===== *)
theory Add
  imports Load_Config Resource_Map
begin

text \<open>
  add.go: \<^verbatim>\<open>goss add\<close> and \<^verbatim>\<open>goss autoadd\<close>. The maps inside the configuration are shared with the caller,
  which writes the configuration to the file when all keys have been added; here the configuration is
  passed on. Printing what was added is left out.
\<close>

section \<open>Adding\<close>

datatype add_error =
    UnsupportedLogLevel string
  | AddStore store_error
  | AddSystem go_error
  | UndefinedResourceName string

fun into_config :: "('x \<Rightarrow> resource) \<Rightarrow> ('m \<Rightarrow> GossConfig) \<Rightarrow> (go_error, 'x \<times> 'm) outcome \<Rightarrow> (add_error, resource \<times> GossConfig) outcome" where
  "into_config con upd (Ret (res, m)) = Ret (con res, upd m)"
| "into_config con upd (Err e) = Err (AddSystem e)"
| "into_config con upd Panic = Panic"

definition AddResource ::
  "glob \<Rightarrow> GossConfig \<Rightarrow> string \<Rightarrow> string \<Rightarrow> Config \<Rightarrow> System \<Rightarrow> (add_error, resource \<times> GossConfig) outcome" where
  "AddResource fmatch c resourceName key config sys =
     (if resourceName = ''Addr'' then into_config RAddr (\<lambda>m. c\<lparr>c_Addrs := m\<rparr>) (Addr_AppendSysResource fmatch key sys config (c_Addrs c))
      else if resourceName = ''Command'' then into_config RCommand (\<lambda>m. c\<lparr>c_Commands := m\<rparr>) (Command_AppendSysResource fmatch key sys config (c_Commands c))
      else if resourceName = ''DNS'' then into_config RDNS (\<lambda>m. c\<lparr>c_DNSs := m\<rparr>) (DNS_AppendSysResource fmatch key sys config (c_DNSs c))
      else if resourceName = ''File'' then into_config RFile (\<lambda>m. c\<lparr>c_Files := m\<rparr>) (File_AppendSysResource fmatch key sys config (c_Files c))
      else if resourceName = ''Group'' then into_config RGroup (\<lambda>m. c\<lparr>c_Groups := m\<rparr>) (Group_AppendSysResource fmatch key sys config (c_Groups c))
      else if resourceName = ''Package'' then into_config RPackage (\<lambda>m. c\<lparr>c_Packages := m\<rparr>) (Package_AppendSysResource fmatch key sys config (c_Packages c))
      else if resourceName = ''Port'' then into_config RPort (\<lambda>m. c\<lparr>c_Ports := m\<rparr>) (Port_AppendSysResource fmatch key sys config (c_Ports c))
      else if resourceName = ''Process'' then into_config RProcess (\<lambda>m. c\<lparr>c_Processes := m\<rparr>) (Process_AppendSysResource fmatch key sys config (c_Processes c))
      else if resourceName = ''Service'' then into_config RService (\<lambda>m. c\<lparr>c_Services := m\<rparr>) (Service_AppendSysResource fmatch key sys config (c_Services c))
      else if resourceName = ''User'' then into_config RUser (\<lambda>m. c\<lparr>c_Users := m\<rparr>) (User_AppendSysResource fmatch key sys config (c_Users c))
      else if resourceName = ''Gossfile'' then into_config RGossfile (\<lambda>m. c\<lparr>c_Gossfiles := m\<rparr>) (Gossfile_AppendSysResource fmatch key sys config (c_Gossfiles c))
      else if resourceName = ''KernelParam'' then into_config RKernelParam (\<lambda>m. c\<lparr>c_KernelParams := m\<rparr>) (KernelParam_AppendSysResource fmatch key sys config (c_KernelParams c))
      else if resourceName = ''Mount'' then into_config RMount (\<lambda>m. c\<lparr>c_Mounts := m\<rparr>) (Mount_AppendSysResource fmatch key sys config (c_Mounts c))
      else if resourceName = ''Interface'' then into_config RInterface (\<lambda>m. c\<lparr>c_Interfaces := m\<rparr>) (Interface_AppendSysResource fmatch key sys config (c_Interfaces c))
      else if resourceName = ''HTTP'' then into_config RHTTP (\<lambda>m. c\<lparr>c_HTTPs := m\<rparr>) (HTTP_AppendSysResource fmatch key sys config (c_HTTPs c))
      else if resourceName = ''Registry'' then into_config RRegistry (\<lambda>m. c\<lparr>c_Registries := m\<rparr>) (Registry_AppendSysResource fmatch key sys config (c_Registries c))
      else Err (UndefinedResourceName resourceName))"

fun add_keys :: "glob \<Rightarrow> string \<Rightarrow> Config \<Rightarrow> System \<Rightarrow> string list \<Rightarrow> GossConfig \<Rightarrow> (add_error, GossConfig) outcome" where
  "add_keys fmatch resourceName config sys [] gossConfig = Ret gossConfig"
| "add_keys fmatch resourceName config sys (key # keys) gossConfig =
     bind_outcome (AddResource fmatch gossConfig resourceName key config sys)
       (\<lambda>(res, gossConfig). add_keys fmatch resourceName config sys keys gossConfig)"

text \<open>\<^verbatim>\<open>os.Stat\<close> succeeds for the files of the environment.\<close>

definition read_or_new :: "store_env \<Rightarrow> string \<Rightarrow> (add_error, GossConfig) outcome" where
  "read_or_new env fileName =
     (if se_file env fileName \<noteq> None then map_err AddStore (ReadJSON env fileName) else Ret NewGossConfig)"

definition AddResources ::
  "store_env \<Rightarrow> marshal_env \<Rightarrow> glob \<Rightarrow> System \<Rightarrow> string \<Rightarrow> string \<Rightarrow> string list \<Rightarrow> Config \<Rightarrow>
   (add_error, store_env) outcome" where
  "AddResources env M fmatch sys fileName resourceName keys c =
     (if setLogLevel c = None then Err (UnsupportedLogLevel (LogLevel c))
      else bind_outcome (map_err AddStore (getStoreFormatFromFileName fileName))
        (\<lambda>fmt. let env = env\<lparr>se_format := fmt\<rparr>
               in bind_outcome (read_or_new env fileName)
                    (\<lambda>gossConfig. bind_outcome (add_keys fmatch resourceName c sys keys gossConfig)
                       (\<lambda>gossConfig. map_err AddStore (WriteJSON env M fileName gossConfig)))))"

section \<open>Adding automatically\<close>

text \<open>One step of \<^verbatim>\<open>AutoAddResource\<close>: a resource that exists is added; the sequence stops at an error.\<close>

fun auto_step :: "('m \<Rightarrow> GossConfig) \<Rightarrow> (go_error, 'x \<times> bool \<times> 'm) outcome \<Rightarrow> (add_error, bool \<times> GossConfig) outcome" where
  "auto_step upd (Ret (res, ok, m)) = Ret (ok, upd m)"
| "auto_step upd (Err e) = Err (AddSystem e)"
| "auto_step upd Panic = Panic"

text \<open>\<^verbatim>\<open>int32(pid)\<close>\<close>

definition to_int32 :: "int \<Rightarrow> int" where
  "to_int32 n = signed_take_bit 31 n"

fun auto_ports :: "glob \<Rightarrow> System \<Rightarrow> string list \<Rightarrow> GossConfig \<Rightarrow> (add_error, GossConfig) outcome" where
  "auto_ports fmatch sys [] c = Ret c"
| "auto_ports fmatch sys (port # ports) c =
     bind_outcome (auto_step (\<lambda>m. c\<lparr>c_Ports := m\<rparr>) (Port_AppendSysResourceIfExists fmatch port sys (c_Ports c)))
       (\<lambda>(ok, c). auto_ports fmatch sys ports c)"

text \<open>The ports of a process: one attempt for every pid, port and entry of the port with that pid.\<close>

definition ports_of_pids :: "int list \<Rightarrow> (string \<times> int list) list \<Rightarrow> string list" where
  "ports_of_pids pids ports =
     concat (map (\<lambda>pid. concat (map (\<lambda>(port, entries). map (\<lambda>_. port) (filter (\<lambda>p. p = to_int32 pid) entries)) ports)) pids)"

definition AutoAddResource ::
  "glob \<Rightarrow> GossConfig \<Rightarrow> string \<Rightarrow> System \<Rightarrow> go_error + (string \<times> int list) list \<Rightarrow> (add_error, GossConfig) outcome" where
  "AutoAddResource fmatch c key sys getPorts =
     bind_outcome
       (if str_contains key ''/''
        then auto_step (\<lambda>m. c\<lparr>c_Files := m\<rparr>) (File_AppendSysResourceIfExists fmatch key sys (c_Files c))
        else Ret (False, c)) (\<lambda>(ok, c).
     bind_outcome (auto_step (\<lambda>m. c\<lparr>c_Groups := m\<rparr>) (Group_AppendSysResourceIfExists fmatch key sys (c_Groups c))) (\<lambda>(ok, c).
     bind_outcome (auto_step (\<lambda>m. c\<lparr>c_Packages := m\<rparr>) (Package_AppendSysResourceIfExists fmatch key sys (c_Packages c))) (\<lambda>(ok, c).
     bind_outcome (auto_step (\<lambda>m. c\<lparr>c_Ports := m\<rparr>) (Port_AppendSysResourceIfExists fmatch key sys (c_Ports c))) (\<lambda>(ok, c).
     bind_outcome (auto_step (\<lambda>m. c\<lparr>c_Processes := m\<rparr>) (Process_AppendSysResourceIfExists fmatch key sys (c_Processes c))) (\<lambda>(ok, c).
     bind_outcome
       (if ok
        then (case getPorts of
                Inl e \<Rightarrow> Err (AddSystem e)
              | Inr ports \<Rightarrow> auto_ports fmatch sys (ports_of_pids (fst (sr_Pids (NewSysProcess sys key zero_config))) ports) c)
        else Ret c) (\<lambda>c.
     bind_outcome (auto_step (\<lambda>m. c\<lparr>c_Services := m\<rparr>) (Service_AppendSysResourceIfExists fmatch key sys (c_Services c))) (\<lambda>(ok, c).
     bind_outcome (auto_step (\<lambda>m. c\<lparr>c_Users := m\<rparr>) (User_AppendSysResourceIfExists fmatch key sys (c_Users c))) (\<lambda>(ok, c).
       Ret c))))))))"

fun auto_keys :: "glob \<Rightarrow> System \<Rightarrow> go_error + (string \<times> int list) list \<Rightarrow> string list \<Rightarrow> GossConfig \<Rightarrow> (add_error, GossConfig) outcome" where
  "auto_keys fmatch sys getPorts [] c = Ret c"
| "auto_keys fmatch sys getPorts (key # keys) c =
     bind_outcome (AutoAddResource fmatch c key sys getPorts) (auto_keys fmatch sys getPorts keys)"

definition AutoAddResources ::
  "store_env \<Rightarrow> marshal_env \<Rightarrow> glob \<Rightarrow> System \<Rightarrow> go_error + (string \<times> int list) list \<Rightarrow> string \<Rightarrow> string list \<Rightarrow>
   (add_error, store_env) outcome" where
  "AutoAddResources env M fmatch sys getPorts fileName keys =
     bind_outcome (map_err AddStore (getStoreFormatFromFileName fileName))
        (\<lambda>fmt. let env = env\<lparr>se_format := fmt\<rparr>
               in bind_outcome (read_or_new env fileName)
                    (\<lambda>gossConfig. bind_outcome (auto_keys fmatch sys getPorts keys gossConfig)
                       (\<lambda>gossConfig. map_err AddStore (WriteJSON env M fileName gossConfig))))"

section \<open>What adding does to a configuration\<close>

definition config_added :: "GossConfig \<Rightarrow> resource \<Rightarrow> GossConfig \<Rightarrow> bool" where
  "config_added c res c' \<longleftrightarrow>
     lookup c' (TypeKey res) (ID res) = Some res \<and>
     (\<forall>t k. t \<noteq> TypeKey res \<or> k \<noteq> ID res \<longrightarrow> lookup c' t k = lookup c t k) \<and>
     (wf_config c \<longrightarrow> wf_config c') \<and>
     (\<forall>old. lookup c (TypeKey res) (ID res) = Some old \<longrightarrow>
        rb_Title (res_base_of res) = rb_Title (res_base_of old) \<and> rb_Meta (res_base_of res) = rb_Meta (res_base_of old))"

lemma into_config_Ret:
  "into_config con upd out = Ret (res, c') \<longleftrightarrow> (\<exists>r m. out = Ret (r, m) \<and> res = con r \<and> c' = upd m)"
  by (cases out) auto

lemma res_base_truncate [simp]:
  "rb_Title (res_base.truncate r) = rb_Title r" "rb_Meta (res_base.truncate r) = rb_Meta r"
  by (simp_all add: res_base.defs)

lemmas config_added_defs = config_added_def added_to_def lookup_def sections_def wf_config_def

lemma config_added_Addr: "added_to Addr_ID (c_Addrs c) r m \<Longrightarrow> config_added c (RAddr r) (c\<lparr>c_Addrs := m\<rparr>)"
  by (auto simp: config_added_defs)

lemma config_added_Command: "added_to Command_ID (c_Commands c) r m \<Longrightarrow> config_added c (RCommand r) (c\<lparr>c_Commands := m\<rparr>)"
  by (auto simp: config_added_defs)

lemma config_added_DNS: "added_to DNS_ID (c_DNSs c) r m \<Longrightarrow> config_added c (RDNS r) (c\<lparr>c_DNSs := m\<rparr>)"
  by (auto simp: config_added_defs)

lemma config_added_File: "added_to File_ID (c_Files c) r m \<Longrightarrow> config_added c (RFile r) (c\<lparr>c_Files := m\<rparr>)"
  by (auto simp: config_added_defs)

lemma config_added_Group: "added_to Group_ID (c_Groups c) r m \<Longrightarrow> config_added c (RGroup r) (c\<lparr>c_Groups := m\<rparr>)"
  by (auto simp: config_added_defs)

lemma config_added_Package: "added_to Package_ID (c_Packages c) r m \<Longrightarrow> config_added c (RPackage r) (c\<lparr>c_Packages := m\<rparr>)"
  by (auto simp: config_added_defs)

lemma config_added_Port: "added_to Port_ID (c_Ports c) r m \<Longrightarrow> config_added c (RPort r) (c\<lparr>c_Ports := m\<rparr>)"
  by (auto simp: config_added_defs)

lemma config_added_Process: "added_to Process_ID (c_Processes c) r m \<Longrightarrow> config_added c (RProcess r) (c\<lparr>c_Processes := m\<rparr>)"
  by (auto simp: config_added_defs)

lemma config_added_Service: "added_to Service_ID (c_Services c) r m \<Longrightarrow> config_added c (RService r) (c\<lparr>c_Services := m\<rparr>)"
  by (auto simp: config_added_defs)

lemma config_added_User: "added_to User_ID (c_Users c) r m \<Longrightarrow> config_added c (RUser r) (c\<lparr>c_Users := m\<rparr>)"
  by (auto simp: config_added_defs)

lemma config_added_Gossfile: "added_to rb_id (c_Gossfiles c) r m \<Longrightarrow> config_added c (RGossfile r) (c\<lparr>c_Gossfiles := m\<rparr>)"
  by (auto simp: config_added_defs)

lemma config_added_KernelParam: "added_to KernelParam_ID (c_KernelParams c) r m \<Longrightarrow> config_added c (RKernelParam r) (c\<lparr>c_KernelParams := m\<rparr>)"
  by (auto simp: config_added_defs)

lemma config_added_Mount: "added_to Mount_ID (c_Mounts c) r m \<Longrightarrow> config_added c (RMount r) (c\<lparr>c_Mounts := m\<rparr>)"
  by (auto simp: config_added_defs)

lemma config_added_Interface: "added_to Interface_ID (c_Interfaces c) r m \<Longrightarrow> config_added c (RInterface r) (c\<lparr>c_Interfaces := m\<rparr>)"
  by (auto simp: config_added_defs)

lemma config_added_HTTP: "added_to HTTP_ID (c_HTTPs c) r m \<Longrightarrow> config_added c (RHTTP r) (c\<lparr>c_HTTPs := m\<rparr>)"
  by (auto simp: config_added_defs)

lemma config_added_Registry: "added_to Registry_ID (c_Registries c) r m \<Longrightarrow> config_added c (RRegistry r) (c\<lparr>c_Registries := m\<rparr>)"
  by (auto simp: config_added_defs)

lemmas config_added_sections =
  config_added_Addr[OF addr_map.append_adds] config_added_Command[OF command_map.append_adds] config_added_DNS[OF dns_map.append_adds] config_added_File[OF file_map.append_adds] config_added_Group[OF group_map.append_adds] config_added_Package[OF package_map.append_adds] config_added_Port[OF port_map.append_adds] config_added_Process[OF process_map.append_adds] config_added_Service[OF service_map.append_adds] config_added_User[OF user_map.append_adds] config_added_Gossfile[OF gossfile_map.append_adds] config_added_KernelParam[OF kernelparam_map.append_adds] config_added_Mount[OF mount_map.append_adds] config_added_Interface[OF interface_map.append_adds] config_added_HTTP[OF http_map.append_adds] config_added_Registry[OF registry_map.append_adds]

lemma AddResource_added: "AddResource fmatch c name key config sys = Ret (res, c') \<Longrightarrow> config_added c res c'"
  unfolding AddResource_def into_config_Ret
  by (simp only: into_config_Ret outcome.distinct split: if_splits) (elim exE conjE, simp only: config_added_sections)+

text \<open>The resources that the keys stand for, each added to what the previous ones left.\<close>

fun added_list :: "GossConfig \<Rightarrow> resource list \<Rightarrow> GossConfig \<Rightarrow> bool" where
  "added_list c [] c' \<longleftrightarrow> c' = c"
| "added_list c (res # rs) c' \<longleftrightarrow> (\<exists>c1. config_added c res c1 \<and> added_list c1 rs c')"

lemma add_keys_added:
  "add_keys fmatch name config sys keys c = Ret c' \<Longrightarrow> \<exists>rs. length rs = length keys \<and> added_list c rs c'"
proof (induction keys arbitrary: c)
  case (Cons key keys)
  then obtain res c1 where one: "AddResource fmatch c name key config sys = Ret (res, c1)"
    and rest: "add_keys fmatch name config sys keys c1 = Ret c'"
    by (auto simp: bind_Ret)
  from Cons.IH[OF rest] obtain rs where "length rs = length keys" "added_list c1 rs c'" by blast
  with AddResource_added[OF one] show ?case by (intro exI[of _ "res # rs"]) auto
qed simp

abbreviation res_key :: "resource \<Rightarrow> string \<times> string" where
  "res_key res \<equiv> (TypeKey res, ID res)"

lemma added_list_lookup:
  "added_list c rs c' \<Longrightarrow>
   (if (t, k) \<in> res_key ` set rs then lookup c' t k \<noteq> None else lookup c' t k = lookup c t k) \<and> (wf_config c \<longrightarrow> wf_config c')"
proof (induction rs arbitrary: c)
  case (Cons res rs)
  then obtain c1 where c1: "config_added c res c1" "added_list c1 rs c'" by auto
  from c1(1) have "if (t, k) = res_key res then lookup c1 t k \<noteq> None else lookup c1 t k = lookup c t k"
    and "wf_config c \<longrightarrow> wf_config c1"
    unfolding config_added_def by auto
  with Cons.IH[OF c1(2)] show ?case by (auto split: if_splits)
qed simp

section \<open>Properties\<close>


definition added_gossfile :: GossConfig where
  "added_gossfile =
     NewGossConfig\<lparr>c_Gossfiles := [(''g'', res_base.extend (empty_base\<lparr>rb_id := ''g''\<rparr>) (Gossfile.fields []))]\<rparr>"

lemma sample_add:
  "AddResource (\<lambda>_ _. True) NewGossConfig ''Gossfile'' ''g'' zero_config sample_system =
     Ret (RGossfile (res_base.extend (empty_base\<lparr>rb_id := ''g''\<rparr>) (Gossfile.fields [])), added_gossfile)"
  by (simp add: AddResource_def Gossfile_AppendSysResource_def AppendSysResource_def NewGossfile_def keep_title_meta_def
      added_gossfile_def NewGossConfig_def sample_system_def empty_base_def res_base.defs Gossfile.defs)


lemma WriteJSON_reads_back:
  assumes "WriteJSON env M f cfg = Ret env'" and "se_filter env = None"
    and "\<And>c data. c \<in> {cfg, NewGossConfig} \<Longrightarrow> marshal M (se_format env) c = Ret data \<Longrightarrow> unmarshal env data (se_format env) = Ret c"
    and "cfg \<noteq> NewGossConfig"
  shows "ReadJSON env' f = Ret cfg"
proof -
  obtain data empty_data where d: "marshal M (se_format env) cfg = Ret data" "marshal M (se_format env) NewGossConfig = Ret empty_data"
    using assms(1) by (auto simp: WriteJSON_def split: outcome.splits)
  note u = assms(3)[OF _ d(1)] assms(3)[OF _ d(2)]
  then have "empty_data \<noteq> data" using assms(4) by auto
  with assms(1) d have "env' = env\<lparr>se_file := (se_file env)(f \<mapsto> data)\<rparr>" by (auto simp: WriteJSON_def split: if_splits)
  with u assms(2) show ?thesis by (simp add: ReadJSON_def ReadJSONData_def unmarshal_def split: store_format.splits)
qed


definition gossfile_env :: store_env where
  "gossfile_env =
     \<lparr>se_file = (\<lambda>_. None), se_glob = (\<lambda>_. None), se_filter = None, se_format = UNSET, se_json = (\<lambda>_. Err CannotDetermineFormat),
      se_yaml = (\<lambda>d. Ret (if d = [] then NewGossConfig else added_gossfile)), se_json_ok = (\<lambda>_. False), se_yaml_ok = (\<lambda>_. True)\<rparr>"

definition gossfile_codec :: marshal_env where
  "gossfile_codec =
     \<lparr>me_json = (\<lambda>c. None), me_yaml = (\<lambda>c. Some (concat (map fst (c_Gossfiles c)))), me_writable = (\<lambda>_. True)\<rparr>"


end
