(* ===== verification/Cli.thy ===== *)
theory Cli
  imports Add Validation
begin

text \<open>
  cmd/goss/goss.go: the commands and flags of the command line, the configuration made from them and the call of
  the library each command makes. The cli library is a parameter: \<open>parse\<close> picks the command for the arguments of the
  process, and a context has what its methods \<^verbatim>\<open>String\<close>, \<^verbatim>\<open>Bool\<close> and so on return. Usage texts are left out.
\<close>

section \<open>Flags\<close>

datatype flag_value = FString string | FBool bool | FInt int | FDuration int | FSlice "string list"

record flag =
  fl_Name :: string
  fl_Aliases :: "string list"
  fl_Value :: flag_value
  fl_Env :: "string list"

definition str_flag :: "string \<Rightarrow> string list \<Rightarrow> string \<Rightarrow> string list \<Rightarrow> flag" where
  "str_flag name aliases v env = \<lparr>fl_Name = name, fl_Aliases = aliases, fl_Value = FString v, fl_Env = env\<rparr>"

definition slice_flag :: "string \<Rightarrow> string list \<Rightarrow> string list \<Rightarrow> flag" where
  "slice_flag name aliases env = \<lparr>fl_Name = name, fl_Aliases = aliases, fl_Value = FSlice [], fl_Env = env\<rparr>"

definition bool_flag :: "string \<Rightarrow> string list \<Rightarrow> string list \<Rightarrow> flag" where
  "bool_flag name aliases env = \<lparr>fl_Name = name, fl_Aliases = aliases, fl_Value = FBool False, fl_Env = env\<rparr>"

definition int_flag :: "string \<Rightarrow> int \<Rightarrow> string list \<Rightarrow> flag" where
  "int_flag name v env = \<lparr>fl_Name = name, fl_Aliases = [], fl_Value = FInt v, fl_Env = env\<rparr>"

definition duration_flag :: "string \<Rightarrow> string list \<Rightarrow> int \<Rightarrow> string list \<Rightarrow> flag" where
  "duration_flag name aliases v env = \<lparr>fl_Name = name, fl_Aliases = aliases, fl_Value = FDuration v, fl_Env = env\<rparr>"

record cli_context =
  cx_String :: "string \<Rightarrow> string"
  cx_Bool :: "string \<Rightarrow> bool"
  cx_Int :: "string \<Rightarrow> int"
  cx_Duration :: "string \<Rightarrow> int"
  cx_StringSlice :: "string \<Rightarrow> string list"
  cx_Args :: "string list"

section \<open>The configuration\<close>

text \<open>An option that cannot fail, applied for its effect.\<close>

definition apply_option :: "ConfigOption \<Rightarrow> Config \<Rightarrow> Config" where
  "apply_option opt c = (case opt c of Ret c' \<Rightarrow> c' | _ \<Rightarrow> c)"

definition newRuntimeConfigFromCLI :: "cli_context \<Rightarrow> Config" where
  "newRuntimeConfigFromCLI c =
     (let cfg = zero_config\<lparr>
            AllowInsecure := cx_Bool c ''insecure'',
            AnnounceToCLI := True,
            Cache := cx_Duration c ''cache'',
            Debug := cx_Bool c ''debug'',
            LogLevel := cx_String c ''log-level'',
            Endpoint := cx_String c ''endpoint'',
            Config.FormatOptions := cx_StringSlice c ''format-options'',
            IgnoreList := cx_StringSlice c ''exclude-attr'',
            ListenAddress := cx_String c ''listen-addr'',
            MaxConcurrent := cx_Int c ''max-concurrent'',
            NoFollowRedirects := cx_Bool c ''no-follow-redirects'',
            OutputFormat := cx_String c ''format'',
            PackageManager := cx_String c ''package'',
            Password := cx_String c ''password'',
            Proxy := cx_String c ''proxy'',
            Config.RetryTimeout := cx_Duration c ''retry-timeout'',
            Server := cx_String c ''server'',
            Sleep := cx_Duration c ''sleep'',
            Spec := cx_String c ''gossfile'',
            Timeout := cx_Duration c ''timeout'',
            Username := cx_String c ''username'',
            VarsFiles := cx_StringSlice c ''vars'',
            VarsInline := cx_String c ''vars-inline'',
            DiscoverSpec := cx_String c ''discover''\<rparr>;
          cfg = (if cx_Bool c ''no-color'' then apply_option WithNoColor cfg else cfg);
          cfg = (if cx_Bool c ''color'' then apply_option WithColor cfg else cfg)
      in cfg)"

section \<open>Commands\<close>

definition timeoutFlag :: "int \<Rightarrow> flag" where
  "timeoutFlag v = duration_flag ''timeout'' [] v []"

definition global_flags :: "flag list" where
  "global_flags =
     [str_flag ''log-level'' [''loglevel'', ''L'', ''l''] ''INFO'' [''GOSS_LOGLEVEL''],
      str_flag ''gossfile'' [''g''] ''./goss.yaml'' [''GOSS_FILE''],
      slice_flag ''vars'' [] [''GOSS_VARS''],
      str_flag ''vars-inline'' [] [] [''GOSS_VARS_INLINE''],
      str_flag ''package'' [] [] []]"

definition format_flag :: flag where
  "format_flag = str_flag ''format'' [''f''] ''rspecish'' [''GOSS_FMT'']"

definition format_options_flag :: flag where
  "format_options_flag = slice_flag ''format-options'' [''o''] [''GOSS_FMT_OPTIONS'']"

definition max_concurrent_flag :: flag where
  "max_concurrent_flag = int_flag ''max-concurrent'' 50 [''GOSS_MAX_CONCURRENT'']"

definition validate_flags :: "flag list" where
  "validate_flags =
     [format_flag, format_options_flag,
      bool_flag ''color'' [] [''GOSS_COLOR''],
      bool_flag ''no-color'' [] [''GOSS_NOCOLOR''],
      duration_flag ''sleep'' [''s''] (1 * second) [''GOSS_SLEEP''],
      duration_flag ''retry-timeout'' [''r''] 0 [''GOSS_RETRY_TIMEOUT''],
      max_concurrent_flag,
      str_flag ''discover'' [] [] [''GOSS_DISCOVER'']]"

definition serve_flags :: "flag list" where
  "serve_flags =
     [format_flag, format_options_flag,
      duration_flag ''cache'' [''c''] (5 * second) [''GOSS_CACHE''],
      str_flag ''listen-addr'' [''l''] '':8080'' [''GOSS_LISTEN''],
      str_flag ''endpoint'' [''e''] ''/healthz'' [''GOSS_ENDPOINT''],
      max_concurrent_flag]"

definition render_flags :: "flag list" where
  "render_flags = [bool_flag ''debug'' [''d''] []]"

definition add_flags :: "flag list" where
  "add_flags = [slice_flag ''exclude-attr'' [] []]"

definition http_flags :: "flag list" where
  "http_flags =
     [bool_flag ''insecure'' [''k''] [], bool_flag ''no-follow-redirects'' [''r''] [], timeoutFlag (5 * second),
      str_flag ''username'' [''u''] [] [], str_flag ''password'' [''p''] [] [], str_flag ''proxy'' [''x''] [] []]"

datatype cli_action = ActValidate | ActServe | ActRender | ActAutoAdd | ActAdd string

text \<open>A command that can be run: the names on the way to it (with their aliases), its flags and its action.\<close>

record cli_command =
  cc_path :: "string list list"
  cc_flags :: "flag list"
  cc_action :: cli_action

definition add_command :: "string \<Rightarrow> flag list \<Rightarrow> string \<Rightarrow> cli_command" where
  "add_command key flags resourceName =
     \<lparr>cc_path = [[''add'', ''a''], [key]], cc_flags = flags @ add_flags, cc_action = ActAdd resourceName\<rparr>"

definition add_commands :: "cli_command list" where
  "add_commands =
     [add_command ''package'' [] ''Package'',
      add_command ''file'' [] ''File'',
      add_command ''addr'' [timeoutFlag (500 * millisecond)] ''Addr'',
      add_command ''port'' [] ''Port'',
      add_command ''service'' [] ''Service'',
      add_command ''user'' [] ''User'',
      add_command ''group'' [] ''Group'',
      add_command ''command'' [timeoutFlag (10 * second)] ''Command'',
      add_command ''dns'' [timeoutFlag (500 * millisecond), str_flag ''server'' [] [] []] ''DNS'',
      add_command ''process'' [] ''Process'',
      add_command ''http'' http_flags ''HTTP'',
      add_command ''goss'' [] ''Gossfile'',
      add_command ''kernel-param'' [] ''KernelParam'',
      add_command ''mount'' [timeoutFlag (1000 * millisecond)] ''Mount'',
      add_command ''interface'' [] ''Interface'',
      add_command ''registry'' [] ''Registry'']"

definition commands :: "cli_command list" where
  "commands =
     [\<lparr>cc_path = [[''validate'', ''v'']], cc_flags = validate_flags, cc_action = ActValidate\<rparr>,
      \<lparr>cc_path = [[''serve'', ''s'']], cc_flags = serve_flags, cc_action = ActServe\<rparr>,
      \<lparr>cc_path = [[''render'', ''r'']], cc_flags = render_flags, cc_action = ActRender\<rparr>,
      \<lparr>cc_path = [[''autoadd'', ''aa'']], cc_flags = [], cc_action = ActAutoAdd\<rparr>] @ add_commands"

definition alpha_os :: "string \<Rightarrow> bool" where
  "alpha_os goos \<longleftrightarrow> goos = ''darwin'' \<or> goos = ''windows''"

definition addAlphaFlagIfNeeded :: "string \<Rightarrow> flag list \<Rightarrow> flag list" where
  "addAlphaFlagIfNeeded goos flags =
     (if alpha_os goos then flags @ [str_flag ''use-alpha'' [] ''0'' [''GOSS_USE_ALPHA'']] else flags)"

text \<open>Whether the command ends the process before it does anything.\<close>

definition fatalAlphaIfNeeded :: "string \<Rightarrow> cli_context \<Rightarrow> bool" where
  "fatalAlphaIfNeeded goos c \<longleftrightarrow> alpha_os goos \<and> cx_String c ''use-alpha'' \<noteq> ''1''"

text \<open>The call a command makes.\<close>

datatype library_call =
    CallValidate Config
  | CallServe Config
  | CallRender Config
  | CallAutoAdd string "string list" Config
  | CallAdd string string "string list" Config
  | ExitAlpha

definition run_action :: "string \<Rightarrow> cli_action \<Rightarrow> cli_context \<Rightarrow> library_call" where
  "run_action goos act c =
     (if fatalAlphaIfNeeded goos c then ExitAlpha
      else (case act of
              ActValidate \<Rightarrow> CallValidate (newRuntimeConfigFromCLI c)
            | ActServe \<Rightarrow> CallServe (newRuntimeConfigFromCLI c)
            | ActRender \<Rightarrow> CallRender (newRuntimeConfigFromCLI c)
            | ActAutoAdd \<Rightarrow> CallAutoAdd (cx_String c ''gossfile'') (cx_Args c) (newRuntimeConfigFromCLI c)
            | ActAdd resourceName \<Rightarrow>
                CallAdd (cx_String c ''gossfile'') resourceName (cx_Args c) (newRuntimeConfigFromCLI c)))"

definition main ::
  "(flag list \<Rightarrow> cli_command list \<Rightarrow> string list \<Rightarrow> (cli_command \<times> cli_context) option) \<Rightarrow> string \<Rightarrow> string list \<Rightarrow> library_call option" where
  "main parse goos argv =
     map_option (\<lambda>(cmd, c). run_action goos (cc_action cmd) c) (parse (addAlphaFlagIfNeeded goos global_flags) commands argv)"

section \<open>Lemmas\<close>

lemma into_config_known: "into_config con upd out \<noteq> Err (UndefinedResourceName n)"
  by (cases out) auto

text \<open>Every resource name on the command line is one that \<^verbatim>\<open>AddResource\<close> knows.\<close>

lemma add_commands_known:
  assumes "cmd \<in> set commands" and "cc_action cmd = ActAdd resourceName"
  shows "AddResource fmatch c resourceName key config sys \<noteq> Err (UndefinedResourceName n)"
proof -
  have "resourceName \<in> set [''Package'', ''File'', ''Addr'', ''Port'', ''Service'', ''User'', ''Group'', ''Command'',
      ''DNS'', ''Process'', ''HTTP'', ''Gossfile'', ''KernelParam'', ''Mount'', ''Interface'', ''Registry'']"
    using assms by (auto simp: commands_def add_commands_def add_command_def)
  then show ?thesis unfolding AddResource_def by (simp add: into_config_known split: if_split) (elim disjE; simp)
qed

lemma color_wins: "cx_Bool c ''color'' \<Longrightarrow> NoColor (newRuntimeConfigFromCLI c) = Some False"
  by (simp add: newRuntimeConfigFromCLI_def Let_def apply_option_def WithColor_def)

text \<open>
  What the library documents for a command on which nothing is set: a declared flag has its default, any other
  name the zero value.
\<close>

definition reads_defaults :: "flag list \<Rightarrow> cli_context \<Rightarrow> bool" where
  "reads_defaults flags c \<longleftrightarrow>
     (\<forall>name. case find (\<lambda>f. fl_Name f = name) flags of
        None \<Rightarrow> cx_String c name = [] \<and> \<not> cx_Bool c name \<and> cx_Int c name = 0 \<and> cx_Duration c name = 0 \<and> cx_StringSlice c name = []
      | Some f \<Rightarrow> (case fl_Value f of
                     FString x \<Rightarrow> cx_String c name = x
                   | FBool x \<Rightarrow> cx_Bool c name = x
                   | FInt x \<Rightarrow> cx_Int c name = x
                   | FDuration x \<Rightarrow> cx_Duration c name = x
                   | FSlice x \<Rightarrow> cx_StringSlice c name = x))"

lemmas flag_defs =
  str_flag_def slice_flag_def bool_flag_def int_flag_def duration_flag_def format_flag_def format_options_flag_def
  max_concurrent_flag_def timeoutFlag_def validate_flags_def global_flags_def

text \<open>\<^verbatim>\<open>goss validate\<close> without flags: no retries, fifty tests at a time, the format rspecish.\<close>

lemma validate_defaults:
  assumes "reads_defaults (validate_flags @ global_flags) c"
  shows "Config.RetryTimeout (newRuntimeConfigFromCLI c) = 0" and "MaxConcurrent (newRuntimeConfigFromCLI c) = 50"
    and "OutputFormat (newRuntimeConfigFromCLI c) = ''rspecish''" and "Sleep (newRuntimeConfigFromCLI c) = second"
    and "Spec (newRuntimeConfigFromCLI c) = ''./goss.yaml''" and "NoColor (newRuntimeConfigFromCLI c) = None"
    and "DisabledResourceTypes (newRuntimeConfigFromCLI c) = []"
proof -
  note r = assms[unfolded reads_defaults_def, rule_format]
  have "cx_Duration c ''retry-timeout'' = 0" "cx_Int c ''max-concurrent'' = 50" "cx_String c ''format'' = ''rspecish''"
    "cx_Duration c ''sleep'' = second" "cx_String c ''gossfile'' = ''./goss.yaml''" "\<not> cx_Bool c ''color''" "\<not> cx_Bool c ''no-color''"
    using r[of "''retry-timeout''"] r[of "''max-concurrent''"] r[of "''format''"] r[of "''sleep''"] r[of "''gossfile''"]
      r[of "''color''"] r[of "''no-color''"]
    by (simp_all add: flag_defs)
  then show "Config.RetryTimeout (newRuntimeConfigFromCLI c) = 0" and "MaxConcurrent (newRuntimeConfigFromCLI c) = 50"
    and "OutputFormat (newRuntimeConfigFromCLI c) = ''rspecish''" and "Sleep (newRuntimeConfigFromCLI c) = second"
    and "Spec (newRuntimeConfigFromCLI c) = ''./goss.yaml''" and "NoColor (newRuntimeConfigFromCLI c) = None"
    and "DisabledResourceTypes (newRuntimeConfigFromCLI c) = []"
    by (simp_all add: newRuntimeConfigFromCLI_def Let_def zero_config_def)
qed

end
