(* ===== verification/Serve.thy ===== *)
theory Serve
  imports Load_Config
begin

text \<open>
  serve.go: the health endpoint. A request picks an output format from its Accept header, takes the
  cached results or runs the tests, and answers with the report and a status. The handler's mutable
  state is the cache and the counters of prometheus; a request is an event with the times at which the
  cache is read and written and what a run of the tests returns if this request starts one. The cache is
  the library go-cache, a parameter with the documented behaviour as the predicate \<open>cache_ok\<close>.
\<close>

section \<open>Model\<close>

record 'c cache_api =
  ca_get :: "int \<Rightarrow> 'c \<Rightarrow> TestResult list list option"
  ca_set :: "int \<Rightarrow> TestResult list list \<Rightarrow> 'c \<Rightarrow> 'c"
  ca_new :: 'c

text \<open>An item is found until its time to live has passed; without a positive one it never expires.\<close>

definition cache_ok :: "int \<Rightarrow> 'c cache_api \<Rightarrow> bool" where
  "cache_ok ttl api \<longleftrightarrow>
     (\<forall>now. ca_get api now (ca_new api) = None) \<and>
     (\<forall>now t tra c. ca_get api now (ca_set api t tra c) = (if 0 < ttl \<and> t + ttl < now then None else Some tra))"

record healthHandler =
  h_config :: Config
  h_gossConfig :: GossConfig
  h_render :: renderer
  h_outputer :: outputer

datatype handler_error = HandlerLoad store_error | HandlerFormat string

definition newHealthHandler ::
  "store_env \<Rightarrow> vars_env \<Rightarrow> string option \<Rightarrow> registry \<Rightarrow> renderer \<Rightarrow> renderer \<Rightarrow> Config \<Rightarrow>
   (handler_error, healthHandler) outcome" where
  "newHealthHandler env V stdin reg R Rcolor c =
     bind_outcome (map_err HandlerLoad (getGossConfig env V stdin (VarsFiles c) (VarsInline c) (Spec c) []))
       (\<lambda>cfg. case getOutputer (NoColor c) reg (no_color R) Rcolor (OutputFormat c) of
                (R', Inl err) \<Rightarrow> Err (HandlerFormat err)
              | (R', Inr out) \<Rightarrow>
                  Ret \<lparr>h_config = c, h_gossConfig = cfg, h_render = R', h_outputer = out\<rparr>)"

record request =
  rq_read :: int
  rq_write :: int
  rq_accept :: "string list"
  rq_run :: "(schedule_error, TestResult list list) outcome"

record res =
  res_body :: string
  statusCode :: int

record response =
  rp_type :: string
  rp_res :: res
  rp_results :: "TestResult list list"

text \<open>\<^verbatim>\<open>healthHandler.validate\<close>: an error of \<^verbatim>\<open>runValidation\<close> gives no results.\<close>

definition h_validate :: "(schedule_error, TestResult list list) outcome \<Rightarrow> TestResult list list" where
  "h_validate run = (case run of Ret tra \<Rightarrow> tra | _ \<Rightarrow> [])"

definition h_output ::
  "healthHandler \<Rightarrow> prom_env \<Rightarrow> metrics option \<Rightarrow> TestResult list list \<Rightarrow> outputer \<Rightarrow> (res \<times> metrics option) option" where
  "h_output h P counters tra out =
     map_option (\<lambda>(b, exitCode, counters').
         (\<lparr>res_body = b, statusCode = (if exitCode = 0 then 200 else 503)\<rparr>, counters'))
       (Output out (h_render h) P counters (Config.FormatOptions (h_config h)) tra)"

definition cached_results ::
  "'c cache_api \<Rightarrow> request \<Rightarrow> 'c \<Rightarrow> TestResult list list \<times> 'c" where
  "cached_results api rq cache =
     (case ca_get api (rq_read rq) cache of
        Some tra \<Rightarrow> (tra, cache)
      | None \<Rightarrow> (let tra = h_validate (rq_run rq) in (tra, ca_set api (rq_write rq) tra cache)))"

definition processAndEnsureCached ::
  "'c cache_api \<Rightarrow> healthHandler \<Rightarrow> prom_env \<Rightarrow> outputer \<Rightarrow> request \<Rightarrow> 'c \<times> metrics option \<Rightarrow>
   (res \<times> TestResult list list \<times> 'c \<times> metrics option) option" where
  "processAndEnsureCached api h P out rq st =
     (let (tra, cache) = cached_results api rq (fst st)
      in map_option (\<lambda>(resp, counters). (resp, tra, cache, counters)) (h_output h P (snd st) tra out))"

definition mediaTypePrefix :: string where
  "mediaTypePrefix = ''application/vnd.goss-''"

definition accept_name :: "string \<Rightarrow> string" where
  "accept_name candidate =
     (let c = trim_space candidate
      in if has_prefix c mediaTypePrefix then trim_prefix c mediaTypePrefix
         else if equal_fold ''application/json'' c \<or> equal_fold ''text/json'' c then ''json''
         else [])"

fun negotiate_loop :: "registry \<Rightarrow> string list \<Rightarrow> string \<times> outputer option \<Rightarrow> string \<times> outputer option" where
  "negotiate_loop reg [] st = st"
| "negotiate_loop reg (acceptCandidate # accepts) st =
     (let outputName = accept_name acceptCandidate
      in negotiate_loop reg accepts
           (outputName, case GetOutputer reg outputName of Inl _ \<Rightarrow> None | Inr out \<Rightarrow> Some out))"

definition negotiateResponseContentType :: "registry \<Rightarrow> string list \<Rightarrow> (string \<times> outputer) option" where
  "negotiateResponseContentType reg acceptHeader =
     (case negotiate_loop reg acceptHeader ([], None) of
        (outputName, None) \<Rightarrow> None
      | (outputName, Some out) \<Rightarrow> Some (outputName, out))"

definition responseContentType :: "string \<Rightarrow> string" where
  "responseContentType outputName =
     (if outputName = ''json'' then ''application/json''
      else if outputName = ''prometheus'' then ''text/plain; version=0.0.4''
      else mediaTypePrefix @ outputName)"

definition ServeHTTP ::
  "registry \<Rightarrow> 'c cache_api \<Rightarrow> healthHandler \<Rightarrow> prom_env \<Rightarrow> request \<Rightarrow> 'c \<times> metrics option \<Rightarrow>
   (response \<times> 'c \<times> metrics option) option" where
  "ServeHTTP reg api h P rq st =
     (let (outputFormat, out) =
            (case negotiateResponseContentType reg (rq_accept rq) of
               None \<Rightarrow> (OutputFormat (h_config h), h_outputer h)
             | Some p \<Rightarrow> p)
      in map_option (\<lambda>(resp, tra, st'). (\<lparr>rp_type = responseContentType outputFormat, rp_res = resp, rp_results = tra\<rparr>, st'))
           (processAndEnsureCached api h P out rq st))"

text \<open>The requests the server handles, one after another.\<close>

fun serve_all ::
  "registry \<Rightarrow> 'c cache_api \<Rightarrow> healthHandler \<Rightarrow> prom_env \<Rightarrow> request list \<Rightarrow> 'c \<times> metrics option \<Rightarrow> response list option" where
  "serve_all reg api h P [] st = Some []"
| "serve_all reg api h P (rq # rqs) st =
     (case ServeHTTP reg api h P rq st of
        None \<Rightarrow> None
      | Some (rp, st') \<Rightarrow> map_option ((#) rp) (serve_all reg api h P rqs st'))"

section \<open>Properties\<close>

lemma ServeHTTP_results:
  assumes "ServeHTTP reg api h P rq st = Some (rp, st')"
  shows "rp_results rp = fst (cached_results api rq (fst st))" and "fst st' = snd (cached_results api rq (fst st))"
  using assms
  by (auto simp: ServeHTTP_def processAndEnsureCached_def h_output_def split: prod.splits option.splits)

text \<open>The cache holds the results of a run that one of the requests started, written at most its time to live ago.\<close>

definition cache_from :: "int \<Rightarrow> 'c cache_api \<Rightarrow> request list \<Rightarrow> 'c \<Rightarrow> bool" where
  "cache_from ttl api past cache \<longleftrightarrow>
     (\<forall>now tra. ca_get api now cache = Some tra \<longrightarrow>
        (\<exists>rq\<in>set past. tra = h_validate (rq_run rq) \<and> (0 < ttl \<longrightarrow> now \<le> rq_write rq + ttl)))"

lemma cached_results_from:
  assumes "cache_ok ttl api" and "cache_from ttl api past cache"
  shows "cache_from ttl api (past @ [rq]) (snd (cached_results api rq cache)) \<and>
     (fst (cached_results api rq cache) = h_validate (rq_run rq) \<or>
      (\<exists>rq'\<in>set past. fst (cached_results api rq cache) = h_validate (rq_run rq') \<and>
          (0 < ttl \<longrightarrow> rq_read rq \<le> rq_write rq' + ttl)))"
proof (cases "ca_get api (rq_read rq) cache")
  case None
  then show ?thesis
    using assms(1) by (auto simp: cached_results_def Let_def cache_from_def cache_ok_def split: if_splits)
next
  case (Some tra)
  then show ?thesis using assms(2) by (auto simp: cached_results_def cache_from_def)
qed

text \<open>What a list of answers owes to the requests: each is reported from a run that its own request or an earlier one started.\<close>

fun fresh :: "int \<Rightarrow> request list \<Rightarrow> request list \<Rightarrow> response list \<Rightarrow> bool" where
  "fresh ttl past [] [] = True"
| "fresh ttl past (rq # rqs) (rp # rps) \<longleftrightarrow>
     (rp_results rp = h_validate (rq_run rq) \<or>
      list_ex (\<lambda>rq'. rp_results rp = h_validate (rq_run rq') \<and> (0 < ttl \<longrightarrow> rq_read rq \<le> rq_write rq' + ttl)) past) \<and>
     fresh ttl (past @ [rq]) rqs rps"
| "fresh ttl past _ _ = False"

lemma serve_all_fresh:
  "cache_ok ttl api \<Longrightarrow> cache_from ttl api past (fst st) \<Longrightarrow> serve_all reg api h P rqs st = Some rps \<Longrightarrow>
   fresh ttl past rqs rps"
proof (induction rqs arbitrary: past st rps)
  case (Cons rq rqs)
  then obtain rp st' rps' where rp: "ServeHTTP reg api h P rq st = Some (rp, st')"
    and rest: "serve_all reg api h P rqs st' = Some rps'" and rps: "rps = rp # rps'"
    by (auto split: option.splits)
  note step = cached_results_from[OF Cons.prems(1,2), of rq, folded ServeHTTP_results[OF rp]]
  with Cons.IH[OF Cons.prems(1) _ rest] show ?case by (simp add: rps list_ex_iff)
qed simp


text \<open>go-cache with one key, as documented: the item with the time it was stored.\<close>

definition one_item_cache :: "int \<Rightarrow> (int \<times> TestResult list list) option cache_api" where
  "one_item_cache ttl =
     \<lparr>ca_get = (\<lambda>now c. case c of None \<Rightarrow> None | Some (t, tra) \<Rightarrow> if 0 < ttl \<and> t + ttl < now then None else Some tra),
      ca_set = (\<lambda>t tra c. Some (t, tra)), ca_new = None\<rparr>"

lemma one_item_cache_ok: "cache_ok ttl (one_item_cache ttl)"
  by (simp add: cache_ok_def one_item_cache_def)

definition sample_handler :: healthHandler where
  "sample_handler =
     \<lparr>h_config = zero_config\<lparr>Config.Cache := 5, OutputFormat := ''silent''\<rparr>, h_gossConfig = NewGossConfig,
      h_render = plain_renderer, h_outputer = Silent\<rparr>"

definition sample_request :: "int \<Rightarrow> TestResult \<Rightarrow> request" where
  "sample_request t r = \<lparr>rq_read = t, rq_write = t, rq_accept = [], rq_run = Ret [[r]]\<rparr>"




lemma negotiate_loop_last:
  "negotiate_loop reg accepts st =
     (if accepts = [] then st
      else (accept_name (last accepts),
            case GetOutputer reg (accept_name (last accepts)) of Inl _ \<Rightarrow> None | Inr out \<Rightarrow> Some out))"
  by (induction accepts arbitrary: st) (auto simp: Let_def)

text \<open>The format of an answer is decided by the last value of the Accept header alone: an earlier acceptable value has no
  effect, and if the last one names no format the server's own format is used.\<close>

lemma negotiate_last:
  "negotiateResponseContentType reg accepts =
     (if accepts = [] then None
      else (case GetOutputer reg (accept_name (last accepts)) of
              Inl _ \<Rightarrow> None
            | Inr out \<Rightarrow> Some (accept_name (last accepts), out)))"
  by (simp add: negotiateResponseContentType_def negotiate_loop_last split: sum.splits)

text \<open>If the tests cannot be run at all, for instance because their dependencies form a cycle, a request that starts the run is
  answered with status 200.\<close>

lemma serve_run_error_healthy:
  assumes "rq_run rq = Err e" and "ca_get api (rq_read rq) (fst st) = None" and "rq_accept rq = []"
    and "h_outputer h \<noteq> Prometheus" and "h_outputer h \<noteq> Structured"
  shows "\<exists>rp st'. ServeHTTP reg api h P rq st = Some (rp, st') \<and> statusCode (rp_res rp) = 200"
proof -
  have tra: "fst (cached_results api rq (fst st)) = []"
    using assms(1,2) by (simp add: cached_results_def h_validate_def Let_def)
  have "clean_groups []" by (simp add: clean_groups_def)
  from Output_known[OF this assms(4,5), of "h_render h" P "snd st" "Config.FormatOptions (h_config h)"] show ?thesis
    by (auto simp: ServeHTTP_def processAndEnsureCached_def h_output_def negotiateResponseContentType_def assms(3) tra
        Let_def case_prod_unfold)
qed

lemma serve_run_error_healthy_witness:
  "\<exists>rp st'. ServeHTTP outputers (one_item_cache 5) sample_handler quiet_env
       ((sample_request 0 fail_result)\<lparr>rq_run := Err (DepCycle ''file:a'')\<rparr>) (None, None) = Some (rp, st') \<and>
     statusCode (rp_res rp) = 200"
  by (rule serve_run_error_healthy) (simp_all add: sample_request_def one_item_cache_def sample_handler_def)

end
