(* ===== verification/Goss_Run.thy ===== *)
theory Goss_Run
  imports Cli Serve
begin

text \<open>
  The entry points of the library and of the command: \<^verbatim>\<open>Validate\<close> and \<^verbatim>\<open>ValidateResults\<close> of validate.go, \<^verbatim>\<open>Serve\<close> of
  serve.go and the validate command of cmd/goss/goss.go, from the configuration of a process to its exit status.
  A call is a relation between the world it runs in and its result, one for every interleaving.
\<close>

section \<open>The world of a run\<close>

text \<open>
  The files, the codecs, the formats, and the machine as the discovery phase and as each attempt sees it;
  \<open>w_elapsed i\<close> is the time that has passed when attempt \<open>i\<close> has been reported.
\<close>

record world =
  w_store :: store_env
  w_vars :: vars_env
  w_stdin :: "string option"
  w_outputers :: registry
  w_render :: renderer
  w_color :: renderer
  w_prom :: prom_env
  w_counters :: "metrics option"
  w_json :: "bool \<Rightarrow> (string \<times> bool) list \<Rightarrow> string + string"
  w_discover :: run_env
  w_attempt :: "nat \<Rightarrow> run_env"
  w_elapsed :: "nat \<Rightarrow> int"

datatype goss_error =
    BadLogLevel string
  | LoadFailed load_error
  | ValidateFailed validate_error
  | DiscoveryFailed discovery_failure

datatype exit = Exit int "goss_error option" | Crash

text \<open>A computation that has no result is one that a panic ends.\<close>

definition or_panic :: "(('e, 'a) outcome \<Rightarrow> bool) \<Rightarrow> ('e, 'a) outcome \<Rightarrow> bool" where
  "or_panic R r \<longleftrightarrow> R r \<or> r = Panic \<and> (\<nexists>r'. R r')"

section \<open>Validate\<close>

definition runDiscoveryPhase ::
  "run_env \<Rightarrow> int \<Rightarrow> (DiscoveryConfig \<Rightarrow> (discovery_failure, (string \<times> bool) list) outcome) \<Rightarrow> bool" where
  "runDiscoveryPhase E maxConcurrent phase \<longleftrightarrow> (\<forall>d. or_panic (validateDiscovery E d maxConcurrent) (phase d))"

text \<open>What loading returns on some run of the discovery phase.\<close>

definition loads :: "world \<Rightarrow> Config \<Rightarrow> (load_error, GossConfig) outcome \<Rightarrow> bool" where
  "loads W c r \<longleftrightarrow>
     (\<exists>phase. runDiscoveryPhase (w_discover W) (MaxConcurrent c) phase \<and>
              r = loadGossConfigWithDiscover (w_store W) (w_vars W) (w_stdin W) phase c)"

primrec exit_of :: "validate_result \<Rightarrow> exit" where
  "exit_of (Returned code err) = Exit code (map_option ValidateFailed err)"
| "exit_of Panicked = Crash"

text \<open>What the attempts of the loop send.\<close>

definition attempts :: "world \<Rightarrow> Config \<Rightarrow> GossConfig \<Rightarrow> (nat \<Rightarrow> (schedule_error, TestResult list list) outcome) \<Rightarrow> bool" where
  "attempts W c cfg run \<longleftrightarrow>
     (\<forall>i. or_panic (runValidation (w_attempt W i) cfg (DisabledResourceTypes c) (MaxConcurrent c)) (run i))"

text \<open>\<^verbatim>\<open>ValidateConfig\<close> with its first branch, the format discovery.\<close>

definition validate_config :: "world \<Rightarrow> Config \<Rightarrow> GossConfig \<Rightarrow> exit \<Rightarrow> bool" where
  "validate_config W c cfg r \<longleftrightarrow>
     (if OutputFormat c = ''discovery''
      then let discovers = validateDiscoveryConfig (w_discover W) (w_json W) (Config.FormatOptions c) cfg (MaxConcurrent c)
           in (\<exists>code err. discovers (code, err) \<and> r = Exit code (map_option DiscoveryFailed err)) \<or>
              r = Crash \<and> (\<nexists>d. discovers d)
      else \<exists>run fuel v. attempts W c cfg run \<and>
             ValidateConfig fuel (w_outputers W) (w_render W) (w_color W) (w_prom W) (w_counters W) c run (w_elapsed W) = Some v \<and>
             r = exit_of v)"

definition goss_Validate :: "world \<Rightarrow> Config \<Rightarrow> exit \<Rightarrow> bool" where
  "goss_Validate W c r \<longleftrightarrow>
     (if setLogLevel c = None then r = Exit 1 (Some (BadLogLevel (LogLevel c)))
      else \<exists>l. loads W c l \<and>
             (case l of
                Err e \<Rightarrow> r = Exit 78 (Some (LoadFailed e))
              | Panic \<Rightarrow> r = Crash
              | Ret cfg \<Rightarrow> validate_config W c cfg r))"

text \<open>One run, neither retried nor reported.\<close>

datatype results_error = ResultsLoad load_error | ResultsRun schedule_error

definition ValidateResults :: "world \<Rightarrow> Config \<Rightarrow> (results_error, TestResult list list) outcome \<Rightarrow> bool" where
  "ValidateResults W c r \<longleftrightarrow>
     (\<exists>l. loads W c l \<and>
        (case l of
           Err e \<Rightarrow> r = Err (ResultsLoad e)
         | Panic \<Rightarrow> r = Panic
         | Ret cfg \<Rightarrow>
             (\<exists>out. or_panic (runValidation (w_attempt W 1) cfg (DisabledResourceTypes c) (MaxConcurrent c)) out \<and>
                    r = map_err ResultsRun out)))"

text \<open>The process: the validate command ends it with the code that \<^verbatim>\<open>Validate\<close> returns.\<close>

definition validate_command :: "world \<Rightarrow> string \<Rightarrow> cli_context \<Rightarrow> exit \<Rightarrow> bool" where
  "validate_command W goos ctx r \<longleftrightarrow>
     (case run_action goos ActValidate ctx of
        CallValidate c \<Rightarrow> goss_Validate W c r
      | _ \<Rightarrow> r = Exit 1 None)"

section \<open>Serve\<close>

text \<open>
  \<^verbatim>\<open>Serve\<close> up to the call that listens: the handler is registered under the endpoint, next to the metrics. \<open>mux ps p\<close> says
  that \<^verbatim>\<open>http.Handle\<close> takes the pattern \<open>p\<close> after the patterns \<open>ps\<close>; it panics when it does not.
\<close>

datatype serve_error = ServeLogLevel string | ServeHandler handler_error

datatype endpoint_handler = HealthHandler healthHandler | MetricsHandler

definition Serve_handlers ::
  "(string list \<Rightarrow> string \<Rightarrow> bool) \<Rightarrow> store_env \<Rightarrow> vars_env \<Rightarrow> string option \<Rightarrow> registry \<Rightarrow> renderer \<Rightarrow> renderer \<Rightarrow> Config \<Rightarrow>
   (serve_error, (string \<times> endpoint_handler) list \<times> string) outcome" where
  "Serve_handlers mux env V stdin reg R Rcolor c =
     (if setLogLevel c = None then Err (ServeLogLevel (LogLevel c))
      else bind_outcome (map_err ServeHandler (newHealthHandler env V stdin reg R Rcolor c))
             (\<lambda>health.
                if \<not> mux [] (Endpoint c) \<or> \<not> mux [Endpoint c] ''/metrics'' then Panic
                else Ret ([(Endpoint c, HealthHandler health), (''/metrics'', MetricsHandler)], ListenAddress c)))"

section \<open>Every run returns\<close>

lemma or_panic_total: "\<exists>r. or_panic R r"
  by (auto simp: or_panic_def)

lemma runDiscoveryPhase_total: "\<exists>phase. runDiscoveryPhase E maxConcurrent phase"
  unfolding runDiscoveryPhase_def by (intro choice allI or_panic_total)

lemma loads_total: "\<exists>l. loads W c l"
  unfolding loads_def using runDiscoveryPhase_total by blast

lemma attempts_total: "\<exists>run. attempts W c cfg run"
  unfolding attempts_def by (intro choice allI or_panic_total)

text \<open>The loop ends with the attempt after which the time is up.\<close>

lemma retry_loop_ends:
  assumes "elapsed n + sleep > retryTimeout" and "i \<le> n"
  shows "\<exists>r. retry_loop (Suc (n - i)) run elapsed report sleep retryTimeout i counters = Some r"
  using assms(2)
proof (induction "n - i" arbitrary: i counters)
  case 0
  then have "i = n" by simp
  then show ?case using assms(1) by (auto split: outcome.split option.split)
next
  case (Suc d)
  then have "n - i = Suc d" "d = n - Suc i" "Suc i \<le> n" by simp_all
  with Suc.hyps(1)[of "Suc i"] show ?case by (auto split: outcome.split option.split)
qed

lemma validate_config_total:
  assumes "1 \<le> n" and "w_elapsed W n + Config.Sleep c > Config.RetryTimeout c"
  shows "\<exists>r. validate_config W c cfg r"
proof (cases "OutputFormat c = ''discovery''")
  case True
  then show ?thesis unfolding validate_config_def Let_def by (simp only: if_True) (metis surj_pair)
next
  case False
  obtain run where run: "attempts W c cfg run" using attempts_total by blast
  have "\<exists>v. ValidateConfig (Suc (n - 1)) (w_outputers W) (w_render W) (w_color W) (w_prom W) (w_counters W) c run (w_elapsed W) = Some v"
    using retry_loop_ends[where elapsed = "w_elapsed W", OF assms(2,1)] by (auto simp: ValidateConfig_def getOutputer_def split: sum.split option.split)
  with run False show ?thesis by (auto simp: validate_config_def)
qed

section \<open>What an exit code says\<close>

lemma run_groups_clean:
  assumes "gomega_ok X" and "wf_run_env E" and "re_validate E = validate_with X sys clk"
    and "runValidation E cfg skipList maxConcurrent (Ret gs)" and "[] \<notin> set gs"
  shows "clean_groups gs"
proof -
  have "Result r \<noteq> UNKNOWN" if "g \<in> set gs" "r \<in> set g" for g r
    using runValidation_groups[OF assms(2,4) that(1)]
  proof
    assume "\<exists>res\<in>set (applyDisabledTypes (Resources cfg) skipList). re_validate E res = Some g"
    then obtain res where "snd (Validate X sys (clk res) res) = Some g"
      by (auto simp: assms(3) validate_with_def)
    from resource_iface.results_wf[OF assms(1) this that(2)] show ?thesis by (auto simp: wf_result_def)
  qed (use that(2) in auto)
  moreover have "g \<noteq> []" if "g \<in> set gs" for g using assms(5) that by blast
  ultimately show ?thesis by (auto simp: clean_groups_def list_all_iff)
qed

text \<open>The loop with attempts that may also fail to run.\<close>

lemma retry_loop_cases:
  assumes report: "\<And>k gs counters. run k = Ret gs \<Longrightarrow>
      \<exists>txt code counters'. report counters gs = Some (txt, code, counters') \<and> (code = 0 \<longleftrightarrow> attempt_passes run k)"
    and "retry_loop fuel run elapsed report sleep retryTimeout i counters = Some v"
  shows "\<exists>j\<ge>i. (\<forall>k. i \<le> k \<and> k < j \<longrightarrow> (\<exists>gs. run k = Ret gs) \<and> \<not> attempt_passes run k \<and> retryTimeout \<noteq> 0) \<and>
    (case run j of
       Err e \<Rightarrow> v = Returned 1 (Some (RunError e))
     | Panic \<Rightarrow> v = Panicked
     | Ret gs \<Rightarrow> loop_result_ok run elapsed sleep retryTimeout j v)"
  using assms(2)
proof (induction fuel arbitrary: i counters)
  case (Suc fuel)
  show ?case
  proof (cases "run i")
    case (Ret gs)
    from report[OF this] obtain t code counters' where
      gs: "report counters gs = Some (t, code, counters')" "code = 0 \<longleftrightarrow> attempt_passes run i" by blast
    show ?thesis
    proof (cases "retryTimeout = 0 \<or> code = 0 \<or> elapsed i + sleep > retryTimeout")
      case True
      with Suc.prems gs Ret have "loop_result_ok run elapsed sleep retryTimeout i v"
        by (auto simp: loop_result_ok_def split: if_splits)
      then show ?thesis using Ret by (intro exI[of _ i]) simp
    next
      case False
      with Suc.prems gs Ret have "retry_loop fuel run elapsed report sleep retryTimeout (Suc i) counters' = Some v" by simp
      from Suc.IH[OF this] obtain j where j: "Suc i \<le> j"
        "\<forall>k. Suc i \<le> k \<and> k < j \<longrightarrow> (\<exists>gs. run k = Ret gs) \<and> \<not> attempt_passes run k \<and> retryTimeout \<noteq> 0"
        "case run j of Err e \<Rightarrow> v = Returned 1 (Some (RunError e)) | Panic \<Rightarrow> v = Panicked
           | Ret gs \<Rightarrow> loop_result_ok run elapsed sleep retryTimeout j v" by blast
      then show ?thesis using False Ret gs(2) by (intro exI[of _ j]) (metis Suc_leD le_antisym not_less_eq_eq)
    qed
  qed (use Suc.prems in \<open>auto intro!: exI[of _ i]\<close>)
qed simp

text \<open>The enabled tests of a configuration, and whether all of them pass in attempt \<open>i\<close>.\<close>

definition enabled_tests :: "Config \<Rightarrow> GossConfig \<Rightarrow> resource set" where
  "enabled_tests c cfg = set (applyDisabledTypes (Resources cfg) (DisabledResourceTypes c))"

definition tests_pass :: "world \<Rightarrow> Config \<Rightarrow> GossConfig \<Rightarrow> nat \<Rightarrow> bool" where
  "tests_pass W c cfg i \<longleftrightarrow>
     (\<forall>res\<in>enabled_tests c cfg. \<forall>results. re_validate (w_attempt W i) res = Some results \<longrightarrow> passed_results results)"

text \<open>
  A world in which the exit code can be trusted: the attempts validate on some system, some worker runs, and every enabled test
  says something.
\<close>

definition sound_world :: "ext \<Rightarrow> (nat \<Rightarrow> System) \<Rightarrow> (nat \<Rightarrow> resource \<Rightarrow> clock) \<Rightarrow> world \<Rightarrow> Config \<Rightarrow> bool" where
  "sound_world X sys clk W c \<longleftrightarrow>
     gomega_ok X \<and> 0 < MaxConcurrent c \<and>
     (\<forall>i. wf_run_env (w_attempt W i) \<and> re_validate (w_attempt W i) = validate_with X (sys i) (clk i)) \<and>
     (\<forall>cfg i. \<forall>res\<in>enabled_tests c cfg. loads W c (Ret cfg) \<longrightarrow> re_validate (w_attempt W i) res \<noteq> Some [])"

lemma attempt_verdict:
  assumes "sound_world X sys clk W c" and "attempts W c cfg run" and "run i = Ret gs"
  shows "attempt_passes run i \<longleftrightarrow> tests_pass W c cfg i"
proof -
  have r: "runValidation (w_attempt W i) cfg (DisabledResourceTypes c) (MaxConcurrent c) (Ret gs)"
    using assms(2,3) by (auto simp: attempts_def or_panic_def dest!: spec[of _ i])
  have "wf_run_env (w_attempt W i)" "0 < MaxConcurrent c" using assms(1) by (simp_all add: sound_world_def)
  from run_verdict[OF this r] show ?thesis
    unfolding attempt_passes_Ret[of run i, OF assms(3)] tests_pass_def enabled_tests_def by blast
qed

lemma skip_groups_nonempty:
  assumes "wf_run_env E" and "runValidation E cfg skipList maxConcurrent (Ret gs)"
    and "\<forall>res\<in>set (applyDisabledTypes (Resources cfg) skipList). re_validate E res \<noteq> Some []"
  shows "[] \<notin> set gs"
proof
  assume "[] \<in> set gs"
  from runValidation_groups[OF assms(1,2) this] assms(3) show False by blast
qed

lemma attempt_reported:
  assumes W: "sound_world X sys clk W c" and cfg: "loads W c (Ret cfg)" and run: "attempts W c cfg run"
    and f: "f \<noteq> Prometheus" "f \<noteq> Structured" and gs: "run k = Ret gs"
  shows "\<exists>txt code counters'. Output f R P counters opts gs = Some (txt, code, counters') \<and> (code = 0 \<longleftrightarrow> attempt_passes run k)"
proof -
  have r: "runValidation (w_attempt W k) cfg (DisabledResourceTypes c) (MaxConcurrent c) (Ret gs)"
    using run gs by (auto simp: attempts_def or_panic_def dest!: spec[of _ k])
  have E: "gomega_ok X" "wf_run_env (w_attempt W k)" "re_validate (w_attempt W k) = validate_with X (sys k) (clk k)"
    using W by (simp_all add: sound_world_def)
  have "[] \<notin> set gs"
    using skip_groups_nonempty[OF E(2) r] W cfg by (auto simp: sound_world_def enabled_tests_def)
  from Output_known[OF run_groups_clean[OF E r this] f, of R P counters opts] gs
  show ?thesis by (auto simp: attempt_passes_Ret simp del: set_concat)
qed

text \<open>What \<^verbatim>\<open>ValidateConfig\<close> returns after attempt \<open>j\<close>, in terms of the tests.\<close>

definition exit_after :: "world \<Rightarrow> Config \<Rightarrow> GossConfig \<Rightarrow> nat \<Rightarrow> exit \<Rightarrow> bool" where
  "exit_after W c cfg j r \<longleftrightarrow>
     (if tests_pass W c cfg j then r = Exit 0 None
      else if Config.RetryTimeout c = 0 then (\<exists>code. code \<noteq> 0 \<and> r = Exit code None)
      else w_elapsed W j + Config.Sleep c > Config.RetryTimeout c \<and> r = Exit 3 (Some (ValidateFailed RetryTimeoutReached)))"

lemma validate_config_exit:
  assumes W: "sound_world X sys clk W c" and cfg: "loads W c (Ret cfg)"
    and o: "GetOutputer (w_outputers W) (OutputFormat c) = Inr f" and f: "f \<noteq> Prometheus" "f \<noteq> Structured"
    and d: "OutputFormat c \<noteq> ''discovery''" and v: "validate_config W c cfg (Exit code err)"
  shows "\<exists>j\<ge>1. (\<forall>k. 1 \<le> k \<and> k < j \<longrightarrow> \<not> tests_pass W c cfg k \<and> Config.RetryTimeout c \<noteq> 0) \<and>
    (exit_after W c cfg j (Exit code err) \<or> (\<exists>e. (code, err) = (1, Some (ValidateFailed (RunError e)))))"
proof -
  obtain run fuel r R where run: "attempts W c cfg run" and r: "Exit code err = exit_of r"
    and l: "retry_loop fuel run (w_elapsed W) (\<lambda>counters gs. Output f R (w_prom W) counters (Config.FormatOptions c) gs)
        (Config.Sleep c) (Config.RetryTimeout c) 1 (w_counters W) = Some r"
    using v d by (auto simp: validate_config_def ValidateConfig_def getOutputer_def o)
  note verdict = attempt_verdict[OF W run]
  from retry_loop_cases[OF attempt_reported[OF W cfg run f] l] obtain j where j: "1 \<le> j"
    "\<forall>k. 1 \<le> k \<and> k < j \<longrightarrow> (\<exists>gs. run k = Ret gs) \<and> \<not> attempt_passes run k \<and> Config.RetryTimeout c \<noteq> 0"
    "case run j of Err e \<Rightarrow> r = Returned 1 (Some (RunError e)) | Panic \<Rightarrow> r = Panicked
       | Ret gs \<Rightarrow> loop_result_ok run (w_elapsed W) (Config.Sleep c) (Config.RetryTimeout c) j r" by blast
  have "exit_after W c cfg j (Exit code err) \<or> (\<exists>e. (code, err) = (1, Some (ValidateFailed (RunError e))))"
  proof (cases "run j")
    case (Ret gs)
    with j(3) verdict[OF Ret] r show ?thesis by (auto simp: loop_result_ok_def exit_after_def split: if_splits)
  qed (use j(3) r in auto)
  with j(1,2) verdict show ?thesis by blast
qed

lemma validate_run_exit:
  assumes "sound_world X sys clk W c"
    and "GetOutputer (w_outputers W) (OutputFormat c) = Inr f" and "f \<noteq> Prometheus" and "f \<noteq> Structured"
    and "OutputFormat c \<noteq> ''discovery''" and "goss_Validate W c (Exit code err)"
  shows "setLogLevel c = None \<and> code = 1 \<and> err = Some (BadLogLevel (LogLevel c)) \<or>
    (\<exists>e. loads W c (Err e) \<and> code = 78 \<and> err = Some (LoadFailed e)) \<or>
    (\<exists>cfg j. loads W c (Ret cfg) \<and> 1 \<le> j \<and> (\<forall>k. 1 \<le> k \<and> k < j \<longrightarrow> \<not> tests_pass W c cfg k \<and> Config.RetryTimeout c \<noteq> 0) \<and>
       (exit_after W c cfg j (Exit code err) \<or> (\<exists>e. code = 1 \<and> err = Some (ValidateFailed (validate_error.RunError e)))))"
proof (cases "setLogLevel c")
  case (Some level)
  with assms(6) obtain l where l: "loads W c l" and
    r: "case l of Err e \<Rightarrow> Exit code err = Exit 78 (Some (LoadFailed e)) | Panic \<Rightarrow> Exit code err = Crash
          | Ret cfg \<Rightarrow> validate_config W c cfg (Exit code err)"
    by (auto simp: goss_Validate_def)
  show ?thesis
  proof (cases l)
    case (Ret cfg)
    with r l have "loads W c (Ret cfg)" "validate_config W c cfg (Exit code err)" by simp_all
    with validate_config_exit[OF assms(1) this(1) assms(2-5)] show ?thesis by blast
  qed (use l r in auto)
qed (use assms(6) in \<open>simp add: goss_Validate_def\<close>)

end
