(* ===== verification/Go_Float.thy ===== *)
theory Go_Float
  imports Complex_Main "HOL-Library.Log_Nat" "HOL-Library.Word"
begin

text \<open>
  Double precision numbers as far as the program computes with them (\<^verbatim>\<open>getUsage\<close> of mount_posix.go): an operation is the
  exact one followed by rounding to the nearest number with 53 significant bits, ties to even. The numbers that occur are
  below \<open>2 ^ 72\<close> and, when they are not zero, above \<open>2 ^ -66\<close> in absolute value, so that no operation overflows to an
  infinity or falls among the subnormal numbers; a zero has no sign here, since nothing is divided by a computed zero.
\<close>

section \<open>Rounding\<close>

definition round_even :: "rat \<Rightarrow> int" where
  "round_even x =
     (let n = \<lfloor>x\<rfloor>; f = x - of_int n in
      if f < 1/2 then n else if 1/2 < f then n + 1 else if even n then n else n + 1)"

text \<open>The exponent of the leading bit of a positive number.\<close>

definition leading_bit :: "rat \<Rightarrow> int" where
  "leading_bit q =
     (let (n, d) = quotient_of q; k = bitlen n - bitlen d in if 2 powi k \<le> q then k else k - 1)"

definition round53 :: "rat \<Rightarrow> rat" where
  "round53 q =
     (if q = 0 then 0
      else let ulp = 2 powi (leading_bit \<bar>q\<bar> - 52) in of_int (round_even (q / ulp)) * ulp)"

section \<open>Numbers and operations\<close>

datatype float64 = Fin rat | PosInf | NegInf | NaN

definition float_of_uint64 :: "64 word \<Rightarrow> float64" where
  "float_of_uint64 w = Fin (round53 (of_nat (unat w)))"

fun float_div :: "float64 \<Rightarrow> float64 \<Rightarrow> float64" where
  "float_div (Fin a) (Fin b) =
     (if b \<noteq> 0 then Fin (round53 (a / b)) else if a = 0 then NaN else if 0 < a then PosInf else NegInf)"
| "float_div (Fin a) PosInf = Fin 0"
| "float_div (Fin a) NegInf = Fin 0"
| "float_div PosInf (Fin b) = (if b < 0 then NegInf else PosInf)"
| "float_div NegInf (Fin b) = (if b < 0 then PosInf else NegInf)"
| "float_div _ _ = NaN"

fun float_neg :: "float64 \<Rightarrow> float64" where
  "float_neg (Fin a) = Fin (- a)"
| "float_neg PosInf = NegInf"
| "float_neg NegInf = PosInf"
| "float_neg NaN = NaN"

fun float_add :: "float64 \<Rightarrow> float64 \<Rightarrow> float64" where
  "float_add (Fin a) (Fin b) = Fin (round53 (a + b))"
| "float_add (Fin a) y = y"
| "float_add x (Fin b) = x"
| "float_add PosInf PosInf = PosInf"
| "float_add NegInf NegInf = NegInf"
| "float_add _ _ = NaN"

definition float_sub :: "float64 \<Rightarrow> float64 \<Rightarrow> float64" where
  "float_sub x y = float_add x (float_neg y)"

text \<open>The product with a positive constant.\<close>

fun float_scale :: "rat \<Rightarrow> float64 \<Rightarrow> float64" where
  "float_scale c (Fin a) = Fin (round53 (a * c))"
| "float_scale c x = x"

text \<open>\<^verbatim>\<open>math.Round\<close>: to the nearest integer, halves away from zero.\<close>

definition round_away :: "rat \<Rightarrow> int" where
  "round_away q = (if 0 \<le> q then \<lfloor>q + 1/2\<rfloor> else - \<lfloor>- q + 1/2\<rfloor>)"

fun math_Round :: "float64 \<Rightarrow> float64" where
  "math_Round (Fin q) = Fin (of_int (round_away q))"
| "math_Round x = x"

text \<open>
  The conversion to \<^verbatim>\<open>int\<close> truncates; of a value that \<^verbatim>\<open>int\<close> cannot hold, the language leaves the result to the
  implementation (\<open>other\<close>).
\<close>

definition int_of_float :: "(float64 \<Rightarrow> int) \<Rightarrow> float64 \<Rightarrow> int" where
  "int_of_float other x =
     (case x of
        Fin q \<Rightarrow> let n = (if 0 \<le> q then \<lfloor>q\<rfloor> else \<lceil>q\<rceil>) in if - (2 ^ 63) \<le> n \<and> n < 2 ^ 63 then n else other x
      | _ \<Rightarrow> other x)"

section \<open>Rounding to integers\<close>

lemma round_even_bounds: "\<lfloor>x\<rfloor> \<le> round_even x" "round_even x \<le> \<lfloor>x\<rfloor> + 1"
  by (simp_all add: round_even_def Let_def)

lemma round_even_error: "\<bar>of_int (round_even x) - x\<bar> \<le> 1/2"
proof -
  have "of_int \<lfloor>x\<rfloor> \<le> x" "x < of_int \<lfloor>x\<rfloor> + 1" by linarith+
  then show ?thesis by (auto simp: round_even_def Let_def abs_le_iff)
qed

lemma round_even_mono: "x \<le> y \<Longrightarrow> round_even x \<le> round_even y"
proof -
  assume le: "x \<le> y"
  show ?thesis
  proof (cases "\<lfloor>x\<rfloor> = \<lfloor>y\<rfloor>")
    case True
    then show ?thesis using le by (auto simp: round_even_def Let_def)
  next
    case False
    then have "\<lfloor>x\<rfloor> + 1 \<le> \<lfloor>y\<rfloor>" using floor_mono[OF le] by linarith
    then show ?thesis using round_even_bounds[of x] round_even_bounds[of y] by linarith
  qed
qed

lemma round_even_of_int [simp]: "round_even (of_int n) = n"
  by (simp add: round_even_def)

lemma round_away_mono: "0 \<le> x \<Longrightarrow> x \<le> y \<Longrightarrow> round_away x \<le> round_away y"
  by (simp add: round_away_def floor_mono)

lemma round_away_error: "0 \<le> x \<Longrightarrow> \<bar>of_int (round_away x) - x\<bar> \<le> 1/2"
proof -
  assume "0 \<le> x"
  moreover have "of_int \<lfloor>x + 1/2\<rfloor> \<le> x + 1/2" "x + 1/2 < of_int \<lfloor>x + 1/2\<rfloor> + 1" by linarith+
  ultimately have "of_int (round_away x) - x \<le> 1/2" "- (of_int (round_away x) - x) \<le> 1/2"
    by (simp_all only: round_away_def if_True)
  then show ?thesis by (rule abs_leI)
qed

lemma round_away_percent: "0 \<le> x \<Longrightarrow> x \<le> 100 \<Longrightarrow> 0 \<le> round_away x \<and> round_away x \<le> 100"
  by (auto simp: round_away_def floor_le_iff le_floor_iff)

section \<open>Rounding to 53 bits\<close>

lemma bitlen_powi: "0 < n \<Longrightarrow> (2 :: rat) powi (bitlen n - 1) \<le> of_int n \<and> of_int n < (2 :: rat) powi bitlen n"
proof -
  assume n: "0 < n"
  then have b: "2 ^ nat (bitlen n - 1) \<le> n" "n < 2 ^ nat (bitlen n)" and p: "0 < bitlen n"
    using bitlen_bounds[OF n] n by (auto simp: bitlen_nonneg order_less_le bitlen_eq_zero_iff)
  have "(of_int (2 ^ nat (bitlen n - 1)) :: rat) \<le> of_int n" "(of_int n :: rat) < of_int (2 ^ nat (bitlen n))"
    using b by (simp_all only: of_int_le_iff of_int_less_iff)
  then show ?thesis using p by (simp add: power_int_def)
qed

lemma leading_bit_bounds: "0 < q \<Longrightarrow> 2 powi leading_bit q \<le> q \<and> q < 2 powi (leading_bit q + 1)"
proof -
  assume q: "0 < q"
  obtain n d where nd: "quotient_of q = (n, d)" by (cases "quotient_of q")
  from nd have d: "0 < d" by (rule quotient_of_denom_pos)
  have q_eq: "q = of_int n / of_int d" using quotient_of_div[OF nd] .
  with q d have n: "0 < n" by (simp add: zero_less_divide_iff)
  let ?k = "bitlen n - bitlen d"
  note bn = bitlen_powi[OF n] and bd = bitlen_powi[OF d]
  have "(2 :: rat) powi (bitlen n - 1) / 2 powi bitlen d \<le> q" "q < 2 powi bitlen n / 2 powi (bitlen d - 1)"
    unfolding q_eq using bn bd d n by (auto intro!: frac_le frac_less simp: less_imp_le)
  then have "2 powi (?k - 1) \<le> q" "q < 2 powi (?k + 1)"
    by (simp_all add: power_int_diff[symmetric] algebra_simps)
  then show ?thesis by (auto simp: leading_bit_def nd Let_def)
qed

lemma leading_bit_mono:
  assumes "0 < x" and "x \<le> y"
  shows "leading_bit x \<le> leading_bit y"
proof (rule ccontr)
  assume "\<not> leading_bit x \<le> leading_bit y"
  then have "(2 :: rat) powi (leading_bit y + 1) \<le> 2 powi leading_bit x" by (simp add: power_int_increasing)
  then show False using leading_bit_bounds[of x] leading_bit_bounds[of y] assms by linarith
qed

definition ulp_of :: "rat \<Rightarrow> rat" where
  "ulp_of q = 2 powi (leading_bit q - 52)"

lemma round53_pos: "0 < q \<Longrightarrow> round53 q = of_int (round_even (q / ulp_of q)) * ulp_of q"
  by (simp add: round53_def ulp_of_def Let_def)

lemma ulp_of_pos [simp]: "0 < ulp_of q"
  by (simp add: ulp_of_def)

lemma ulp_of_bounds: "0 < q \<Longrightarrow> 2 ^ 52 * ulp_of q \<le> q \<and> q < 2 ^ 53 * ulp_of q"
proof -
  assume q: "0 < q"
  have "(2 :: rat) ^ 52 * ulp_of q = 2 powi leading_bit q" "(2 :: rat) ^ 53 * ulp_of q = 2 powi (leading_bit q + 1)"
    by (simp_all add: ulp_of_def power_int_diff power_int_add)
  then show ?thesis using leading_bit_bounds[OF q] by simp
qed

lemma round53_error: "0 \<le> q \<Longrightarrow> \<bar>round53 q - q\<bar> \<le> q / 2 ^ 53"
proof (cases "q = 0")
  case False
  assume "0 \<le> q"
  with False have q: "0 < q" by simp
  let ?u = "ulp_of q"
  have "round53 q - q = (of_int (round_even (q / ?u)) - q / ?u) * ?u"
    using order_less_imp_not_eq2[OF ulp_of_pos[of q]] by (simp add: round53_pos[OF q] left_diff_distrib)
  then have "\<bar>round53 q - q\<bar> = \<bar>of_int (round_even (q / ?u)) - q / ?u\<bar> * ?u"
    by (simp only: abs_mult abs_of_pos[OF ulp_of_pos])
  also have "\<dots> \<le> 1/2 * ?u" using round_even_error[of "q / ?u"] ulp_of_pos[of q] by (intro mult_right_mono) (simp_all only: less_imp_le)
  finally have "\<bar>round53 q - q\<bar> \<le> 1/2 * ?u" .
  then show ?thesis using ulp_of_bounds[OF q] by simp
qed (simp add: round53_def)

lemma round53_zero [simp]: "round53 0 = 0"
  by (simp add: round53_def)

lemma round53_binade: "0 < q \<Longrightarrow> 2 ^ 52 * ulp_of q \<le> round53 q \<and> round53 q \<le> 2 ^ 53 * ulp_of q"
proof -
  assume q: "0 < q"
  then have "of_int (2 ^ 52) \<le> q / ulp_of q" "q / ulp_of q \<le> of_int (2 ^ 53)"
    using ulp_of_bounds[OF q] by (simp_all add: pos_le_divide_eq pos_divide_le_eq)
  from this[THEN round_even_mono] have "2 ^ 52 \<le> round_even (q / ulp_of q)" "round_even (q / ulp_of q) \<le> 2 ^ 53"
    by (simp_all only: round_even_of_int)
  then have "of_int (2 ^ 52) \<le> (of_int (round_even (q / ulp_of q)) :: rat)"
    "(of_int (round_even (q / ulp_of q)) :: rat) \<le> of_int (2 ^ 53)"
    by (simp_all only: of_int_le_iff)
  then show ?thesis by (simp add: round53_pos[OF q])
qed

lemma round53_nonneg: "0 \<le> q \<Longrightarrow> 0 \<le> round53 q"
  using round53_binade[of q] ulp_of_pos[of q] by (cases "q = 0") (auto intro: order_trans[rotated])

lemma round53_mono: "0 \<le> x \<Longrightarrow> x \<le> y \<Longrightarrow> round53 x \<le> round53 y"
proof (cases "x = 0")
  case False
  assume "0 \<le> x" and le: "x \<le> y"
  with False have x: "0 < x" and y: "0 < y" by simp_all
  show ?thesis
  proof (cases "leading_bit x = leading_bit y")
    case True
    then have u: "ulp_of x = ulp_of y" by (simp add: ulp_of_def)
    have "round_even (x / ulp_of y) \<le> round_even (y / ulp_of y)"
      using le by (intro round_even_mono) (simp add: divide_right_mono less_imp_le)
    then show ?thesis by (simp add: round53_pos x y u mult_right_mono less_imp_le)
  next
    case False
    with leading_bit_mono[OF x le] have "leading_bit x + 1 \<le> leading_bit y" by simp
    then have "(2 :: rat) powi (leading_bit x + 1) \<le> 2 powi leading_bit y" by (simp add: power_int_increasing)
    then have "2 ^ 53 * ulp_of x \<le> 2 ^ 52 * ulp_of y" by (simp add: ulp_of_def power_int_diff power_int_add)
    then show ?thesis using round53_binade[OF x] round53_binade[OF y] by linarith
  qed
qed (simp add: round53_nonneg)

lemma round53_of_nat: "n < 2 ^ 53 \<Longrightarrow> round53 (of_nat n) = of_nat n"
proof (cases "n = 0")
  case False
  assume n: "n < 2 ^ 53"
  let ?q = "of_nat n :: rat"
  from False have q: "0 < ?q" by simp
  have "?q < of_nat (2 ^ 53)" using n by (simp only: of_nat_less_iff)
  then have "?q < 2 powi 53" by simp
  have "leading_bit ?q \<le> 52"
  proof (rule ccontr)
    assume "\<not> leading_bit ?q \<le> 52"
    then have "(2 :: rat) powi 53 \<le> 2 powi leading_bit ?q" by (intro power_int_increasing) simp_all
    then show False using leading_bit_bounds[OF q] \<open>?q < 2 powi 53\<close> by linarith
  qed
  then obtain k where k: "leading_bit ?q - 52 = - int k" by (metis diff_le_0_iff_le minus_minus nonneg_int_cases neg_0_le_iff_le)
  then have u: "ulp_of ?q = 1 / 2 ^ k" by (simp add: ulp_of_def power_int_minus divide_inverse)
  have "?q / ulp_of ?q = of_int (int n * 2 ^ k)" by (simp add: u)
  then show ?thesis by (simp only: round53_pos[OF q] round_even_of_int) (simp add: u)
qed simp

section \<open>What the program relies on\<close>

lemma percent_error:
  fixes u v r s x :: rat
  assumes "\<bar>v - r * 100\<bar> \<le> 100 * u" and "\<bar>r - (1 - s)\<bar> \<le> u" and "\<bar>s - x\<bar> \<le> 5 * u"
  shows "\<bar>v - 100 * (1 - x)\<bar> \<le> 700 * u"
proof -
  have "v - 100 * (1 - x) = (v - r * 100) + (100 * (r - (1 - s)) - 100 * (s - x))" by simp
  moreover have "\<bar>100 * (r - (1 - s)) - 100 * (s - x)\<bar> \<le> \<bar>100 * (r - (1 - s))\<bar> + \<bar>100 * (s - x)\<bar>" by (rule abs_triangle_ineq4)
  ultimately have "\<bar>v - 100 * (1 - x)\<bar> \<le> \<bar>v - r * 100\<bar> + (\<bar>100 * (r - (1 - s))\<bar> + \<bar>100 * (s - x)\<bar>)"
    by (simp only:)
  then show ?thesis using assms by (simp add: abs_mult)
qed

text \<open>
  A rounding that is monotone, exact on the integers that occur and has a small relative error: what the bounds of the
  computations need. Rounding to 53 bits is one.
\<close>

locale rounding =
  fixes rnd :: "rat \<Rightarrow> rat" and u :: rat
  assumes rnd_mono: "0 \<le> x \<Longrightarrow> x \<le> y \<Longrightarrow> rnd x \<le> rnd y"
    and rnd_exact: "n \<le> 100 \<Longrightarrow> rnd (of_nat n) = of_nat n"
    and rnd_error: "0 \<le> x \<Longrightarrow> \<bar>rnd x - x\<bar> \<le> u * x"
    and u_small: "0 \<le> u" "u \<le> 1/2"
begin

lemma rnd_consts: "rnd 0 = 0" "rnd 1 = 1" "rnd 100 = 100"
  using rnd_exact[of 0] rnd_exact[of 1] rnd_exact[of 100] by simp_all

lemma rnd_nonneg: "0 \<le> x \<Longrightarrow> 0 \<le> rnd x"
  using rnd_mono[of 0 x] by (simp add: rnd_consts)

lemma rnd_half: "0 \<le> x \<Longrightarrow> x / 2 \<le> rnd x"
proof -
  assume x: "0 \<le> x"
  have "u * x \<le> 1/2 * x" using x u_small by (intro mult_right_mono) auto
  then show ?thesis using rnd_error[OF x] by linarith
qed

text \<open>The share of free blocks, and the used share in per cent.\<close>

definition free_share :: "rat \<Rightarrow> rat \<Rightarrow> rat" where
  "free_share f b = rnd (rnd f / rnd b)"

definition used_percent :: "rat \<Rightarrow> rat \<Rightarrow> rat" where
  "used_percent f b = rnd (rnd (1 - free_share f b) * 100)"

lemma free_share_mono:
  assumes "0 \<le> f" and "f \<le> f'" and "0 < b"
  shows "free_share f b \<le> free_share f' b"
  unfolding free_share_def
  using rnd_mono[OF assms(1,2)] rnd_nonneg[OF assms(1)] rnd_nonneg[of b] assms
  by (intro rnd_mono divide_nonneg_nonneg divide_right_mono) auto

lemma free_share_bounds:
  assumes "0 \<le> f" and "f \<le> b" and "0 < b"
  shows "0 \<le> free_share f b" "free_share f b \<le> 1"
proof -
  have B: "0 < rnd b" using rnd_half[of b] assms(3) by linarith
  have q: "0 \<le> rnd f / rnd b" "rnd f / rnd b \<le> 1"
    using rnd_nonneg[OF assms(1)] rnd_mono[OF assms(1,2)] B by simp_all
  show "0 \<le> free_share f b" unfolding free_share_def using q(1) by (rule rnd_nonneg)
  show "free_share f b \<le> 1" unfolding free_share_def using rnd_mono[OF q] by (simp add: rnd_consts)
qed

lemma used_percent_antimono:
  assumes "0 \<le> f" and "f \<le> f'" and "f' \<le> b" and "0 < b"
  shows "used_percent f' b \<le> used_percent f b"
proof -
  have "rnd (1 - free_share f' b) \<le> rnd (1 - free_share f b)"
    using free_share_mono[OF assms(1,2,4)] free_share_bounds[OF _ assms(3,4)] assms by (intro rnd_mono) auto
  moreover have "0 \<le> rnd (1 - free_share f' b)"
    using free_share_bounds[OF _ assms(3,4)] assms by (intro rnd_nonneg) auto
  ultimately show ?thesis unfolding used_percent_def by (intro rnd_mono) auto
qed

lemma used_percent_bounds:
  assumes "0 \<le> f" and "f \<le> b" and "0 < b"
  shows "0 \<le> used_percent f b" "used_percent f b \<le> 100"
proof -
  note s = free_share_bounds[OF assms]
  have "0 \<le> rnd (1 - free_share f b)" "rnd (1 - free_share f b) \<le> 1"
    using s rnd_nonneg[of "1 - free_share f b"] rnd_mono[of "1 - free_share f b" 1] by (simp_all add: rnd_consts)
  then show "0 \<le> used_percent f b" "used_percent f b \<le> 100"
    using rnd_mono[of "rnd (1 - free_share f b) * 100" 100] by (simp_all add: used_percent_def rnd_consts rnd_nonneg)
qed

lemma free_share_error:
  assumes "0 \<le> f" and "f \<le> b" and "0 < b"
  shows "\<bar>free_share f b - f / b\<bar> \<le> 5 * u"
proof -
  let ?F = "rnd f" and ?B = "rnd b"
  have B: "0 < ?B" "b \<le> 2 * ?B" using rnd_half[of b] assms(3) by linarith+
  have le1: "?F / ?B \<le> 1" using rnd_mono[OF assms(1,2)] B by simp
  have "?F / ?B - f / b = ((?F - f) * b + f * (b - ?B)) / (?B * b)"
    using B assms(3) by (simp add: field_simps)
  also have "\<bar>\<dots>\<bar> \<le> (u * f * b + f * (u * b)) / (?B * b)"
  proof -
    have "\<bar>(?F - f) * b\<bar> \<le> u * f * b" using rnd_error[OF assms(1)] assms(3) by (simp add: abs_mult mult_right_mono)
    moreover have "\<bar>f * (b - ?B)\<bar> \<le> f * (u * b)"
      using rnd_error[of b] assms by (simp add: abs_mult mult_left_mono abs_minus_commute)
    ultimately have "\<bar>(?F - f) * b + f * (b - ?B)\<bar> \<le> u * f * b + f * (u * b)" by linarith
    from divide_right_mono[OF this, of "?B * b"] show ?thesis using B assms(3)
      by (simp only: abs_divide abs_of_pos[OF mult_pos_pos[OF B(1) assms(3)]] less_imp_le mult_nonneg_nonneg)
  qed
  also have "\<dots> = 2 * u * f / ?B" using assms(3) by (simp add: field_simps)
  also have "\<dots> \<le> 4 * u"
  proof -
    have "f \<le> 2 * ?B" using B assms by linarith
    from mult_left_mono[OF this, of "2 * u"] show ?thesis using B(1) u_small by (simp add: pos_divide_le_eq algebra_simps)
  qed
  finally have e: "\<bar>?F / ?B - f / b\<bar> \<le> 4 * u" .
  have "\<bar>free_share f b - ?F / ?B\<bar> \<le> u * (?F / ?B)"
    unfolding free_share_def using rnd_nonneg[OF assms(1)] B by (intro rnd_error) simp
  also have "\<dots> \<le> u" using mult_left_mono[OF le1 u_small(1)] by simp
  finally show ?thesis using e by linarith
qed

lemma used_percent_error:
  assumes "0 \<le> f" and "f \<le> b" and "0 < b"
  shows "\<bar>used_percent f b - 100 * (1 - f / b)\<bar> \<le> 700 * u"
proof -
  let ?s = "1 - free_share f b"
  note s = free_share_bounds[OF assms]
  have t: "\<bar>rnd ?s - ?s\<bar> \<le> u" using rnd_error[of ?s] s mult_left_mono[of ?s 1 u] u_small by simp
  have r: "0 \<le> rnd ?s" "rnd ?s \<le> 1" using s rnd_nonneg[of ?s] rnd_mono[of ?s 1] by (simp_all add: rnd_consts)
  have "\<bar>used_percent f b - rnd ?s * 100\<bar> \<le> 100 * u"
    using rnd_error[of "rnd ?s * 100"] r mult_left_mono[of "rnd ?s * 100" 100 u] u_small
    unfolding used_percent_def by simp
  then show ?thesis using t free_share_error[OF assms] by (rule percent_error)
qed

end

interpretation f64: rounding round53 "1 / 2 ^ 53"
proof (unfold_locales, goal_cases)
  case (1 x y)
  then show ?case by (rule round53_mono)
next
  case (2 n)
  then show ?case by (intro round53_of_nat) simp
next
  case (3 x)
  then show ?case using round53_error[of x] by simp
qed simp_all

end
