(* ===== verification/Sys_Env.thy ===== *)
theory Sys_Env
  imports Sys_Iface Go_Float
begin

text \<open>
  What package system asks of the operating system and of the libraries it calls, as the record
  \<open>os_env\<close>; running a program (util/command.go, util/command_windows.go); waiting for a goroutine with a time limit; and the contract
  of the objects that ask the system once, at their first query, and answer from what they found.
\<close>

section \<open>The operating system\<close>

text \<open>
  What happens when a program is started: the error of \<^verbatim>\<open>Start\<close>, how it ended, and its output. For a caller with a time
  limit, \<open>ex_late\<close> says that the limit passes first, \<open>ex_partial\<close> is the output written by then, and
  \<open>ex_pick\<close> resolves the choice of \<open>select_result\<close> below. \<open>os_Open\<close> opens a file and has what reading it yields, with the error of
  reading.
\<close>

datatype wait_result = WaitOk | WaitExit int | WaitFailed go_error

record exec_run =
  ex_Start :: "go_error option"
  ex_Wait :: wait_result
  ex_Output :: "string \<times> string"
  ex_late :: bool
  ex_pick :: bool
  ex_partial :: "string \<times> string"

datatype fs_error = NotExist go_error | OtherFsError go_error

primrec fs_err :: "fs_error \<Rightarrow> go_error" where
  "fs_err (NotExist e) = e"
| "fs_err (OtherFsError e) = e"

text \<open>\<^verbatim>\<open>os.FileInfo\<close>: the mode of package os, the size, and mode and owners of \<^verbatim>\<open>syscall.Stat_t\<close>.\<close>

record file_info =
  fi_Mode :: "32 word"
  fi_Size :: int
  fi_StatMode :: "32 word"
  fi_Uid :: "32 word"
  fi_Gid :: "32 word"

record os_user =
  ou_Uid :: string
  ou_Gid :: string
  ou_Username :: string
  ou_HomeDir :: string

record os_group =
  og_Gid :: string
  og_Name :: string

record mount_info =
  mi_Options :: string
  mi_VFSOptions :: string
  mi_Source :: string
  mi_FSType :: string

record connection =
  cn_IP :: string
  cn_Port :: "32 word"
  cn_Status :: string
  cn_Pid :: "32 word"

record net_interface =
  ni_Name :: string
  ni_MTU :: int

text \<open>A process of gopsutil with what its methods return.\<close>

record process =
  pr_Pid :: "32 word"
  pr_Name :: "go_error + string"
  pr_Status :: "go_error + string list"
  pr_Username :: "go_error + string"

text \<open>\<^verbatim>\<open>syscall.Statfs_t\<close>, the two fields that are read.\<close>

record statfs =
  st_Bfree :: "64 word"
  st_Blocks :: "64 word"

text \<open>
  The package \<^verbatim>\<open>golang.org/x/sys/windows/registry\<close>: its predefined keys, its codes of value types, and an open key with what its
  methods return for the name of a value.
\<close>

datatype registry_root = LOCAL_MACHINE | CURRENT_USER | CLASSES_ROOT | USERS | CURRENT_CONFIG

datatype value_type = SZ | EXPAND_SZ | DWORD | QWORD | BINARY | MULTI_SZ | OtherType "32 word"

record registry_key =
  rk_GetValue :: "string \<Rightarrow> go_error + value_type"
  rk_GetStringValue :: "string \<Rightarrow> go_error + string"
  rk_GetIntegerValue :: "string \<Rightarrow> go_error + 64 word"
  rk_GetBinaryValue :: "string \<Rightarrow> go_error + 8 word list"
  rk_GetStringsValue :: "string \<Rightarrow> go_error + string list"

text \<open>
  \<open>os_GOOS\<close> also stands for the build: of the files with build constraints, those are compiled that fit it. \<open>os_exec\<close> starts a
  program with its arguments, \<open>os_execLine\<close> one with the command line of \<^verbatim>\<open>SysProcAttr\<close> (Windows). \<open>cpu_int\<close> is the conversion to
  \<^verbatim>\<open>int\<close> of a float that \<^verbatim>\<open>int\<close> cannot hold, which depends on the processor.
\<close>

record os_env =
  os_GOOS :: string
  os_LookPath :: "string \<Rightarrow> go_error option"
  os_exec :: "string list \<Rightarrow> exec_run"
  os_execLine :: "string \<Rightarrow> string \<Rightarrow> exec_run"
  os_Stat :: "string \<Rightarrow> go_error option"
  os_Lstat :: "string \<Rightarrow> fs_error + file_info"
  os_ReadFile :: "string \<Rightarrow> go_error + string"
  os_Open :: "string \<Rightarrow> go_error + string query"
  os_Readlink :: "string \<Rightarrow> go_error + string"
  os_Abs :: "string \<Rightarrow> go_error + string"
  os_Glob :: "string \<Rightarrow> go_error + string list"
  user_Current :: "go_error + os_user"
  user_Lookup :: "string \<Rightarrow> go_error + os_user"
  user_LookupId :: "string \<Rightarrow> go_error + os_user"
  user_LookupGroup :: "string \<Rightarrow> go_error + os_group"
  user_LookupGroupId :: "string \<Rightarrow> go_error + os_group"
  user_GroupIds :: "os_user \<Rightarrow> go_error + string list"
  os_hash :: "string \<Rightarrow> string \<Rightarrow> string"
  os_mounts :: "string \<Rightarrow> go_error + mount_info list"
  os_mounts_late :: "string \<Rightarrow> bool"
  os_Statfs :: "string \<Rightarrow> go_error + statfs"
  cpu_int :: "float64 \<Rightarrow> int"
  os_conns :: "string \<Rightarrow> connection list \<times> go_error option"
  os_processes :: "go_error + process list"
  os_sysctl :: "string \<Rightarrow> go_error + string"
  os_InterfaceByName :: "string \<Rightarrow> go_error + net_interface"
  os_IfaceAddrs :: "net_interface \<Rightarrow> go_error + string list"
  lo_Uniq :: "string list \<Rightarrow> string list"
  os_Dial :: "string \<Rightarrow> string \<Rightarrow> string \<Rightarrow> int \<Rightarrow> bool"
  reg_OpenKey :: "registry_root \<Rightarrow> string \<Rightarrow> go_error + registry_key"

abbreviation on_windows :: "os_env \<Rightarrow> bool" where
  "on_windows env \<equiv> os_GOOS env = ''windows''"

abbreviation for_os :: "os_env \<Rightarrow> 'a \<Rightarrow> 'a \<Rightarrow> 'a" where
  "for_os env posix windows \<equiv> (if on_windows env then windows else posix)"

section \<open>util/command.go\<close>

datatype run_error = ExitError int | RunError go_error

record util_Command =
  cmd_name :: string
  cmd_args :: "string list"
  cmd_CmdLine :: string
  cmd_Stdout :: string
  cmd_Stderr :: string
  cmd_Err :: "run_error option"
  cmd_Status :: int

definition util_NewCommand :: "string \<Rightarrow> string list \<Rightarrow> util_Command" where
  "util_NewCommand name arg =
     \<lparr>cmd_name = name, cmd_args = arg, cmd_CmdLine = [], cmd_Stdout = [], cmd_Stderr = [], cmd_Err = None, cmd_Status = 0\<rparr>"

definition NewCommandForWindowsCmd :: "string \<Rightarrow> string list \<Rightarrow> util_Command" where
  "NewCommandForWindowsCmd name arg = (util_NewCommand name [])\<lparr>cmd_CmdLine := join '' '' arg\<rparr>"

definition NewCommandForWindowsPowershell :: "string \<Rightarrow> string list \<Rightarrow> util_Command" where
  "NewCommandForWindowsPowershell name arg =
     (let cmdLine = ''-NoProfile -Command '' @ name @ (if arg \<noteq> [] then '' '' @ join '' '' arg else [])
      in (util_NewCommand ''powershell'' [])\<lparr>cmd_CmdLine := cmdLine\<rparr>)"

text \<open>What starting the program does: the command line is used when there is one.\<close>

definition cmd_process :: "os_env \<Rightarrow> util_Command \<Rightarrow> exec_run" where
  "cmd_process env c =
     (if cmd_CmdLine c \<noteq> [] then os_execLine env (cmd_name c) (cmd_CmdLine c) else os_exec env (cmd_name c # cmd_args c))"

definition Command_Run :: "os_env \<Rightarrow> util_Command \<Rightarrow> util_Command" where
  "Command_Run env c =
     (case os_LookPath env (cmd_name c) of
        Some err \<Rightarrow> c\<lparr>cmd_Err := Some (RunError err)\<rparr>
      | None \<Rightarrow>
          let x = cmd_process env c in
          (case ex_Start x of
             Some err \<Rightarrow> c\<lparr>cmd_Err := Some (RunError err)\<rparr>
           | None \<Rightarrow>
               let c = c\<lparr>cmd_Stdout := fst (ex_Output x), cmd_Stderr := snd (ex_Output x)\<rparr> in
               (case ex_Wait x of
                  WaitOk \<Rightarrow> c\<lparr>cmd_Status := 0\<rparr>
                | WaitExit status \<Rightarrow> c\<lparr>cmd_Err := Some (ExitError status), cmd_Status := status\<rparr>
                | WaitFailed err \<Rightarrow> c\<lparr>cmd_Err := Some (RunError err)\<rparr>)))"

text \<open>A program run to its end, the form in which the other files call it.\<close>

abbreviation run_program :: "os_env \<Rightarrow> string \<Rightarrow> string list \<Rightarrow> util_Command" where
  "run_program env name arg \<equiv> Command_Run env (util_NewCommand name arg)"

definition go_err_of :: "run_error \<Rightarrow> go_error" where
  "go_err_of e = (case e of ExitError n \<Rightarrow> SysErr ''exit status'' | RunError e \<Rightarrow> e)"

lemma Command_Run_success:
  "cmd_Err (run_program env name arg) = None \<longleftrightarrow>
     os_LookPath env name = None \<and> ex_Start (os_exec env (name # arg)) = None \<and> ex_Wait (os_exec env (name # arg)) = WaitOk"
  by (auto simp: Command_Run_def util_NewCommand_def cmd_process_def Let_def split: option.splits wait_result.splits)

section \<open>Reading lines\<close>

text \<open>The lines a \<^verbatim>\<open>bufio.Scanner\<close> yields whose error is not looked at: it stops silently at a line that is too long.\<close>

definition defaultTokenSize :: nat where
  "defaultTokenSize = 64 * 1024"

definition scanned :: "string \<Rightarrow> string list" where
  "scanned s = map drop_cr (takeWhile (\<lambda>raw. length raw < defaultTokenSize) (raw_lines s))"

section \<open>Waiting with a time limit\<close>

text \<open>
  The goroutines of \<^verbatim>\<open>runCommand\<close> and \<^verbatim>\<open>DNSlookup\<close> send an error on one channel and then a value on another; the caller
  selects between both and a timer. When both values are there, \<open>pick\<close> is the channel that \<^verbatim>\<open>select\<close> takes.
\<close>

definition select_result :: "bool \<Rightarrow> bool \<Rightarrow> 'e \<Rightarrow> 'e option \<Rightarrow> 'a \<Rightarrow> 'e + 'a" where
  "select_result late pick timeout err v =
     (if late then Inl timeout
      else (case err of None \<Rightarrow> Inr v | Some e \<Rightarrow> if pick then Inr v else Inl e))"

section \<open>Objects that load once\<close>

text \<open>
  \<open>load env d\<close> is the error and the object after \<^verbatim>\<open>setup\<close>. A method that calls it first and then only reads the object
  answers, however often and in whatever order it is called and however the system changes meanwhile, from what the
  first call found. \<open>sound\<close> is what a new object satisfies.
\<close>

definition reads_after :: "('e \<Rightarrow> 'd \<Rightarrow> 's \<times> 'd) \<Rightarrow> ('e \<Rightarrow> 'd \<Rightarrow> 'r \<times> 'd) \<Rightarrow> bool" where
  "reads_after load m \<longleftrightarrow> (\<exists>f. \<forall>env d. m env d = (f (load env d), snd (load env d)))"

locale load_once =
  fixes load :: "'e \<Rightarrow> 'd \<Rightarrow> 's \<times> 'd" and sound :: "'d \<Rightarrow> bool"
  assumes load_again: "sound d \<Longrightarrow> load env' (snd (load env d)) = load env d"
begin

lemma answers_fixed:
  assumes "sound d" and "reads_after load m" and "reads_after load m0"
  shows "m env' (snd (m0 env d)) = (fst (m env d), snd (m0 env d))"
proof -
  obtain f f0 where f: "m e x = (f (load e x), snd (load e x))" "m0 e x = (f0 (load e x), snd (load e x))" for e x
    using assms(2,3) by (auto simp: reads_after_def)
  show ?thesis by (simp add: f load_again[OF assms(1)])
qed

lemma object_fixed:
  assumes "sound d" and "reads_after load m" and "reads_after load m0"
  shows "snd (m env' (snd (m0 env d))) = snd (m0 env d)"
  by (simp add: answers_fixed[OF assms])

end

end
