(* ===== verification/Sys_Packages.thy ===== *)
theory Sys_Packages
  imports Sys_Env
begin

text \<open>
  Package managers (package*.go), service managers (service*.go) and the choice between them
  (system.go). A package object is loaded at its first query; reading the output of the package manager
  indexes into lists of words, and an index out of range is a panic (the value None).
\<close>

section \<open>Splitting into words\<close>

text \<open>
  \<^verbatim>\<open>strings.FieldsFunc\<close> with a function that may keep a state, called once for every character in order; \<open>cur\<close> is the
  word being read, reversed.
\<close>

fun fields_func :: "('s \<Rightarrow> char \<Rightarrow> bool \<times> 's) \<Rightarrow> 's \<Rightarrow> string \<Rightarrow> string \<Rightarrow> string list" where
  "fields_func f st cur [] = (if cur = [] then [] else [rev cur])"
| "fields_func f st cur (c # cs) =
     (let (sep, st') = f st c
      in if sep then (if cur = [] then [] else [rev cur]) @ fields_func f st' [] cs
         else fields_func f st' (c # cur) cs)"

definition fields_of :: "string \<Rightarrow> string list" where
  "fields_of s = fields_func (\<lambda>_ c. (c \<in> set white_space, ())) () [] s"

lemma fields_func_nonempty: "w \<in> set (fields_func f st cur s) \<Longrightarrow> w \<noteq> []"
  by (induction f st cur s rule: fields_func.induct) (auto split: prod.splits if_splits)

lemma fields_func_blank:
  "fields_func (\<lambda>_ c. (P c, ())) () cur s = [] \<longleftrightarrow> cur = [] \<and> list_all P s"
  by (induction s arbitrary: cur) auto

lemma fields_of_blank: "fields_of s = [] \<longleftrightarrow> list_all (\<lambda>c. c \<in> set white_space) s"
  by (simp add: fields_of_def fields_func_blank)

section \<open>Packages\<close>

record pkg =
  pk_name :: string
  pk_versions :: "string list"
  pk_loaded :: bool
  pk_installed :: bool

definition new_pkg :: "string \<Rightarrow> pkg" where
  "new_pkg name = \<lparr>pk_name = name, pk_versions = [], pk_loaded = False, pk_installed = False\<rparr>"

definition stdout_lines :: "util_Command \<Rightarrow> string list" where
  "stdout_lines cmd = split_on newline (trim_space (cmd_Stdout cmd))"

subsection \<open>apk\<close>

fun alpine_versions :: "string \<Rightarrow> string list \<Rightarrow> string list option" where
  "alpine_versions name [] = Some []"
| "alpine_versions name (l # ls) =
     (if has_prefix l ''Installed:'' \<or> has_prefix l ''WARNING'' then alpine_versions name ls
      else (case fields_of l of
              [] \<Rightarrow> None
            | w # _ \<Rightarrow> map_option ((#) (trim_prefix w (name @ ''-''))) (alpine_versions name ls)))"

definition AlpinePackage_setup :: "os_env \<Rightarrow> pkg \<Rightarrow> pkg option" where
  "AlpinePackage_setup env p =
     (if pk_loaded p then Some p
      else let p = p\<lparr>pk_loaded := True\<rparr>; cmd = run_program env ''apk'' [''version'', pk_name p] in
        if cmd_Err cmd \<noteq> None then Some p
        else (case alpine_versions (pk_name p) (stdout_lines cmd) of
                None \<Rightarrow> None
              | Some vs \<Rightarrow>
                  let p = p\<lparr>pk_versions := pk_versions p @ vs\<rparr>
                  in Some (if pk_versions p \<noteq> [] then p\<lparr>pk_installed := True\<rparr> else p)))"

subsection \<open>dpkg\<close>

definition deb_installed :: "string \<Rightarrow> bool" where
  "deb_installed l \<longleftrightarrow> has_prefix l ''install ok installed'' \<or> has_prefix l ''hold ok installed''"

fun deb_versions :: "string list \<Rightarrow> string list option" where
  "deb_versions [] = Some []"
| "deb_versions (l # ls) =
     (if \<not> deb_installed l then deb_versions ls
      else if length (fields_of l) \<le> 3 then None
      else map_option ((#) (fields_of l ! 3)) (deb_versions ls))"

definition DebPackage_setup :: "os_env \<Rightarrow> pkg \<Rightarrow> pkg option" where
  "DebPackage_setup env p =
     (if pk_loaded p then Some p
      else let p = p\<lparr>pk_loaded := True\<rparr>;
               cmd = run_program env ''dpkg-query'' [''-f'', ''${Status} ${Version}'' @ [newline], ''-W'', pk_name p] in
        if cmd_Err cmd \<noteq> None then Some p
        else (case deb_versions (stdout_lines cmd) of
                None \<Rightarrow> None
              | Some vs \<Rightarrow>
                  let p = p\<lparr>pk_versions := pk_versions p @ vs\<rparr>
                  in Some (if pk_versions p \<noteq> [] then p\<lparr>pk_installed := True\<rparr> else p)))"

subsection \<open>pacman and rpm\<close>

definition PacmanPackage_setup :: "os_env \<Rightarrow> pkg \<Rightarrow> pkg option" where
  "PacmanPackage_setup env p =
     (if pk_loaded p then Some p
      else let p = p\<lparr>pk_loaded := True\<rparr>;
               cmd = run_program env ''pacman'' [''-Q'', ''--color'', ''never'', ''--noconfirm'', pk_name p] in
        if cmd_Err cmd \<noteq> None then Some p
        else let p = p\<lparr>pk_installed := True\<rparr>; ws = fields_of (cmd_Stdout cmd) in
          if length ws \<le> 1 then None else Some (p\<lparr>pk_versions := [ws ! 1]\<rparr>))"

definition rpm_format :: string where
  "rpm_format = ''%|EPOCH?{%{EPOCH}:}:{}|%{VERSION}-%{RELEASE}'' @ [newline]"

definition RpmPackage_setup :: "os_env \<Rightarrow> pkg \<Rightarrow> pkg option" where
  "RpmPackage_setup env p =
     (if pk_loaded p then Some p
      else let p = p\<lparr>pk_loaded := True\<rparr>;
               cmd = run_program env ''rpm''
                 [''-q'', ''--nosignature'', ''--nohdrchk'', ''--nodigest'', ''--qf'', rpm_format, pk_name p] in
        if cmd_Err cmd \<noteq> None then Some p
        else Some (p\<lparr>pk_installed := True, pk_versions := stdout_lines cmd\<rparr>))"

subsection \<open>Queries\<close>

datatype package_kind = DebPackage | AlpinePackage | PacmanPackage | RpmPackage | NullPackage

definition ErrNullPackage :: go_error where
  "ErrNullPackage =
     SysErr ''could not detect Package type on this system, please use --package flag to explicitly set it''"

definition ErrPackageVersionNotFound :: go_error where
  "ErrPackageVersionNotFound = SysErr ''package version not found''"

fun pkg_setup :: "package_kind \<Rightarrow> os_env \<Rightarrow> pkg \<Rightarrow> pkg option" where
  "pkg_setup DebPackage = DebPackage_setup"
| "pkg_setup AlpinePackage = AlpinePackage_setup"
| "pkg_setup PacmanPackage = PacmanPackage_setup"
| "pkg_setup RpmPackage = RpmPackage_setup"
| "pkg_setup NullPackage = (\<lambda>env p. Some p)"

definition pkg_Installed :: "package_kind \<Rightarrow> os_env \<Rightarrow> pkg \<Rightarrow> (bool query \<times> pkg) option" where
  "pkg_Installed k env p =
     (if k = NullPackage then Some ((False, Some ErrNullPackage), p)
      else map_option (\<lambda>p. ((pk_installed p, None), p)) (pkg_setup k env p))"

definition pkg_Exists :: "package_kind \<Rightarrow> os_env \<Rightarrow> pkg \<Rightarrow> (bool query \<times> pkg) option" where
  "pkg_Exists k env p = pkg_Installed k env p"

definition pkg_Versions :: "package_kind \<Rightarrow> os_env \<Rightarrow> pkg \<Rightarrow> (string list query \<times> pkg) option" where
  "pkg_Versions k env p =
     (if k = NullPackage then Some (([], Some ErrNullPackage), p)
      else map_option (\<lambda>p. if pk_versions p = [] then ((pk_versions p, Some ErrPackageVersionNotFound), p)
                           else ((pk_versions p, None), p)) (pkg_setup k env p))"

text \<open>The answers of a fresh object, as the resources see them.\<close>

definition Package_answers :: "package_kind \<Rightarrow> os_env \<Rightarrow> string \<Rightarrow> SysPackage option" where
  "Package_answers k env name =
     (case (pkg_Exists k env (new_pkg name), pkg_Installed k env (new_pkg name), pkg_Versions k env (new_pkg name)) of
        (Some (ex, _), Some (inst, _), Some (vers, _)) \<Rightarrow>
          Some \<lparr>sp_Name = name, sp_Exists = ex, sp_Installed = inst, sp_Versions = vers\<rparr>
      | _ \<Rightarrow> None)"

subsection \<open>Lemmas\<close>

lemma deb_versions_exact:
  "deb_versions ls = Some vs \<longleftrightarrow>
     (\<forall>l\<in>set ls. deb_installed l \<longrightarrow> 3 < length (fields_of l)) \<and>
     vs = map (\<lambda>l. fields_of l ! 3) (filter deb_installed ls)"
  by (induction ls arbitrary: vs) auto

lemma alpine_versions_exact:
  "alpine_versions name ls = Some vs \<longleftrightarrow>
     (let entries = filter (\<lambda>l. \<not> has_prefix l ''Installed:'' \<and> \<not> has_prefix l ''WARNING'') ls
      in list_all (\<lambda>l. fields_of l \<noteq> []) entries \<and>
         vs = map (\<lambda>l. trim_prefix (hd (fields_of l)) (name @ ''-'')) entries)"
  by (induction ls arbitrary: vs) (auto simp: Let_def split: list.splits)

lemmas pkg_setup_defs = DebPackage_setup_def AlpinePackage_setup_def PacmanPackage_setup_def RpmPackage_setup_def

lemma pkg_setup_loaded: "pk_loaded p \<Longrightarrow> pkg_setup k env p = Some p"
  by (cases k) (simp_all add: pkg_setup_defs)

lemma pkg_setup_loads: "pkg_setup k env p = Some p' \<Longrightarrow> k \<noteq> NullPackage \<Longrightarrow> pk_loaded p'"
  by (cases k) (auto simp: pkg_setup_defs Let_def split: if_splits option.splits)

lemma pkg_setup_again: "pkg_setup k env p = Some p' \<Longrightarrow> pkg_setup k env' p' = Some p'"
  using pkg_setup_loads pkg_setup_loaded by (cases "k = NullPackage") auto

text \<open>A package has a version exactly when it is installed, on every manager.\<close>

lemma pkg_setup_versions:
  assumes "pkg_setup k env (new_pkg name) = Some p"
  shows "pk_versions p \<noteq> [] \<longleftrightarrow> pk_installed p"
  using assms by (cases k)
    (auto simp: new_pkg_def pkg_setup_defs stdout_lines_def Let_def split: if_splits option.splits)

end
