(* ===== verification/Sys_Services.thy ===== *)
theory Sys_Services
  imports Sys_Packages
begin

text \<open>
  Service managers (service*.go) and the detection of the distribution, the package manager and the
  service manager (system.go).
\<close>

section \<open>Services\<close>

definition invalidService :: "string \<Rightarrow> bool" where
  "invalidService s \<longleftrightarrow> CHR ''/'' \<in> set s"

text \<open>The first match of a regular expression in a string: \<open>m\<close> gives the submatch if it matches at the start.\<close>

fun find_submatch :: "(string \<Rightarrow> string option) \<Rightarrow> string \<Rightarrow> string option" where
  "find_submatch m [] = m []"
| "find_submatch m (c # cs) = (case m (c # cs) of Some w \<Rightarrow> Some w | None \<Rightarrow> find_submatch m cs)"

text \<open>
  \<^verbatim>\<open>/etc/rc([0-9]+).d/\<close>, where the dot stands for any character but a newline: the digits are tried from the longest run to
  the shortest.
\<close>

definition rc_level_end :: "string \<Rightarrow> bool" where
  "rc_level_end s \<longleftrightarrow> (case s of c # s' \<Rightarrow> c \<noteq> newline \<and> has_prefix s' ''d/'' | [] \<Rightarrow> False)"

definition rc_level_at :: "string \<Rightarrow> string option" where
  "rc_level_at s =
     (if has_prefix s ''/etc/rc''
      then let rest = drop 7 s; n = length (takeWhile is_digit rest)
           in map_option (\<lambda>k. take k rest) (find (\<lambda>k. rc_level_end (drop k rest)) (rev [1..<Suc n]))
      else None)"

text \<open>\<^verbatim>\<open>/etc/runlevels/([^/]+)\<close>\<close>

definition alpine_level_at :: "string \<Rightarrow> string option" where
  "alpine_level_at s =
     (if has_prefix s ''/etc/runlevels/''
      then let w = takeWhile (\<lambda>c. c \<noteq> CHR ''/'') (drop 15 s) in if w = [] then None else Some w
      else None)"

definition initServiceRunLevels :: "os_env \<Rightarrow> string \<Rightarrow> string list query" where
  "initServiceRunLevels env service =
     (case os_Glob env (''/etc/rc*.d/S[0-9][0-9]'' @ service) of
        Inl err \<Rightarrow> ([], Some err)
      | Inr matches \<Rightarrow> (List.map_filter (find_submatch rc_level_at) matches, None))"

definition alpineServiceRunLevels :: "os_env \<Rightarrow> string \<Rightarrow> string list query" where
  "alpineServiceRunLevels env service =
     (case os_Glob env (''/etc/runlevels/*/'' @ service) of
        Inl err \<Rightarrow> ([], Some err)
      | Inr matches \<Rightarrow> (List.map_filter (find_submatch alpine_level_at) matches, None))"

subsection \<open>init\<close>

record ServiceInit =
  si_service :: string
  si_alpine :: bool
  si_runlevel :: string

definition NewServiceInit :: "string \<Rightarrow> ServiceInit" where
  "NewServiceInit service = \<lparr>si_service = service, si_alpine = False, si_runlevel = []\<rparr>"

definition NewAlpineServiceInit :: "string \<Rightarrow> Config \<Rightarrow> ServiceInit" where
  "NewAlpineServiceInit service config =
     \<lparr>si_service = service, si_alpine = True,
      si_runlevel = (if RunLevel config = [] then ''sysinit'' else RunLevel config)\<rparr>"

definition ServiceInit_Exists :: "os_env \<Rightarrow> ServiceInit \<Rightarrow> bool query" where
  "ServiceInit_Exists env s =
     (if invalidService (si_service s) then (False, None)
      else if os_Stat env (''/etc/init.d/'' @ si_service s) = None then (True, None)
      else (False, None))"

definition ServiceInit_RunLevels :: "os_env \<Rightarrow> ServiceInit \<Rightarrow> string list query" where
  "ServiceInit_RunLevels env s =
     (if invalidService (si_service s) then ([], None)
      else if si_alpine s then alpineServiceRunLevels env (si_service s)
      else initServiceRunLevels env (si_service s))"

definition ServiceInit_Enabled :: "os_env \<Rightarrow> ServiceInit \<Rightarrow> bool query" where
  "ServiceInit_Enabled env s =
     (if invalidService (si_service s) then (False, None)
      else let (runLevels, err) =
                 (if si_alpine s then alpineServiceRunLevels env (si_service s)
                  else initServiceRunLevels env (si_service s))
           in (runLevels \<noteq> [], err))"

definition cmd_ok :: "util_Command \<Rightarrow> bool query option" where
  "cmd_ok cmd = (if cmd_Status cmd = 0 then Some (True, map_option go_err_of (cmd_Err cmd)) else None)"

definition ServiceInit_Running :: "os_env \<Rightarrow> ServiceInit \<Rightarrow> bool query" where
  "ServiceInit_Running env s =
     (if invalidService (si_service s) then (False, None)
      else (case cmd_ok (run_program env ''service'' [si_service s, ''status'']) of
              Some r \<Rightarrow> r | None \<Rightarrow> (False, None)))"

subsection \<open>systemd\<close>

record ServiceSystemd =
  sd_service :: string
  sd_legacy :: bool

text \<open>The fall-back on sysv: what it says counts when it says yes without an error.\<close>

definition yes_or_no :: "bool query \<Rightarrow> bool query" where
  "yes_or_no q = (if fst q \<and> snd q = None then (True, None) else (False, None))"

definition legacy_fallback :: "ServiceSystemd \<Rightarrow> (ServiceInit \<Rightarrow> bool query) \<Rightarrow> bool query" where
  "legacy_fallback s sysv = (if sd_legacy s then yes_or_no (sysv (NewServiceInit (sd_service s))) else (False, None))"

definition ServiceSystemd_Exists :: "os_env \<Rightarrow> ServiceSystemd \<Rightarrow> bool query" where
  "ServiceSystemd_Exists env s =
     (if invalidService (sd_service s) then (False, None)
      else let cmd = run_program env ''systemctl'' [''-q'', ''list-unit-files'', ''--type=service''] in
        if str_contains (cmd_Stdout cmd) (sd_service s @ ''.service'') then (True, map_option go_err_of (cmd_Err cmd))
        else legacy_fallback s (ServiceInit_Exists env))"

definition ServiceSystemd_Enabled :: "os_env \<Rightarrow> ServiceSystemd \<Rightarrow> bool query" where
  "ServiceSystemd_Enabled env s =
     (if invalidService (sd_service s) then (False, None)
      else (case cmd_ok (run_program env ''systemctl'' [''-q'', ''is-enabled'', sd_service s]) of
              Some r \<Rightarrow> r | None \<Rightarrow> legacy_fallback s (ServiceInit_Enabled env)))"

definition ServiceSystemd_Running :: "os_env \<Rightarrow> ServiceSystemd \<Rightarrow> bool query" where
  "ServiceSystemd_Running env s =
     (if invalidService (sd_service s) then (False, None)
      else (case cmd_ok (run_program env ''systemctl'' [''-q'', ''is-active'', sd_service s]) of
              Some r \<Rightarrow> r | None \<Rightarrow> legacy_fallback s (ServiceInit_Running env)))"

definition ServiceSystemd_RunLevels :: "ServiceSystemd \<Rightarrow> string list query" where
  "ServiceSystemd_RunLevels s = ([], None)"

subsection \<open>upstart\<close>

definition upstartDisabled :: "string \<Rightarrow> bool" where
  "upstartDisabled line \<longleftrightarrow> has_prefix line ''manual''"

definition upstartEnabled :: "string \<Rightarrow> bool" where
  "upstartEnabled line \<longleftrightarrow>
     has_prefix (dropWhile (\<lambda>c. c \<in> {CHR 0x09, CHR 0x0A, CHR 0x0C, CHR 0x0D, CHR 0x20}) line) ''start on''"

definition some_line :: "(string \<Rightarrow> bool) \<Rightarrow> go_error + string query \<Rightarrow> bool" where
  "some_line P fh = (case fh of Inl _ \<Rightarrow> False | Inr (data, _) \<Rightarrow> list_ex P (scanned data))"

definition ServiceUpstart_Exists :: "os_env \<Rightarrow> string \<Rightarrow> bool query" where
  "ServiceUpstart_Exists env service =
     (if os_Stat env (''/etc/init/'' @ service @ ''.conf'') = None then (True, None)
      else yes_or_no (ServiceInit_Exists env (NewServiceInit service)))"

definition ServiceUpstart_Enabled :: "os_env \<Rightarrow> string \<Rightarrow> bool query" where
  "ServiceUpstart_Enabled env service =
     (if some_line upstartDisabled (os_Open env (''/etc/init/'' @ service @ ''.override'')) then (False, None)
      else if some_line upstartEnabled (os_Open env (''/etc/init/'' @ service @ ''.conf'')) then (True, None)
      else yes_or_no (ServiceInit_Enabled env (NewServiceInit service)))"

definition ServiceUpstart_Running :: "os_env \<Rightarrow> string \<Rightarrow> bool query" where
  "ServiceUpstart_Running env service =
     (let cmd = run_program env ''service'' [service, ''status''] in
      if cmd_Status cmd = 0 \<and> (str_contains (cmd_Stdout cmd) ''running'' \<or> str_contains (cmd_Stdout cmd) ''online'')
      then (True, map_option go_err_of (cmd_Err cmd)) else (False, None))"

definition ServiceUpstart_RunLevels :: "os_env \<Rightarrow> string \<Rightarrow> string list query" where
  "ServiceUpstart_RunLevels env service = ServiceInit_RunLevels env (NewServiceInit service)"

section \<open>Detection\<close>

definition HasCommand :: "os_env \<Rightarrow> string \<Rightarrow> bool" where
  "HasCommand env cmd \<longleftrightarrow> os_LookPath env cmd = None"

definition isLegacySystemd :: "os_env \<Rightarrow> bool" where
  "isLegacySystemd env =
     (case os_ReadFile env ''/etc/debian_version'' of
        Inl _ \<Rightarrow> False
      | Inr b \<Rightarrow> (case str_index b ''.'' of
                   None \<Rightarrow> False
                 | Some i \<Rightarrow> (case atoi (take i b) of None \<Rightarrow> False | Some major \<Rightarrow> major < 9)))"

definition isRedhat :: "os_env \<Rightarrow> bool" where
  "isRedhat env =
     (if os_Stat env ''/etc/redhat-release'' = None then True
      else if os_Stat env ''/etc/system-release'' = None then True else False)"

definition DetectDistro :: "os_env \<Rightarrow> string" where
  "DetectDistro env =
     (if (case os_ReadFile env ''/etc/lsb-release'' of Inl _ \<Rightarrow> False | Inr b \<Rightarrow> str_contains b ''Ubuntu'') then ''ubuntu''
      else if isRedhat env then ''redhat''
      else if os_Stat env ''/etc/alpine-release'' = None then ''alpine''
      else if os_Stat env ''/etc/arch-release'' = None then ''arch''
      else if os_Stat env ''/etc/debian_version'' = None then ''debian''
      else [])"

definition DetectService :: "os_env \<Rightarrow> string" where
  "DetectService env =
     (if os_GOOS env = ''windows'' then ''windows''
      else if HasCommand env ''systemctl'' then (if isLegacySystemd env then ''systemdlegacy'' else ''systemd'')
      else let distro = DetectDistro env in
        if distro = ''ubuntu'' then ''upstart''
        else if distro = ''alpine'' then ''alpineinit''
        else if distro = ''arch'' then ''systemd''
        else ''init'')"

definition DetectPackageManager :: "os_env \<Rightarrow> string" where
  "DetectPackageManager env =
     (let distro = DetectDistro env in
      if distro = ''ubuntu'' then ''dpkg''
      else if distro = ''redhat'' then ''rpm''
      else if distro = ''alpine'' then ''apk''
      else if distro = ''arch'' then ''pacman''
      else if distro = ''debian'' then ''dpkg''
      else (case find (HasCommand env) [''dpkg'', ''rpm'', ''apk'', ''pacman''] of Some manager \<Rightarrow> manager | None \<Rightarrow> []))"

definition SupportedPackageManagers :: "string list" where
  "SupportedPackageManagers = [''apk'', ''dpkg'', ''pacman'', ''rpm'']"

definition IsSupportedPackageManager :: "string \<Rightarrow> bool" where
  "IsSupportedPackageManager p = list_ex (\<lambda>m. m = p) SupportedPackageManagers"

definition detectPackage :: "os_env \<Rightarrow> string \<Rightarrow> package_kind" where
  "detectPackage env p =
     (let p = (if p \<noteq> ''dpkg'' \<and> p \<noteq> ''apk'' \<and> p \<noteq> ''pacman'' \<and> p \<noteq> ''rpm'' then DetectPackageManager env else p)
      in if p = ''dpkg'' then DebPackage
         else if p = ''apk'' then AlpinePackage
         else if p = ''pacman'' then PacmanPackage
         else RpmPackage)"

datatype service_kind = UpstartService | SystemdService | SystemdLegacyService | AlpineInitService | WindowsService | InitService

definition detectService :: "os_env \<Rightarrow> service_kind" where
  "detectService env =
     (let k = DetectService env in
      if k = ''upstart'' then UpstartService
      else if k = ''systemd'' then SystemdService
      else if k = ''systemdlegacy'' then SystemdLegacyService
      else if k = ''alpineinit'' then AlpineInitService
      else if k = ''windows'' then WindowsService
      else InitService)"

definition init_answers :: "os_env \<Rightarrow> ServiceInit \<Rightarrow> SysService" where
  "init_answers env s =
     \<lparr>ss_Service = si_service s, ss_Exists = ServiceInit_Exists env s, ss_Enabled = ServiceInit_Enabled env s,
      ss_Running = ServiceInit_Running env s, ss_RunLevels = ServiceInit_RunLevels env s\<rparr>"

definition systemd_answers :: "os_env \<Rightarrow> ServiceSystemd \<Rightarrow> SysService" where
  "systemd_answers env s =
     \<lparr>ss_Service = sd_service s, ss_Exists = ServiceSystemd_Exists env s, ss_Enabled = ServiceSystemd_Enabled env s,
      ss_Running = ServiceSystemd_Running env s, ss_RunLevels = ServiceSystemd_RunLevels s\<rparr>"

definition upstart_answers :: "os_env \<Rightarrow> string \<Rightarrow> SysService" where
  "upstart_answers env s =
     \<lparr>ss_Service = s, ss_Exists = ServiceUpstart_Exists env s, ss_Enabled = ServiceUpstart_Enabled env s,
      ss_Running = ServiceUpstart_Running env s, ss_RunLevels = ServiceUpstart_RunLevels env s\<rparr>"

subsection \<open>Windows\<close>

text \<open>The verb \<^verbatim>\<open>%q\<close>; a byte outside ASCII is taken to belong to a printable character and stands for itself.\<close>

definition quote_char :: "char \<Rightarrow> string" where
  "quote_char c =
     (let n = of_char c :: nat; esc = (\<lambda>s. CHR 0x5C # s) in
      if c = CHR 0x22 \<or> c = CHR 0x5C then esc [c]
      else if n = 7 then esc ''a'' else if n = 8 then esc ''b'' else if n = 9 then esc ''t'' else if n = 10 then esc ''n''
      else if n = 11 then esc ''v'' else if n = 12 then esc ''f'' else if n = 13 then esc ''r''
      else if n < 32 \<or> n = 127
      then esc (CHR ''x'' # map (\<lambda>d. if d < 10 then digit_char d else char_of (87 + d)) [n div 16, n mod 16])
      else [c])"

definition go_quote :: "string \<Rightarrow> string" where
  "go_quote s = CHR 0x22 # concat (map quote_char s) @ [CHR 0x22]"

definition ServiceWindows_Exists :: "os_env \<Rightarrow> string \<Rightarrow> bool query" where
  "ServiceWindows_Exists env service =
     (let cmd = Command_Run env (NewCommandForWindowsPowershell ''Get-Service'' [''-Name'', service]) in
      if str_contains (cmd_Stderr cmd) ''Cannot find any service with service name'' then (False, None)
      else (True, map_option go_err_of (cmd_Err cmd)))"

definition get_service :: "string \<Rightarrow> string \<Rightarrow> util_Command" where
  "get_service service prop =
     NewCommandForWindowsPowershell (''$(Get-Service -Name '' @ go_quote service @ '').'' @ prop) []"

definition ServiceWindows_Enabled :: "os_env \<Rightarrow> string \<Rightarrow> bool query" where
  "ServiceWindows_Enabled env service =
     (let cmd = Command_Run env (get_service service ''StartType'') in
      (str_contains (cmd_Stdout cmd) ''Automatic'', map_option go_err_of (cmd_Err cmd)))"

definition ServiceWindows_Running :: "os_env \<Rightarrow> string \<Rightarrow> bool query" where
  "ServiceWindows_Running env service =
     (let cmd = Command_Run env (get_service service ''Status'') in
      (str_contains (cmd_Stdout cmd) ''Running'', map_option go_err_of (cmd_Err cmd)))"

definition ServiceWindows_RunLevels :: "string list query" where
  "ServiceWindows_RunLevels = ([], None)"

definition windows_answers :: "os_env \<Rightarrow> string \<Rightarrow> SysService" where
  "windows_answers env s =
     \<lparr>ss_Service = s, ss_Exists = ServiceWindows_Exists env s, ss_Enabled = ServiceWindows_Enabled env s,
      ss_Running = ServiceWindows_Running env s, ss_RunLevels = ServiceWindows_RunLevels\<rparr>"

text \<open>Away from Windows \<^verbatim>\<open>NewServiceWindows\<close> is the constructor for init.\<close>

fun NewService_of :: "service_kind \<Rightarrow> os_env \<Rightarrow> string \<Rightarrow> Config \<Rightarrow> SysService" where
  "NewService_of UpstartService env service config = upstart_answers env service"
| "NewService_of SystemdService env service config = systemd_answers env \<lparr>sd_service = service, sd_legacy = False\<rparr>"
| "NewService_of SystemdLegacyService env service config = systemd_answers env \<lparr>sd_service = service, sd_legacy = True\<rparr>"
| "NewService_of AlpineInitService env service config = init_answers env (NewAlpineServiceInit service config)"
| "NewService_of WindowsService env service config =
     for_os env (init_answers env (NewServiceInit service)) (windows_answers env service)"
| "NewService_of InitService env service config = init_answers env (NewServiceInit service)"

section \<open>Lemmas\<close>

lemma DetectPackageManager_known: "DetectPackageManager env \<in> set ([] # SupportedPackageManagers)"
  by (auto simp: DetectPackageManager_def SupportedPackageManagers_def Let_def)

lemma IsSupported_iff: "IsSupportedPackageManager p \<longleftrightarrow> p \<in> {''apk'', ''dpkg'', ''pacman'', ''rpm''}"
  by (auto simp: IsSupportedPackageManager_def SupportedPackageManagers_def)

lemma detectPackage_never_Null: "detectPackage env p \<noteq> NullPackage"
  by (simp add: detectPackage_def Let_def)

lemma detectPackage_given:
  "detectPackage env ''apk'' = AlpinePackage" "detectPackage env ''dpkg'' = DebPackage"
  "detectPackage env ''pacman'' = PacmanPackage" "detectPackage env ''rpm'' = RpmPackage"
  by (simp_all add: detectPackage_def)

lemma detectPackage_detected:
  "\<not> IsSupportedPackageManager p \<Longrightarrow> detectPackage env p = detectPackage env (DetectPackageManager env)"
  using DetectPackageManager_known[of env] by (auto simp: detectPackage_def Let_def IsSupported_iff SupportedPackageManagers_def)

text \<open>The answers of the service managers never carry an error of their own when the programs they call can be run.\<close>

lemma cmd_ok_clean: "cmd_ok cmd = Some (b, e) \<Longrightarrow> b \<and> (cmd_Err cmd = None \<longrightarrow> e = None)"
  by (auto simp: cmd_ok_def split: if_splits)

text \<open>A service name with a slash is never found, whichever manager but upstart and that of Windows answers.\<close>

lemma service_invalid:
  assumes "invalidService service" and "k \<noteq> UpstartService" and "k \<noteq> WindowsService"
  shows "ss_Exists (NewService_of k env service config) = (False, None)"
    and "ss_Enabled (NewService_of k env service config) = (False, None)"
    and "ss_Running (NewService_of k env service config) = (False, None)"
  using assms by (cases k; simp add: systemd_answers_def init_answers_def ServiceSystemd_Exists_def ServiceSystemd_Enabled_def
    ServiceSystemd_Running_def ServiceInit_Exists_def ServiceInit_Enabled_def ServiceInit_Running_def NewServiceInit_def
    NewAlpineServiceInit_def)+

text \<open>systemd reports a service as existing when its name is only the end of the name of a unit.\<close>

lemma systemd_exists_suffix:
  assumes "\<not> invalidService s" and "str_contains (cmd_Stdout (run_program env ''systemctl'' [''-q'', ''list-unit-files'', ''--type=service''])) (pre @ s @ ''.service'')"
  shows "fst (ss_Exists (NewService_of SystemdService env s config))"
proof -
  from assms(2) have "str_contains (cmd_Stdout (run_program env ''systemctl'' [''-q'', ''list-unit-files'', ''--type=service''])) (s @ ''.service'')"
    unfolding str_contains_iff by (metis append.assoc)
  with assms(1) show ?thesis by (simp add: systemd_answers_def ServiceSystemd_Exists_def Let_def)
qed

text \<open>On a legacy systemd a service is enabled, running or present whenever systemd alone would say so.\<close>

lemma legacy_extends:
  assumes "fst (ss_Enabled (NewService_of SystemdService env s config))"
  shows "fst (ss_Enabled (NewService_of SystemdLegacyService env s config))"
  using assms
  by (auto simp: systemd_answers_def ServiceSystemd_Enabled_def legacy_fallback_def split: if_splits option.splits)

end
