(* ===== verification/Sys_Host.thy ===== *)
theory Sys_Host
  imports Sys_Services
begin

text \<open>
  Files, users, groups and mounts of the host: file.go, file_posix.go, file_windows.go, user.go, user_group_unix.go,
  user_group_windows.go, user_unix.go, user_unsupported.go, group.go, mount.go, mount_posix.go, mount_windows.go.
\<close>

section \<open>Files\<close>

record DefFile =
  df_path :: string
  df_realPath :: string
  df_loaded :: bool
  df_err :: "go_error option"

definition NewDefFile :: "os_env \<Rightarrow> string \<Rightarrow> DefFile" where
  "NewDefFile env path =
     (let (path, err) =
            (if has_prefix path ''~'' then (path, None)
             else (case os_Abs env path of Inl e \<Rightarrow> ([], Some e) | Inr p \<Rightarrow> (p, None)))
      in \<lparr>df_path = path, df_realPath = [], df_loaded = False, df_err = err\<rparr>)"

definition realPath :: "os_env \<Rightarrow> string \<Rightarrow> go_error + string" where
  "realPath env path =
     (if \<not> has_prefix path ''~'' then Inr path
      else let pathS = split_on (CHR ''/'') path; f = hd pathS in
        (case (if f = ''~'' then user_Current env else user_Lookup env (drop 1 f)) of
           Inl err \<Rightarrow> Inl err
         | Inr usr \<Rightarrow> os_Abs env (join ''/'' (ou_HomeDir usr # tl pathS))))"

definition DefFile_setup :: "os_env \<Rightarrow> DefFile \<Rightarrow> go_error option \<times> DefFile" where
  "DefFile_setup env f =
     (if df_loaded f \<or> df_err f \<noteq> None then (df_err f, f)
      else let f = f\<lparr>df_loaded := True\<rparr> in
        (case realPath env (df_path f) of
           Inl err \<Rightarrow> (Some err, f\<lparr>df_realPath := [], df_err := Some err\<rparr>)
         | Inr p \<Rightarrow> (None, f\<lparr>df_realPath := p, df_err := None\<rparr>)))"

text \<open>The shape of every method: the error of \<^verbatim>\<open>setup\<close>, or the answer for the real path.\<close>

definition with_file :: "'a \<Rightarrow> (os_env \<Rightarrow> string \<Rightarrow> 'a query) \<Rightarrow> os_env \<Rightarrow> DefFile \<Rightarrow> 'a query \<times> DefFile" where
  "with_file zero ask env f =
     (case DefFile_setup env f of
        (Some err, f') \<Rightarrow> ((zero, Some err), f')
      | (None, f') \<Rightarrow> (ask env (df_realPath f'), f'))"

definition lstat_query :: "'a \<Rightarrow> (file_info \<Rightarrow> 'a query) \<Rightarrow> os_env \<Rightarrow> string \<Rightarrow> 'a query" where
  "lstat_query zero ask env path =
     (case os_Lstat env path of Inl err \<Rightarrow> (zero, Some (fs_err err)) | Inr fi \<Rightarrow> ask fi)"

definition DefFile_Exists :: "os_env \<Rightarrow> DefFile \<Rightarrow> bool query \<times> DefFile" where
  "DefFile_Exists =
     with_file False (\<lambda>env path. case os_Lstat env path of
        Inl (NotExist e) \<Rightarrow> (False, None)
      | Inl (OtherFsError e) \<Rightarrow> (True, Some e)
      | Inr fi \<Rightarrow> (True, None))"

text \<open>The value is the reader, with what reading it yields.\<close>

definition DefFile_Contents :: "os_env \<Rightarrow> DefFile \<Rightarrow> (string query) query \<times> DefFile" where
  "DefFile_Contents =
     with_file ([], None) (\<lambda>env path. case os_Open env path of
        Inl err \<Rightarrow> (([], None), Some err)
      | Inr fh \<Rightarrow> (fh, None))"

definition DefFile_Size :: "os_env \<Rightarrow> DefFile \<Rightarrow> int query \<times> DefFile" where
  "DefFile_Size = with_file 0 (lstat_query 0 (\<lambda>fi. (fi_Size fi, None)))"

definition DefFile_LinkedTo :: "os_env \<Rightarrow> DefFile \<Rightarrow> string query \<times> DefFile" where
  "DefFile_LinkedTo =
     with_file [] (\<lambda>env path. case os_Readlink env path of Inl err \<Rightarrow> ([], Some err) | Inr dst \<Rightarrow> (dst, None))"

subsection \<open>The type of a file\<close>

text \<open>The bits of \<^verbatim>\<open>os.FileMode\<close>.\<close>

definition ModeDir :: "32 word" where "ModeDir = push_bit 31 1"
definition ModeSymlink :: "32 word" where "ModeSymlink = push_bit 27 1"
definition ModeDevice :: "32 word" where "ModeDevice = push_bit 26 1"
definition ModeNamedPipe :: "32 word" where "ModeNamedPipe = push_bit 25 1"
definition ModeSocket :: "32 word" where "ModeSocket = push_bit 24 1"
definition ModeCharDevice :: "32 word" where "ModeCharDevice = push_bit 21 1"

definition has_mode :: "32 word \<Rightarrow> 32 word \<Rightarrow> bool" where
  "has_mode mode b \<longleftrightarrow> and mode b = b"

text \<open>The last two cases of the switch, a regular file and anything else, both answer file.\<close>

definition filetype_of :: "32 word \<Rightarrow> string" where
  "filetype_of mode =
     (if has_mode mode ModeSymlink then ''symlink''
      else if has_mode mode ModeDevice
      then (if has_mode mode ModeCharDevice then ''character-device'' else ''block-device'')
      else if has_mode mode ModeNamedPipe then ''pipe''
      else if has_mode mode ModeSocket then ''socket''
      else if and mode ModeDir \<noteq> 0 then ''directory''
      else ''file'')"

definition DefFile_Filetype :: "os_env \<Rightarrow> DefFile \<Rightarrow> string query \<times> DefFile" where
  "DefFile_Filetype = with_file [] (lstat_query [] (\<lambda>fi. (filetype_of (fi_Mode fi), None)))"

subsection \<open>Permissions and owners\<close>

text \<open>\<^verbatim>\<open>%o\<close> and its padding with zeros.\<close>

fun oct_str :: "nat \<Rightarrow> string" where
  "oct_str n = (if n < 8 then [digit_char n] else oct_str (n div 8) @ [digit_char (n mod 8)])"

declare oct_str.simps [simp del]

definition pad_zeros :: "nat \<Rightarrow> string \<Rightarrow> string" where
  "pad_zeros width s = replicate (width - length s) (CHR ''0'') @ s"

definition mode_string :: "32 word \<Rightarrow> string" where
  "mode_string mode = pad_zeros 4 (oct_str (unat (and mode 4095)))"

definition getFileInfo :: "(file_info \<Rightarrow> string) \<Rightarrow> os_env \<Rightarrow> DefFile \<Rightarrow> string query \<times> DefFile" where
  "getFileInfo selectorFunc = with_file [] (lstat_query [] (\<lambda>fi. (selectorFunc fi, None)))"

definition DefFile_Mode :: "os_env \<Rightarrow> DefFile \<Rightarrow> string query \<times> DefFile" where
  "DefFile_Mode env f = getFileInfo (\<lambda>fi. mode_string (fi_StatMode fi)) env f"

definition AtoiErr :: go_error where
  "AtoiErr = SysErr ''strconv.Atoi: parsing: invalid syntax''"

definition info_number :: "(file_info \<Rightarrow> 32 word) \<Rightarrow> os_env \<Rightarrow> DefFile \<Rightarrow> (go_error + int) \<times> DefFile" where
  "info_number sel env f =
     (case getFileInfo (\<lambda>fi. nat_str (unat (sel fi))) env f of
        ((_, Some err), f') \<Rightarrow> (Inl err, f')
      | ((s, None), f') \<Rightarrow> ((case atoi s of None \<Rightarrow> Inl AtoiErr | Some n \<Rightarrow> Inr n), f'))"

definition getent_name :: "os_env \<Rightarrow> string \<Rightarrow> int \<Rightarrow> string query" where
  "getent_name env db n =
     (let cmd = run_program env ''getent'' [db, itoa n] in
      (case cmd_Err cmd of
         Some err \<Rightarrow> ([], Some (SysErr (''no matching entries in '' @ db @ '' file'')))
       | None \<Rightarrow> (hd (split_on (CHR '':'') (cmd_Stdout cmd)), None)))"

definition getUserForUid :: "os_env \<Rightarrow> int \<Rightarrow> string query" where
  "getUserForUid env uid =
     (case user_LookupId env (itoa uid) of
        Inr u \<Rightarrow> (ou_Username u, None)
      | Inl _ \<Rightarrow> getent_name env ''passwd'' uid)"

definition getGroupForGid :: "os_env \<Rightarrow> int \<Rightarrow> string query" where
  "getGroupForGid env gid =
     (case user_LookupGroupId env (itoa gid) of
        Inr g \<Rightarrow> (og_Name g, None)
      | Inl _ \<Rightarrow> getent_name env ''group'' gid)"

definition DefFile_Owner :: "os_env \<Rightarrow> DefFile \<Rightarrow> string query \<times> DefFile" where
  "DefFile_Owner env f =
     (case info_number fi_Uid env f of
        (Inl err, f') \<Rightarrow> (([], Some err), f')
      | (Inr uid, f') \<Rightarrow> (getUserForUid env uid, f'))"

definition DefFile_Uid :: "os_env \<Rightarrow> DefFile \<Rightarrow> int query \<times> DefFile" where
  "DefFile_Uid env f =
     (case info_number fi_Uid env f of
        (Inl err, f') \<Rightarrow> ((-1, Some err), f')
      | (Inr uid, f') \<Rightarrow> ((uid, None), f'))"

definition DefFile_Group :: "os_env \<Rightarrow> DefFile \<Rightarrow> string query \<times> DefFile" where
  "DefFile_Group env f =
     (case info_number fi_Gid env f of
        (Inl err, f') \<Rightarrow> (([], Some err), f')
      | (Inr gid, f') \<Rightarrow> (getGroupForGid env gid, f'))"

definition DefFile_Gid :: "os_env \<Rightarrow> DefFile \<Rightarrow> int query \<times> DefFile" where
  "DefFile_Gid env f =
     (case info_number fi_Gid env f of
        (Inl err, f') \<Rightarrow> ((-1, Some err), f')
      | (Inr gid, f') \<Rightarrow> ((gid, None), f'))"

text \<open>file_windows.go: the same five methods when goss is built for Windows.\<close>

definition DefFile_Mode_windows :: "string query" where
  "DefFile_Mode_windows = (''-1'', None)"

definition DefFile_Owner_windows :: "string query" where
  "DefFile_Owner_windows = (''-1'', None)"

definition DefFile_Uid_windows :: "int query" where
  "DefFile_Uid_windows = (-1, None)"

definition DefFile_Group_windows :: "string query" where
  "DefFile_Group_windows = (''-1'', None)"

definition DefFile_Gid_windows :: "int query" where
  "DefFile_Gid_windows = (-1, None)"

subsection \<open>Hashes\<close>

definition DefFile_hash :: "string \<Rightarrow> os_env \<Rightarrow> DefFile \<Rightarrow> string query \<times> DefFile" where
  "DefFile_hash hashFunc =
     with_file [] (\<lambda>env path. case os_Open env path of
        Inl err \<Rightarrow> ([], Some err)
      | Inr (data, readErr) \<Rightarrow>
          if hashFunc \<noteq> ''md5'' \<and> hashFunc \<noteq> ''sha256'' \<and> hashFunc \<noteq> ''sha512''
          then ([], Some (SysErr (''unsupported hash function '' @ hashFunc)))
          else if readErr \<noteq> None then ([], readErr)
          else (os_hash env hashFunc data, None))"

definition DefFile_Md5 :: "os_env \<Rightarrow> DefFile \<Rightarrow> string query \<times> DefFile" where
  "DefFile_Md5 = DefFile_hash ''md5''"

definition DefFile_Sha256 :: "os_env \<Rightarrow> DefFile \<Rightarrow> string query \<times> DefFile" where
  "DefFile_Sha256 = DefFile_hash ''sha256''"

definition DefFile_Sha512 :: "os_env \<Rightarrow> DefFile \<Rightarrow> string query \<times> DefFile" where
  "DefFile_Sha512 = DefFile_hash ''sha512''"

definition File_answers :: "os_env \<Rightarrow> string \<Rightarrow> SysFile" where
  "File_answers env path =
     (let f = NewDefFile env path in
      \<lparr>sf_Path = df_path f, sf_Exists = fst (DefFile_Exists env f), sf_Contents = fst (DefFile_Contents env f),
       sf_Mode = for_os env (fst (DefFile_Mode env f)) DefFile_Mode_windows, sf_Size = fst (DefFile_Size env f),
       sf_Filetype = fst (DefFile_Filetype env f), sf_Owner = for_os env (fst (DefFile_Owner env f)) DefFile_Owner_windows,
       sf_Uid = for_os env (fst (DefFile_Uid env f)) DefFile_Uid_windows,
       sf_Group = for_os env (fst (DefFile_Group env f)) DefFile_Group_windows,
       sf_Gid = for_os env (fst (DefFile_Gid env f)) DefFile_Gid_windows,
       sf_LinkedTo = fst (DefFile_LinkedTo env f), sf_Md5 = fst (DefFile_Md5 env f),
       sf_Sha256 = fst (DefFile_Sha256 env f), sf_Sha512 = fst (DefFile_Sha512 env f)\<rparr>)"

section \<open>Users and groups\<close>

definition DefUser_Exists :: "os_env \<Rightarrow> string \<Rightarrow> bool query" where
  "DefUser_Exists env username = (case user_Lookup env username of Inl _ \<Rightarrow> (False, None) | Inr _ \<Rightarrow> (True, None))"

definition atoi_query :: "string \<Rightarrow> int query" where
  "atoi_query s = (case atoi s of None \<Rightarrow> (0, Some AtoiErr) | Some n \<Rightarrow> (n, None))"

definition DefUser_UID :: "os_env \<Rightarrow> string \<Rightarrow> int query" where
  "DefUser_UID env username = (case user_Lookup env username of Inl err \<Rightarrow> (0, Some err) | Inr u \<Rightarrow> atoi_query (ou_Uid u))"

definition DefUser_GID :: "os_env \<Rightarrow> string \<Rightarrow> int query" where
  "DefUser_GID env username = (case user_Lookup env username of Inl err \<Rightarrow> (0, Some err) | Inr u \<Rightarrow> atoi_query (ou_Gid u))"

definition DefUser_Home :: "os_env \<Rightarrow> string \<Rightarrow> string query" where
  "DefUser_Home env username = (case user_Lookup env username of Inl err \<Rightarrow> ([], Some err) | Inr u \<Rightarrow> (ou_HomeDir u, None))"

definition DefGroup_Exists :: "os_env \<Rightarrow> string \<Rightarrow> bool query" where
  "DefGroup_Exists env groupname = (case user_LookupGroup env groupname of Inl _ \<Rightarrow> (False, None) | Inr _ \<Rightarrow> (True, None))"

definition DefGroup_GID :: "os_env \<Rightarrow> string \<Rightarrow> int query" where
  "DefGroup_GID env groupname =
     (case user_LookupGroup env groupname of Inl err \<Rightarrow> (0, Some err) | Inr g \<Rightarrow> atoi_query (og_Gid g))"

subsection \<open>The groups of a user\<close>

text \<open>The names one line of the group file adds: the inner \<^verbatim>\<open>continue\<close> only goes on with the next member.\<close>

definition group_line :: "string \<Rightarrow> int \<Rightarrow> string \<Rightarrow> string list" where
  "group_line user pgid line =
     (let parts = split_on (CHR '':'') line in
      if line = [] \<or> length parts \<noteq> 4 then []
      else if atoi (parts ! 2) = Some pgid then [parts ! 0]
      else map (\<lambda>_. parts ! 0) (filter (\<lambda>g. g = user) (split_on (CHR '','') (parts ! 3))))"

fun groups_loop :: "string \<Rightarrow> int \<Rightarrow> string list \<Rightarrow> string list \<Rightarrow> string list" where
  "groups_loop user pgid [] out = out"
| "groups_loop user pgid (line # ls) out = groups_loop user pgid ls (out @ group_line user pgid line)"

definition groupsForUser :: "string \<Rightarrow> int \<Rightarrow> string \<Rightarrow> string list" where
  "groupsForUser user pgid grp = sort (groups_loop user pgid (scanned grp) [])"

definition DefUser_Groups :: "os_env \<Rightarrow> string \<Rightarrow> string list query" where
  "DefUser_Groups env username =
     (case os_Open env ''/etc/group'' of
        Inl err \<Rightarrow> ([], Some err)
      | Inr (grp, _) \<Rightarrow>
          (case DefUser_GID env username of
             (_, Some err) \<Rightarrow> ([], Some err)
           | (pgid, None) \<Rightarrow> (groupsForUser username pgid grp, None)))"

subsection \<open>The shell of a user\<close>

text \<open>
  The lines of \<^verbatim>\<open>bufio.Reader.ReadLine\<close> with its buffer of 4096 bytes: a longer line arrives in pieces, a carriage return at the
  end of a full buffer is put back, and a last line without a newline is taken as it is.
\<close>

function read_lines :: "string \<Rightarrow> string list" where
  "read_lines s =
     (if s = [] then []
      else (case str_index (take 4096 s) [newline] of
              Some i \<Rightarrow> drop_cr (take i s) # read_lines (drop (Suc i) s)
            | None \<Rightarrow>
                if length s < 4096 then [s]
                else if s ! 4095 = carriage_return then take 4095 s # read_lines (drop 4095 s)
                else take 4096 s # read_lines (drop 4096 s)))"
  by pat_completeness auto
termination
  by (relation "measure length") auto

declare read_lines.simps [simp del]

definition errInvalidPasswdEntry :: go_error where
  "errInvalidPasswdEntry = SysErr ''invalid entry in /etc/passwd''"

fun shell_loop :: "string \<Rightarrow> string list \<Rightarrow> string query" where
  "shell_loop username [] = ([], Some (SysErr (''unknown user '' @ username)))"
| "shell_loop username (line # ls) =
     (let fs = split_on (CHR '':'') line in
      if length fs \<noteq> 7 then ([], Some errInvalidPasswdEntry)
      else if fs ! 0 = username then (fs ! 6, None)
      else shell_loop username ls)"

definition DefUser_Shell :: "os_env \<Rightarrow> string \<Rightarrow> string query" where
  "DefUser_Shell env username =
     (case os_Open env ''/etc/passwd'' of
        Inl err \<Rightarrow> ([], Some err)
      | Inr (passwd, _) \<Rightarrow> shell_loop username (read_lines passwd))"

text \<open>user_group_windows.go and user_unsupported.go.\<close>

fun group_names :: "os_env \<Rightarrow> string \<Rightarrow> string list \<Rightarrow> string list \<Rightarrow> string list query" where
  "group_names env username [] groupList = (sort groupList, None)"
| "group_names env username (gid # ids) groupList =
     (case user_LookupGroupId env gid of
        Inl err \<Rightarrow> ([], Some (SysErr (''unable to find groups for user '' @ username)))
      | Inr grp \<Rightarrow> group_names env username ids (groupList @ [og_Name grp]))"

definition DefUser_Groups_windows :: "os_env \<Rightarrow> string \<Rightarrow> string list query" where
  "DefUser_Groups_windows env username =
     (case user_Lookup env username of
        Inl err \<Rightarrow> ([], Some err)
      | Inr usr \<Rightarrow>
          (case user_GroupIds env usr of
             Inl err \<Rightarrow> ([], Some err)
           | Inr ids \<Rightarrow> group_names env (ou_Username usr) ids []))"

definition DefUser_Shell_unsupported :: "string query" where
  "DefUser_Shell_unsupported = ([], Some (SysErr ''unsupported operating system''))"

definition User_answers :: "os_env \<Rightarrow> string \<Rightarrow> SysUser" where
  "User_answers env username =
     \<lparr>su_Username = username, su_Exists = DefUser_Exists env username, su_UID = DefUser_UID env username,
      su_GID = DefUser_GID env username,
      su_Groups = for_os env (DefUser_Groups env username) (DefUser_Groups_windows env username),
      su_Home = DefUser_Home env username,
      su_Shell = for_os env (DefUser_Shell env username) DefUser_Shell_unsupported\<rparr>"

definition Group_answers :: "os_env \<Rightarrow> string \<Rightarrow> SysGroup" where
  "Group_answers env groupname =
     \<lparr>sg_Groupname = groupname, sg_Exists = DefGroup_Exists env groupname, sg_GID = DefGroup_GID env groupname\<rparr>"

section \<open>Mounts\<close>

record DefMount =
  dm_mountPoint :: string
  dm_loaded :: bool
  dm_exists :: bool
  dm_mountInfo :: "mount_info option"
  dm_usage :: int
  dm_Timeout :: int
  dm_err :: "go_error option"

definition NewDefMount :: "string \<Rightarrow> Config \<Rightarrow> DefMount" where
  "NewDefMount mountPoint config =
     \<lparr>dm_mountPoint = mountPoint, dm_loaded = False, dm_exists = False, dm_mountInfo = None, dm_usage = 0,
      dm_Timeout = TimeOutMilliSeconds config, dm_err = None\<rparr>"

definition errMountpointNotFound :: go_error where
  "errMountpointNotFound = SysErr ''mountpoint not found''"

text \<open>Whether the list of mounts arrives within the time limit is up to \<open>os_mounts_late\<close>.\<close>

definition getMount :: "os_env \<Rightarrow> string \<Rightarrow> go_error + mount_info" where
  "getMount env mountpoint =
     (if os_mounts_late env mountpoint then Inl (SysErr ''getMount operation timed out'')
      else (case os_mounts env mountpoint of
              Inl err \<Rightarrow> Inl err
            | Inr [] \<Rightarrow> Inl errMountpointNotFound
            | Inr (entry # _) \<Rightarrow> Inr entry))"

text \<open>mount_posix.go and mount_windows.go.\<close>

definition getUsage_posix :: "os_env \<Rightarrow> string \<Rightarrow> go_error + int" where
  "getUsage_posix env mountpoint =
     (case os_Statfs env mountpoint of
        Inl err \<Rightarrow> Inl err
      | Inr statfsOut \<Rightarrow>
          let percentageFree = float_div (float_of_uint64 (st_Bfree statfsOut)) (float_of_uint64 (st_Blocks statfsOut));
              usage = math_Round (float_scale 100 (float_sub (Fin 1) percentageFree))
          in Inr (int_of_float (cpu_int env) usage))"

definition getUsage_windows :: "string \<Rightarrow> go_error + int" where
  "getUsage_windows mountpoint = Inl (SysErr ''not implemented'')"

definition getUsage :: "os_env \<Rightarrow> string \<Rightarrow> go_error + int" where
  "getUsage env mountpoint = for_os env (getUsage_posix env mountpoint) (getUsage_windows mountpoint)"

definition DefMount_setup :: "os_env \<Rightarrow> DefMount \<Rightarrow> go_error option \<times> DefMount" where
  "DefMount_setup env m =
     (if dm_loaded m then (dm_err m, m)
      else let m = m\<lparr>dm_loaded := True\<rparr> in
        (case getMount env (dm_mountPoint m) of
           Inl err \<Rightarrow> (Some err, m\<lparr>dm_exists := False, dm_err := Some err\<rparr>)
         | Inr info \<Rightarrow>
             let m = m\<lparr>dm_mountInfo := Some info, dm_exists := True\<rparr> in
             (case getUsage env (dm_mountPoint m) of
                Inl err \<Rightarrow> (Some err, m\<lparr>dm_err := Some err\<rparr>)
              | Inr usage \<Rightarrow> (None, m\<lparr>dm_usage := usage\<rparr>))))"

text \<open>\<open>ask\<close> reads the object once it is loaded; \<^verbatim>\<open>mountInfo\<close> is not nil when there is no error.\<close>

definition with_mount :: "'a \<Rightarrow> (DefMount \<Rightarrow> 'a) \<Rightarrow> os_env \<Rightarrow> DefMount \<Rightarrow> 'a query \<times> DefMount" where
  "with_mount zero ask env m =
     (case DefMount_setup env m of
        (Some err, m') \<Rightarrow> ((zero, Some err), m')
      | (None, m') \<Rightarrow> ((ask m', None), m'))"

text \<open>The closure of \<^verbatim>\<open>splitMountInfo\<close>: the state is whether a quotation is open.\<close>

definition mount_sep :: "bool \<Rightarrow> char \<Rightarrow> bool \<times> bool" where
  "mount_sep quoted r =
     (let quoted = (if r = CHR 0x22 then \<not> quoted else quoted) in (\<not> quoted \<and> r = CHR '','', quoted))"

definition splitMountInfo :: "string \<Rightarrow> string list" where
  "splitMountInfo s = fields_func mount_sep False [] s"

definition info_field :: "(mount_info \<Rightarrow> string) \<Rightarrow> DefMount \<Rightarrow> string" where
  "info_field sel m = (case dm_mountInfo m of None \<Rightarrow> [] | Some info \<Rightarrow> sel info)"

definition DefMount_Exists :: "os_env \<Rightarrow> DefMount \<Rightarrow> bool query \<times> DefMount" where
  "DefMount_Exists = with_mount False dm_exists"

definition DefMount_Opts :: "os_env \<Rightarrow> DefMount \<Rightarrow> string list query \<times> DefMount" where
  "DefMount_Opts env = with_mount [] (\<lambda>m. lo_Uniq env (splitMountInfo (info_field mi_Options m))) env"

definition DefMount_VfsOpts :: "os_env \<Rightarrow> DefMount \<Rightarrow> string list query \<times> DefMount" where
  "DefMount_VfsOpts = with_mount [] (\<lambda>m. splitMountInfo (info_field mi_VFSOptions m))"

definition DefMount_Source :: "os_env \<Rightarrow> DefMount \<Rightarrow> string query \<times> DefMount" where
  "DefMount_Source = with_mount [] (info_field mi_Source)"

definition DefMount_Filesystem :: "os_env \<Rightarrow> DefMount \<Rightarrow> string query \<times> DefMount" where
  "DefMount_Filesystem = with_mount [] (info_field mi_FSType)"

definition DefMount_Usage :: "os_env \<Rightarrow> DefMount \<Rightarrow> int query \<times> DefMount" where
  "DefMount_Usage = with_mount (-1) dm_usage"

definition Mount_answers :: "os_env \<Rightarrow> string \<Rightarrow> Config \<Rightarrow> SysMount" where
  "Mount_answers env mountPoint config =
     (let m = NewDefMount mountPoint config in
      \<lparr>sm_MountPoint = mountPoint, sm_Exists = fst (DefMount_Exists env m), sm_Opts = fst (DefMount_Opts env m),
       sm_VfsOpts = fst (DefMount_VfsOpts env m), sm_Source = fst (DefMount_Source env m),
       sm_Filesystem = fst (DefMount_Filesystem env m), sm_Usage = fst (DefMount_Usage env m)\<rparr>)"

section \<open>Lemmas\<close>

subsection \<open>Numbers in decimal and octal\<close>

lemma atoi_nat_str: "n < 2 ^ 63 \<Longrightarrow> atoi (nat_str n) = Some (int n)"
proof -
  assume n: "n < 2 ^ 63"
  obtain c cs where w: "nat_str n = c # cs" using nat_str_digits[of n] by (cases "nat_str n") auto
  have "is_digit c" using nat_str_digits[of n] w by simp
  then have "c \<noteq> CHR ''-''" "c \<noteq> CHR ''+''" by (auto simp: is_digit_def)
  moreover have "int n < 2 ^ 63" using n by (metis of_nat_less_iff of_nat_numeral of_nat_power)
  ultimately show ?thesis using nat_str_digits[of n] n by (simp add: atoi_def Let_def w)
qed

lemma info_number_value:
  "info_number sel env f =
     (case getFileInfo (\<lambda>fi. nat_str (unat (sel fi))) env f of
        ((_, Some err), f') \<Rightarrow> (Inl err, f')
      | ((s, None), f') \<Rightarrow> (Inr (int (unat (sel (projr (os_Lstat env (df_realPath f')))))), f'))"
proof -
  have "unat (w :: 32 word) < 2 ^ 63" for w using unsigned_less[of w, where ?'a = nat] by simp
  from atoi_nat_str[OF this] show ?thesis
    by (auto simp: info_number_def getFileInfo_def with_file_def lstat_query_def split: prod.splits option.splits sum.splits)
qed

definition octal_val :: "string \<Rightarrow> nat" where
  "octal_val s = foldl (\<lambda>n c. 8 * n + ((of_char c :: nat) - 48)) 0 s"

definition is_octal :: "char \<Rightarrow> bool" where
  "is_octal c \<longleftrightarrow> 48 \<le> (of_char c :: nat) \<and> (of_char c :: nat) \<le> 55"

lemma oct_str_digits:
  "list_all is_octal (oct_str n) \<and> octal_val (oct_str n) = n \<and> (n < 8 ^ Suc k \<longrightarrow> length (oct_str n) \<le> Suc k)"
proof (induction n arbitrary: k rule: oct_str.induct)
  case (1 n)
  have d: "is_octal (digit_char m)" if "m < 8" for m
    using of_char_digit[of m] that by (simp add: is_octal_def)
  show ?case
  proof (cases "n < 8")
    case True
    then show ?thesis using d[OF True] by (simp add: oct_str.simps[of n] octal_val_def of_char_digit)
  next
    case False
    have "length (oct_str (n div 8)) \<le> k" if "n < 8 ^ Suc k"
    proof (cases k)
      case 0
      with that False show ?thesis by simp
    next
      case (Suc j)
      with that have "n div 8 < 8 ^ Suc j" by (simp add: less_mult_imp_div_less)
      with 1[OF False, of j] Suc show ?thesis by simp
    qed
    then show ?thesis using 1[OF False] d[of "n mod 8"] False
      by (simp add: oct_str.simps[of n] octal_val_def of_char_digit)
  qed
qed

lemma octal_val_zeros: "octal_val (replicate k (CHR ''0'') @ s) = octal_val s"
  by (induction k) (simp_all add: octal_val_def)

lemma unat_and_4095: "unat (and (m :: 32 word) 4095) = unat m mod 4096"
proof -
  have "and m 4095 = take_bit 12 m"
    by (simp add: take_bit_eq_mask mask_eq_exp_minus_1)
  then show ?thesis by (simp only: unsigned_take_bit_eq) (simp add: take_bit_eq_mod)
qed

lemma mode_string_octal:
  "length (mode_string m) = 4 \<and> list_all is_octal (mode_string m) \<and> octal_val (mode_string m) = unat m mod 4096"
proof -
  let ?n = "unat m mod 4096"
  have "?n < 8 ^ Suc 3" by simp
  then have o: "list_all is_octal (oct_str ?n)" "octal_val (oct_str ?n) = ?n" "length (oct_str ?n) \<le> 4"
    using oct_str_digits[of ?n 3] by auto
  have z: "is_octal (CHR ''0'')" by (simp add: is_octal_def)
  show ?thesis
    using o z by (auto simp: mode_string_def pad_zeros_def unat_and_4095 octal_val_zeros list_all_iff)
qed

subsection \<open>Loading once\<close>

interpretation file_load: load_once DefFile_setup "\<lambda>_. True"
  by unfold_locales (auto simp: DefFile_setup_def Let_def split: sum.splits)

definition mount_sound :: "DefMount \<Rightarrow> bool" where
  "mount_sound m \<longleftrightarrow> dm_loaded m \<or> dm_err m = None"

lemma NewDefMount_sound [simp]: "mount_sound (NewDefMount name config)"
  by (simp add: mount_sound_def NewDefMount_def)

interpretation mount_load: load_once DefMount_setup mount_sound
  by unfold_locales (auto simp: DefMount_setup_def mount_sound_def Let_def split: sum.splits)

lemma with_mount_reads: "reads_after DefMount_setup (with_mount zero ask)"
  unfolding reads_after_def with_mount_def
  by (rule exI[of _ "\<lambda>(err, m). case err of Some e \<Rightarrow> (zero, Some e) | None \<Rightarrow> (ask m, None)"])
    (auto split: prod.splits option.splits)

lemmas DefMount_queries =
  DefMount_Exists_def DefMount_Opts_def DefMount_VfsOpts_def DefMount_Source_def DefMount_Filesystem_def DefMount_Usage_def

text \<open>Once a mount is loaded without an error, its entry is there: no query reads a nil pointer.\<close>

lemma DefMount_setup_info:
  assumes "DefMount_setup env (NewDefMount name config) = (None, m)"
  shows "dm_mountInfo m \<noteq> None \<and> dm_exists m"
  using assms by (auto simp: DefMount_setup_def NewDefMount_def Let_def split: sum.splits)

subsection \<open>Groups\<close>

lemma groups_loop_concat: "groups_loop user pgid ls out = out @ concat (map (group_line user pgid) ls)"
  by (induction ls arbitrary: out) auto

text \<open>A line of the group file and what it says: the name, the id and the members.\<close>

definition lists_group :: "string \<Rightarrow> int \<Rightarrow> string \<Rightarrow> string \<Rightarrow> bool" where
  "lists_group user pgid line name \<longleftrightarrow>
     (\<exists>pass gid members. split_on (CHR '':'') line = [name, pass, gid, members] \<and>
        (atoi gid = Some pgid \<or> user \<in> set (split_on (CHR '','') members)))"

lemma length4: "length xs = 4 \<longleftrightarrow> (\<exists>a b c d. xs = [a, b, c, d])"
  by (simp add: numeral_eq_Suc length_Suc_conv) blast

lemma group_line_lists: "name \<in> set (group_line user pgid line) \<longleftrightarrow> lists_group user pgid line name"
proof (cases "length (split_on (CHR '':'') line) = 4")
  case True
  then obtain a b c d where p: "split_on (CHR '':'') line = [a, b, c, d]" by (auto simp: length4)
  then have "line \<noteq> []" by auto
  with p show ?thesis by (auto simp: group_line_def lists_group_def Let_def)
next
  case False
  then show ?thesis by (auto simp: group_line_def lists_group_def Let_def)
qed

lemma groupsForUser_set: "name \<in> set (groupsForUser user pgid grp) \<longleftrightarrow> (\<exists>line\<in>set (scanned grp). lists_group user pgid line name)"
  by (auto simp: groupsForUser_def groups_loop_concat group_line_lists)

subsection \<open>Mount options\<close>

text \<open>Scanning a text for separators: whether one occurs, and whether a quotation is open at the end.\<close>

fun scan_sep :: "bool \<Rightarrow> string \<Rightarrow> bool \<times> bool" where
  "scan_sep q [] = (False, q)"
| "scan_sep q (c # cs) = (case mount_sep q c of (sep, q') \<Rightarrow> case scan_sep q' cs of (s, q'') \<Rightarrow> (sep \<or> s, q''))"

definition mount_option :: "string \<Rightarrow> bool" where
  "mount_option w \<longleftrightarrow> w \<noteq> [] \<and> scan_sep False w = (False, False)"

lemma fields_func_word:
  "scan_sep q w = (False, q') \<Longrightarrow> fields_func mount_sep q cur (w @ s) = fields_func mount_sep q' (rev w @ cur) s"
  by (induction w arbitrary: q cur) (auto split: prod.splits)

lemma splitMountInfo_Cons:
  "mount_option w \<Longrightarrow> splitMountInfo (w @ CHR '','' # s) = w # splitMountInfo s"
  unfolding splitMountInfo_def mount_option_def
  by (subst fields_func_word[of _ _ False]) (auto simp: mount_sep_def Let_def)

lemma splitMountInfo_single: "mount_option w \<Longrightarrow> splitMountInfo w = [w]"
  unfolding splitMountInfo_def mount_option_def using fields_func_word[of False w False "[]" "[]"] by auto

lemma splitMountInfo_join:
  "list_all mount_option ws \<Longrightarrow> splitMountInfo (join '','' ws) = ws"
  by (induction "'','' :: string" ws rule: join.induct) (auto simp: splitMountInfo_single splitMountInfo_Cons, simp add: splitMountInfo_def)

end
