(* ===== verification/Sys_Tables.thy ===== *)
theory Sys_Tables
  imports Sys_Host
begin

text \<open>
  The tables of connections and processes and the caches of \<^verbatim>\<open>System\<close> (port.go, process.go, system.go).
\<close>

section \<open>Grouping entries under keys\<close>

text \<open>\<^verbatim>\<open>m[k] = append(m[k], v)\<close>\<close>

fun add_entry :: "'k \<Rightarrow> 'v \<Rightarrow> ('k \<times> 'v list) list \<Rightarrow> ('k \<times> 'v list) list" where
  "add_entry k v [] = [(k, [v])]"
| "add_entry k v ((k', vs) # m) = (if k = k' then (k', vs @ [v]) # m else (k', vs) # add_entry k v m)"

definition entries_of :: "('k \<times> 'v list) list \<Rightarrow> 'k \<Rightarrow> 'v list" where
  "entries_of m k = (case map_of m k of None \<Rightarrow> [] | Some vs \<Rightarrow> vs)"

lemma map_of_add_entry: "map_of (add_entry k v m) = (map_of m)(k \<mapsto> entries_of m k @ [v])"
  by (induction m rule: add_entry.induct) (auto simp: entries_of_def fun_eq_iff)

lemma entries_of_Nil [simp]: "entries_of [] k = []"
  by (simp add: entries_of_def)

lemma entries_of_add: "entries_of (add_entry k v m) k' = entries_of m k' @ (if k' = k then [v] else [])"
  by (auto simp: entries_of_def map_of_add_entry)

text \<open>No key without entries: such a map is determined by its lists.\<close>

definition no_empty :: "('k \<times> 'v list) list \<Rightarrow> bool" where
  "no_empty m \<longleftrightarrow> (\<forall>k vs. map_of m k = Some vs \<longrightarrow> vs \<noteq> [])"

lemma no_empty_Nil [simp]: "no_empty []"
  by (simp add: no_empty_def)

lemma no_empty_add: "no_empty m \<Longrightarrow> no_empty (add_entry k v m)"
  by (auto simp: no_empty_def map_of_add_entry)

lemma no_empty_lookup: "no_empty m \<Longrightarrow> map_of m k = (if entries_of m k = [] then None else Some (entries_of m k))"
  by (cases "map_of m k") (auto simp: no_empty_def entries_of_def)

section \<open>Ports\<close>

definition splitPort :: "string \<Rightarrow> string \<times> string" where
  "splitPort fullport =
     (case split2 fullport '':'' of [network, port] \<Rightarrow> (network, port) | _ \<Rightarrow> (''tcp'', fullport))"

definition normalizePort :: "string \<Rightarrow> string" where
  "normalizePort fullport = (let (net, addr) = splitPort fullport in net @ '':'' @ addr)"

definition port_key :: "string \<Rightarrow> connection \<Rightarrow> string" where
  "port_key prefix entry = prefix @ '':'' @ nat_str (unat (cn_Port entry))"

type_synonym port_map = "(string \<times> connection list) list"

fun add_conns :: "string \<Rightarrow> bool \<Rightarrow> connection list \<Rightarrow> port_map \<Rightarrow> port_map" where
  "add_conns prefix listenOnly [] ports = ports"
| "add_conns prefix listenOnly (entry # conns) ports =
     (if listenOnly \<and> cn_Status entry \<noteq> ''LISTEN'' then add_conns prefix listenOnly conns ports
      else add_conns prefix listenOnly conns (add_entry (port_key prefix entry) entry ports))"

definition addConns ::
  "os_env \<Rightarrow> string \<Rightarrow> string \<Rightarrow> bool \<Rightarrow> port_map \<times> go_error option list \<Rightarrow> port_map \<times> go_error option list" where
  "addConns env kind prefix listenOnly acc =
     (let (conns, err) = os_conns env kind
      in (add_conns prefix listenOnly conns (fst acc), snd acc @ [err]))"

text \<open>\<^verbatim>\<open>errors.Join\<close>: nil when all are nil.\<close>

definition join_errs :: "go_error option list \<Rightarrow> go_error option" where
  "join_errs errs = (case List.map_filter id errs of [] \<Rightarrow> None | es \<Rightarrow> Some (JoinedErrs es))"

definition GetPorts :: "os_env \<Rightarrow> port_map \<times> go_error option" where
  "GetPorts env =
     (let acc = addConns env ''tcp4'' ''tcp'' True ([], []);
          acc = addConns env ''tcp6'' ''tcp6'' True acc;
          acc = addConns env ''udp4'' ''udp'' False acc;
          acc = addConns env ''udp6'' ''udp6'' False acc
      in (fst acc, join_errs (snd acc)))"

record DefPort =
  dp_port :: string
  dp_sysPorts :: port_map
  dp_err :: "go_error option"

definition DefPort_Listening :: "DefPort \<Rightarrow> bool query" where
  "DefPort_Listening p =
     (case dp_err p of
        Some err \<Rightarrow> (False, Some err)
      | None \<Rightarrow> (map_of (dp_sysPorts p) (dp_port p) \<noteq> None, None))"

definition DefPort_Exists :: "DefPort \<Rightarrow> bool query" where
  "DefPort_Exists p = DefPort_Listening p"

definition DefPort_IP :: "DefPort \<Rightarrow> string list query" where
  "DefPort_IP p =
     (case dp_err p of
        Some err \<Rightarrow> ([], Some err)
      | None \<Rightarrow> (map cn_IP (entries_of (dp_sysPorts p) (dp_port p)), None))"

definition DefPort_PID :: "DefPort \<Rightarrow> int list query" where
  "DefPort_PID p =
     (case dp_err p of
        Some err \<Rightarrow> ([], Some err)
      | None \<Rightarrow> (map (\<lambda>e. sint (cn_Pid e)) (filter (\<lambda>e. cn_Pid e \<noteq> 0) (entries_of (dp_sysPorts p) (dp_port p))), None))"

section \<open>Processes\<close>

type_synonym proc_map = "(string \<times> process list) list"

fun group_procs :: "process list \<Rightarrow> proc_map \<Rightarrow> proc_map" where
  "group_procs [] pmap = pmap"
| "group_procs (p # ps) pmap =
     (case pr_Name p of
        Inl _ \<Rightarrow> group_procs ps pmap
      | Inr name \<Rightarrow> group_procs ps (add_entry name p pmap))"

definition GetProcs :: "os_env \<Rightarrow> proc_map \<times> go_error option" where
  "GetProcs env =
     (case os_processes env of Inl err \<Rightarrow> ([], Some err) | Inr ps \<Rightarrow> (group_procs ps [], None))"

record DefProcess =
  dr_executable :: string
  dr_procMap :: proc_map
  dr_err :: "go_error option"

definition DefProcess_Pids :: "DefProcess \<Rightarrow> int list query" where
  "DefProcess_Pids p =
     (case dr_err p of
        Some err \<Rightarrow> ([], Some err)
      | None \<Rightarrow> (map (\<lambda>pr. sint (pr_Pid pr)) (entries_of (dr_procMap p) (dr_executable p)), None))"

definition DefProcess_Running :: "DefProcess \<Rightarrow> bool query" where
  "DefProcess_Running p =
     (case dr_err p of
        Some err \<Rightarrow> (False, Some err)
      | None \<Rightarrow> (map_of (dr_procMap p) (dr_executable p) \<noteq> None, None))"

definition DefProcess_Exists :: "DefProcess \<Rightarrow> bool query" where
  "DefProcess_Exists p = DefProcess_Running p"

definition readable :: "(process \<Rightarrow> go_error + 'a) \<Rightarrow> process list \<Rightarrow> 'a list" where
  "readable sel ps = List.map_filter (\<lambda>pr. case sel pr of Inl _ \<Rightarrow> None | Inr x \<Rightarrow> Some x) ps"

definition DefProcess_Status :: "os_env \<Rightarrow> DefProcess \<Rightarrow> string list query" where
  "DefProcess_Status env p =
     (case dr_err p of
        Some err \<Rightarrow> ([], Some err)
      | None \<Rightarrow> (lo_Uniq env (concat (readable pr_Status (entries_of (dr_procMap p) (dr_executable p)))), None))"

definition DefProcess_User :: "os_env \<Rightarrow> DefProcess \<Rightarrow> string list query" where
  "DefProcess_User env p =
     (case dr_err p of
        Some err \<Rightarrow> ([], Some err)
      | None \<Rightarrow> (lo_Uniq env (readable pr_Username (entries_of (dr_procMap p) (dr_executable p))), None))"

section \<open>The caches of System\<close>

record sys_cache =
  sc_ports :: port_map
  sc_portsErr :: "go_error option"
  sc_portsOnce :: bool
  sc_procMap :: proc_map
  sc_procOnce :: bool

definition new_cache :: sys_cache where
  "new_cache = \<lparr>sc_ports = [], sc_portsErr = None, sc_portsOnce = False, sc_procMap = [], sc_procOnce = False\<rparr>"

definition System_Ports :: "os_env \<Rightarrow> sys_cache \<Rightarrow> (port_map \<times> go_error option) \<times> sys_cache" where
  "System_Ports env s =
     (let s = (if sc_portsOnce s then s
               else let (ports, err) = GetPorts env in s\<lparr>sc_ports := ports, sc_portsErr := err, sc_portsOnce := True\<rparr>)
      in ((sc_ports s, sc_portsErr s), s))"

definition System_ProcMap :: "os_env \<Rightarrow> sys_cache \<Rightarrow> (proc_map \<times> go_error option) \<times> sys_cache" where
  "System_ProcMap env s =
     (if sc_procOnce s then ((sc_procMap s, None), s)
      else let (pmap, err) = GetProcs env; s = s\<lparr>sc_procMap := pmap, sc_procOnce := True\<rparr>
           in ((sc_procMap s, err), s))"

definition NewDefPort :: "os_env \<Rightarrow> string \<Rightarrow> sys_cache \<Rightarrow> DefPort \<times> sys_cache" where
  "NewDefPort env port s =
     (let ((sysPorts, err), s') = System_Ports env s
      in (\<lparr>dp_port = normalizePort port, dp_sysPorts = sysPorts, dp_err = err\<rparr>, s'))"

definition NewDefProcess :: "os_env \<Rightarrow> string \<Rightarrow> sys_cache \<Rightarrow> DefProcess \<times> sys_cache" where
  "NewDefProcess env executable s =
     (let ((pmap, err), s') = System_ProcMap env s
      in (\<lparr>dr_executable = executable, dr_procMap = pmap, dr_err = err\<rparr>, s'))"

definition port_answers :: "DefPort \<Rightarrow> SysPort" where
  "port_answers p =
     \<lparr>so_Port = dp_port p, so_Exists = DefPort_Exists p, so_Listening = DefPort_Listening p,
      so_IP = DefPort_IP p, so_PID = DefPort_PID p\<rparr>"

definition process_answers :: "os_env \<Rightarrow> DefProcess \<Rightarrow> SysProcess" where
  "process_answers env p =
     \<lparr>sr_Executable = dr_executable p, sr_Exists = DefProcess_Exists p, sr_Running = DefProcess_Running p,
      sr_Pids = DefProcess_Pids p, sr_Status = DefProcess_Status env p, sr_User = DefProcess_User env p\<rparr>"

section \<open>Lemmas\<close>

lemma splitPort_network: "splitPort s = (net, addr) \<Longrightarrow> CHR '':'' \<notin> set net"
proof (cases "CHR '':'' \<in> set s")
  case True
  then obtain a b where "split2 s '':'' = [a, b]" "CHR '':'' \<notin> set a" by (rule split2_char_obtain)
  moreover assume "splitPort s = (net, addr)"
  ultimately show ?thesis by (simp add: splitPort_def)
next
  case False
  then have "split2 s '':'' = [s]" using split2_cases[of s "'':''"] by auto
  moreover assume "splitPort s = (net, addr)"
  ultimately show ?thesis by (auto simp: splitPort_def)
qed

lemma splitPort_join: "CHR '':'' \<notin> set net \<Longrightarrow> splitPort (net @ '':'' @ addr) = (net, addr)"
  using split2_char[of "CHR '':''" net addr] by (simp add: splitPort_def)

lemma normalizePort_split: "splitPort (normalizePort s) = splitPort s"
proof -
  obtain net addr where n: "splitPort s = (net, addr)" by fastforce
  from splitPort_join[OF splitPort_network[OF n], of addr] n show ?thesis by (simp add: normalizePort_def)
qed

lemma normalizePort_idem: "normalizePort (normalizePort s) = normalizePort s"
  by (simp add: normalizePort_def[of "normalizePort s"] normalizePort_split) (simp add: normalizePort_def)

lemma join_errs_None: "join_errs errs = None \<longleftrightarrow> (\<forall>e\<in>set errs. e = None)"
proof -
  have "join_errs errs = None \<longleftrightarrow> List.map_filter id errs = []" by (simp add: join_errs_def split: list.splits)
  also have "\<dots> \<longleftrightarrow> (\<forall>e\<in>set errs. e = None)" by (simp add: List.map_filter_def filter_empty_conv)
  finally show ?thesis .
qed

lemma add_conns_entries:
  "entries_of (add_conns prefix listenOnly conns ports) key =
     entries_of ports key @ filter (\<lambda>e. (listenOnly \<longrightarrow> cn_Status e = ''LISTEN'') \<and> port_key prefix e = key) conns"
  by (induction prefix listenOnly conns ports rule: add_conns.induct) (auto simp: entries_of_add)

lemma add_conns_no_empty: "no_empty ports \<Longrightarrow> no_empty (add_conns prefix listenOnly conns ports)"
  by (induction prefix listenOnly conns ports rule: add_conns.induct) (auto simp: no_empty_add)

text \<open>The four tables in the order they are read, and the connections that a key stands for.\<close>

definition tables :: "(string \<times> string \<times> bool) list" where
  "tables = [(''tcp4'', ''tcp'', True), (''tcp6'', ''tcp6'', True), (''udp4'', ''udp'', False), (''udp6'', ''udp6'', False)]"

definition connections_at :: "os_env \<Rightarrow> string \<Rightarrow> connection list" where
  "connections_at env key =
     concat (map (\<lambda>(kind, prefix, listenOnly).
        filter (\<lambda>e. (listenOnly \<longrightarrow> cn_Status e = ''LISTEN'') \<and> port_key prefix e = key) (fst (os_conns env kind))) tables)"

lemma GetPorts_entries: "entries_of (fst (GetPorts env)) key = connections_at env key"
  by (simp add: GetPorts_def addConns_def add_conns_entries connections_at_def tables_def Let_def case_prod_beta)

lemma GetPorts_no_empty: "no_empty (fst (GetPorts env))"
  by (simp add: GetPorts_def addConns_def Let_def add_conns_no_empty case_prod_beta)

lemma GetPorts_error: "snd (GetPorts env) = None \<longleftrightarrow> (\<forall>(kind, _)\<in>set tables. snd (os_conns env kind) = None)"
  by (auto simp: GetPorts_def addConns_def Let_def join_errs_None tables_def case_prod_beta)

lemma port_key_inj:
  "CHR '':'' \<notin> set p \<Longrightarrow> CHR '':'' \<notin> set q \<Longrightarrow> p @ '':'' @ s = q @ '':'' @ t \<Longrightarrow> p = q \<and> s = t"
  using splitPort_join[of p s] splitPort_join[of q t] by (metis prod.inject)

lemma Ports_loaded:
  "sc_portsOnce s \<Longrightarrow> System_Ports env s = ((sc_ports s, sc_portsErr s), s)"
  by (simp add: System_Ports_def)

text \<open>The ports are read once, with their error.\<close>

interpretation ports_cache: load_once System_Ports "\<lambda>_. True"
  by unfold_locales (auto simp: System_Ports_def Let_def split: prod.splits)

lemma ProcMap_again:
  "fst (System_ProcMap env' (snd (System_ProcMap env s))) = (fst (fst (System_ProcMap env s)), None)"
  by (auto simp: System_ProcMap_def Let_def split: prod.splits)

lemma group_procs_entries:
  "entries_of (group_procs ps pmap) name = entries_of pmap name @ filter (\<lambda>p. pr_Name p = Inr name) ps"
  by (induction ps pmap rule: group_procs.induct) (auto simp: entries_of_add split: sum.splits)

lemma group_procs_no_empty: "no_empty pmap \<Longrightarrow> no_empty (group_procs ps pmap)"
  by (induction ps pmap rule: group_procs.induct) (auto simp: no_empty_add split: sum.splits)

lemma GetProcs_running:
  assumes "os_processes env = Inr ps"
  shows "map_of (fst (GetProcs env)) name \<noteq> None \<longleftrightarrow> (\<exists>p\<in>set ps. pr_Name p = Inr name)"
proof -
  have "no_empty (group_procs ps [])" by (rule group_procs_no_empty) simp
  from no_empty_lookup[OF this, of name] show ?thesis
    by (auto simp: GetProcs_def assms group_procs_entries filter_empty_conv split: if_splits)
qed

end
