(* ===== verification/Sys_Registry.thy ===== *)
theory Sys_Registry
  imports Sys_Tables
begin

text \<open>
  The Windows registry: registry.go, registry_windows.go, and registry_notwindows.go for the other systems.
\<close>

section \<open>Registry keys\<close>

definition ErrRegistryUnsupported :: go_error where
  "ErrRegistryUnsupported = SysErr ''registry resource is only supported on Windows''"

record registryPathParts =
  Hive :: string
  SubKey :: string
  ValueName :: string

datatype registry_error = EmptyKey | MissingSubKey | InvalidHive string | EmptySubKey

definition backslash :: char where "backslash = CHR 0x5C"

definition hives :: "string set" where
  "hives = {''HKLM'', ''HKCU'', ''HKCR'', ''HKU'', ''HKCC''}"

definition parseRegistryKey :: "string \<Rightarrow> registry_error + registryPathParts" where
  "parseRegistryKey key =
     (if key = [] then Inl EmptyKey
      else (case split2 key [backslash] of
              [hive0, rest] \<Rightarrow>
                let hive = to_upper hive0 in
                if hive \<notin> hives then Inl (InvalidHive hive0)
                else if rest = [] then Inl EmptySubKey
                else (case str_index rest ''::'' of
                        Some idx \<Rightarrow> Inr \<lparr>Hive = hive, SubKey = take idx rest, ValueName = drop (idx + 2) rest\<rparr>
                      | None \<Rightarrow>
                          (case last_index rest [backslash] of
                             None \<Rightarrow> Inr \<lparr>Hive = hive, SubKey = [], ValueName = rest\<rparr>
                           | Some lastSep \<Rightarrow>
                               Inr \<lparr>Hive = hive, SubKey = take lastSep rest, ValueName = drop (lastSep + 1) rest\<rparr>))
            | _ \<Rightarrow> Inl MissingSubKey))"

subsection \<open>Values\<close>

definition registry_err :: "registry_error \<Rightarrow> go_error" where
  "registry_err e = SysErr (case e of
     EmptyKey \<Rightarrow> ''empty registry key''
   | MissingSubKey \<Rightarrow> ''invalid registry key: missing subkey path''
   | InvalidHive hive \<Rightarrow> ''invalid registry hive: '' @ hive
   | EmptySubKey \<Rightarrow> ''invalid registry key: empty subkey path'')"

definition lookupHive :: "string \<Rightarrow> go_error + registry_root" where
  "lookupHive name =
     (if name = ''HKLM'' then Inr LOCAL_MACHINE
      else if name = ''HKCU'' then Inr CURRENT_USER
      else if name = ''HKCR'' then Inr CLASSES_ROOT
      else if name = ''HKU'' then Inr USERS
      else if name = ''HKCC'' then Inr CURRENT_CONFIG
      else Inl (SysErr (''unknown registry hive: '' @ name)))"

text \<open>\<^verbatim>\<open>hex.EncodeToString\<close>\<close>

definition hex_char :: "nat \<Rightarrow> char" where
  "hex_char n = (if n < 10 then digit_char n else char_of (87 + n))"

definition hex_byte :: "8 word \<Rightarrow> string" where
  "hex_byte b = [hex_char (unat b div 16), hex_char (unat b mod 16)]"

definition hex_encode :: "8 word list \<Rightarrow> string" where
  "hex_encode bs = concat (map hex_byte bs)"

definition query_of :: "'a \<Rightarrow> ('b \<Rightarrow> 'a) \<Rightarrow> go_error + 'b \<Rightarrow> 'a query" where
  "query_of zero f r = (case r of Inl err \<Rightarrow> (zero, Some err) | Inr v \<Rightarrow> (f v, None))"

definition formatValue :: "value_type \<Rightarrow> registry_key \<Rightarrow> string \<Rightarrow> string query" where
  "formatValue valType k name =
     (case valType of
        SZ \<Rightarrow> query_of [] id (rk_GetStringValue k name)
      | EXPAND_SZ \<Rightarrow> query_of [] id (rk_GetStringValue k name)
      | DWORD \<Rightarrow> query_of [] (\<lambda>v. nat_str (unat v)) (rk_GetIntegerValue k name)
      | QWORD \<Rightarrow> query_of [] (\<lambda>v. nat_str (unat v)) (rk_GetIntegerValue k name)
      | BINARY \<Rightarrow> query_of [] hex_encode (rk_GetBinaryValue k name)
      | MULTI_SZ \<Rightarrow> query_of [] (join [newline]) (rk_GetStringsValue k name)
      | OtherType n \<Rightarrow> ([], Some (SysErr (''unsupported registry value type: '' @ nat_str (unat n)))))"

definition typeName :: "value_type \<Rightarrow> string" where
  "typeName t =
     (case t of
        SZ \<Rightarrow> ''REG_SZ''
      | EXPAND_SZ \<Rightarrow> ''REG_EXPAND_SZ''
      | DWORD \<Rightarrow> ''REG_DWORD''
      | QWORD \<Rightarrow> ''REG_QWORD''
      | BINARY \<Rightarrow> ''REG_BINARY''
      | MULTI_SZ \<Rightarrow> ''REG_MULTI_SZ''
      | OtherType n \<Rightarrow> ''UNKNOWN('' @ nat_str (unat n) @ '')'')"

subsection \<open>Queries\<close>

text \<open>The common beginning of the methods: the parts of the key and the hkey that its hive names.\<close>

definition registry_place :: "string \<Rightarrow> go_error + registryPathParts \<times> registry_root" where
  "registry_place key =
     (case parseRegistryKey key of
        Inl e \<Rightarrow> Inl (registry_err e)
      | Inr parts \<Rightarrow> (case lookupHive (Hive parts) of Inl e \<Rightarrow> Inl e | Inr hive \<Rightarrow> Inr (parts, hive)))"

definition Registry_Exists :: "os_env \<Rightarrow> string \<Rightarrow> bool query" where
  "Registry_Exists env key =
     (case registry_place key of
        Inl err \<Rightarrow> (False, Some err)
      | Inr (parts, hive) \<Rightarrow>
          (case reg_OpenKey env hive (SubKey parts) of
             Inl err \<Rightarrow> (False, None)
           | Inr k \<Rightarrow>
               if ValueName parts = [] then (True, None)
               else (case rk_GetValue k (ValueName parts) of Inl err \<Rightarrow> (False, None) | Inr _ \<Rightarrow> (True, None))))"

text \<open>\<^verbatim>\<open>Value\<close> and \<^verbatim>\<open>Type\<close> up to the last statement, \<open>use\<close>.\<close>

definition with_value :: "(value_type \<Rightarrow> registry_key \<Rightarrow> string \<Rightarrow> string query) \<Rightarrow> os_env \<Rightarrow> string \<Rightarrow> string query" where
  "with_value use env key =
     (case registry_place key of
        Inl err \<Rightarrow> ([], Some err)
      | Inr (parts, hive) \<Rightarrow>
          (case reg_OpenKey env hive (SubKey parts) of
             Inl err \<Rightarrow> ([], Some (SysErr ''opening registry key''))
           | Inr k \<Rightarrow>
               (case rk_GetValue k (ValueName parts) of
                  Inl err \<Rightarrow> ([], Some (SysErr ''reading registry value''))
                | Inr valType \<Rightarrow> use valType k (ValueName parts))))"

definition Registry_Value :: "os_env \<Rightarrow> string \<Rightarrow> string query" where
  "Registry_Value = with_value formatValue"

definition Registry_Type :: "os_env \<Rightarrow> string \<Rightarrow> string query" where
  "Registry_Type = with_value (\<lambda>valType k name. (typeName valType, None))"

definition defRegistry :: "string \<Rightarrow> SysRegistry" where
  [simp]: "defRegistry key =
     \<lparr>sy_Key = key, sy_Exists = (False, Some ErrRegistryUnsupported), sy_Value = ([], Some ErrRegistryUnsupported),
      sy_Type = ([], Some ErrRegistryUnsupported)\<rparr>"

definition defRegistryWindows :: "os_env \<Rightarrow> string \<Rightarrow> SysRegistry" where
  [simp]: "defRegistryWindows env key =
     \<lparr>sy_Key = key, sy_Exists = Registry_Exists env key, sy_Value = Registry_Value env key, sy_Type = Registry_Type env key\<rparr>"

definition Registry_answers :: "os_env \<Rightarrow> string \<Rightarrow> SysRegistry" where
  "Registry_answers env key = for_os env (defRegistry key) (defRegistryWindows env key)"

section \<open>Reading keys\<close>

lemma str_contains_Cons: "str_contains (c # cs) sub \<longleftrightarrow> has_prefix (c # cs) sub \<or> str_contains cs sub"
  by (auto simp: str_contains_def)

lemma double_colon_index:
  "\<not> str_contains (a @ '':'') ''::'' \<Longrightarrow> str_index (a @ ''::'' @ b) ''::'' = Some (length a)"
proof (induction a)
  case (Cons c cs)
  have p: "\<not> has_prefix (c # cs @ '':'') ''::''" and n: "\<not> str_contains (cs @ '':'') ''::''"
    using Cons.prems str_contains_Cons[of c "cs @ '':''" "''::''"] by auto
  from p have "\<not> has_prefix (c # cs @ ''::'' @ b) ''::''" by (cases cs) auto
  with Cons.IH[OF n] show ?case by simp
qed simp

lemma last_index_last: "c \<notin> set b \<Longrightarrow> last_index (a @ c # b) [c] = Some (length a)"
  by (induction a) (auto simp: last_index_char_None split: option.splits)

lemma hives_no_backslash: "to_upper h \<in> hives \<Longrightarrow> backslash \<notin> set h"
proof
  assume h: "to_upper h \<in> hives" and "backslash \<in> set h"
  then have "to_upper_char backslash \<in> set (to_upper h)" by (auto simp: to_upper_def)
  moreover have "to_upper_char backslash = backslash" by (simp add: to_upper_char_def backslash_def)
  moreover have "backslash \<notin> set w" if "w \<in> hives" for w using that by (auto simp: hives_def backslash_def)
  ultimately show False using h by simp
qed

lemma parse_hive:
  assumes "to_upper h \<in> hives" and "rest \<noteq> []"
  shows "parseRegistryKey (h @ [backslash] @ rest) =
    (case str_index rest ''::'' of
       Some idx \<Rightarrow> Inr \<lparr>Hive = to_upper h, SubKey = take idx rest, ValueName = drop (idx + 2) rest\<rparr>
     | None \<Rightarrow>
         (case last_index rest [backslash] of
            None \<Rightarrow> Inr \<lparr>Hive = to_upper h, SubKey = [], ValueName = rest\<rparr>
          | Some lastSep \<Rightarrow> Inr \<lparr>Hive = to_upper h, SubKey = take lastSep rest, ValueName = drop (lastSep + 1) rest\<rparr>))"
  using assms split2_char[OF hives_no_backslash[OF assms(1)], of rest]
  by (simp add: parseRegistryKey_def Let_def)

section \<open>Values and their text\<close>

lemma lookupHive_hives: "lookupHive h = Inl e \<longleftrightarrow> h \<notin> hives \<and> e = SysErr (''unknown registry hive: '' @ h)"
  by (auto simp: lookupHive_def hives_def)

lemma lookupHive_inj: "lookupHive h = Inr hkey \<Longrightarrow> lookupHive h' = Inr hkey \<Longrightarrow> h = h'"
  by (simp add: lookupHive_def split: if_splits)

text \<open>A key that can be read names a known hive: the error of \<^verbatim>\<open>lookupHive\<close> is never returned.\<close>

lemma parse_hives: "parseRegistryKey key = Inr parts \<Longrightarrow> Hive parts \<in> hives"
  by (auto simp: parseRegistryKey_def Let_def split: if_splits list.splits option.splits)

lemma registry_place_parse:
  "registry_place key =
     (case parseRegistryKey key of
        Inl e \<Rightarrow> Inl (registry_err e)
      | Inr parts \<Rightarrow> Inr (parts, projr (lookupHive (Hive parts))))"
  by (auto simp: registry_place_def lookupHive_hives dest: parse_hives split: sum.splits)

lemma typeName_inj: "typeName t = typeName t' \<longleftrightarrow> t = t'"
  by (cases t; cases t') (simp_all add: typeName_def nat_str_inj word_unat_eq_iff)

lemma hex_char_inj: "m < 16 \<Longrightarrow> n < 16 \<Longrightarrow> hex_char m = hex_char n \<longleftrightarrow> m = n"
proof -
  have "of_char (hex_char k) = (if k < 10 then 48 + k else 87 + k)" if "k < 16" for k
    using that by (simp add: hex_char_def of_char_digit)
  moreover assume "m < 16" and "n < 16"
  ultimately have "m = n" if "hex_char m = hex_char n"
    using that by (auto dest!: arg_cong[where f = "of_char :: char \<Rightarrow> nat"] split: if_splits)
  then show ?thesis by blast
qed

text \<open>The text of a binary value determines its bytes.\<close>

lemma hex_byte_inj: "hex_byte a = hex_byte b \<longleftrightarrow> a = b"
proof
  assume h: "hex_byte a = hex_byte b"
  have l: "unat x < 256" for x :: "8 word" using unsigned_less[of x, where ?'a = nat] by simp
  have "unat x div 16 < 16" for x :: "8 word" using l[of x] by simp
  with h hex_char_inj have "unat a div 16 = unat b div 16" "unat a mod 16 = unat b mod 16"
    by (simp_all add: hex_byte_def)
  then show "a = b" by (metis div_mult_mod_eq word_unat_eq_iff)
qed simp

lemma hex_encode_inj: "hex_encode a = hex_encode b \<Longrightarrow> a = b"
proof (induction a arbitrary: b)
  case (Cons x a)
  then obtain y b' where b: "b = y # b'" by (cases b) (auto simp: hex_encode_def hex_byte_def)
  with Cons.prems have "hex_byte x = hex_byte y" "hex_encode a = hex_encode b'"
    by (auto simp: hex_encode_def hex_byte_def)
  with Cons.IH b show ?case by (simp add: hex_byte_inj)
qed (cases b; simp add: hex_encode_def hex_byte_def)

section \<open>Queries\<close>

text \<open>The value that a key names is there: the default value of a key counts as there whenever the key is.\<close>

definition value_present :: "os_env \<Rightarrow> registry_root \<Rightarrow> string \<Rightarrow> string \<Rightarrow> bool" where
  "value_present env hkey sub name \<longleftrightarrow>
     (case reg_OpenKey env hkey sub of
        Inl _ \<Rightarrow> False
      | Inr k \<Rightarrow> name = [] \<or> (case rk_GetValue k name of Inl _ \<Rightarrow> False | Inr _ \<Rightarrow> True))"

lemma Registry_Exists_present:
  assumes "parseRegistryKey key = Inr parts" and "lookupHive (Hive parts) = Inr hkey"
  shows "Registry_Exists env key = (value_present env hkey (SubKey parts) (ValueName parts), None)"
  using assms by (auto simp: Registry_Exists_def registry_place_def value_present_def split: sum.splits)

text \<open>A type, or a text, is only ever reported of a value that exists.\<close>

lemma Registry_value_exists:
  "snd (Registry_Type env key) = None \<Longrightarrow> Registry_Exists env key = (True, None)"
  "snd (Registry_Value env key) = None \<Longrightarrow> Registry_Exists env key = (True, None)"
  by (auto simp: Registry_Type_def Registry_Value_def Registry_Exists_def with_value_def split: sum.splits prod.splits)

text \<open>The converse fails for default values: an open key has one even where reading it fails.\<close>

lemma Registry_default_unset:
  assumes "parseRegistryKey key = Inr parts" and "ValueName parts = []"
    and "reg_OpenKey env (projr (lookupHive (Hive parts))) (SubKey parts) = Inr k" and "rk_GetValue k [] = Inl e"
  shows "Registry_Exists env key = (True, None) \<and> snd (Registry_Value env key) \<noteq> None \<and> snd (Registry_Type env key) \<noteq> None"
  using assms by (simp add: Registry_Exists_def Registry_Value_def Registry_Type_def with_value_def registry_place_parse)

section \<open>Properties\<close>

text \<open>C30: A registry key written from its parts, in either notation, is read back as these parts, the hive in upper case: the last
  backslash separates the name of the value unless a double colon does.\<close>

theorem parseRegistryKey_roundtrip:
  assumes "to_upper h \<in> hives"
  shows "(\<not> str_contains (sub @ [backslash] @ name) ''::'' \<and> backslash \<notin> set name \<longrightarrow>
      parseRegistryKey (h @ [backslash] @ sub @ [backslash] @ name) = Inr \<lparr>Hive = to_upper h, SubKey = sub, ValueName = name\<rparr>) \<and>
    (\<not> str_contains (sub @ '':'') ''::'' \<longrightarrow>
      parseRegistryKey (h @ [backslash] @ sub @ ''::'' @ name) = Inr \<lparr>Hive = to_upper h, SubKey = sub, ValueName = name\<rparr>)"
proof (intro conjI impI; (elim conjE)?)
  assume "\<not> str_contains (sub @ [backslash] @ name) ''::''" and b: "backslash \<notin> set name"
  then have "str_index (sub @ [backslash] @ name) ''::'' = None" by (simp add: str_contains_def)
  with parse_hive[OF assms, of "sub @ [backslash] @ name"] last_index_last[OF b, of sub]
  show "parseRegistryKey (h @ [backslash] @ sub @ [backslash] @ name) = Inr \<lparr>Hive = to_upper h, SubKey = sub, ValueName = name\<rparr>"
    by simp
next
  assume "\<not> str_contains (sub @ '':'') ''::''"
  with parse_hive[OF assms, of "sub @ ''::'' @ name"] double_colon_index[of sub name]
  show "parseRegistryKey (h @ [backslash] @ sub @ ''::'' @ name) = Inr \<lparr>Hive = to_upper h, SubKey = sub, ValueName = name\<rparr>"
    by simp
qed

theorem parseRegistryKey_roundtrip_witness:
  "parseRegistryKey (''hklm'' @ [backslash] @ ''Software'' @ [backslash] @ ''Version'') =
     Inr \<lparr>Hive = ''HKLM'', SubKey = ''Software'', ValueName = ''Version''\<rparr>"
proof -
  have u: "to_upper ''hklm'' = ''HKLM''" by code_simp
  have h: "to_upper ''hklm'' \<in> hives" by (simp add: u hives_def)
  have c: "\<not> str_contains (''Software'' @ [backslash] @ ''Version'') ''::''" by code_simp
  have b: "backslash \<notin> set ''Version''" by code_simp
  from parseRegistryKey_roundtrip[OF h, of "''Software''" "''Version''"] c b show ?thesis unfolding u by blast
qed

end
