(* ===== verification/Sys_Local.thy ===== *)
theory Sys_Local
  imports Sys_Registry
begin

text \<open>
  Commands (command.go, command_posix.go, command_windows.go), addresses, interfaces, kernel parameters and
  gossfiles (addr.go, interface.go, kernel_param.go, gossfile.go).
\<close>

section \<open>Commands\<close>

record DefCommand =
  dc_command :: string
  dc_exitStatus :: int
  dc_stdout :: string
  dc_stderr :: string
  dc_loaded :: bool
  dc_Timeout :: int
  dc_err :: "go_error option"

definition NewDefCommand :: "string \<Rightarrow> Config \<Rightarrow> DefCommand" where
  "NewDefCommand command config =
     \<lparr>dc_command = command, dc_exitStatus = 0, dc_stdout = [], dc_stderr = [], dc_loaded = False,
      dc_Timeout = TimeOutMilliSeconds config, dc_err = None\<rparr>"

definition commandWrapper :: "os_env \<Rightarrow> string \<Rightarrow> util_Command" where
  "commandWrapper env cmd =
     for_os env (util_NewCommand ''sh'' [''-c'', cmd]) (NewCommandForWindowsCmd ''cmd'' [''/c'', cmd])"

text \<open>
  When the time is up first, the command goes on in its goroutine and the caller sees what it has written so far, with the
  status still 0.
\<close>

definition runCommand :: "os_env \<Rightarrow> util_Command \<Rightarrow> run_error option \<times> util_Command" where
  "runCommand env cmd =
     (let x = cmd_process env cmd; done = Command_Run env cmd in
      (case select_result (ex_late x) (ex_pick x) (RunError (SysErr ''Command execution timed out'')) (cmd_Err done) () of
         Inr _ \<Rightarrow> (None, done)
       | Inl err \<Rightarrow>
           (Some err, if ex_late x then cmd\<lparr>cmd_Stdout := fst (ex_partial x), cmd_Stderr := snd (ex_partial x)\<rparr> else done)))"

definition DefCommand_setup :: "os_env \<Rightarrow> DefCommand \<Rightarrow> go_error option \<times> DefCommand" where
  "DefCommand_setup env c =
     (if dc_loaded c then (dc_err c, c)
      else let c = c\<lparr>dc_loaded := True\<rparr>;
               (err, cmd) = runCommand env (commandWrapper env (dc_command c));
               c = (case err of Some (ExitError _) \<Rightarrow> c
                              | Some (RunError e) \<Rightarrow> c\<lparr>dc_err := Some e\<rparr>
                              | None \<Rightarrow> c\<lparr>dc_err := None\<rparr>);
               c = c\<lparr>dc_exitStatus := cmd_Status cmd, dc_stdout := cmd_Stdout cmd, dc_stderr := cmd_Stderr cmd\<rparr>
           in (dc_err c, c))"

definition command_query :: "(DefCommand \<Rightarrow> 'a) \<Rightarrow> os_env \<Rightarrow> DefCommand \<Rightarrow> 'a query \<times> DefCommand" where
  "command_query sel env c = (let (err, c') = DefCommand_setup env c in ((sel c', err), c'))"

definition DefCommand_ExitStatus :: "os_env \<Rightarrow> DefCommand \<Rightarrow> int query \<times> DefCommand" where
  "DefCommand_ExitStatus = command_query dc_exitStatus"

definition DefCommand_Stdout :: "os_env \<Rightarrow> DefCommand \<Rightarrow> string query \<times> DefCommand" where
  "DefCommand_Stdout = command_query dc_stdout"

definition DefCommand_Stderr :: "os_env \<Rightarrow> DefCommand \<Rightarrow> string query \<times> DefCommand" where
  "DefCommand_Stderr = command_query dc_stderr"

definition DefCommand_Exists :: "DefCommand \<Rightarrow> bool query" where
  "DefCommand_Exists c = (False, None)"

definition Command_answers :: "os_env \<Rightarrow> string \<Rightarrow> Config \<Rightarrow> SysCommand" where
  "Command_answers env command config =
     (let c = NewDefCommand command config in
      \<lparr>sc_Command = command, sc_Exists = DefCommand_Exists c, sc_ExitStatus = fst (DefCommand_ExitStatus env c),
       sc_Stdout = fst (DefCommand_Stdout env c), sc_Stderr = fst (DefCommand_Stderr env c)\<rparr>)"

section \<open>Addresses\<close>

definition splitAddress :: "string \<Rightarrow> string \<times> string" where
  "splitAddress fulladdress =
     (case split2 fulladdress ''://'' of [network, address] \<Rightarrow> (network, address) | _ \<Rightarrow> (''tcp'', fulladdress))"

definition normalizeAddress :: "string \<Rightarrow> string" where
  "normalizeAddress fulladdress = (let (net, addr) = splitAddress fulladdress in net @ ''://'' @ addr)"

record DefAddr =
  da_address :: string
  da_LocalAddress :: string
  da_Timeout :: int

definition NewDefAddr :: "string \<Rightarrow> Config \<Rightarrow> DefAddr" where
  "NewDefAddr address config =
     \<lparr>da_address = normalizeAddress address, da_LocalAddress = LocalAddress config, da_Timeout = TimeOutMilliSeconds config\<rparr>"

text \<open>\<open>os_Dial\<close> says whether the connection can be made from the local address within the time limit.\<close>

definition DefAddr_Reachable :: "os_env \<Rightarrow> DefAddr \<Rightarrow> bool query" where
  "DefAddr_Reachable env a =
     (let (network, address) = splitAddress (da_address a)
      in (os_Dial env network address (da_LocalAddress a) (da_Timeout a), None))"

definition DefAddr_Exists :: "os_env \<Rightarrow> DefAddr \<Rightarrow> bool query" where
  "DefAddr_Exists env a = DefAddr_Reachable env a"

definition Addr_answers :: "os_env \<Rightarrow> string \<Rightarrow> Config \<Rightarrow> SysAddr" where
  "Addr_answers env address config =
     (let a = NewDefAddr address config in
      \<lparr>sa_Address = da_address a, sa_Exists = DefAddr_Exists env a, sa_Reachable = DefAddr_Reachable env a\<rparr>)"

section \<open>Interfaces\<close>

record DefInterface =
  di_name :: string
  di_loaded :: bool
  di_exists :: bool
  di_iface :: "net_interface option"
  di_err :: "go_error option"

definition NewDefInterface :: "string \<Rightarrow> DefInterface" where
  "NewDefInterface name = \<lparr>di_name = name, di_loaded = False, di_exists = False, di_iface = None, di_err = None\<rparr>"

definition DefInterface_setup :: "os_env \<Rightarrow> DefInterface \<Rightarrow> go_error option \<times> DefInterface" where
  "DefInterface_setup env i =
     (if di_loaded i then (di_err i, i)
      else let i = i\<lparr>di_loaded := True\<rparr> in
        (case os_InterfaceByName env (di_name i) of
           Inl err \<Rightarrow> (Some err, i\<lparr>di_exists := False, di_err := Some err\<rparr>)
         | Inr iface \<Rightarrow> (None, i\<lparr>di_iface := Some iface, di_exists := True\<rparr>)))"

definition DefInterface_Exists :: "os_env \<Rightarrow> DefInterface \<Rightarrow> bool query \<times> DefInterface" where
  "DefInterface_Exists env i =
     (case DefInterface_setup env i of
        (Some err, i') \<Rightarrow> ((False, None), i')
      | (None, i') \<Rightarrow> ((di_exists i', None), i'))"

text \<open>The interface is not nil when there is no error.\<close>

definition DefInterface_Addrs :: "os_env \<Rightarrow> DefInterface \<Rightarrow> string list query \<times> DefInterface" where
  "DefInterface_Addrs env i =
     (case DefInterface_setup env i of
        (Some err, i') \<Rightarrow> (([], Some err), i')
      | (None, i') \<Rightarrow>
          ((case di_iface i' of
              None \<Rightarrow> ([], None)
            | Some iface \<Rightarrow> (case os_IfaceAddrs env iface of Inl err \<Rightarrow> ([], Some err) | Inr addrs \<Rightarrow> (addrs, None))), i'))"

definition DefInterface_MTU :: "os_env \<Rightarrow> DefInterface \<Rightarrow> int query \<times> DefInterface" where
  "DefInterface_MTU env i =
     (case DefInterface_setup env i of
        (Some err, i') \<Rightarrow> ((0, Some err), i')
      | (None, i') \<Rightarrow> ((case di_iface i' of None \<Rightarrow> 0 | Some iface \<Rightarrow> ni_MTU iface, None), i'))"

definition Interface_answers :: "os_env \<Rightarrow> string \<Rightarrow> SysInterface" where
  "Interface_answers env name =
     (let i = NewDefInterface name in
      \<lparr>si_Name = name, si_Exists = fst (DefInterface_Exists env i), si_Addrs = fst (DefInterface_Addrs env i),
       si_MTU = fst (DefInterface_MTU env i)\<rparr>)"

section \<open>Kernel parameters and gossfiles\<close>

definition DefKernelParam_Value :: "os_env \<Rightarrow> string \<Rightarrow> string query" where
  "DefKernelParam_Value env key = (case os_sysctl env key of Inl err \<Rightarrow> ([], Some err) | Inr v \<Rightarrow> (v, None))"

definition DefKernelParam_Exists :: "os_env \<Rightarrow> string \<Rightarrow> bool query" where
  "DefKernelParam_Exists env key = (snd (DefKernelParam_Value env key) = None, None)"

definition KernelParam_answers :: "os_env \<Rightarrow> string \<Rightarrow> SysKernelParam" where
  "KernelParam_answers env key =
     \<lparr>sk_Key = key, sk_Exists = DefKernelParam_Exists env key, sk_Value = DefKernelParam_Value env key\<rparr>"

definition DefGossfile_Exists :: "string \<Rightarrow> bool query" where
  "DefGossfile_Exists path = (False, None)"

definition Gossfile_answers :: "string \<Rightarrow> SysGossfile" where
  "Gossfile_answers path = \<lparr>sq_Path = path, sq_Exists = DefGossfile_Exists path\<rparr>"

section \<open>Lemmas\<close>

subsection \<open>Loading once\<close>

definition command_sound :: "DefCommand \<Rightarrow> bool" where
  "command_sound c \<longleftrightarrow> dc_loaded c \<or> dc_err c = None"

lemma NewDefCommand_sound [simp]: "command_sound (NewDefCommand command config)"
  by (simp add: command_sound_def NewDefCommand_def)

interpretation command_load: load_once DefCommand_setup command_sound
  by unfold_locales (simp add: DefCommand_setup_def command_sound_def Let_def case_prod_beta split: option.split run_error.split)

lemma command_query_reads: "reads_after DefCommand_setup (command_query sel)"
  unfolding reads_after_def command_query_def
  by (rule exI[of _ "\<lambda>(err, c). (sel c, err)"]) (auto split: prod.splits)

definition iface_sound :: "DefInterface \<Rightarrow> bool" where
  "iface_sound i \<longleftrightarrow> di_loaded i \<or> di_err i = None"

lemma NewDefInterface_sound [simp]: "iface_sound (NewDefInterface name)"
  by (simp add: iface_sound_def NewDefInterface_def)

interpretation iface_load: load_once DefInterface_setup iface_sound
  by unfold_locales (auto simp: DefInterface_setup_def iface_sound_def Let_def split: sum.splits)

lemma DefInterface_setup_iface:
  "DefInterface_setup env (NewDefInterface name) = (None, i) \<Longrightarrow> di_iface i \<noteq> None \<and> di_exists i"
  by (auto simp: DefInterface_setup_def NewDefInterface_def Let_def split: sum.splits)

lemma DefInterface_MTU_reads: "reads_after DefInterface_setup DefInterface_MTU"
  unfolding reads_after_def DefInterface_MTU_def
  by (rule exI[of _ "\<lambda>(err, i). case err of Some e \<Rightarrow> (0, Some e) | None \<Rightarrow> (case di_iface i of None \<Rightarrow> 0 | Some iface \<Rightarrow> ni_MTU iface, None)"])
    (auto split: prod.splits option.splits)

text \<open>An exit status is no error: after a run that finishes in time the answers are those of the one run.\<close>

lemma commandWrapper_fresh:
  "cmd_Stdout (commandWrapper env command) = []" "cmd_Stderr (commandWrapper env command) = []"
  "cmd_Err (commandWrapper env command) = None" "cmd_Status (commandWrapper env command) = 0"
  by (simp_all add: commandWrapper_def util_NewCommand_def NewCommandForWindowsCmd_def)

lemma command_finished:
  assumes "os_LookPath env (cmd_name (commandWrapper env command)) = None"
    and "x = cmd_process env (commandWrapper env command)" and "\<not> ex_late x"
    and "ex_Start x = None" and "\<not> (\<exists>e. ex_Wait x = WaitFailed e)"
  shows "Command_answers env command config =
    \<lparr>sc_Command = command, sc_Exists = (False, None),
     sc_ExitStatus = (case ex_Wait x of WaitExit n \<Rightarrow> n | _ \<Rightarrow> 0, None),
     sc_Stdout = (fst (ex_Output x), None), sc_Stderr = (snd (ex_Output x), None)\<rparr>"
  using assms
  by (cases "ex_Wait x")
    (auto simp: Command_answers_def DefCommand_ExitStatus_def DefCommand_Stdout_def DefCommand_Stderr_def command_query_def
      DefCommand_setup_def NewDefCommand_def DefCommand_Exists_def runCommand_def select_result_def
      commandWrapper_fresh Command_Run_def Let_def)

subsection \<open>Addresses\<close>

lemma splitAddress_cases:
  "(\<exists>a b. splitAddress s = (a, b) \<and> s = a @ ''://'' @ b) \<or> (splitAddress s = (''tcp'', s) \<and> \<not> str_contains s ''://'')"
  using split2_cases[of s "''://''"] by (auto simp: splitAddress_def)

lemma normalizeAddress_idem: "normalizeAddress (normalizeAddress s) = normalizeAddress s"
proof -
  have tcp: "splitAddress (''tcp://'' @ s) = (''tcp'', s)" for s
    by (simp add: splitAddress_def split2_def)
  show ?thesis using splitAddress_cases[of s] tcp[of s] by (auto simp: normalizeAddress_def)
qed

end
