(* ===== verification/Sys_Net.thy ===== *)
theory Sys_Net
  imports Sys_Local
begin

text \<open>
  Name resolution (dns.go) and HTTP requests (http.go). The DNS client, the resolver and the HTTP client are
  fields of \<open>dns_env\<close> and \<open>http_env\<close>; each of the three attempts of a lookup has its own \<open>dns_env\<close>.
\<close>

section \<open>DNS\<close>

datatype rr =
    RR_A string
  | RR_AAAA string
  | RR_CNAME string
  | RR_MX "16 word" string
  | RR_NS string
  | RR_SRV "16 word" "16 word" "16 word" string
  | RR_TXT "string list"
  | RR_PTR string
  | RR_CAA "8 word" string string
  | RR_Other

datatype rr_type = TypeA | TypeAAAA | TypeCNAME | TypeMX | TypeNS | TypeSRV | TypeTXT | TypePTR | TypeCAA

text \<open>An error is a \<^verbatim>\<open>*net.DNSError\<close> or another one.\<close>

datatype dns_error = DNSError go_error | OtherDNSError go_error

primrec dns_err :: "dns_error \<Rightarrow> go_error" where
  "dns_err (DNSError e) = e"
| "dns_err (OtherDNSError e) = e"

record dns_env =
  dn_Exchange :: "string \<Rightarrow> rr_type \<Rightarrow> string \<Rightarrow> dns_error + rr list"
  dn_Fqdn :: "string \<Rightarrow> string"
  dn_ReverseAddr :: "string \<Rightarrow> dns_error + string"
  dn_LookupHost :: "string \<Rightarrow> dns_error + string list"
  dn_late :: bool
  dn_pick :: bool

subsection \<open>Host and port\<close>

text \<open>\<^verbatim>\<open>net.SplitHostPort\<close> and \<^verbatim>\<open>net.JoinHostPort\<close>\<close>

definition SplitHostPort :: "string \<Rightarrow> (string \<times> string) option" where
  "SplitHostPort hostport =
     (case last_index hostport '':'' of
        None \<Rightarrow> None
      | Some i \<Rightarrow>
          if has_prefix hostport ''[''
          then (case str_index hostport '']'' of
                  None \<Rightarrow> None
                | Some e \<Rightarrow>
                    if e + 1 \<noteq> i then None
                    else if CHR ''['' \<in> set (drop 1 hostport) \<or> CHR '']'' \<in> set (drop (e + 1) hostport) then None
                    else Some (drop 1 (take e hostport), drop (i + 1) hostport))
          else if CHR '':'' \<in> set (take i hostport) \<or> CHR ''['' \<in> set hostport \<or> CHR '']'' \<in> set hostport then None
          else Some (take i hostport, drop (i + 1) hostport))"

definition JoinHostPort :: "string \<Rightarrow> string \<Rightarrow> string" where
  "JoinHostPort host port =
     (if CHR '':'' \<in> set host then ''['' @ host @ '']:'' @ port else host @ '':'' @ port)"

definition parseServerString :: "string \<Rightarrow> string" where
  "parseServerString server =
     (case SplitHostPort server of
        None \<Rightarrow> JoinHostPort server ''53''
      | Some (srvhost, srvport) \<Rightarrow> JoinHostPort srvhost srvport)"

subsection \<open>Lookups by type\<close>

text \<open>The common shape: ask, and collect what the answers of the wanted type say.\<close>

definition lookup_type :: "rr_type \<Rightarrow> (rr \<Rightarrow> string list) \<Rightarrow> dns_env \<Rightarrow> string \<Rightarrow> string \<Rightarrow> (dns_error, string list) outcome" where
  "lookup_type qt sel E host server =
     (case dn_Exchange E (dn_Fqdn E host) qt (parseServerString server) of
        Inl err \<Rightarrow> Err err
      | Inr answer \<Rightarrow> Ret (concat (map sel answer)))"

definition w16_str :: "16 word \<Rightarrow> string" where
  "w16_str w = nat_str (unat w)"

definition LookupA :: "dns_env \<Rightarrow> string \<Rightarrow> string \<Rightarrow> (dns_error, string list) outcome" where
  "LookupA = lookup_type TypeA (\<lambda>ans. case ans of RR_A a \<Rightarrow> [a] | _ \<Rightarrow> [])"

definition LookupAAAA :: "dns_env \<Rightarrow> string \<Rightarrow> string \<Rightarrow> (dns_error, string list) outcome" where
  "LookupAAAA = lookup_type TypeAAAA (\<lambda>ans. case ans of RR_AAAA a \<Rightarrow> [a] | _ \<Rightarrow> [])"

definition LookupCNAME :: "dns_env \<Rightarrow> string \<Rightarrow> string \<Rightarrow> (dns_error, string list) outcome" where
  "LookupCNAME = lookup_type TypeCNAME (\<lambda>ans. case ans of RR_CNAME target \<Rightarrow> [target] | _ \<Rightarrow> [])"

definition LookupMX :: "dns_env \<Rightarrow> string \<Rightarrow> string \<Rightarrow> (dns_error, string list) outcome" where
  "LookupMX = lookup_type TypeMX (\<lambda>ans. case ans of RR_MX pref mx \<Rightarrow> [w16_str pref @ '' '' @ mx] | _ \<Rightarrow> [])"

definition LookupNS :: "dns_env \<Rightarrow> string \<Rightarrow> string \<Rightarrow> (dns_error, string list) outcome" where
  "LookupNS = lookup_type TypeNS (\<lambda>ans. case ans of RR_NS ns \<Rightarrow> [ns] | _ \<Rightarrow> [])"

definition LookupSRV :: "dns_env \<Rightarrow> string \<Rightarrow> string \<Rightarrow> (dns_error, string list) outcome" where
  "LookupSRV = lookup_type TypeSRV
     (\<lambda>ans. case ans of RR_SRV prio weight port target \<Rightarrow> [join '' '' [w16_str prio, w16_str weight, w16_str port, target]] | _ \<Rightarrow> [])"

definition LookupTXT :: "dns_env \<Rightarrow> string \<Rightarrow> string \<Rightarrow> (dns_error, string list) outcome" where
  "LookupTXT = lookup_type TypeTXT (\<lambda>ans. case ans of RR_TXT ts \<Rightarrow> ts | _ \<Rightarrow> [])"

definition LookupCAA :: "dns_env \<Rightarrow> string \<Rightarrow> string \<Rightarrow> (dns_error, string list) outcome" where
  "LookupCAA = lookup_type TypeCAA
     (\<lambda>ans. case ans of RR_CAA flag tag value \<Rightarrow> [join '' '' [nat_str (unat flag), tag, value]] | _ \<Rightarrow> [])"

text \<open>The type assertion of \<^verbatim>\<open>LookupPTR\<close> panics on an answer of another type.\<close>

fun ptr_names :: "rr list \<Rightarrow> (dns_error, string list) outcome" where
  "ptr_names [] = Ret []"
| "ptr_names (RR_PTR p # answer) = (case ptr_names answer of Ret ps \<Rightarrow> Ret (p # ps) | r \<Rightarrow> r)"
| "ptr_names (_ # answer) = Panic"

definition LookupPTR :: "dns_env \<Rightarrow> string \<Rightarrow> string \<Rightarrow> (dns_error, string list) outcome" where
  "LookupPTR E addr server =
     (case dn_ReverseAddr E addr of
        Inl err \<Rightarrow> Err err
      | Inr reverse \<Rightarrow>
          (case dn_Exchange E reverse TypePTR (parseServerString server) of
             Inl err \<Rightarrow> Err err
           | Inr answer \<Rightarrow> ptr_names answer))"

definition ret_or_nil :: "('e, 'a list) outcome \<Rightarrow> 'a list" where
  "ret_or_nil r = (case r of Ret xs \<Rightarrow> xs | _ \<Rightarrow> [])"

definition dns_LookupHost :: "dns_env \<Rightarrow> string \<Rightarrow> string \<Rightarrow> (dns_error, string list) outcome" where
  "dns_LookupHost E host server = Ret (ret_or_nil (LookupA E host server) @ ret_or_nil (LookupAAAA E host server))"

definition lookup_by :: "dns_env \<Rightarrow> string \<Rightarrow> string \<Rightarrow> string \<Rightarrow> (dns_error, string list) outcome" where
  "lookup_by E host server qtype =
     (if server \<noteq> [] then
        (if qtype = ''A'' then LookupA E host server
         else if qtype = ''AAAA'' then LookupAAAA E host server
         else if qtype = ''PTR'' then LookupPTR E host server
         else if qtype = ''CNAME'' then LookupCNAME E host server
         else if qtype = ''MX'' then LookupMX E host server
         else if qtype = ''NS'' then LookupNS E host server
         else if qtype = ''SRV'' then LookupSRV E host server
         else if qtype = ''TXT'' then LookupTXT E host server
         else if qtype = ''CAA'' then LookupCAA E host server
         else dns_LookupHost E host server)
      else (case dn_LookupHost E host of Inl err \<Rightarrow> Err err | Inr addrs \<Rightarrow> Ret addrs))"

definition dns_timeout :: dns_error where
  "dns_timeout = OtherDNSError (SysErr ''DNS lookup timed out'')"

definition sum_outcome :: "'e + 'a \<Rightarrow> ('e, 'a) outcome" where
  "sum_outcome s = (case s of Inl e \<Rightarrow> Err e | Inr x \<Rightarrow> Ret x)"

definition DNSlookup :: "dns_env \<Rightarrow> string \<Rightarrow> string \<Rightarrow> string \<Rightarrow> (dns_error, string list) outcome" where
  "DNSlookup E host server qtype =
     (case lookup_by E host server qtype of
        Panic \<Rightarrow> Panic
      | Err err \<Rightarrow> sum_outcome (select_result (dn_late E) (dn_pick E) dns_timeout (Some err) [])
      | Ret addrs \<Rightarrow> sum_outcome (select_result (dn_late E) (dn_pick E) dns_timeout None addrs))"

subsection \<open>The object\<close>

record DefDNS =
  dd_host :: string
  dd_resolvable :: bool
  dd_addrs :: "string list"
  dd_Timeout :: int
  dd_loaded :: bool
  dd_err :: "go_error option"
  dd_server :: string
  dd_qtype :: string

definition is_upper :: "char \<Rightarrow> bool" where
  "is_upper c \<longleftrightarrow> 65 \<le> (of_char c :: nat) \<and> (of_char c :: nat) \<le> 90"

definition split_qtype :: "string \<Rightarrow> string \<times> string" where
  "split_qtype host =
     (case split2 host '':'' of
        [t, h] \<Rightarrow> if t \<noteq> [] \<and> list_all is_upper t then (h, t) else (host, [])
      | _ \<Rightarrow> (host, []))"

definition NewDefDNS :: "string \<Rightarrow> Config \<Rightarrow> DefDNS" where
  "NewDefDNS host config =
     (let (h, t) = split_qtype host in
      \<lparr>dd_host = h, dd_resolvable = False, dd_addrs = [], dd_Timeout = TimeOutMilliSeconds config, dd_loaded = False,
       dd_err = None, dd_server = Server config, dd_qtype = t\<rparr>)"

text \<open>The attempts that are left; a lookup that panics takes the process down (None).\<close>

fun dns_loop :: "dns_env list \<Rightarrow> DefDNS \<Rightarrow> (go_error option \<times> DefDNS) option" where
  "dns_loop [] d = Some (dd_err d, d)"
| "dns_loop (E # Es) d =
     (let failed = d\<lparr>dd_resolvable := False, dd_addrs := []\<rparr> in
      (case DNSlookup E (dd_host d) (dd_server d) (dd_qtype d) of
         Panic \<Rightarrow> None
       | Err (DNSError _) \<Rightarrow> Some (None, failed)
       | Err (OtherDNSError err) \<Rightarrow> dns_loop Es (failed\<lparr>dd_err := Some err\<rparr>)
       | Ret [] \<Rightarrow> dns_loop Es (failed\<lparr>dd_err := None\<rparr>)
       | Ret addrs \<Rightarrow> Some (None, d\<lparr>dd_resolvable := True, dd_addrs := sort addrs, dd_err := None\<rparr>)))"

definition DefDNS_setup :: "(nat \<Rightarrow> dns_env) \<Rightarrow> DefDNS \<Rightarrow> (go_error option \<times> DefDNS) option" where
  "DefDNS_setup E d =
     (if dd_loaded d then Some (dd_err d, d) else dns_loop [E 0, E 1, E 2] (d\<lparr>dd_loaded := True\<rparr>))"

definition dns_query :: "(DefDNS \<Rightarrow> 'a) \<Rightarrow> (nat \<Rightarrow> dns_env) \<Rightarrow> DefDNS \<Rightarrow> ('a query \<times> DefDNS) option" where
  "dns_query sel E d = map_option (\<lambda>(err, d'). ((sel d', err), d')) (DefDNS_setup E d)"

definition DefDNS_Addrs :: "(nat \<Rightarrow> dns_env) \<Rightarrow> DefDNS \<Rightarrow> (string list query \<times> DefDNS) option" where
  "DefDNS_Addrs = dns_query dd_addrs"

definition DefDNS_Resolvable :: "(nat \<Rightarrow> dns_env) \<Rightarrow> DefDNS \<Rightarrow> (bool query \<times> DefDNS) option" where
  "DefDNS_Resolvable = dns_query dd_resolvable"

definition DefDNS_Exists :: "DefDNS \<Rightarrow> bool query" where
  "DefDNS_Exists d = (False, None)"

section \<open>Lemmas\<close>

lemma parseServerString_host:
  assumes "set host \<inter> {CHR '':'', CHR ''['', CHR '']''} = {}"
  shows "parseServerString host = host @ '':53''"
proof -
  have "last_index host '':'' = None" using assms by (simp add: last_index_char_None)
  with assms show ?thesis by (simp add: parseServerString_def SplitHostPort_def JoinHostPort_def)
qed

text \<open>An address in brackets without a port gets a second pair of brackets.\<close>

lemma parseServerString_brackets: "parseServerString ''[::1]'' = ''[[::1]]:53''"
  by code_simp

lemma ptr_names_panics: "ptr_names answer = Panic \<longleftrightarrow> (\<exists>ans\<in>set answer. \<forall>p. ans \<noteq> RR_PTR p)"
  by (induction answer rule: ptr_names.induct) (auto split: outcome.splits)

text \<open>A name resolves exactly when some attempt, before one that ends the search, finds an address; the addresses are sorted.\<close>

lemma dns_loop_resolved:
  assumes "dns_loop Es d = Some (err, d')" and "dd_resolvable d'" and "\<not> dd_resolvable d"
  shows "err = None \<and> dd_err d' = None \<and> dd_addrs d' \<noteq> [] \<and> sorted (dd_addrs d') \<and>
    (\<exists>E\<in>set Es. \<exists>addrs. DNSlookup E (dd_host d) (dd_server d) (dd_qtype d) = Ret addrs \<and> mset (dd_addrs d') = mset addrs)"
  using assms
proof (induction Es arbitrary: d)
  case (Cons E Es)
  let ?l = "DNSlookup E (dd_host d) (dd_server d) (dd_qtype d)"
  show ?case
  proof (cases ?l)
    case (Ret addrs)
    show ?thesis
    proof (cases addrs)
      case Nil
      with Ret Cons.prems have "dns_loop Es (d\<lparr>dd_resolvable := False, dd_addrs := [], dd_err := None\<rparr>) = Some (err, d')" by simp
      from Cons.IH[OF this] Cons.prems show ?thesis by auto
    next
      case (Cons a as)
      with Ret Cons.prems(1) have "err = None" "d' = d\<lparr>dd_resolvable := True, dd_addrs := sort addrs, dd_err := None\<rparr>"
        by auto
      moreover have "sort addrs \<noteq> []" using Cons by (metis list.distinct(1) mset_sort mset_zero_iff)
      moreover have "\<exists>E\<in>set (E # Es). \<exists>addrs'. DNSlookup E (dd_host d) (dd_server d) (dd_qtype d) = Ret addrs' \<and>
          mset (sort addrs) = mset addrs'" using Ret by auto
      ultimately show ?thesis by auto
    qed
  next
    case (Err e)
    show ?thesis
    proof (cases e)
      case (DNSError x)
      with Err Cons.prems show ?thesis by auto
    next
      case (OtherDNSError x)
      with Err Cons.prems have "dns_loop Es (d\<lparr>dd_resolvable := False, dd_addrs := [], dd_err := Some x\<rparr>) = Some (err, d')"
        by simp
      from Cons.IH[OF this] Cons.prems show ?thesis by auto
    qed
  next
    case Panic
    with Cons.prems show ?thesis by simp
  qed
qed auto

text \<open>
  After an attempt that fails and one that says the name does not exist, the first query reports no error and the next
  query of the same object reports the error of the attempt before.
\<close>

lemma dns_answers_differ:
  assumes "dn_late (E 0)" and "\<not> dn_late (E 1)" and "\<not> dn_pick (E 1)"
    and "split_qtype host = (host, [])" and "Server config = []" and "dn_LookupHost (E 1) host = Inl (DNSError e)"
    and "dn_LookupHost (E 0) host = Inr []"
  shows "\<exists>d. DefDNS_Resolvable E (NewDefDNS host config) = Some ((False, None), d) \<and>
    DefDNS_Addrs E d = Some (([], Some (dns_err dns_timeout)), d)"
  using assms
  by (simp add: DefDNS_Resolvable_def DefDNS_Addrs_def dns_query_def DefDNS_setup_def NewDefDNS_def DNSlookup_def lookup_by_def
      select_result_def sum_outcome_def dns_timeout_def)

end
