(* ===== verification/Sys_Http.thy ===== *)
theory Sys_Http
  imports Sys_Net
begin

text \<open>
  HTTP requests (http.go): the headers of a request, the request and the client built from the
  configuration, and the answer, which is fetched once. \<open>http_env\<close> has what the libraries answer.
\<close>

section \<open>Headers\<close>

text \<open>\<^verbatim>\<open>textproto.CanonicalMIMEHeaderKey\<close>: unchanged when a byte is not allowed in a header name.\<close>

definition header_byte :: "char \<Rightarrow> bool" where
  "header_byte c \<longleftrightarrow>
     (let n = of_char c :: nat in 48 \<le> n \<and> n \<le> 57 \<or> 65 \<le> n \<and> n \<le> 90 \<or> 97 \<le> n \<and> n \<le> 122) \<or>
     c \<in> {CHR ''!'', CHR ''#'', CHR ''$'', CHR ''%'', CHR ''&'', CHR 0x27, CHR ''*'', CHR ''+'', CHR ''-'', CHR ''.'',
          CHR 0x5E, CHR ''_'', CHR 0x60, CHR ''|'', CHR ''~''}"

fun canonical_chars :: "bool \<Rightarrow> string \<Rightarrow> string" where
  "canonical_chars upper [] = []"
| "canonical_chars upper (c # cs) =
     (if upper then to_upper_char c else to_lower_char c) # canonical_chars (c = CHR ''-'') cs"

definition canonical_key :: "string \<Rightarrow> string" where
  "canonical_key s = (if list_all header_byte s then canonical_chars True s else s)"

type_synonym http_header = "(string \<times> string list) list"

definition header_add :: "string \<Rightarrow> string \<Rightarrow> http_header \<Rightarrow> http_header" where
  "header_add key v h = add_entry (canonical_key key) v h"

definition header_get :: "string \<Rightarrow> http_header \<Rightarrow> string" where
  "header_get key h = (case entries_of h (canonical_key key) of [] \<Rightarrow> [] | v # _ \<Rightarrow> v)"

definition USER_AGENT_HEADER_PREFIX :: string where
  "USER_AGENT_HEADER_PREFIX = ''user-agent:''"

definition DEFAULT_USER_AGENT_PREFIX :: string where
  "DEFAULT_USER_AGENT_PREFIX = ''goss/''"

definition hasUserAgentHeader :: "string list \<Rightarrow> bool" where
  "hasUserAgentHeader headers = list_ex (\<lambda>header. has_prefix (to_lower header) USER_AGENT_HEADER_PREFIX) headers"

text \<open>The loop over the configured headers: one without a colon and a space is indexed out of range (None).\<close>

fun parse_headers :: "string list \<Rightarrow> http_header \<Rightarrow> http_header option" where
  "parse_headers [] headers = Some headers"
| "parse_headers (r # rs) headers =
     (case split2 r '': '' of
        [name, v] \<Rightarrow> parse_headers rs (header_add name v headers)
      | _ \<Rightarrow> None)"

definition HeaderToArray :: "http_header \<Rightarrow> string list" where
  "HeaderToArray header = sort (concat (map (\<lambda>(name, values). map (\<lambda>value. name @ '': '' @ value) values) header))"

section \<open>The object\<close>

record http_response =
  hp_StatusCode :: int
  hp_Header :: http_header
  hp_Body :: "string query"

record http_client =
  hc_proxy :: "string option"
  hc_insecure :: bool
  hc_rootCA :: "string option"
  hc_cert :: "(string \<times> string) option"
  hc_timeout :: int
  hc_noRedirects :: bool

record http_request =
  hr_method :: string
  hr_url :: string
  hr_body :: string
  hr_header :: http_header
  hr_query :: "(string \<times> string) list"
  hr_host :: "string option"
  hr_auth :: "(string \<times> string) option"

record http_env =
  ht_urlParse :: "string \<Rightarrow> go_error option"
  ht_ReadFile :: "string \<Rightarrow> go_error + string"
  ht_AppendCerts :: "string \<Rightarrow> bool"
  ht_LoadKeyPair :: "string \<Rightarrow> string \<Rightarrow> go_error option"
  ht_NewRequest :: "string \<Rightarrow> string \<Rightarrow> go_error option"
  ht_Do :: "http_client \<Rightarrow> http_request \<Rightarrow> go_error + http_response"

record DefHTTP =
  hx_http :: string
  hx_allowInsecure :: bool
  hx_noFollowRedirects :: bool
  hx_resp :: "http_response option"
  hx_RequestHeader :: http_header
  hx_RequestQueryParams :: "(string \<times> string list) list"
  hx_RequestBody :: string
  hx_Timeout :: int
  hx_loaded :: bool
  hx_err :: "go_error option"
  hx_Username :: string
  hx_Password :: string
  hx_CAFile :: string
  hx_CertFile :: string
  hx_KeyFile :: string
  hx_Method :: string
  hx_Proxy :: string

definition request_headers :: "string \<Rightarrow> Config \<Rightarrow> string list" where
  "request_headers version config =
     (if hasUserAgentHeader (RequestHeader config) then RequestHeader config
      else RequestHeader config @ [USER_AGENT_HEADER_PREFIX @ '' '' @ DEFAULT_USER_AGENT_PREFIX @ version])"

definition NewDefHTTP :: "string \<Rightarrow> string \<Rightarrow> Config \<Rightarrow> DefHTTP option" where
  "NewDefHTTP version httpStr config =
     map_option (\<lambda>headers.
       \<lparr>hx_http = httpStr, hx_allowInsecure = AllowInsecure config, hx_noFollowRedirects = NoFollowRedirects config,
        hx_resp = None, hx_RequestHeader = headers, hx_RequestQueryParams = RequestQueryParams config,
        hx_RequestBody = RequestBody config, hx_Timeout = TimeOutMilliSeconds config, hx_loaded = False, hx_err = None,
        hx_Username = Username config, hx_Password = Password config, hx_CAFile = CAFile config,
        hx_CertFile = CertFile config, hx_KeyFile = KeyFile config, hx_Method = Method config, hx_Proxy = Proxy config\<rparr>)
     (parse_headers (request_headers version config) [])"

definition http_client_of :: "http_env \<Rightarrow> DefHTTP \<Rightarrow> go_error + http_client" where
  "http_client_of H u =
     (case (if hx_Proxy u = [] then None else ht_urlParse H (hx_Proxy u)) of
        Some err \<Rightarrow> Inl err
      | None \<Rightarrow>
     (case (if hx_CAFile u = [] then Inr None
            else (case ht_ReadFile H (hx_CAFile u) of
                    Inl err \<Rightarrow> Inl err
                  | Inr caCert \<Rightarrow>
                      if ht_AppendCerts H caCert then Inr (Some caCert)
                      else Inl (SysErr (''failed parse root certificate: '' @ hx_CAFile u)))) of
        Inl err \<Rightarrow> Inl err
      | Inr roots \<Rightarrow>
     (case (if hx_CertFile u \<noteq> [] \<and> hx_KeyFile u \<noteq> [] then ht_LoadKeyPair H (hx_CertFile u) (hx_KeyFile u) else None) of
        Some err \<Rightarrow> Inl err
      | None \<Rightarrow>
          Inr \<lparr>hc_proxy = (if hx_Proxy u = [] then None else Some (hx_Proxy u)), hc_insecure = hx_allowInsecure u,
               hc_rootCA = roots,
               hc_cert = (if hx_CertFile u \<noteq> [] \<and> hx_KeyFile u \<noteq> [] then Some (hx_CertFile u, hx_KeyFile u) else None),
               hc_timeout = hx_Timeout u, hc_noRedirects = hx_noFollowRedirects u\<rparr>)))"

definition http_request_of :: "DefHTTP \<Rightarrow> http_request" where
  "http_request_of u =
     \<lparr>hr_method = hx_Method u, hr_url = hx_http u, hr_body = hx_RequestBody u, hr_header = hx_RequestHeader u,
      hr_query = concat (map (\<lambda>(k, params). map (\<lambda>param. (k, param)) params) (hx_RequestQueryParams u)),
      hr_host = (let host = header_get ''Host'' (hx_RequestHeader u) in if host = [] then None else Some host),
      hr_auth = (if hx_Username u \<noteq> [] \<or> hx_Password u \<noteq> [] then Some (hx_Username u, hx_Password u) else None)\<rparr>"

definition setupReal :: "http_env \<Rightarrow> DefHTTP \<Rightarrow> go_error option \<times> DefHTTP" where
  "setupReal H u =
     (case http_client_of H u of
        Inl err \<Rightarrow> (Some err, u)
      | Inr client \<Rightarrow>
          (case ht_NewRequest H (hx_Method u) (hx_http u) of
             Some err \<Rightarrow> (Some err, u)
           | None \<Rightarrow>
               (case ht_Do H client (http_request_of u) of
                  Inl err \<Rightarrow> (Some err, u\<lparr>hx_resp := None, hx_err := Some err\<rparr>)
                | Inr resp \<Rightarrow> (None, u\<lparr>hx_resp := Some resp, hx_err := None\<rparr>))))"

definition DefHTTP_setup :: "http_env \<Rightarrow> DefHTTP \<Rightarrow> go_error option \<times> DefHTTP" where
  "DefHTTP_setup H u =
     (if hx_loaded u then (hx_err u, u)
      else let (err, u) = setupReal H (u\<lparr>hx_loaded := True\<rparr>);
               u = (case err of None \<Rightarrow> u | Some e \<Rightarrow> u\<lparr>hx_err := Some e\<rparr>)
           in (hx_err u, u))"

text \<open>The response is not nil when there is no error.\<close>

definition with_http :: "'a \<Rightarrow> (http_response \<Rightarrow> 'a) \<Rightarrow> http_env \<Rightarrow> DefHTTP \<Rightarrow> 'a query \<times> DefHTTP" where
  "with_http zero sel H u =
     (case DefHTTP_setup H u of
        (Some err, u') \<Rightarrow> ((zero, Some err), u')
      | (None, u') \<Rightarrow> ((case hx_resp u' of None \<Rightarrow> zero | Some resp \<Rightarrow> sel resp, None), u'))"

definition DefHTTP_Status :: "http_env \<Rightarrow> DefHTTP \<Rightarrow> int query \<times> DefHTTP" where
  "DefHTTP_Status = with_http 0 hp_StatusCode"

definition DefHTTP_Headers :: "http_env \<Rightarrow> DefHTTP \<Rightarrow> (string query) query \<times> DefHTTP" where
  "DefHTTP_Headers = with_http ([], None) (\<lambda>resp. (join [newline] (HeaderToArray (hp_Header resp)), None))"

definition DefHTTP_Body :: "http_env \<Rightarrow> DefHTTP \<Rightarrow> (string query) query \<times> DefHTTP" where
  "DefHTTP_Body = with_http ([], None) hp_Body"

definition DefHTTP_Exists :: "http_env \<Rightarrow> DefHTTP \<Rightarrow> bool query \<times> DefHTTP" where
  "DefHTTP_Exists H u =
     (case DefHTTP_Status H u of
        ((_, Some err), u') \<Rightarrow> ((False, Some err), u')
      | ((_, None), u') \<Rightarrow> ((True, None), u'))"

definition SetNoFollowRedirects :: "bool \<Rightarrow> DefHTTP \<Rightarrow> DefHTTP" where
  "SetNoFollowRedirects t u = u\<lparr>hx_noFollowRedirects := t\<rparr>"

definition SetAllowInsecure :: "bool \<Rightarrow> DefHTTP \<Rightarrow> DefHTTP" where
  "SetAllowInsecure t u = u\<lparr>hx_allowInsecure := t\<rparr>"

definition HTTP_answers :: "http_env \<Rightarrow> string \<Rightarrow> string \<Rightarrow> Config \<Rightarrow> SysHTTP option" where
  "HTTP_answers H version httpStr config =
     map_option (\<lambda>u.
       \<lparr>sh_HTTP = httpStr, sh_Exists = fst (DefHTTP_Exists H u), sh_Status = fst (DefHTTP_Status H u),
        sh_Headers = fst (DefHTTP_Headers H u), sh_Body = fst (DefHTTP_Body H u)\<rparr>)
     (NewDefHTTP version httpStr config)"

section \<open>Lemmas\<close>

definition http_sound :: "DefHTTP \<Rightarrow> bool" where
  "http_sound u \<longleftrightarrow> hx_loaded u \<or> hx_err u = None"

lemma NewDefHTTP_sound: "NewDefHTTP version s config = Some u \<Longrightarrow> http_sound u"
  by (auto simp: NewDefHTTP_def http_sound_def)

lemma setupReal_frame: "setupReal H u = (err, u') \<Longrightarrow> hx_loaded u' = hx_loaded u"
  by (auto simp: setupReal_def split: sum.splits option.splits)

interpretation http_load: load_once DefHTTP_setup http_sound
proof
  show "DefHTTP_setup env' (snd (DefHTTP_setup env d)) = DefHTTP_setup env d" if "http_sound d" for env' env d
    using that setupReal_frame[of env "d\<lparr>hx_loaded := True\<rparr>"]
    by (auto simp: DefHTTP_setup_def Let_def split: prod.splits option.splits)
qed

lemma with_http_reads: "reads_after DefHTTP_setup (with_http zero sel)"
  unfolding reads_after_def with_http_def
  by (rule exI[of _ "\<lambda>(err, u). case err of Some e \<Rightarrow> (zero, Some e)
      | None \<Rightarrow> (case hx_resp u of None \<Rightarrow> zero | Some resp \<Rightarrow> sel resp, None)"])
    (auto split: prod.splits option.splits)

lemma DefHTTP_setup_resp:
  assumes "DefHTTP_setup H u = (None, u')" and "\<not> hx_loaded u" and "hx_err u = None"
  shows "hx_resp u' \<noteq> None"
  using assms by (auto simp: DefHTTP_setup_def setupReal_def Let_def split: sum.splits option.splits prod.splits)

lemma canonical_chars_idem: "canonical_chars up (canonical_chars up s) = canonical_chars up s"
proof (induction s arbitrary: up)
  case (Cons c cs)
  have "(to_upper_char c = CHR ''-'') = (c = CHR ''-'')" "(to_lower_char c = CHR ''-'') = (c = CHR ''-'')"
    by (auto simp: to_upper_char_def to_lower_char_def Let_def char_of_eq_iff take_bit_eq_mod split: if_splits)
  moreover have "to_upper_char (to_upper_char c) = to_upper_char c" "to_lower_char (to_lower_char c) = to_lower_char c"
    by (auto simp: to_upper_char_def to_lower_char_def Let_def)
  ultimately show ?case using Cons by simp
qed simp

text \<open>Every configured header is sent, and a user agent is added when none is configured.\<close>

lemma parse_headers_entries:
  assumes "parse_headers rs h0 = Some h"
  shows "entries_of h k = entries_of h0 k @ concat (map (\<lambda>r. case split2 r '': '' of [name, v] \<Rightarrow> if canonical_key name = k then [v] else [] | _ \<Rightarrow> []) rs)"
  using assms
proof (induction rs arbitrary: h0)
  case (Cons r rs)
  from split2_cases[of r "'': ''"] Cons.prems obtain name v where s: "split2 r '': '' = [name, v]" by auto
  with Cons.prems have "parse_headers rs (header_add name v h0) = Some h" by simp
  from Cons.IH[OF this] s show ?case by (auto simp: header_add_def entries_of_add)
qed simp

lemma parse_headers_panics: "parse_headers rs h = None \<longleftrightarrow> (\<exists>r\<in>set rs. \<not> str_contains r '': '')"
proof (induction rs arbitrary: h)
  case (Cons r rs)
  show ?case
  proof (cases "str_contains r '': ''")
    case True
    then obtain i where "str_index r '': '' = Some i" by (auto simp: str_contains_def)
    then have "split2 r '': '' = [take i r, drop (i + 2) r]" by (simp add: split2_def)
    with Cons True show ?thesis by simp
  next
    case False
    then have "split2 r '': '' = [r]" by (simp add: split2_def str_contains_def)
    with False show ?thesis by simp
  qed
qed simp

end
