(* ===== verification/Sys_New.thy ===== *)
theory Sys_New
  imports Sys_Http Resources
begin

text \<open>
  \<^verbatim>\<open>New\<close> of system.go: the system that the tests query, put together from the objects of the package, and
  what tests of the resources then say about the machine.
\<close>

section \<open>The system of a machine\<close>

text \<open>
  The operating system, the network as each attempt of a lookup sees it, the HTTP client, and the version of goss. Time
  stands still while a test runs: the answers of one machine are what the queries of one run return.
\<close>

record machine =
  mc_os :: os_env
  mc_dns :: "string \<Rightarrow> nat \<Rightarrow> dns_env"
  mc_http :: http_env
  mc_version :: string

text \<open>The addresses of a name are asked for after whether it resolves, as \<^verbatim>\<open>Validate\<close> and \<^verbatim>\<open>NewDNS\<close> do.\<close>

definition DNS_answers :: "(nat \<Rightarrow> dns_env) \<Rightarrow> string \<Rightarrow> Config \<Rightarrow> SysDNS option" where
  "DNS_answers E host config =
     (let d = NewDefDNS host config in
      (case DefDNS_Resolvable E d of
         None \<Rightarrow> None
       | Some (resolvable, d') \<Rightarrow>
           map_option (\<lambda>(addrs, _).
             \<lparr>sd_Host = dd_host d, sd_Qtype = dd_qtype d, sd_Server = dd_server d, sd_Exists = DefDNS_Exists d,
              sd_Resolvable = resolvable, sd_Addrs = addrs\<rparr>) (DefDNS_Addrs E d')))"

definition Port_answers :: "os_env \<Rightarrow> string \<Rightarrow> sys_cache \<Rightarrow> SysPort" where
  "Port_answers env port s = port_answers (fst (NewDefPort env port s))"

definition Process_answers :: "os_env \<Rightarrow> string \<Rightarrow> sys_cache \<Rightarrow> SysProcess" where
  "Process_answers env executable s = process_answers env (fst (NewDefProcess env executable s))"

text \<open>
  A cache that a system can have during a run on the machine: new, or after the ports, the processes or both have
  been read.
\<close>

inductive cache_reached :: "os_env \<Rightarrow> sys_cache \<Rightarrow> bool" for env where
  cache_new: "cache_reached env new_cache"
| cache_port: "cache_reached env s \<Longrightarrow> cache_reached env (snd (NewDefPort env port s))"
| cache_process: "cache_reached env s \<Longrightarrow> cache_reached env (snd (NewDefProcess env executable s))"

text \<open>
  \<open>sys\<close> answers as the system of \<^verbatim>\<open>New\<close> does. A constructor or query that panics ends the program, and nothing is said of
  what it would have answered; the answers about ports and processes come from some cache of the run.
\<close>

definition is_New :: "machine \<Rightarrow> string \<Rightarrow> System \<Rightarrow> bool" where
  "is_New M packageManager sys \<longleftrightarrow>
     (\<forall>name config.
        NewSysFile sys name config = File_answers (mc_os M) name \<and>
        NewSysAddr sys name config = Addr_answers (mc_os M) name config \<and>
        (\<exists>s. cache_reached (mc_os M) s \<and> NewSysPort sys name config = Port_answers (mc_os M) name s) \<and>
        NewSysUser sys name config = User_answers (mc_os M) name \<and>
        NewSysGroup sys name config = Group_answers (mc_os M) name \<and>
        NewSysCommand sys name config = Command_answers (mc_os M) name config \<and>
        (\<forall>a. DNS_answers (mc_dns M name) name config = Some a \<longrightarrow> NewSysDNS sys name config = a) \<and>
        (\<exists>s. cache_reached (mc_os M) s \<and> NewSysProcess sys name config = Process_answers (mc_os M) name s) \<and>
        NewSysGossfile sys name config = Gossfile_answers name \<and>
        NewSysKernelParam sys name config = KernelParam_answers (mc_os M) name \<and>
        NewSysMount sys name config = Mount_answers (mc_os M) name config \<and>
        NewSysInterface sys name config = Interface_answers (mc_os M) name \<and>
        (\<forall>a. HTTP_answers (mc_http M) (mc_version M) name config = Some a \<longrightarrow> NewSysHTTP sys name config = a) \<and>
        NewSysRegistry sys name config = Registry_answers (mc_os M) name \<and>
        NewSysService sys name config = NewService_of (detectService (mc_os M)) (mc_os M) name config \<and>
        (\<forall>a. Package_answers (detectPackage (mc_os M) packageManager) (mc_os M) name = Some a \<longrightarrow>
             NewSysPackage sys name config = a))"

section \<open>The caches during a run\<close>

lemma System_Ports_frame:
  "sc_procMap (snd (System_Ports env s)) = sc_procMap s" "sc_procOnce (snd (System_Ports env s)) = sc_procOnce s"
  by (auto simp: System_Ports_def Let_def split: prod.splits)

lemma System_ProcMap_frame:
  "sc_ports (snd (System_ProcMap env s)) = sc_ports s" "sc_portsErr (snd (System_ProcMap env s)) = sc_portsErr s"
  "sc_portsOnce (snd (System_ProcMap env s)) = sc_portsOnce s"
  by (auto simp: System_ProcMap_def Let_def split: prod.splits)

lemma snd_NewDefPort [simp]: "snd (NewDefPort env port s) = snd (System_Ports env s)"
  by (simp add: NewDefPort_def Let_def case_prod_beta)

lemma snd_NewDefProcess [simp]: "snd (NewDefProcess env executable s) = snd (System_ProcMap env s)"
  by (simp add: NewDefProcess_def Let_def case_prod_beta)

lemma cache_reached_ports:
  "cache_reached env s \<Longrightarrow> sc_portsOnce s \<longrightarrow> (sc_ports s, sc_portsErr s) = GetPorts env"
proof (induction rule: cache_reached.induct)
  case (cache_port s port)
  then show ?case by (auto simp: System_Ports_def Let_def split: prod.splits)
qed (simp_all add: new_cache_def System_ProcMap_frame)

lemma cache_reached_procs:
  "cache_reached env s \<Longrightarrow> sc_procOnce s \<longrightarrow> sc_procMap s = fst (GetProcs env)"
proof (induction rule: cache_reached.induct)
  case (cache_process s executable)
  then show ?case by (auto simp: System_ProcMap_def Let_def split: prod.splits)
qed (simp_all add: new_cache_def System_Ports_frame)

lemma Ports_of_run: "cache_reached env s \<Longrightarrow> fst (System_Ports env s) = GetPorts env"
  using cache_reached_ports[of env s] by (auto simp: System_Ports_def Let_def split: prod.splits)

lemma ProcMap_of_run: "cache_reached env s \<Longrightarrow> fst (fst (System_ProcMap env s)) = fst (GetProcs env)"
  using cache_reached_procs[of env s] by (auto simp: System_ProcMap_def Let_def split: prod.splits)

lemma Port_answers_of_run:
  assumes "cache_reached env s"
  shows "Port_answers env port s =
    port_answers \<lparr>dp_port = normalizePort port, dp_sysPorts = fst (GetPorts env), dp_err = snd (GetPorts env)\<rparr>"
  using Ports_of_run[OF assms] by (simp add: Port_answers_def NewDefPort_def Let_def case_prod_beta)

text \<open>A system as \<^verbatim>\<open>New\<close> builds it, with an arbitrary answer where the code panics.\<close>

definition New :: "machine \<Rightarrow> string \<Rightarrow> System" where
  "New M packageManager =
     (let env = mc_os M in
      \<lparr>NewSysFile = (\<lambda>name config. File_answers env name),
       NewSysPackage = (\<lambda>name config. case Package_answers (detectPackage env packageManager) env name of
          Some a \<Rightarrow> a | None \<Rightarrow> NewSysPackage sample_system name config),
       NewSysAddr = Addr_answers env,
       NewSysPort = (\<lambda>name config. Port_answers env name new_cache),
       NewSysService = NewService_of (detectService env) env,
       NewSysUser = (\<lambda>name config. User_answers env name),
       NewSysGroup = (\<lambda>name config. Group_answers env name),
       NewSysCommand = Command_answers env,
       NewSysDNS = (\<lambda>name config. case DNS_answers (mc_dns M name) name config of
          Some a \<Rightarrow> a | None \<Rightarrow> NewSysDNS sample_system name config),
       NewSysProcess = (\<lambda>name config. Process_answers env name new_cache),
       NewSysGossfile = (\<lambda>name config. Gossfile_answers name),
       NewSysKernelParam = (\<lambda>name config. KernelParam_answers env name),
       NewSysMount = Mount_answers env,
       NewSysInterface = (\<lambda>name config. Interface_answers env name),
       NewSysHTTP = (\<lambda>name config. case HTTP_answers (mc_http M) (mc_version M) name config of
          Some a \<Rightarrow> a | None \<Rightarrow> NewSysHTTP sample_system name config),
       NewSysRegistry = (\<lambda>name config. Registry_answers env name)\<rparr>)"

lemma New_is_New: "is_New M packageManager (New M packageManager)"
  unfolding is_New_def New_def Let_def by (auto intro!: exI[of _ new_cache] cache_new)

section \<open>A sample machine\<close>

definition sample_exec :: exec_run where
  "sample_exec = \<lparr>ex_Start = None, ex_Wait = WaitOk, ex_Output = ([], []), ex_late = False, ex_pick = False, ex_partial = ([], [])\<rparr>"

definition web_server :: connection where
  "web_server = \<lparr>cn_IP = ''0.0.0.0'', cn_Port = 80, cn_Status = ''LISTEN'', cn_Pid = 7\<rparr>"

definition script_info :: file_info where
  "script_info = \<lparr>fi_Mode = 0, fi_Size = 12, fi_StatMode = 33261, fi_Uid = 0, fi_Gid = 0\<rparr>"

definition sample_env :: os_env where
  "sample_env =
     (let no = SysErr ''not found'' in
      \<lparr>os_GOOS = ''linux'', os_LookPath = (\<lambda>_. None), os_exec = (\<lambda>_. sample_exec), os_execLine = (\<lambda>_ _. sample_exec), os_Stat = (\<lambda>_. Some no),
       os_Lstat = (\<lambda>_. Inr script_info), os_ReadFile = (\<lambda>_. Inl no), os_Open = (\<lambda>_. Inl no),
       os_Readlink = (\<lambda>_. Inl no), os_Abs = Inr, os_Glob = (\<lambda>_. Inr []), user_Current = Inl no,
       user_Lookup = (\<lambda>_. Inl no), user_LookupId = (\<lambda>_. Inl no), user_LookupGroup = (\<lambda>_. Inl no),
       user_LookupGroupId = (\<lambda>_. Inl no), user_GroupIds = (\<lambda>_. Inl no), os_hash = (\<lambda>_ _. []), os_mounts = (\<lambda>_. Inr []),
       os_mounts_late = (\<lambda>_. False), os_Statfs = (\<lambda>_. Inr \<lparr>st_Bfree = 250, st_Blocks = 1000\<rparr>),
       cpu_int = (\<lambda>_. - (2 ^ 63)),
       os_conns = (\<lambda>kind. (if kind = ''tcp4'' then [web_server] else [], None)),
       os_processes = Inl no, os_sysctl = (\<lambda>_. Inl no), os_InterfaceByName = (\<lambda>_. Inl no),
       os_IfaceAddrs = (\<lambda>_. Inr []), lo_Uniq = remdups, os_Dial = (\<lambda>_ _ _ _. False),
       reg_OpenKey = (\<lambda>_ _. Inl no)\<rparr>)"

definition sample_machine :: machine where
  "sample_machine =
     \<lparr>mc_os = sample_env,
      mc_dns = (\<lambda>_ _. \<lparr>dn_Exchange = (\<lambda>_ _ _. Inr []), dn_Fqdn = (\<lambda>h. h), dn_ReverseAddr = Inr,
                       dn_LookupHost = (\<lambda>_. Inr []), dn_late = False, dn_pick = False\<rparr>),
      mc_http = \<lparr>ht_urlParse = (\<lambda>_. None), ht_ReadFile = (\<lambda>_. Inr []), ht_AppendCerts = (\<lambda>_. True),
                 ht_LoadKeyPair = (\<lambda>_ _. None), ht_NewRequest = (\<lambda>_ _. None),
                 ht_Do = (\<lambda>_ _. Inr \<lparr>hp_StatusCode = 200, hp_Header = [], hp_Body = ([], None)\<rparr>)\<rparr>,
      mc_version = ''v0''\<rparr>"

section \<open>Properties\<close>


text \<open>C29: The mode of a file is four octal digits, and they are the lower twelve bits of the mode that lstat returned.\<close>

theorem DefFile_Mode_octal:
  assumes "DefFile_Mode env f = ((s, None), f')"
  shows "\<exists>fi. os_Lstat env (df_realPath f') = Inr fi \<and>
    length s = 4 \<and> list_all is_octal s \<and> octal_val s = unat (fi_StatMode fi) mod 4096"
  using assms mode_string_octal
  by (auto simp: DefFile_Mode_def getFileInfo_def with_file_def lstat_query_def split: prod.splits option.splits sum.splits)

theorem DefFile_Mode_octal_witness:
  "octal_val (fst (fst (DefFile_Mode sample_env (NewDefFile sample_env ''/bin/run'')))) = 493"
proof -
  let ?q = "DefFile_Mode sample_env (NewDefFile sample_env ''/bin/run'')"
  obtain s f' where q: "?q = ((s, None), f')" and r: "df_realPath f' = ''/bin/run''"
    by (simp add: DefFile_Mode_def getFileInfo_def with_file_def lstat_query_def DefFile_setup_def NewDefFile_def realPath_def
        sample_env_def Let_def)
  from DefFile_Mode_octal[OF q] have "octal_val s = unat (fi_StatMode script_info) mod 4096"
    by (auto simp: sample_env_def Let_def)
  then show ?thesis unfolding q by (simp add: script_info_def)
qed

text \<open>C31: The groups of a user are sorted, and they are exactly the groups that a line of the group file names with the user's primary
  group id or with the user among its members.\<close>

theorem groupsForUser_exact:
  "sorted (groupsForUser user pgid grp) \<and>
   (name \<in> set (groupsForUser user pgid grp) \<longleftrightarrow> (\<exists>line\<in>set (scanned grp). lists_group user pgid line name))"
  using groupsForUser_set by (simp add: groupsForUser_def)

text \<open>A test of a boolean property that expects a boolean, with gomega's comparison of booleans.\<close>

definition compares_bools :: "ext \<Rightarrow> bool" where
  "compares_bools X \<longleftrightarrow> (\<forall>a b. g_equal X (VBool a) (VBool b) = (a = b, None))"

lemma ValidateValue_bool:
  assumes "compares_bools X"
  shows "\<exists>r. ValidateValue X res attribute (VBool b) (gbool q) False clk = Some r \<and>
    (Result r = SUCCESS \<longleftrightarrow> snd q = None \<and> fst q = b)"
  using assms
  by (cases "snd q") (auto simp: compares_bools_def ValidateValue_def ValidateGomegaValue_def read_as_string_def found_value_def
      expected_matcher_def is_reader_def match_result_def q_sum_def)

text \<open>C7: On a real system, a test that a port is listening, or that it is not, passes exactly when the tables of connections could be
  read and hold, or do not hold, a listening TCP socket or a UDP socket for that network and port.\<close>

theorem port_test_exact:
  assumes "is_New M packageManager sys" and "compares_bools X"
    and "\<not> rb_Skip p" and "o_Listening p = VBool b" and "o_IP p = VNil" and "o_PID p = VNil"
  shows "\<exists>r. snd (Port_Validate X sys clk p) = Some [r] \<and>
    (Result r = SUCCESS \<longleftrightarrow>
       snd (GetPorts (mc_os M)) = None \<and> (connections_at (mc_os M) (normalizePort (Port_GetPort p)) \<noteq> []) = b)"
proof -
  let ?env = "mc_os M" and ?key = "normalizePort (Port_GetPort p)"
  obtain s where "cache_reached ?env s" and "NewSysPort sys (Port_GetPort p) zero_config = Port_answers ?env (Port_GetPort p) s"
    using assms(1) unfolding is_New_def by blast
  then have a: "so_Listening (NewSysPort sys (Port_GetPort p) zero_config) =
      (case snd (GetPorts ?env) of Some err \<Rightarrow> (False, Some err) | None \<Rightarrow> (map_of (fst (GetPorts ?env)) ?key \<noteq> None, None))"
    by (simp add: Port_answers_of_run port_answers_def DefPort_Listening_def split: option.split)
  have l: "map_of (fst (GetPorts ?env)) ?key \<noteq> None \<longleftrightarrow> connections_at ?env ?key \<noteq> []"
    using no_empty_lookup[OF GetPorts_no_empty[of ?env], of ?key] by (simp add: GetPorts_entries)
  let ?q = "so_Listening (NewSysPort sys (Port_GetPort p) zero_config)"
  obtain r where r: "ValidateValue X (info_of p (Port_ID p) ''Port'') ''listening'' (VBool b) (gbool ?q) False clk = Some r"
    and pass: "Result r = SUCCESS \<longleftrightarrow> snd ?q = None \<and> fst ?q = b"
    using ValidateValue_bool[OF assms(2)] by blast
  have "snd (Port_Validate X sys clk p) = Some [r]"
    using r assms(3-6) by (simp add: Port_Validate_def Let_def guarded_checks_def opt_check_def)
  moreover have "snd ?q = None \<and> fst ?q = b \<longleftrightarrow> snd (GetPorts ?env) = None \<and> (connections_at ?env ?key \<noteq> []) = b"
    unfolding a l by (simp split: option.split)
  ultimately show ?thesis using pass by blast
qed

definition http_port :: Port where
  "http_port = zero_Port\<lparr>rb_id := ''80'', o_Listening := VBool True\<rparr>"

theorem port_test_exact_witness:
  "\<exists>r. snd (Port_Validate sample_ext (New sample_machine []) (\<lambda>_. (0, 0)) http_port) = Some [r] \<and> Result r = SUCCESS"
proof -
  have n: "normalizePort (Port_GetPort http_port) = ''tcp:80''" by code_simp
  have c: "connections_at sample_env ''tcp:80'' \<noteq> []" by code_simp
  have e: "snd (GetPorts sample_env) = None"
    by (simp add: GetPorts_error tables_def sample_env_def Let_def)
  have "compares_bools sample_ext" by (simp add: compares_bools_def sample_ext_def)
  from port_test_exact[OF New_is_New[of sample_machine "[]"] this, of http_port True "\<lambda>_. (0, 0)"] n c e
  show ?thesis by (simp add: http_port_def zero_Port_def res_base.defs empty_base_def Port.defs sample_machine_def)
qed


definition windows_machine :: machine where
  "windows_machine = sample_machine\<lparr>mc_os := sample_env\<lparr>os_GOOS := ''windows''\<rparr>\<rparr>"

definition version_value :: Registry where
  "version_value =
     zero_Registry\<lparr>rb_id := ''HKLM'' @ [backslash] @ ''Software'' @ [backslash] @ ''Version'', y_Exists := VBool False\<rparr>"


text \<open>C28: The usage of a mounted file system is a percentage: for a system with blocks, of which no more than all are free, it is
  between 0 and 100 and differs from the exact used share by at most one half, up to the error of double precision.\<close>

theorem getUsage_exact:
  assumes "\<not> on_windows env" and "os_Statfs env mountpoint = Inr st" and "st_Blocks st \<noteq> 0" and "st_Bfree st \<le> st_Blocks st"
  shows "\<exists>usage. getUsage env mountpoint = Inr usage \<and> 0 \<le> usage \<and> usage \<le> 100 \<and>
    \<bar>of_int usage - 100 * (1 - of_nat (unat (st_Bfree st)) / of_nat (unat (st_Blocks st)) :: rat)\<bar> \<le> 1/2 + 1 / 2 ^ 43"
proof -
  let ?f = "of_nat (unat (st_Bfree st)) :: rat" and ?b = "of_nat (unat (st_Blocks st)) :: rat"
  have f: "0 \<le> ?f" "?f \<le> ?b" using assms(4) by (simp_all only: of_nat_0_le_iff of_nat_le_iff word_le_nat_alt)
  have b: "0 < ?b" using assms(3) by (simp only: of_nat_0_less_iff unat_gt_0 simp_thms)
  let ?v = "f64.used_percent ?f ?b" and ?n = "round_away (f64.used_percent ?f ?b)"
  note v = f64.used_percent_bounds[OF f b]
  have B: "round53 ?b \<noteq> 0" using f64.rnd_half[of ?b] b by linarith
  have n: "0 \<le> ?n" "?n \<le> 100" using round_away_percent[OF v] by simp_all
  have "getUsage env mountpoint = Inr ?n"
    using assms(1,2) B n
    by (simp add: getUsage_def getUsage_posix_def float_of_uint64_def float_sub_def int_of_float_def Let_def
        f64.used_percent_def f64.free_share_def)
  moreover have "\<bar>of_int ?n - 100 * (1 - ?f / ?b)\<bar> \<le> \<bar>of_int ?n - ?v\<bar> + \<bar>?v - 100 * (1 - ?f / ?b)\<bar>"
    using abs_triangle_ineq[of "of_int ?n - ?v" "?v - 100 * (1 - ?f / ?b)"] by simp
  then have "\<bar>of_int ?n - 100 * (1 - ?f / ?b)\<bar> \<le> 1/2 + 700 * (1 / 2 ^ 53)"
    using round_away_error[OF v(1)] f64.used_percent_error[OF f b] by (meson add_mono order_trans)
  then have "\<bar>of_int ?n - 100 * (1 - ?f / ?b)\<bar> \<le> 1/2 + 1 / 2 ^ 43" by (rule order_trans) simp
  ultimately show ?thesis using n by blast
qed

theorem getUsage_exact_witness:
  "\<exists>usage. getUsage sample_env ''/'' = Inr usage \<and> \<bar>of_int usage - (75 :: rat)\<bar> \<le> 1/2 + 1 / 2 ^ 43"
proof -
  let ?s = "\<lparr>st_Bfree = 250, st_Blocks = 1000\<rparr>"
  have w: "\<not> on_windows sample_env" and s: "os_Statfs sample_env ''/'' = Inr ?s" by (simp_all add: sample_env_def Let_def)
  have e: "100 * (1 - of_nat (unat (st_Bfree ?s)) / of_nat (unat (st_Blocks ?s))) = (75 :: rat)" by simp
  from getUsage_exact[OF w s, unfolded e] show ?thesis by auto
qed

text \<open>A file system without blocks has no usage: the quotient of two zeros is converted, and what comes out is up to the processor.\<close>

lemma getUsage_no_blocks:
  assumes "\<not> on_windows env" and "os_Statfs env mountpoint = Inr \<lparr>st_Bfree = 0, st_Blocks = 0\<rparr>"
  shows "getUsage env mountpoint = Inr (cpu_int env NaN)"
  using assms by (simp add: getUsage_def getUsage_posix_def float_of_uint64_def float_sub_def int_of_float_def)

text \<open>On Windows every query about a mount that is found fails.\<close>

lemma Mount_windows_fails:
  assumes "on_windows env"
  shows "snd (sm_Exists (Mount_answers env mountPoint config)) \<noteq> None"
  using assms by (auto simp: Mount_answers_def DefMount_Exists_def with_mount_def DefMount_setup_def NewDefMount_def getUsage_def
    getUsage_windows_def Let_def split: sum.splits)

text \<open>C32: When the processes cannot be listed, only the first process test of a run says so; every later one reports that the process is
  not running, without an error. An error in reading the ports is reported to every test.\<close>

theorem process_error_lost:
  assumes "os_processes env = Inl e" and "snd (GetPorts env) = Some e'" and "cache_reached env s"
  shows "sr_Running (Process_answers env p new_cache) = (False, Some e) \<and>
    sr_Running (Process_answers env q (snd (NewDefProcess env p s))) = (False, None) \<and>
    so_Listening (Port_answers env port s) = (False, Some e')"
proof (intro conjI)
  show "sr_Running (Process_answers env p new_cache) = (False, Some e)"
    by (simp add: Process_answers_def NewDefProcess_def System_ProcMap_def new_cache_def GetProcs_def assms(1)
        process_answers_def DefProcess_Running_def Let_def)
  have "fst (fst (System_ProcMap env s)) = []"
    using ProcMap_of_run[OF assms(3)] by (simp add: GetProcs_def assms(1))
  then show "sr_Running (Process_answers env q (snd (NewDefProcess env p s))) = (False, None)"
    by (simp add: Process_answers_def NewDefProcess_def[of _ q] process_answers_def DefProcess_Running_def Let_def
        case_prod_beta ProcMap_again)
  show "so_Listening (Port_answers env port s) = (False, Some e')"
    by (simp add: Port_answers_of_run[OF assms(3)] port_answers_def DefPort_Listening_def assms(2))
qed

definition broken_env :: os_env where
  "broken_env = sample_env\<lparr>os_conns := (\<lambda>_. ([], Some (SysErr ''not found'')))\<rparr>"

theorem process_error_lost_witness:
  "sr_Running (Process_answers broken_env ''nginx'' (snd (NewDefProcess broken_env ''sshd'' new_cache))) = (False, None)"
proof -
  have p: "os_processes broken_env = Inl (SysErr ''not found'')" by (simp add: broken_env_def sample_env_def Let_def)
  obtain e' where "snd (GetPorts broken_env) = Some e'"
    using GetPorts_error[of broken_env] by (cases "snd (GetPorts broken_env)") (auto simp: broken_env_def tables_def)
  from process_error_lost[OF p this cache_new] show ?thesis by blast
qed

end
