(* ===== verification/Sys_Roundtrip.thy ===== *)
theory Sys_Roundtrip
  imports Sys_New
begin

text \<open>
  From \<^verbatim>\<open>goss add\<close> to \<^verbatim>\<open>goss validate\<close>: a test that describes what the system answers passes on that system.
\<close>

section \<open>Tests of booleans and strings\<close>

text \<open>gomega's comparison of booleans, and of a string with itself.\<close>

definition compares_scalars :: "ext \<Rightarrow> bool" where
  "compares_scalars X \<longleftrightarrow> compares_bools X \<and> (\<forall>s. g_equal X (VStr s) (VStr s) = (True, None))"

definition all_pass :: "TestResult list option \<Rightarrow> bool" where
  "all_pass r \<longleftrightarrow> (\<exists>rs. r = Some rs \<and> rs \<noteq> [] \<and> list_all (\<lambda>r. Result r = SUCCESS) rs)"

lemma ValidateValue_same_bool:
  assumes "compares_scalars X" and "snd q = None"
  shows "\<exists>r. ValidateValue X res attribute (VBool (fst q)) (gbool q) False clk = Some r \<and> Result r = SUCCESS"
  using ValidateValue_bool[of X res attribute "fst q" q clk] assms by (auto simp: compares_scalars_def)

lemma ValidateValue_same_string:
  assumes "compares_scalars X" and "snd q = None"
  shows "\<exists>r. ValidateValue X res attribute (VStr (fst q)) (gstring q) False clk = Some r \<and> Result r = SUCCESS"
  using assms
  by (simp add: compares_scalars_def ValidateValue_def ValidateGomegaValue_def read_as_string_def found_value_def
      expected_matcher_def is_reader_def match_result_def q_sum_def WithSafeTransform_def Match_WithSafeTransform
      WithSafeTransform_apply_def ToString_Transform_def sprint_val_def Let_def)

section \<open>The name a test asks for\<close>

lemma ss_Service_of: "ss_Service (NewService_of k env service config) = service"
  by (cases k) (simp_all add: upstart_answers_def systemd_answers_def init_answers_def windows_answers_def NewServiceInit_def NewAlpineServiceInit_def)

text \<open>The runlevel of the configuration is kept but never asked for.\<close>

lemma NewService_of_config:
  "ss_Enabled (NewService_of k env service config) = ss_Enabled (NewService_of k env service config')"
  "ss_Running (NewService_of k env service config) = ss_Running (NewService_of k env service config')"
  by (cases k; simp add: init_answers_def NewAlpineServiceInit_def ServiceInit_Enabled_def ServiceInit_Running_def)+

lemma normalizeAddress_not_Nil [simp]: "normalizeAddress a \<noteq> []"
  by (simp add: normalizeAddress_def split: prod.splits)

lemma TimeOut_timeout_config [simp]: "TimeOutMilliSeconds (timeout_config ms\<lparr>LocalAddress := l\<rparr>) = ms"
  by (simp add: TimeOutMilliSeconds_def timeout_config_def go_div_def millisecond_def abs_mult sgn_mult sgn_mult_abs)

section \<open>Services, addresses and kernel parameters\<close>

lemma added_service_passes:
  assumes sys: "is_New M packageManager sys" and X: "compares_scalars X"
    and s: "NewService fmatch (NewSysService sys name config) config = Ret s"
  shows "all_pass (snd (Service_Validate X sys clk s))"
proof -
  let ?S = "\<lambda>config. NewService_of (detectService (mc_os M)) (mc_os M) name config"
  have S: "NewSysService sys n c = NewService_of (detectService (mc_os M)) (mc_os M) n c" for n c
    using sys by (simp add: is_New_def)
  from s have e: "snd (ss_Enabled (?S config)) = None" "snd (ss_Running (?S config)) = None"
    and seq: "s = zero_Service\<lparr>rb_id := name, s_Enabled := VBool (fst (ss_Enabled (?S config))),
                     s_Running := VBool (fst (ss_Running (?S config)))\<rparr>"
    by (auto simp: NewService_def S ss_Service_of split: option.splits)
  have sv: "s_Enabled s = VBool (fst (ss_Enabled (?S config)))" "s_Running s = VBool (fst (ss_Running (?S config)))"
    by (simp_all add: seq)
  have n: "Service_GetName s = name" "\<not> rb_Skip s" "s_RunLevels s = VNil"
    by (simp_all add: seq Service_GetName_def name_or_id_def zero_Service_def res_base.defs Service.defs empty_base_def)
  obtain r1 r2 where
    "ValidateValue X (info_of s (Service_ID s) ''Service'') ''enabled'' (s_Enabled s) (gbool (ss_Enabled (?S config))) False clk = Some r1"
    "ValidateValue X (info_of s (Service_ID s) ''Service'') ''running'' (s_Running s) (gbool (ss_Running (?S config))) False clk = Some r2"
    "Result r1 = SUCCESS" "Result r2 = SUCCESS"
    using ValidateValue_same_bool[OF X e(1)] ValidateValue_same_bool[OF X e(2)] sv by metis
  moreover have "s_Enabled s \<noteq> VNil" "s_Running s \<noteq> VNil" by (simp_all add: seq)
  ultimately show ?thesis
    using n by (simp add: Service_Validate_def Let_def S NewService_of_config[of _ _ _ zero_config config] opt_check_def all_pass_def)
qed

lemma added_addr_passes:
  assumes sys: "is_New M packageManager sys" and X: "compares_scalars X" and t: "TimeOutMilliSeconds config \<noteq> 0"
    and a: "NewAddr fmatch (NewSysAddr sys name config) config = Ret a"
  shows "all_pass (snd (Addr_Validate X sys clk a))"
proof -
  let ?q = "sa_Reachable (Addr_answers (mc_os M) name config)"
  have S: "NewSysAddr sys n c = Addr_answers (mc_os M) n c" for n c using sys by (simp add: is_New_def)
  from a have e: "snd ?q = None"
    and aeq: "a = zero_Addr\<lparr>rb_id := normalizeAddress name, a_Reachable := VBool (fst ?q), a_Timeout := TimeOutMilliSeconds config,
                    a_LocalAddress := LocalAddress config\<rparr>"
    by (auto simp: NewAddr_def S Addr_answers_def NewDefAddr_def Let_def split: option.splits)
  have av: "a_Reachable a = VBool (fst ?q)" by (simp add: aeq)
  have n: "Addr_GetAddress a = normalizeAddress name" "\<not> rb_Skip a" "a_Timeout a = TimeOutMilliSeconds config"
    "a_LocalAddress a = LocalAddress config"
    by (simp_all add: aeq Addr_GetAddress_def name_or_id_def zero_Addr_def res_base.defs Addr.defs empty_base_def)
  have same: "sa_Reachable (Addr_answers (mc_os M) (normalizeAddress name)
      ((timeout_config (TimeOutMilliSeconds config))\<lparr>LocalAddress := LocalAddress config\<rparr>)) = ?q"
    by (simp add: Addr_answers_def NewDefAddr_def DefAddr_Reachable_def normalizeAddress_idem Let_def)
  obtain r where "ValidateValue X (info_of a (Addr_ID a) ''Addr'') ''reachable'' (a_Reachable a) (gbool ?q) False clk = Some r"
    "Result r = SUCCESS"
    using ValidateValue_same_bool[OF X e] av by metis
  then show ?thesis using n t same by (simp add: Addr_Validate_def Let_def S all_pass_def)
qed

lemma added_kernel_param_passes:
  assumes sys: "is_New M packageManager sys" and X: "compares_scalars X"
    and k: "NewKernelParam fmatch (NewSysKernelParam sys name config) config = Ret k"
  shows "all_pass (snd (KernelParam_Validate X sys clk k))"
proof -
  let ?q = "sk_Value (KernelParam_answers (mc_os M) name)"
  have S: "NewSysKernelParam sys n c = KernelParam_answers (mc_os M) n" for n c using sys by (simp add: is_New_def)
  from k have e: "snd ?q = None" and keq: "k = zero_KernelParam\<lparr>rb_id := name, k_Value := VStr (fst ?q)\<rparr>"
    by (auto simp: NewKernelParam_def S KernelParam_answers_def split: option.splits)
  have kv: "k_Value k = VStr (fst ?q)" by (simp add: keq)
  have n: "KernelParam_GetName k = name" "\<not> rb_Skip k"
    by (simp_all add: keq KernelParam_GetName_def name_or_id_def zero_KernelParam_def res_base.defs KernelParam.defs empty_base_def)
  obtain r where "ValidateValue X (info_of k (KernelParam_ID k) ''KernelParam'') ''value'' (k_Value k) (gstring ?q) False clk = Some r"
    "Result r = SUCCESS"
    using ValidateValue_same_string[OF X e] kv by metis
  then show ?thesis using n by (simp add: KernelParam_Validate_def Let_def S all_pass_def)
qed

end
