(* ===== verification/Sys_Tests.thy ===== *)
theory Sys_Tests
  imports Sys_New
begin

text \<open>
  Tests on the system of a machine: what the first property of a file, user, group, interface, process or package test
  says about the operating system, whatever other properties the test has.
\<close>

section \<open>The leading property\<close>

text \<open>The first of the results is a success exactly when \<open>holds\<close>.\<close>

definition leads :: "TestResult list \<Rightarrow> bool \<Rightarrow> bool" where
  "leads rs holds \<longleftrightarrow> (\<exists>r rest. rs = r # rest \<and> (Result r = SUCCESS \<longleftrightarrow> holds))"

lemma leads_simps [simp]: "leads [] holds \<longleftrightarrow> False" "leads (r # rs) holds \<longleftrightarrow> (Result r = SUCCESS \<longleftrightarrow> holds)"
  by (simp_all add: leads_def)

lemma guarded_leading:
  assumes "compares_bools X" and "guarded_checks X ri clk False (p, VBool b, gbool q) rest = Some rs"
  shows "leads rs (snd q = None \<and> fst q = b)"
  using ValidateValue_bool[OF assms(1), of ri p b q clk] assms(2)
  by (auto simp: guarded_checks_def Let_def split: option.splits)

text \<open>What the operating system says of a path: \<open>None\<close> when it cannot tell.\<close>

definition file_found :: "os_env \<Rightarrow> string \<Rightarrow> bool option" where
  "file_found env path =
     (case (if has_prefix path ''~'' then realPath env path else (case os_Abs env path of Inl e \<Rightarrow> Inl e | Inr p \<Rightarrow> realPath env p)) of
        Inl _ \<Rightarrow> None
      | Inr p \<Rightarrow> (case os_Lstat env p of Inl (NotExist _) \<Rightarrow> Some False | Inl (OtherFsError _) \<Rightarrow> None | Inr _ \<Rightarrow> Some True))"

lemma sf_Exists_found:
  "snd (sf_Exists (File_answers env path)) = None \<and> fst (sf_Exists (File_answers env path)) = b \<longleftrightarrow> file_found env path = Some b"
  by (auto simp: File_answers_def file_found_def NewDefFile_def DefFile_Exists_def with_file_def DefFile_setup_def Let_def
      split: sum.splits fs_error.splits)

lemma su_Exists_found: "su_Exists (User_answers env name) = (\<not> isl (user_Lookup env name), None)"
  by (simp add: User_answers_def DefUser_Exists_def split: sum.split)

lemma sg_Exists_found: "sg_Exists (Group_answers env name) = (\<not> isl (user_LookupGroup env name), None)"
  by (simp add: Group_answers_def DefGroup_Exists_def split: sum.split)

lemma si_Exists_found:
  "fst (si_Exists (Interface_answers env name)) \<longleftrightarrow> \<not> isl (os_InterfaceByName env name)"
  "snd (si_Exists (Interface_answers env name)) = None"
  by (simp_all add: Interface_answers_def NewDefInterface_def DefInterface_Exists_def DefInterface_setup_def Let_def split: sum.split)

text \<open>While the processes can be listed, every test of the run sees them.\<close>

lemma sr_Running_found:
  assumes "os_processes env = Inr ps" and "cache_reached env s"
  shows "sr_Running (Process_answers env name s) = ((\<exists>p\<in>set ps. pr_Name p = Inr name), None)"
proof -
  have "snd (fst (System_ProcMap env s)) = None"
    using assms(1) by (simp add: System_ProcMap_def GetProcs_def Let_def)
  with ProcMap_of_run[OF assms(2)] GetProcs_running[OF assms(1), of name] show ?thesis
    by (simp add: Process_answers_def NewDefProcess_def process_answers_def DefProcess_Running_def Let_def case_prod_beta)
qed

section \<open>Properties\<close>

text \<open>C6: On a real system, the first result of a test on a file, a user, a group, a network interface or a process says whether the
  thing is there: it is a success exactly when the operating system finds it, for a test that expects it, or denies it, for a test that
  does not. A path that cannot be resolved or examined satisfies neither. The remaining properties of the test do not matter to this.\<close>

theorem host_tests_exact:
  assumes "is_New M packageManager sys" and "compares_bools X" and "os_processes (mc_os M) = Inr ps"
  shows
    "(\<not> rb_Skip f \<and> f_Exists f = VBool b \<and> snd (File_Validate X sys clk f) = Some rs \<longrightarrow>
        leads rs (file_found (mc_os M) (File_GetPath f) = Some b)) \<and>
     (\<not> rb_Skip u \<and> u_Exists u = VBool b \<and> snd (User_Validate X sys clk u) = Some rs \<longrightarrow>
        leads rs ((\<not> isl (user_Lookup (mc_os M) (User_GetUsername u))) = b)) \<and>
     (\<not> rb_Skip g \<and> g_Exists g = VBool b \<and> snd (Group_Validate X sys clk g) = Some rs \<longrightarrow>
        leads rs ((\<not> isl (user_LookupGroup (mc_os M) (Group_GetGroupname g))) = b)) \<and>
     (\<not> rb_Skip i \<and> i_Exists i = VBool b \<and> snd (Interface_Validate X sys clk i) = Some rs \<longrightarrow>
        leads rs ((\<not> isl (os_InterfaceByName (mc_os M) (Interface_GetName i))) = b)) \<and>
     (\<not> rb_Skip p \<and> r_Running p = VBool b \<and> snd (Process_Validate X sys clk p) = Some rs \<longrightarrow>
        leads rs ((\<exists>q\<in>set ps. pr_Name q = Inr (Process_GetComm p)) = b))"
proof (intro conjI impI; elim conjE)
  note lead = guarded_leading[OF assms(2)]
  note New = assms(1)[unfolded is_New_def]
  show "leads rs (file_found (mc_os M) (File_GetPath f) = Some b)"
    if "\<not> rb_Skip f" "f_Exists f = VBool b" "snd (File_Validate X sys clk f) = Some rs"
    using that New by (auto simp: File_Validate_def Let_def sf_Exists_found dest!: lead)
  show "leads rs ((\<not> isl (user_Lookup (mc_os M) (User_GetUsername u))) = b)"
    if "\<not> rb_Skip u" "u_Exists u = VBool b" "snd (User_Validate X sys clk u) = Some rs"
    using that New by (auto simp: User_Validate_def Let_def su_Exists_found dest!: lead)
  show "leads rs ((\<not> isl (user_LookupGroup (mc_os M) (Group_GetGroupname g))) = b)"
    if "\<not> rb_Skip g" "g_Exists g = VBool b" "snd (Group_Validate X sys clk g) = Some rs"
    using that New by (auto simp: Group_Validate_def Let_def sg_Exists_found dest!: lead)
  show "leads rs ((\<not> isl (os_InterfaceByName (mc_os M) (Interface_GetName i))) = b)"
    if "\<not> rb_Skip i" "i_Exists i = VBool b" "snd (Interface_Validate X sys clk i) = Some rs"
    using that New by (auto simp: Interface_Validate_def Let_def si_Exists_found dest!: lead)
  obtain s where s: "cache_reached (mc_os M) s"
      "NewSysProcess sys (Process_GetComm p) zero_config = Process_answers (mc_os M) (Process_GetComm p) s"
    using New by blast
  show "leads rs ((\<exists>q\<in>set ps. pr_Name q = Inr (Process_GetComm p)) = b)"
    if "\<not> rb_Skip p" "r_Running p = VBool b" "snd (Process_Validate X sys clk p) = Some rs"
    using that by (auto simp: Process_Validate_def Let_def s(2) sr_Running_found[OF assms(3) s(1)] dest!: lead)
qed

definition busy_machine :: machine where
  "busy_machine = sample_machine\<lparr>mc_os := sample_env\<lparr>os_processes := Inr
     [\<lparr>pr_Pid = 7, pr_Name = Inr ''nginx'', pr_Status = Inr [''sleep''], pr_Username = Inr ''www''\<rparr>]\<rparr>\<rparr>"

definition nginx_process :: Process where
  "nginx_process = zero_Process\<lparr>rb_id := ''nginx'', r_Running := VBool True\<rparr>"

theorem host_tests_exact_witness:
  "\<exists>rs. snd (Process_Validate sample_ext (New busy_machine []) (\<lambda>_. (0, 0)) nginx_process) = Some rs \<and> Result (hd rs) = SUCCESS"
proof -
  have X: "compares_bools sample_ext" by (simp add: compares_bools_def sample_ext_def)
  let ?sys = "New busy_machine []" and ?clk = "\<lambda>_. (0, 0)"
  have p: "\<not> rb_Skip nginx_process" "r_Running nginx_process = VBool True" "Process_GetComm nginx_process = ''nginx''"
    "r_Status nginx_process = VNil" "r_User nginx_process = VNil"
    by (simp_all add: nginx_process_def zero_Process_def Process_GetComm_def name_or_id_def res_base.defs empty_base_def Process.defs)
  obtain r where r: "ValidateValue sample_ext (info_of nginx_process (Process_ID nginx_process) ''Process'') ''running'' (VBool True)
      (gbool (sr_Running (NewSysProcess ?sys (Process_GetComm nginx_process) zero_config))) False ?clk = Some r"
    using ValidateValue_bool[OF X] by blast
  then have v: "snd (Process_Validate sample_ext ?sys ?clk nginx_process) = Some [r]"
    using p by (simp add: Process_Validate_def Let_def guarded_checks_def opt_check_def)
  have ps: "os_processes (mc_os busy_machine) =
      Inr [\<lparr>pr_Pid = 7, pr_Name = Inr ''nginx'', pr_Status = Inr [''sleep''], pr_Username = Inr ''www''\<rparr>]"
    by (simp add: busy_machine_def)
  from host_tests_exact[OF New_is_New[of busy_machine "[]"] X ps, of _ True ?clk "[r]" _ _ _ nginx_process] v p
  show ?thesis by (simp add: leads_def)
qed

end
