(* ===== verification/Sys_Added.thy ===== *)
theory Sys_Added
  imports Sys_Roundtrip Sys_Tests
begin

text \<open>
  \<^verbatim>\<open>goss add\<close>, the gossfile, and \<^verbatim>\<open>goss validate\<close>: the test written for a file, package, port, user, group, process,
  interface, mount or command holds on the system it was written for, with numbers, lists and patterns among its attributes.
\<close>

section \<open>Attributes in the gossfile\<close>

text \<open>What the YAML decoder makes of an attribute it has written: a list of strings comes back as a list of any values.\<close>

definition read_val :: "val \<Rightarrow> val" where
  "read_val v = (case v of VStrs ss \<Rightarrow> VList (map VStr ss) | _ \<Rightarrow> v)"

lemma read_val_simps [simp]:
  "read_val VNil = VNil" "read_val (VBool b) = VBool b" "read_val (VInt n) = VInt n" "read_val (VStr s) = VStr s"
  "read_val (VStrs ss) = VList (map VStr ss)"
  by (simp_all add: read_val_def)

text \<open>
  What gomega documents of its comparisons: a number equals itself, and a list contains the elements of matchers that
  its own elements satisfy one by one.
\<close>

definition compares_values :: "ext \<Rightarrow> bool" where
  "compares_values X \<longleftrightarrow> compares_scalars X \<and>
     (\<forall>n. g_be_numerically X ''=='' (VInt n) (VInt n) = (True, None)) \<and>
     (\<forall>fs ss. list_all2 (\<lambda>f s. f (VStr s) = (True, None)) fs ss \<longrightarrow> fst (g_contain_elements X fs (VStrs ss)) = (True, None))"

section \<open>A check that the system satisfies\<close>

definition satisfied :: "ext \<Rightarrow> check \<Rightarrow> bool" where
  "satisfied X chk \<longleftrightarrow> (case chk of (p, e, g) \<Rightarrow>
     \<exists>v. e = Some v \<and> (\<forall>ri clk. \<exists>r. ValidateValue X ri p v g False clk = Some r \<and> Result r = SUCCESS))"

lemma satisfied_string:
  assumes "compares_values X" and "snd q = None"
  shows "satisfied X (p, Some (VStr (fst q)), gstring q)"
  using ValidateValue_same_string[of X q] assms by (simp add: satisfied_def compares_values_def)

lemma satisfied_int:
  assumes "compares_values X" and "snd q = None"
  shows "satisfied X (p, Some (VInt (fst q)), gint q)"
  using assms
  by (simp add: satisfied_def compares_values_def ValidateValue_def ValidateGomegaValue_def read_as_string_def found_value_def
      expected_matcher_def is_reader_def match_result_def q_sum_def WithSafeTransform_def Match_WithSafeTransform
      WithSafeTransform_apply_def ToNumeric_Transform_def BeNumerically_Match_def strToSymbol_def Let_def)

lemma slice_loop_strings: "slice_loop (map VStr ss) = Ret (map (\<lambda>s. WithSafeTransform ToString (Equal (VStr s))) ss)"
  by (induction ss) simp_all

lemma string_matcher_matches:
  assumes "compares_values X"
  shows "snd (Match X (WithSafeTransform ToString (Equal (VStr s))) (VStr s)) = (True, None)"
  using assms by (simp add: compares_values_def compares_scalars_def WithSafeTransform_def Match_WithSafeTransform
      WithSafeTransform_apply_def ToString_Transform_def sprint_val_def Let_def)

lemma satisfied_strings:
  assumes "compares_values X" and "snd q = None"
  shows "satisfied X (p, Some (VList (map VStr (fst q))), gstrings q)"
proof -
  let ?ms = "map (\<lambda>s. WithSafeTransform ToString (Equal (VStr s))) (fst q)"
  have "list_all2 (\<lambda>f s. f (VStr s) = (True, None)) (map (\<lambda>m u. snd (Match X m u)) ?ms) (fst q)"
    using string_matcher_matches[OF assms(1)] by (simp add: list.rel_map list.rel_refl)
  then have "fst (g_contain_elements X (map (\<lambda>m u. snd (Match X m u)) ?ms) (VStrs (fst q))) = (True, None)"
    using assms(1) unfolding compares_values_def by blast
  then show ?thesis using assms(2)
    by (simp add: satisfied_def ValidateValue_def ValidateGomegaValue_def read_as_string_def found_value_def expected_matcher_def
        is_reader_def match_result_def q_sum_def slice_loop_strings ContainElements_def ContainElements_Match_def
        isArrayOrSlice_def case_prod_beta)
qed

lemma added_attrs_satisfied:
  assumes "compares_values X"
  shows "list_all (satisfied X) (opt_check p (read_val (attr fmatch c n VStr qs)) (gstring qs))"
    and "list_all (satisfied X) (opt_check p (read_val (attr fmatch c n VInt qi)) (gint qi))"
    and "list_all (satisfied X) (atoi_check p (read_val (attr fmatch c n VInt qi)) (gint qi))"
    and "list_all (satisfied X) (opt_check p (read_val (attr fmatch c n VStrs ql)) (gstrings ql))"
  using satisfied_string[OF assms] satisfied_int[OF assms] satisfied_strings[OF assms]
  by (simp_all add: attr_def opt_check_def atoi_check_def deprecateAtoI_def split: option.split)

section \<open>A test that the system satisfies\<close>

text \<open>
  The leading property passes; the others pass as well when it found something, and are skipped otherwise.
\<close>

definition holds_now :: "bool \<Rightarrow> TestResult list option \<Rightarrow> bool" where
  "holds_now found results \<longleftrightarrow>
     (\<exists>r rest. results = Some (r # rest) \<and> Result r = SUCCESS \<and>
        list_all (\<lambda>r. Result r = (if found then SUCCESS else SKIP)) rest)"

lemma holds_now_all_pass: "holds_now True results \<Longrightarrow> all_pass results"
  by (auto simp: holds_now_def all_pass_def)

lemma run_checks_satisfied:
  "list_all (satisfied X) cs \<Longrightarrow> \<exists>rs. run_checks X ri clk False cs = Some rs \<and> list_all (\<lambda>r. Result r = SUCCESS) rs"
proof (induction cs)
  case (Cons chk cs)
  obtain p e g where chk: "chk = (p, e, g)" by (cases chk)
  then obtain v r where "e = Some v" "ValidateValue X ri p v g False clk = Some r" "Result r = SUCCESS"
    using Cons.prems unfolding satisfied_def by (simp, blast)
  with Cons show ?case by (auto simp: chk)
qed simp

lemma run_checks_not_Nil: "run_checks X ri clk skip (chk # cs) = Some rs \<Longrightarrow> rs \<noteq> []"
  by (cases chk) (auto split: option.splits)

lemma run_checks_skipped:
  "list_all (satisfied X) cs \<Longrightarrow> \<exists>rs. run_checks X ri clk True cs = Some rs \<and> list_all (\<lambda>r. Result r = SKIP) rs"
  by (induction cs) (auto simp: satisfied_def ValidateValue_def ValidateGomegaValue_def)

lemma ValidateValue_bool_found:
  assumes "compares_bools X" and "snd q = None" and "ValidateValue X ri p (VBool (fst q)) (gbool q) False clk = Some r"
  shows "Result r = SUCCESS \<and> (shouldSkip [r] \<longleftrightarrow> \<not> fst q)"
  using assms
  by (auto simp: compares_bools_def ValidateValue_def ValidateGomegaValue_def read_as_string_def found_value_def
      expected_matcher_def is_reader_def match_result_def q_sum_def shouldSkip_def found_false_def plain_result_def)

lemma guarded_holds:
  assumes "compares_values X" and "snd q = None" and "list_all (satisfied X) rest"
  shows "holds_now (fst q) (guarded_checks X ri clk False (p, VBool (fst q), gbool q) rest)"
proof -
  have b: "compares_bools X" using assms(1) by (simp add: compares_values_def compares_scalars_def)
  obtain r where r: "ValidateValue X ri p (VBool (fst q)) (gbool q) False clk = Some r"
    using ValidateValue_bool[OF b] by blast
  note f = ValidateValue_bool_found[OF b assms(2) r]
  show ?thesis
    using run_checks_satisfied[OF assms(3), of ri clk] run_checks_skipped[OF assms(3), of ri clk] r f
    by (cases "fst q") (auto simp: guarded_checks_def holds_now_def Let_def)
qed

section \<open>The tests that goss add writes\<close>

text \<open>The test as it stands in the gossfile.\<close>

definition read_User :: "User \<Rightarrow> User" where
  "read_User u = u\<lparr>u_Exists := read_val (u_Exists u), u_UID := read_val (u_UID u), u_GID := read_val (u_GID u),
     u_Groups := read_val (u_Groups u), u_Home := read_val (u_Home u), u_Shell := read_val (u_Shell u)\<rparr>"

definition read_Group :: "Group \<Rightarrow> Group" where
  "read_Group g = g\<lparr>g_Exists := read_val (g_Exists g), g_GID := read_val (g_GID g)\<rparr>"

definition read_Interface :: "Interface \<Rightarrow> Interface" where
  "read_Interface i = i\<lparr>i_Exists := read_val (i_Exists i), i_Addrs := read_val (i_Addrs i), i_MTU := read_val (i_MTU i)\<rparr>"

definition read_Package :: "Package \<Rightarrow> Package" where
  "read_Package p = p\<lparr>p_Installed := read_val (p_Installed p), p_Versions := read_val (p_Versions p)\<rparr>"

definition read_Port :: "Port \<Rightarrow> Port" where
  "read_Port p = p\<lparr>o_Listening := read_val (o_Listening p), o_IP := read_val (o_IP p), o_PID := read_val (o_PID p)\<rparr>"

definition read_Process :: "Process \<Rightarrow> Process" where
  "read_Process p = p\<lparr>r_Running := read_val (r_Running p), r_Status := read_val (r_Status p), r_User := read_val (r_User p)\<rparr>"

definition read_File :: "File \<Rightarrow> File" where
  "read_File f = f\<lparr>f_Exists := read_val (f_Exists f), f_Mode := read_val (f_Mode f), f_Size := read_val (f_Size f),
     f_Owner := read_val (f_Owner f), f_Uid := read_val (f_Uid f), f_Group := read_val (f_Group f), f_Gid := read_val (f_Gid f),
     f_LinkedTo := read_val (f_LinkedTo f), f_Filetype := read_val (f_Filetype f), f_Contains := read_val (f_Contains f),
     f_Contents := read_val (f_Contents f), f_Md5 := read_val (f_Md5 f), f_Sha256 := read_val (f_Sha256 f),
     f_Sha512 := read_val (f_Sha512 f)\<rparr>"

lemmas zero_fields = res_base.defs empty_base_def name_or_id_def

lemma added_user_holds:
  assumes "is_New M packageManager sys" and "compares_values X"
    and "NewUser fmatch (NewSysUser sys name config) config = Ret u"
  shows "holds_now (fst (su_Exists (User_answers (mc_os M) name))) (snd (User_Validate X sys clk (read_User u)))"
proof -
  let ?a = "User_answers (mc_os M) name"
  have S: "NewSysUser sys n c = User_answers (mc_os M) n" for n c using assms(1) by (simp add: is_New_def)
  have u: "u = zero_User\<lparr>rb_id := name, u_Exists := VBool (fst (su_Exists ?a)),
      u_UID := attr fmatch config ''uid'' VInt (su_UID ?a), u_GID := attr fmatch config ''gid'' VInt (su_GID ?a),
      u_Groups := attr fmatch config ''groups'' VStrs (su_Groups ?a), u_Home := attr fmatch config ''home'' VStr (su_Home ?a),
      u_Shell := attr fmatch config ''shell'' VStr (su_Shell ?a)\<rparr>"
    using assms(3) by (simp add: NewUser_def S User_answers_def)
  have n: "User_GetUsername (read_User u) = name" "\<not> rb_Skip (read_User u)"
    by (simp_all add: u read_User_def User_GetUsername_def zero_User_def User.defs zero_fields)
  have "snd (su_Exists ?a) = None" by (simp add: su_Exists_found)
  from guarded_holds[OF assms(2) this] added_attrs_satisfied[OF assms(2)] n show ?thesis
    by (simp add: User_Validate_def Let_def S) (simp add: u read_User_def)
qed

lemma added_group_holds:
  assumes "is_New M packageManager sys" and "compares_values X"
    and "NewGroup fmatch (NewSysGroup sys name config) config = Ret g"
  shows "holds_now (fst (sg_Exists (Group_answers (mc_os M) name))) (snd (Group_Validate X sys clk (read_Group g)))"
proof -
  let ?a = "Group_answers (mc_os M) name"
  have S: "NewSysGroup sys n c = Group_answers (mc_os M) n" for n c using assms(1) by (simp add: is_New_def)
  have g: "g = zero_Group\<lparr>rb_id := name, g_Exists := VBool (fst (sg_Exists ?a)),
      g_GID := attr fmatch config ''stderr'' VInt (sg_GID ?a)\<rparr>"
    using assms(3) by (simp add: NewGroup_def S Group_answers_def)
  have n: "Group_GetGroupname (read_Group g) = name" "\<not> rb_Skip (read_Group g)"
    by (simp_all add: g read_Group_def Group_GetGroupname_def zero_Group_def Group.defs zero_fields)
  have "snd (sg_Exists ?a) = None" by (simp add: sg_Exists_found)
  from guarded_holds[OF assms(2) this] added_attrs_satisfied[OF assms(2)] n show ?thesis
    by (simp add: Group_Validate_def Let_def S) (simp add: g read_Group_def)
qed

lemma added_interface_holds:
  assumes "is_New M packageManager sys" and "compares_values X"
    and "NewInterface fmatch (NewSysInterface sys name config) config = Ret i"
  shows "holds_now (fst (si_Exists (Interface_answers (mc_os M) name))) (snd (Interface_Validate X sys clk (read_Interface i)))"
proof -
  let ?a = "Interface_answers (mc_os M) name"
  have S: "NewSysInterface sys n c = Interface_answers (mc_os M) n" for n c using assms(1) by (simp add: is_New_def)
  have i: "i = zero_Interface\<lparr>rb_id := name, i_Exists := VBool (fst (si_Exists ?a)),
      i_Addrs := attr fmatch config ''addrs'' VStrs (si_Addrs ?a), i_MTU := attr fmatch config ''mtu'' VInt (si_MTU ?a)\<rparr>"
    using assms(3) by (simp add: NewInterface_def S Interface_answers_def Let_def)
  have n: "Interface_GetName (read_Interface i) = name" "\<not> rb_Skip (read_Interface i)"
    by (simp_all add: i read_Interface_def Interface_GetName_def zero_Interface_def Interface.defs zero_fields)
  from guarded_holds[OF assms(2) si_Exists_found(2)] added_attrs_satisfied[OF assms(2)] n show ?thesis
    by (simp add: Interface_Validate_def Let_def S) (simp add: i read_Interface_def)
qed

lemma added_package_holds:
  assumes "is_New M packageManager sys" and "compares_values X"
    and "Package_answers (detectPackage (mc_os M) packageManager) (mc_os M) name = Some a" and "snd (sp_Installed a) = None"
    and "NewPackage fmatch (NewSysPackage sys name config) config = Ret p"
  shows "holds_now (fst (sp_Installed a)) (snd (Package_Validate X sys clk (read_Package p)))"
proof -
  have S: "NewSysPackage sys name c = a" for c using assms(1,3) by (simp add: is_New_def)
  have "sp_Name a = name" using assms(3) by (auto simp: Package_answers_def Let_def split: option.splits prod.splits)
  then have p: "p = zero_Package\<lparr>rb_id := name, p_Installed := VBool (fst (sp_Installed a)),
      p_Versions := attr fmatch config ''versions'' VStrs (sp_Versions a)\<rparr>"
    using assms(5) by (simp add: NewPackage_def S)
  have n: "Package_GetName (read_Package p) = name" "\<not> rb_Skip (read_Package p)"
    by (simp_all add: p read_Package_def Package_GetName_def zero_Package_def Package.defs zero_fields)
  from guarded_holds[OF assms(2,4)] added_attrs_satisfied[OF assms(2)] n show ?thesis
    by (simp add: Package_Validate_def Let_def S) (simp add: p read_Package_def)
qed

lemma added_port_holds:
  assumes "is_New M packageManager sys" and "compares_values X" and "snd (GetPorts (mc_os M)) = None"
    and "NewPort fmatch (NewSysPort sys name config) config = Ret p"
  shows "holds_now (connections_at (mc_os M) (normalizePort name) \<noteq> []) (snd (Port_Validate X sys clk (read_Port p)))"
proof -
  let ?env = "mc_os M"
  let ?a = "port_answers \<lparr>dp_port = normalizePort name, dp_sysPorts = fst (GetPorts ?env), dp_err = snd (GetPorts ?env)\<rparr>"
  have S: "NewSysPort sys m c = ?a" if "normalizePort m = normalizePort name" for m c
  proof -
    obtain s where "cache_reached ?env s" and "NewSysPort sys m c = Port_answers ?env m s"
      using assms(1) unfolding is_New_def by blast
    then show ?thesis by (simp add: Port_answers_of_run that)
  qed
  have p: "p = zero_Port\<lparr>rb_id := normalizePort name, o_Listening := VBool (fst (so_Listening ?a)),
      o_IP := attr fmatch config ''ip'' VStrs (so_IP ?a)\<rparr>"
    using assms(4) by (simp add: NewPort_def S) (simp add: port_answers_def)
  have "normalizePort name \<noteq> []" by (simp add: normalizePort_def split: prod.split)
  then have n: "Port_GetPort (read_Port p) = normalizePort name" "\<not> rb_Skip (read_Port p)"
    by (simp_all add: p read_Port_def Port_GetPort_def zero_Port_def Port.defs zero_fields)
  have l: "snd (so_Listening ?a) = None" "fst (so_Listening ?a) \<longleftrightarrow> connections_at ?env (normalizePort name) \<noteq> []"
    using assms(3) no_empty_lookup[OF GetPorts_no_empty[of ?env], of "normalizePort name"]
    by (simp_all add: port_answers_def DefPort_Listening_def GetPorts_entries)
  have "o_PID (read_Port p) = VNil" by (simp add: p read_Port_def zero_Port_def Port.defs zero_fields)
  with guarded_holds[OF assms(2) l(1), of "opt_check ''ip'' (o_IP (read_Port p)) (gstrings (so_IP ?a))"]
    added_attrs_satisfied(4)[OF assms(2)] n
  show ?thesis unfolding l(2)[symmetric]
    by (simp add: Port_Validate_def Let_def S normalizePort_idem opt_check_def[of "''pid''"])
       (simp add: p read_Port_def)
qed

text \<open>While the processes can be listed, all tests of a run get the same answers.\<close>

lemma Process_answers_of_run:
  assumes "os_processes env = Inr ps" and "cache_reached env s"
  shows "Process_answers env name s = process_answers env \<lparr>dr_executable = name, dr_procMap = fst (GetProcs env), dr_err = None\<rparr>"
proof -
  have "snd (fst (System_ProcMap env s)) = None"
    using assms(1) by (simp add: System_ProcMap_def GetProcs_def Let_def)
  with ProcMap_of_run[OF assms(2)] show ?thesis
    by (simp add: Process_answers_def NewDefProcess_def Let_def case_prod_beta)
qed

lemma added_process_holds:
  assumes "is_New M packageManager sys" and "compares_values X" and "os_processes (mc_os M) = Inr ps"
    and "NewProcess fmatch (NewSysProcess sys name config) config = Ret p"
  shows "holds_now (\<exists>q\<in>set ps. pr_Name q = Inr name) (snd (Process_Validate X sys clk (read_Process p)))"
proof -
  let ?a = "process_answers (mc_os M) \<lparr>dr_executable = name, dr_procMap = fst (GetProcs (mc_os M)), dr_err = None\<rparr>"
  have S: "NewSysProcess sys name c = ?a" for c
  proof -
    obtain s where "cache_reached (mc_os M) s" and "NewSysProcess sys name c = Process_answers (mc_os M) name s"
      using assms(1) unfolding is_New_def by blast
    then show ?thesis by (simp add: Process_answers_of_run[OF assms(3)])
  qed
  have run: "sr_Running ?a = ((\<exists>q\<in>set ps. pr_Name q = Inr name), None)"
    using GetProcs_running[OF assms(3), of name] by (simp add: process_answers_def DefProcess_Running_def)
  have p: "p = zero_Process\<lparr>rb_id := name, r_Running := VBool (fst (sr_Running ?a)),
      r_Status := attr fmatch config ''status'' VStrs (sr_Status ?a), r_User := attr fmatch config ''user'' VStrs (sr_User ?a)\<rparr>"
    using assms(4) run by (simp add: NewProcess_def S) (simp add: process_answers_def)
  have n: "Process_GetComm (read_Process p) = name" "\<not> rb_Skip (read_Process p)"
    by (simp_all add: p read_Process_def Process_GetComm_def zero_Process_def Process.defs zero_fields)
  have "snd (sr_Running ?a) = None" using run by simp
  from guarded_holds[OF assms(2) this] added_attrs_satisfied(4)[OF assms(2)] n
  have "holds_now (fst (sr_Running ?a)) (snd (Process_Validate X sys clk (read_Process p)))"
    by (simp add: Process_Validate_def Let_def S) (simp add: p read_Process_def)
  then show ?thesis by (simp add: run)
qed

text \<open>
  \<^verbatim>\<open>filepath.Abs\<close> leaves an absolute path as it is; an absolute path does not start with a tilde.
\<close>

definition abs_stable :: "os_env \<Rightarrow> bool" where
  "abs_stable env \<longleftrightarrow> (\<forall>p q. os_Abs env p = Inr q \<longrightarrow> os_Abs env q = Inr q \<and> q \<noteq> [] \<and> \<not> has_prefix q ''~'')"

lemma File_answers_again:
  assumes "abs_stable env" and "snd (sf_Exists (File_answers env path)) = None"
  shows "File_answers env (sf_Path (File_answers env path)) = File_answers env path \<and> sf_Path (File_answers env path) \<noteq> []"
proof (cases "has_prefix path ''~''")
  case True
  then show ?thesis by (auto simp: File_answers_def NewDefFile_def has_prefix_def Let_def)
next
  case False
  with assms(2) obtain q where "os_Abs env path = Inr q"
    by (cases "os_Abs env path")
      (auto simp: File_answers_def NewDefFile_def DefFile_Exists_def with_file_def DefFile_setup_def Let_def)
  with assms(1) False show ?thesis unfolding abs_stable_def by (simp add: File_answers_def NewDefFile_def Let_def)
qed

lemma added_file_holds:
  assumes "is_New M packageManager sys" and "compares_values X" and "abs_stable (mc_os M)"
    and "NewFile fmatch (NewSysFile sys path config) config = Ret f"
  shows "holds_now (fst (sf_Exists (File_answers (mc_os M) path))) (snd (File_Validate X sys clk (read_File f)))"
proof -
  let ?a = "File_answers (mc_os M) path"
  have S: "NewSysFile sys n c = File_answers (mc_os M) n" for n c using assms(1) by (simp add: is_New_def)
  from assms(4) have e: "snd (sf_Exists ?a) = None" by (simp add: NewFile_def S split: option.splits)
  note again = File_answers_again[OF assms(3) e]
  have f: "f = zero_File\<lparr>rb_id := sf_Path ?a, f_Exists := VBool (fst (sf_Exists ?a)), f_Contents := VStrs [],
      f_Mode := attr fmatch config ''mode'' VStr (sf_Mode ?a), f_Owner := attr fmatch config ''owner'' VStr (sf_Owner ?a),
      f_Group := attr fmatch config ''group'' VStr (sf_Group ?a),
      f_LinkedTo := attr fmatch config ''linked-to'' VStr (sf_LinkedTo ?a),
      f_Filetype := attr fmatch config ''filetype'' VStr (sf_Filetype ?a)\<rparr>"
    using assms(4) e by (simp add: NewFile_def S)
  have n: "File_GetPath (read_File f) = sf_Path ?a" "\<not> rb_Skip (read_File f)"
    by (simp_all add: f read_File_def File_GetPath_def zero_File_def File.defs zero_fields)
  have unset: "f_Size (read_File f) = VNil" "f_Uid (read_File f) = VNil" "f_Gid (read_File f) = VNil"
    "f_Contains (read_File f) = VNil" "f_Contents (read_File f) = VList []" "f_Md5 (read_File f) = VNil"
    "f_Sha256 (read_File f) = VNil" "f_Sha512 (read_File f) = VNil"
    by (simp_all add: f read_File_def zero_File_def File.defs zero_fields)
  from guarded_holds[OF assms(2) e] added_attrs_satisfied(1)[OF assms(2)] n again unset show ?thesis
    by (simp add: File_Validate_def Let_def S set_check_def isSet_def opt_check_def[of _ VNil]) (simp add: f read_File_def)
qed

text \<open>The limit on the time is kept with the object; what the machine answers within it does not depend on it.\<close>

lemma Mount_answers_config: "Mount_answers env mountPoint config = Mount_answers env mountPoint config'"
  by (simp add: Mount_answers_def NewDefMount_def DefMount_Exists_def DefMount_Opts_def DefMount_VfsOpts_def DefMount_Source_def
      DefMount_Filesystem_def DefMount_Usage_def with_mount_def DefMount_setup_def info_field_def Let_def split: sum.split)

definition read_Mount :: "Mount \<Rightarrow> Mount" where
  "read_Mount m = m\<lparr>m_Exists := read_val (m_Exists m), m_Opts := read_val (m_Opts m), m_VfsOpts := read_val (m_VfsOpts m),
     m_Source := read_val (m_Source m), m_Filesystem := read_val (m_Filesystem m), m_Usage := read_val (m_Usage m)\<rparr>"

lemma added_mount_holds:
  assumes "is_New M packageManager sys" and "compares_values X"
    and "snd (sm_Exists (Mount_answers (mc_os M) name config)) = None"
    and "NewMount fmatch (NewSysMount sys name config) config = Ret m"
  shows "holds_now True (snd (Mount_Validate X sys clk (read_Mount m)))"
proof -
  let ?a = "Mount_answers (mc_os M) name config"
  have S: "NewSysMount sys name c = ?a" for c
    using assms(1) Mount_answers_config[of "mc_os M" name c config] by (simp add: is_New_def)
  have m: "m = zero_Mount\<lparr>rb_id := name, m_Exists := VBool (fst (sm_Exists ?a)), m_Timeout := TimeOutMilliSeconds config,
      m_Opts := attr fmatch config ''opts'' VStrs (sm_Opts ?a), m_VfsOpts := attr fmatch config ''vfs-opts'' VStrs (sm_VfsOpts ?a),
      m_Source := attr fmatch config ''source'' VStr (sm_Source ?a),
      m_Filesystem := attr fmatch config ''filesystem'' VStr (sm_Filesystem ?a)\<rparr>"
    using assms(4) by (simp add: NewMount_def S) (simp add: Mount_answers_def Let_def)
  let ?m = "if m_Timeout (read_Mount m) = 0 then (read_Mount m)\<lparr>m_Timeout := 1000\<rparr> else read_Mount m"
  have n: "Mount_GetMountPoint ?m = name" "\<not> rb_Skip ?m" "m_Usage ?m = VNil"
    by (simp_all add: m read_Mount_def Mount_GetMountPoint_def zero_Mount_def Mount.defs zero_fields)
  have "fst (sm_Exists ?a)"
    using assms(3) by (auto simp: Mount_answers_def DefMount_Exists_def with_mount_def DefMount_setup_def NewDefMount_def Let_def
        split: sum.splits)
  with guarded_holds[OF assms(2,3)] added_attrs_satisfied(1,4)[OF assms(2)] n show ?thesis
    by (simp add: Mount_Validate_def Let_def S opt_check_def[of "''usage''"]) (simp add: m read_Mount_def)
qed

text \<open>A mount that is not there is an error of the query, so a test that a mount does not exist never passes.\<close>

lemma mount_absence_never_passes:
  assumes "is_New M packageManager sys" and "compares_bools X" and "\<not> rb_Skip m" and "m_Exists m = VBool False"
    and "snd (Mount_Validate X sys clk m) = Some rs"
  shows "leads rs False"
proof -
  define m' where "m' = (if m_Timeout m = 0 then m\<lparr>m_Timeout := 1000\<rparr> else m)"
  let ?q = "sm_Exists (NewSysMount sys (Mount_GetMountPoint m') (timeout_config (m_Timeout m')))"
  have q: "\<not> (snd ?q = None \<and> fst ?q = False)"
    using assms(1) by (auto simp: is_New_def Mount_answers_def DefMount_Exists_def with_mount_def DefMount_setup_def NewDefMount_def
        Let_def split: sum.split)
  have m': "rb_Skip m' = False" "m_Exists m' = VBool False" using assms(3,4) by (simp_all add: m'_def)
  from assms(5) have "leads rs (snd ?q = None \<and> fst ?q = False)"
    unfolding Mount_Validate_def Let_def snd_conv m'_def[symmetric] m' by (rule guarded_leading[OF assms(2)])
  then show ?thesis unfolding eq_False[THEN iffD2, OF q] .
qed

subsection \<open>Commands\<close>

lemma Command_answers_config: "Command_answers env command config = Command_answers env command config'"
  by (simp add: Command_answers_def NewDefCommand_def DefCommand_Exists_def DefCommand_ExitStatus_def DefCommand_Stdout_def
      DefCommand_Stderr_def command_query_def DefCommand_setup_def Let_def case_prod_beta split: option.split run_error.split)

definition read_Command :: "Command \<Rightarrow> Command" where
  "read_Command c = c\<lparr>c_ExitStatus := read_val (c_ExitStatus c), c_Stdout := read_val (c_Stdout c), c_Stderr := read_val (c_Stderr c)\<rparr>"

text \<open>
  An output that a test can describe: nothing at all, or some line that is not blank, and no line too long for the scanner.
\<close>

definition describable :: "string \<Rightarrow> bool" where
  "describable s \<longleftrightarrow> s = [] \<or> short_lines s \<and> readerToSlice s \<noteq> []"

abbreviation "output_reader q \<equiv> GReader (map_sum id Inr (q_sum q))"

lemma satisfied_output:
  assumes "compares_values X" and "snd q = None" and "describable (fst q)" and "\<not> contains fmatch (IgnoreList config) n"
  shows "list_all (satisfied X) (set_check p (read_val (output_attr fmatch config n q)) (output_reader q))"
proof (cases "fst q = []")
  case True
  have "readerToSlice [] = []" by (simp add: readerToSlice_def raw_lines_def)
  then have "read_val (output_attr fmatch config n q) = VStr (fst q)" using True by (simp add: output_attr_def Let_def)
  then show ?thesis using satisfied_string[OF assms(1,2), of p] True assms(2)
    by (simp add: set_check_def isSet_def satisfied_def ValidateValue_def read_as_string_def q_sum_def)
next
  case False
  with assms(3) have s: "short_lines (fst q)" "readerToSlice (fst q) \<noteq> []" by (simp_all add: describable_def)
  obtain st' where m: "HavePatterns_Match X (VList (map VStr (readerToSlice (fst q)))) \<lparr>missing_els = [], found_els = []\<rparr>
      (VStr (fst q)) = Some (st', (True, None))"
    using readerToSlice_accepted[OF s] by blast
  have v: "read_val (output_attr fmatch config n q) = VList (map VStr (readerToSlice (fst q)))"
    using assms(4) s(2) by (simp add: output_attr_def Let_def)
  have "satisfied X (p, Some (VList (map VStr (readerToSlice (fst q)))), output_reader q)"
    using assms(2)
    by (simp add: satisfied_def ValidateValue_def ValidateGomegaValue_def read_as_string_def q_sum_def found_value_def
        expected_matcher_def is_reader_def match_result_def HavePatterns_def m)
  then show ?thesis by (simp add: v set_check_def)
qed

lemma added_command_passes:
  assumes "is_New M packageManager sys" and "compares_values X"
    and "NewCommand fmatch (NewSysCommand sys name config) config = Ret c"
    and "describable (fst (sc_Stdout (Command_answers (mc_os M) name config)))" "\<not> contains fmatch (IgnoreList config) ''stdout''"
    and "describable (fst (sc_Stderr (Command_answers (mc_os M) name config)))" "\<not> contains fmatch (IgnoreList config) ''stderr''"
  shows "all_pass (snd (Command_Validate X sys clk (read_Command c)))"
proof -
  let ?a = "Command_answers (mc_os M) name config"
  have S: "NewSysCommand sys name c = ?a" for c
    using assms(1) Command_answers_config[of "mc_os M" name c config] by (simp add: is_New_def)
  have "snd (sc_Stdout ?a) = snd (sc_ExitStatus ?a)" "snd (sc_Stderr ?a) = snd (sc_ExitStatus ?a)"
    by (simp_all add: Command_answers_def DefCommand_ExitStatus_def DefCommand_Stdout_def DefCommand_Stderr_def command_query_def
        Let_def case_prod_beta)
  moreover have "snd (sc_ExitStatus ?a) = None" using assms(3) by (simp add: NewCommand_def S split: option.splits)
  ultimately have e: "snd (sc_ExitStatus ?a) = None" "snd (sc_Stdout ?a) = None" "snd (sc_Stderr ?a) = None" by simp_all
  have c: "c = zero_Command\<lparr>rb_id := name, c_ExitStatus := VInt (fst (sc_ExitStatus ?a)),
      c_Stdout := output_attr fmatch config ''stdout'' (sc_Stdout ?a), c_Stderr := output_attr fmatch config ''stderr'' (sc_Stderr ?a),
      c_Timeout := TimeOutMilliSeconds config\<rparr>"
    using assms(3) e by (simp add: NewCommand_def S) (simp add: Command_answers_def Let_def)
  define c' where "c' = (if c_Timeout (read_Command c) = 0 then (read_Command c)\<lparr>c_Timeout := 10000\<rparr> else read_Command c)"
  have c': "Command_GetExec c' = name" "rb_Skip c' = False" "c_ExitStatus c' = VInt (fst (sc_ExitStatus ?a))"
    "c_Stdout c' = read_val (output_attr fmatch config ''stdout'' (sc_Stdout ?a))"
    "c_Stderr c' = read_val (output_attr fmatch config ''stderr'' (sc_Stderr ?a))"
    by (simp_all add: c'_def c read_Command_def Command_GetExec_def zero_Command_def Command.defs zero_fields)
  let ?cs = "(''exit-status'', deprecateAtoI (c_ExitStatus c'), gint (sc_ExitStatus ?a)) #
    set_check ''stdout'' (c_Stdout c') (output_reader (sc_Stdout ?a)) @ set_check ''stderr'' (c_Stderr c') (output_reader (sc_Stderr ?a))"
  have "list_all (satisfied X) ?cs"
    using satisfied_int[OF assms(2) e(1)] satisfied_output[OF assms(2) e(2) assms(4,5)] satisfied_output[OF assms(2) e(3) assms(6,7)]
    by (simp add: c' deprecateAtoI_def)
  from run_checks_satisfied[OF this] obtain rs where
    rs: "run_checks X (info_of c' (Command_ID c') ''Command'') clk False ?cs = Some rs" "list_all (\<lambda>r. Result r = SUCCESS) rs" by blast
  from rs(1) have "rs \<noteq> []" by (rule run_checks_not_Nil)
  moreover have "snd (Command_Validate X sys clk (read_Command c)) = Some rs"
    unfolding Command_Validate_def Let_def snd_conv c'_def[symmetric] c'(1,2) S by (rule rs(1))
  ultimately show ?thesis using rs(2) by (simp add: all_pass_def)
qed

text \<open>
  An output that is excluded, or that has blank lines only, is written as the empty string and not left out: the test then
  demands that the command print nothing, and fails on the output it was written for.
\<close>

lemma excluded_output_fails:
  assumes "g_equal X (VStr []) (VStr (fst q)) = (False, None)" and "snd q = None"
    and "contains fmatch (IgnoreList config) n \<or> readerToSlice (fst q) = []"
  shows "\<exists>r. ValidateValue X ri p (read_val (output_attr fmatch config n q)) (output_reader q) False clk = Some r \<and> Result r = FAIL"
proof -
  have "output_attr fmatch config n q = VStr []" using assms(3) by (auto simp: output_attr_def Let_def)
  then show ?thesis using assms(1,2)
    by (simp add: ValidateValue_def ValidateGomegaValue_def read_as_string_def q_sum_def found_value_def expected_matcher_def
        is_reader_def match_result_def WithSafeTransform_def Match_WithSafeTransform WithSafeTransform_apply_def
        ToString_Transform_def sprint_val_def Let_def)
qed

section \<open>Properties\<close>

text \<open>C9: What \<^verbatim>\<open>goss add\<close> writes about a file, package, port, user, group, process or network interface, read back from the gossfile,
  holds while the system answers the same: the leading property passes; the recorded mode, owner, versions, addresses, groups and so on
  all pass when the thing is there, and are skipped when it is not. For packages and ports this needs that the system could be asked.\<close>

theorem added_host_tests_hold:
  assumes "is_New M packageManager sys" and "compares_values X" and "abs_stable (mc_os M)"
    and "os_processes (mc_os M) = Inr ps" and "snd (GetPorts (mc_os M)) = None"
    and "Package_answers (detectPackage (mc_os M) packageManager) (mc_os M) name = Some pkg" and "snd (sp_Installed pkg) = None"
  shows
    "(\<forall>f. NewFile fmatch (NewSysFile sys name config) config = Ret f \<longrightarrow>
        holds_now (file_found (mc_os M) name = Some True) (snd (File_Validate X sys clk (read_File f)))) \<and>
     (\<forall>p. NewPackage fmatch (NewSysPackage sys name config) config = Ret p \<longrightarrow>
        holds_now (fst (sp_Installed pkg)) (snd (Package_Validate X sys clk (read_Package p)))) \<and>
     (\<forall>p. NewPort fmatch (NewSysPort sys name config) config = Ret p \<longrightarrow>
        holds_now (connections_at (mc_os M) (normalizePort name) \<noteq> []) (snd (Port_Validate X sys clk (read_Port p)))) \<and>
     (\<forall>u. NewUser fmatch (NewSysUser sys name config) config = Ret u \<longrightarrow>
        holds_now (\<not> isl (user_Lookup (mc_os M) name)) (snd (User_Validate X sys clk (read_User u)))) \<and>
     (\<forall>g. NewGroup fmatch (NewSysGroup sys name config) config = Ret g \<longrightarrow>
        holds_now (\<not> isl (user_LookupGroup (mc_os M) name)) (snd (Group_Validate X sys clk (read_Group g)))) \<and>
     (\<forall>p. NewProcess fmatch (NewSysProcess sys name config) config = Ret p \<longrightarrow>
        holds_now (\<exists>q\<in>set ps. pr_Name q = Inr name) (snd (Process_Validate X sys clk (read_Process p)))) \<and>
     (\<forall>i. NewInterface fmatch (NewSysInterface sys name config) config = Ret i \<longrightarrow>
        holds_now (\<not> isl (os_InterfaceByName (mc_os M) name)) (snd (Interface_Validate X sys clk (read_Interface i))))"
proof (intro conjI allI impI)
  note New = assms(1,2)
  fix f assume f: "NewFile fmatch (NewSysFile sys name config) config = Ret f"
  then have "snd (sf_Exists (File_answers (mc_os M) name)) = None"
    using assms(1) by (simp add: NewFile_def is_New_def split: option.splits)
  with added_file_holds[OF New assms(3) f] sf_Exists_found[of "mc_os M" name True]
  show "holds_now (file_found (mc_os M) name = Some True) (snd (File_Validate X sys clk (read_File f)))" by simp
next
  fix u assume "NewUser fmatch (NewSysUser sys name config) config = Ret u"
  from added_user_holds[OF assms(1,2) this]
  show "holds_now (\<not> isl (user_Lookup (mc_os M) name)) (snd (User_Validate X sys clk (read_User u)))" by (simp add: su_Exists_found)
next
  fix g assume "NewGroup fmatch (NewSysGroup sys name config) config = Ret g"
  from added_group_holds[OF assms(1,2) this]
  show "holds_now (\<not> isl (user_LookupGroup (mc_os M) name)) (snd (Group_Validate X sys clk (read_Group g)))"
    by (simp add: sg_Exists_found)
next
  fix i assume "NewInterface fmatch (NewSysInterface sys name config) config = Ret i"
  from added_interface_holds[OF assms(1,2) this]
  show "holds_now (\<not> isl (os_InterfaceByName (mc_os M) name)) (snd (Interface_Validate X sys clk (read_Interface i)))"
    by (simp only: si_Exists_found(1))
qed (rule added_package_holds[OF assms(1,2,6,7)] added_port_holds[OF assms(1,2,5)] added_process_holds[OF assms(1,2,4)]; assumption)+

text \<open>An environment that compares lists element by element.\<close>

definition list_ext :: ext where
  "list_ext = sample_ext\<lparr>g_contain_elements := (\<lambda>fs v. case v of
     VStrs ss \<Rightarrow> ((list_all2 (\<lambda>f s. fst (f (VStr s))) fs ss, None), None) | _ \<Rightarrow> ((False, None), None))\<rparr>"

lemma list_ext_compares: "compares_values list_ext"
  by (auto simp: compares_values_def compares_scalars_def compares_bools_def list_ext_def sample_ext_def elim: list_all2_mono)

definition host_machine :: machine where
  "host_machine = busy_machine\<lparr>mc_os := (mc_os busy_machine)
     \<lparr>os_Abs := (\<lambda>p. Inr (if has_prefix p ''/'' then p else CHR ''/'' # p))\<rparr>\<rparr>"

lemma RpmPackage_asked: "\<exists>a. Package_answers RpmPackage env name = Some a \<and> snd (sp_Installed a) = None"
  by (simp add: Package_answers_def pkg_Exists_def pkg_Installed_def pkg_Versions_def RpmPackage_setup_def new_pkg_def Let_def)

theorem added_host_tests_hold_witness:
  "\<exists>p. NewProcess (\<lambda>_ _. False) (NewSysProcess (New host_machine ''rpm'') ''nginx'' zero_config) zero_config = Ret p \<and>
     holds_now True (snd (Process_Validate list_ext (New host_machine ''rpm'') (\<lambda>_. (0, 0)) (read_Process p)))"
proof -
  let ?env = "mc_os host_machine"
  have abs: "abs_stable ?env" by (auto simp: abs_stable_def host_machine_def has_prefix_def)
  have ps: "os_processes ?env =
      Inr [\<lparr>pr_Pid = 7, pr_Name = Inr ''nginx'', pr_Status = Inr [''sleep''], pr_Username = Inr ''www''\<rparr>]"
    by (simp add: host_machine_def busy_machine_def)
  have ports: "snd (GetPorts ?env) = None"
    by (simp add: GetPorts_error tables_def host_machine_def busy_machine_def sample_machine_def sample_env_def Let_def)
  have "detectPackage ?env ''rpm'' = RpmPackage" by (simp add: detectPackage_def)
  with RpmPackage_asked[of ?env "''nginx''"] obtain a where
    a: "Package_answers (detectPackage ?env ''rpm'') ?env ''nginx'' = Some a" "snd (sp_Installed a) = None" by auto
  have "os_processes ?env \<noteq> Inl e" for e by (simp add: ps)
  then obtain p where
    "NewProcess (\<lambda>_ _. False) (NewSysProcess (New host_machine ''rpm'') ''nginx'' zero_config) zero_config = Ret p"
    by (simp add: NewProcess_def New_def Let_def Process_answers_of_run[OF ps cache_new] process_answers_def DefProcess_Running_def)
  with added_host_tests_hold[OF New_is_New[of host_machine "''rpm''"] list_ext_compares abs ps ports a,
      of "\<lambda>_ _. False" zero_config "\<lambda>_. (0, 0)"]
  show ?thesis by auto
qed

text \<open>C10: On a real system, the test that \<^verbatim>\<open>goss add\<close> writes for a service, an address, a kernel parameter, a mount or a command passes
  when it is run while the system still answers the same. For a command this takes an output that patterns can describe and that is not
  excluded, for a mount that it is there.\<close>

theorem added_tests_pass:
  assumes "is_New M packageManager sys" and "compares_values X" and "TimeOutMilliSeconds config \<noteq> 0"
  shows "(\<forall>s. NewService fmatch (NewSysService sys name config) config = Ret s \<longrightarrow> all_pass (snd (Service_Validate X sys clk s))) \<and>
    (\<forall>a. NewAddr fmatch (NewSysAddr sys name config) config = Ret a \<longrightarrow> all_pass (snd (Addr_Validate X sys clk a))) \<and>
    (\<forall>k. NewKernelParam fmatch (NewSysKernelParam sys name config) config = Ret k \<longrightarrow>
         all_pass (snd (KernelParam_Validate X sys clk k))) \<and>
    (\<forall>m. snd (sm_Exists (Mount_answers (mc_os M) name config)) = None \<and>
         NewMount fmatch (NewSysMount sys name config) config = Ret m \<longrightarrow>
         all_pass (snd (Mount_Validate X sys clk (read_Mount m)))) \<and>
    (\<forall>c. describable (fst (sc_Stdout (Command_answers (mc_os M) name config))) \<and>
         describable (fst (sc_Stderr (Command_answers (mc_os M) name config))) \<and>
         \<not> contains fmatch (IgnoreList config) ''stdout'' \<and> \<not> contains fmatch (IgnoreList config) ''stderr'' \<and>
         NewCommand fmatch (NewSysCommand sys name config) config = Ret c \<longrightarrow>
         all_pass (snd (Command_Validate X sys clk (read_Command c))))"
proof (intro conjI allI impI; (elim conjE)?)
  have X: "compares_scalars X" using assms(2) by (simp add: compares_values_def)
  show "all_pass (snd (Service_Validate X sys clk s))" if "NewService fmatch (NewSysService sys name config) config = Ret s" for s
    using added_service_passes[OF assms(1) X that] .
  show "all_pass (snd (Addr_Validate X sys clk a))" if "NewAddr fmatch (NewSysAddr sys name config) config = Ret a" for a
    using added_addr_passes[OF assms(1) X assms(3) that] .
  show "all_pass (snd (KernelParam_Validate X sys clk k))"
    if "NewKernelParam fmatch (NewSysKernelParam sys name config) config = Ret k" for k
    using added_kernel_param_passes[OF assms(1) X that] .
qed (rule holds_now_all_pass, rule added_mount_holds[OF assms(1,2)], assumption+,
     rule added_command_passes[OF assms(1,2)], assumption+)

theorem added_tests_pass_witness:
  "\<exists>a. NewAddr (\<lambda>_ _. True) (NewSysAddr (New sample_machine []) ''db:5432'' (timeout_config 500)) (timeout_config 500) = Ret a \<and>
     all_pass (snd (Addr_Validate list_ext (New sample_machine []) (\<lambda>_. (0, 0)) a))"
proof -
  have t: "TimeOutMilliSeconds (timeout_config 500) \<noteq> 0"
    by (simp add: TimeOutMilliSeconds_def timeout_config_def go_div_def millisecond_def)
  obtain a where a: "NewAddr (\<lambda>_ _. True) (NewSysAddr (New sample_machine []) ''db:5432'' (timeout_config 500)) (timeout_config 500) = Ret a"
    by (simp add: NewAddr_def New_def Let_def Addr_answers_def DefAddr_Reachable_def case_prod_beta)
  from added_tests_pass[OF New_is_New[of sample_machine "[]"] list_ext_compares t, of "\<lambda>_ _. True" "''db:5432''" "\<lambda>_. (0, 0)"] a
  show ?thesis by blast
qed

end
