(* ===== verification/Logging.thy ===== *)
theory Logging
  imports Outputs Sys_Local Validation
begin

text \<open>
  The log: the traces of outputs/traces.go, the output of commands of system/log.go and the writer of logs.go. A
  function that logs is modelled by the lines it prints; the results of the functions do not depend on them.
\<close>

section \<open>Writing the log\<close>

text \<open>
  \<open>lf_Check level line\<close> is \<^verbatim>\<open>LevelFilter.Check\<close> of the logutils package: whether a line is printed at the level;
  \<open>lf_now\<close> is the time in RFC 3339 form. \<open>lf_expected\<close>, \<open>lf_actual\<close> and \<open>lf_secs\<close> print values and seconds with two digits.
\<close>

record log_env =
  lf_Check :: "string \<Rightarrow> string \<Rightarrow> bool"
  lf_now :: string
  lf_expected :: "shown \<Rightarrow> string"
  lf_actual :: "val \<Rightarrow> string"
  lf_secs :: "int \<Rightarrow> string"

definition timestampedWriter_Write :: "log_env \<Rightarrow> string \<Rightarrow> string \<Rightarrow> string option" where
  "timestampedWriter_Write L level b =
     (let line = lf_now L @ '' '' @ b in if lf_Check L level line then Some line else None)"

text \<open>What reaches standard error of the lines that are logged after \<^verbatim>\<open>setLogLevel\<close>.\<close>

definition logged :: "log_env \<Rightarrow> Config \<Rightarrow> string list \<Rightarrow> string list" where
  "logged L c lines =
     (case setLogLevel c of
        None \<Rightarrow> List.map_filter (timestampedWriter_Write L ''INFO'') lines
      | Some level \<Rightarrow> List.map_filter (timestampedWriter_Write L level) lines)"

section \<open>What is logged\<close>

fun result_number :: "result_code \<Rightarrow> nat" where
  "result_number SUCCESS = 0"
| "result_number FAIL = 1"
| "result_number SKIP = 2"
| "result_number UNKNOWN = 3"

definition logTrace :: "log_env \<Rightarrow> string \<Rightarrow> string \<Rightarrow> TestResult \<Rightarrow> bool \<Rightarrow> string" where
  "logTrace L level msg r withIntResult =
     ''['' @ level @ ''] '' @ msg @ '': '' @ ResourceType r @ '' => '' @ ResourceId r @ '' ('' @ Property r @ '' '' @
     lf_expected L (Expected (mr_of r)) @ '' '' @ lf_actual L (Actual (mr_of r)) @ '') ['' @ lf_secs L (Duration r) @ '']'' @
     (if withIntResult then '' ['' @ nat_str (result_number (Result r)) @ '']'' else [])"

text \<open>The traces of a run: rspecish tells skipped tests from the others, JSON counts them as successes.\<close>

definition Rspecish_trace :: "log_env \<Rightarrow> TestResult list list \<Rightarrow> string list" where
  "Rspecish_trace L results =
     concat (map (\<lambda>r. case Result r of
         SUCCESS \<Rightarrow> [logTrace L ''TRACE'' ''SUCCESS'' r False]
       | SKIP \<Rightarrow> [logTrace L ''TRACE'' ''SKIP'' r False]
       | FAIL \<Rightarrow> [logTrace L ''TRACE'' ''FAIL'' r False]
       | UNKNOWN \<Rightarrow> []) (concat results))"

definition Json_trace :: "log_env \<Rightarrow> TestResult list list \<Rightarrow> string list" where
  "Json_trace L results =
     map (\<lambda>r. logTrace L ''TRACE'' (if Result r = FAIL then ''FAIL'' else ''SUCCESS'') r True) (concat results)"

definition logBytes :: "string \<Rightarrow> string \<Rightarrow> string list" where
  "logBytes b prefix =
     (if b = [] then [] else map (\<lambda>l. ''[DEBUG]'' @ prefix @ '' '' @ l) (split_on newline b))"

text \<open>
  A context is the list of its keys and values, the latest first. A resource stores its id under the key \<^verbatim>\<open>idKey{}\<close>, a type of
  its package; \<^verbatim>\<open>DefCommand.setup\<close> asks for the string \<^verbatim>\<open>id\<close>. A missing value prints as \<^verbatim>\<open>%!s(<nil>)\<close>.
\<close>

datatype context_key = IdKey | StringKey string

type_synonym go_context = "(context_key \<times> string) list"

definition resource_context :: "string \<Rightarrow> go_context" where
  "resource_context rid = [(IdKey, rid)]"

definition context_Value :: "go_context \<Rightarrow> context_key \<Rightarrow> string option" where
  "context_Value ctx key = map_of ctx key"

definition print_value :: "string option \<Rightarrow> string" where
  "print_value v = (case v of None \<Rightarrow> ''%!s(<nil>)'' | Some s \<Rightarrow> s)"

text \<open>\<^verbatim>\<open>DefCommand.setup\<close> logs what the command printed.\<close>

definition command_log :: "os_env \<Rightarrow> go_context \<Rightarrow> DefCommand \<Rightarrow> string list" where
  "command_log env ctx c =
     (if dc_loaded c then []
      else let c' = snd (DefCommand_setup env c);
               cid = print_value (context_Value ctx (StringKey ''id'')) in
        logBytes (dc_stdout c') (''[Command]['' @ cid @ ''][stdout] '') @
        logBytes (dc_stderr c') (''[Command]['' @ cid @ ''][stderr] ''))"

section \<open>Lemmas\<close>

text \<open>
  The documented behaviour of the filter: the level of a line is what stands between its first bracket and the next closing
  one, and a line is printed unless its level is a known one below the level that is set.
\<close>

definition levels :: "string list" where
  "levels = [''TRACE'', ''DEBUG'', ''INFO'', ''WARN'', ''ERROR'']"

definition filters_levels :: "log_env \<Rightarrow> bool" where
  "filters_levels L \<longleftrightarrow>
     (\<forall>level before line_level rest. CHR ''['' \<notin> set before \<and> CHR '']'' \<notin> set line_level \<longrightarrow>
        lf_Check L level (before @ ''['' @ line_level @ '']'' @ rest) \<longleftrightarrow>
          line_level \<notin> set (takeWhile (\<lambda>l. l \<noteq> level) levels))"

text \<open>A line of a level is a bracketed level with something after it.\<close>

definition at_level :: "string \<Rightarrow> string \<Rightarrow> bool" where
  "at_level level line \<longleftrightarrow> (\<exists>rest. line = ''['' @ level @ '']'' @ rest)"

lemma logTrace_level: "at_level level (logTrace L level msg r withIntResult)"
  by (simp add: at_level_def logTrace_def)

lemma logBytes_level: "line \<in> set (logBytes b prefix) \<Longrightarrow> at_level ''DEBUG'' line"
  by (auto simp: at_level_def logBytes_def split: if_splits)

lemma command_log_level: "line \<in> set (command_log env ctx c) \<Longrightarrow> at_level ''DEBUG'' line"
  by (auto simp: command_log_def Let_def dest: logBytes_level split: if_splits)

lemma traces_level:
  "line \<in> set (Rspecish_trace L results) \<Longrightarrow> at_level ''TRACE'' line"
  "line \<in> set (Json_trace L results) \<Longrightarrow> at_level ''TRACE'' line"
  by (auto simp: Rspecish_trace_def Json_trace_def logTrace_level split: result_code.split_asm) (metis result_code.exhaust)

text \<open>The log has every byte of the output, line by line, and nothing for a command that has run before.\<close>

lemma logBytes_complete:
  assumes "b \<noteq> []"
  shows "join [newline] (map (drop (length ''[DEBUG]'' + length prefix + 1)) (logBytes b prefix)) = b"
proof -
  have "map (drop (length ''[DEBUG]'' + length prefix + 1)) (logBytes b prefix) = split_on newline b"
    using assms by (simp add: logBytes_def comp_def)
  then show ?thesis by (simp only: join_split_on)
qed

lemma command_log_once: "command_log env' ctx (snd (DefCommand_setup env c)) = []"
proof -
  have "dc_loaded (snd (DefCommand_setup env c))"
    by (simp add: DefCommand_setup_def Let_def case_prod_beta split: option.split run_error.split)
  then show ?thesis by (simp add: command_log_def)
qed

text \<open>The id of the test never gets into the log.\<close>

lemma command_log_without_id: "command_log env (resource_context rid) c = command_log env [] c"
  by (simp add: command_log_def resource_context_def context_Value_def)

lemma Write_level:
  assumes "filters_levels L" and "CHR ''['' \<notin> set (lf_now L)" and "at_level line_level b" and "CHR '']'' \<notin> set line_level"
  shows "timestampedWriter_Write L level b =
    (if line_level \<in> set (takeWhile (\<lambda>l. l \<noteq> level) levels) then None else Some (lf_now L @ '' '' @ b))"
proof -
  obtain rest where b: "b = ''['' @ line_level @ '']'' @ rest" using assms(3) unfolding at_level_def by blast
  have "CHR ''['' \<notin> set (lf_now L @ '' '')" using assms(2) by simp
  from assms(1)[unfolded filters_levels_def, rule_format, OF conjI[OF this assms(4)], of level rest]
  show ?thesis by (simp add: timestampedWriter_Write_def b)
qed

text \<open>At the default level, neither what commands print nor the values in the results reach the log.\<close>

lemma default_level_quiet:
  assumes "filters_levels L" and "CHR ''['' \<notin> set (lf_now L)" and "setLogLevel c = Some ''INFO''"
  shows "logged L c (command_log env ctx cmd @ Rspecish_trace L results @ Json_trace L results) = []"
proof -
  let ?w = "timestampedWriter_Write L ''INFO''"
  have "?w line = None" if "at_level level line" and "level \<in> {''DEBUG'', ''TRACE''}" for level line
    using Write_level[OF assms(1,2) that(1), of "''INFO''"] that(2) by (auto simp: levels_def)
  then have "\<forall>line\<in>set (command_log env ctx cmd @ Rspecish_trace L results @ Json_trace L results). ?w line = None"
    by (auto dest: command_log_level traces_level)
  then show ?thesis by (auto simp: logged_def assms(3) List.map_filter_def filter_empty_conv)
qed

text \<open>A trace level logs each test of a rspecish run once, as long as no result is of an unknown kind.\<close>

lemma Rspecish_trace_length:
  assumes "\<forall>r\<in>set (concat results). Result r \<noteq> UNKNOWN"
  shows "length (Rspecish_trace L results) = length (concat results)"
proof -
  have "length (concat (map f rs)) = length rs" if "\<forall>r\<in>set rs. length (f r) = 1" for f :: "TestResult \<Rightarrow> string list" and rs
    using that by (induction rs) auto
  from this[of "concat results"] show ?thesis
    unfolding Rspecish_trace_def using assms by (auto split: result_code.split)
qed

end
