(* ===== verification/Spec2Isabelle.thy ===== *)
theory Spec2Isabelle
  imports Matcher_Json Goss_Run Sys_Added Logging
begin

text \<open>
  goss validates a machine against a gossfile. A gossfile (YAML or JSON, rendered by a template engine first, with
  includes and an optional discovery section) holds tests by resource type: a file, a package, a port and so on, each
  with expected values or matchers. goss runs every test against the operating system, in parallel or along the
  tests' dependencies, and reports the results in one of ten formats; \<^verbatim>\<open>goss add\<close> writes tests that describe the
  present state, and \<^verbatim>\<open>goss serve\<close> offers the validation as a health endpoint.

  \<^bold>\<open>Parts of the program and the theories that model them.\<close>

  \<^item> Values and strings. \<open>Goss_Prelude\<close> has the outcome of a Go call (a value, an error or a panic), the rewrite
    collections and the functions of the standard library on strings that goss calls; \<open>Goss_Values\<close> the dynamic values
    of a gossfile and the error values; \<open>Go_Float\<close> double precision arithmetic with rounding to the nearest even.
  \<^item> Package matchers. \<open>Patterns\<close> is have_patterns.go, the search for patterns in a text line by line; \<open>Matchers\<close> the other
    matcher types with the state \<^verbatim>\<open>Match\<close> leaves for the failure report; \<open>Matcher_Config\<close> is resource/gomega.go, from a
    gossfile value to a matcher, and \<open>Matcher_Json\<close> the way back, \<^verbatim>\<open>MarshalJSON\<close> of every matcher.
  \<^item> Package resource. \<open>Validate_Value\<close> is one property of one test (validate.go, skip.go); \<open>Resources\<close> the seventeen resource
    types with their \<^verbatim>\<open>Validate\<close> and \<^verbatim>\<open>New...\<close> functions; \<open>Resource_Types\<close> the interface over them (resource.go, key.go,
    discovery_meta.go); \<open>Resource_Map\<close> the generated maps of resource_list.go.
  \<^item> Package util. \<open>Util_Config\<close> is util/config.go: the runtime configuration and its options, attribute whitelists.
  \<^item> Package system. \<open>Sys_Iface\<close> has the interfaces that the resources query, a record of answers per resource. Their
    implementations: \<open>Sys_Env\<close> has the operating system as a parameter, util/command.go and the contract of objects that load
    once; \<open>Sys_Packages\<close> and \<open>Sys_Services\<close> the package and service managers and their detection (system.go); \<open>Sys_Host\<close> files,
    users, groups and mounts; \<open>Sys_Tables\<close> ports, processes and the caches of System; \<open>Sys_Registry\<close> registry keys and values;
    \<open>Sys_Local\<close> commands, addresses, interfaces and kernel parameters; \<open>Sys_Net\<close> and \<open>Sys_Http\<close> name resolution and HTTP. Where the
    repository has a file per operating system, the model has both and \<open>for_os\<close> chooses. \<open>Sys_New\<close> is the system that New builds
    from all of them, \<open>Sys_Tests\<close> what tests on it say, \<open>Sys_Roundtrip\<close> and \<open>Sys_Added\<close> tests added on it and run again.
  \<^item> Configuration. \<open>Config_Merge\<close> is goss_config.go and discovery_config.go; \<open>Store\<close> and \<open>Load_Config\<close> are store.go,
    template.go and discovery_load.go: formats, variables, includes, rendering and writing.
  \<^item> Running. \<open>Schedule_Build\<close> and \<open>Schedule_Run\<close> are dependency_scheduler.go: building the schedule, finding cycles, and the
    rounds of concurrent workers as a step relation; \<open>Worker_Pool\<close> is the pool of goroutines of validate.go and
    discovery_validate.go; \<open>Validation\<close> the runs over it, the retry loop and the discovery phase.
  \<^item> Reporting. \<open>Outputs\<close> and \<open>Output_Formats\<close> are the package outputs: every format as a function from the groups of
    results, in the order they arrive, to a text and an exit code, and the registry of formats.
    \<open>Logging\<close> is the log: the traces of results, the output of commands and the filter by level.
  \<^item> Commands. \<open>Serve\<close> is serve.go, \<open>Add\<close> is add.go, \<open>Cli\<close> is cmd/goss/goss.go: flags, configuration and dispatch; \<open>Goss_Run\<close>
    puts them together: \<^verbatim>\<open>Validate\<close> and \<^verbatim>\<open>ValidateResults\<close> with the discovery phase and all attempts, the validate command from
    its flags to the exit status, and \<^verbatim>\<open>Serve\<close> up to the call that listens.

  \<^bold>\<open>How Go is represented.\<close> A struct is a record, an interface a datatype over its implementations, an error a value,
  and a panic the outcome \<^term>\<open>Panic\<close> or the value None where no error is possible. A Go map is an association list with
  distinct keys in an arbitrary order, which stands for the iteration order; the theorems hold for all orders.
  Goroutines are step relations (\<open>run_step\<close>, \<open>pool_step\<close>) in which every interleaving of sends, receives and map writes is
  a path; what is proved of a final state holds on all of them. The text of an error message is left out where nothing
  depends on it; what is logged is a function of its own beside the operation that logs.

  \<^bold>\<open>Parameters.\<close> Code outside the repository is an argument: gomega's matchers (\<open>gomega_ok\<close> is what is relied on), the
  regexp engine, the YAML and JSON codecs, the template engine with sprig, mergo, filepath.Glob, the XML and JSON
  encoders and the terminal colours of the formats, the prometheus client, go-cache (\<open>cache_ok\<close>), the clock, the operating
  system with its user database, tables, file system statistics and registry (\<open>os_env\<close>), the conversion of a float that is no
  integer of the type (\<open>cpu_int\<close>), the DNS and HTTP clients (\<open>dns_env\<close>, \<open>http_env\<close>), the patterns of the HTTP multiplexer, the level
  filter of the log (\<open>filters_levels\<close>) and the cli library. A select between channels that are both ready is resolved by a field of the environment, so that both outcomes are covered.

  \<^bold>\<open>What the theorems show.\<close> The root theorems follow a configuration to the exit code: over all interleavings and
  attempts, what each code says of loading, scheduling and the tests of the last attempt, and that the command returns. Below them: the pattern search finds exactly the missing patterns; a failed
  match can always be reported; a property passes exactly when its matcher accepts the answer of the system; the
  schedule is built exactly for acyclic, resolvable dependencies; a run answers once for every resource, validates
  exactly those whose dependencies pass, does not depend on the interleaving and always ends; formats agree on the
  verdict and, sorted, on the order; merging keeps every entry; includes end; the health endpoint never serves results
  older than its cache time; adding a resource touches only its entry, and the file reads back. For package system: a
  test of a port, registry value, file, user, group, interface or process on a real system says exactly whether the thing is there; tests
  that were added hold again, with all their attributes; the usage of a mount is within rounding of the exact share; the JSON of a matcher
  reads back; commands, mounts and requests answer
  from one snapshot; modes, registry keys, mount options and group files are read exactly; and what is lost on the way,
  such as the error of listing the processes after the first test.

  \<^bold>\<open>Fuel.\<close> \<open>visit\<close> takes one unit for every reference on a path of the dependency graph; \<open>cycle_fuel\<close>, one more than the
  number of items and dependency entries, is enough because a path without repetition visits each reference once.
  \<open>mergeJSONData\<close> carries the depth that the code itself limits to 50. \<open>retry_loop\<close> needs RetryTimeout div Sleep + 1 attempts
  (\<open>ValidateConfig_fuel\<close>); \<^verbatim>\<open>Validate\<close> holds for whatever fuel is enough, and \<open>goss_validate_returns\<close> shows that some is. Everything else is structural or carries its termination proof.

  \<^bold>\<open>Interfaces.\<close> The contracts between the parts are locales: \<open>resource_type\<close> (what every \<^verbatim>\<open>Validate\<close> promises), \<open>resource_map\<close>
  (the generated maps), \<open>go_map\<close> (merging), \<open>load_once\<close> (objects that ask the system once), \<open>pool_client\<close> (the worker pool), \<open>rounding\<close> (floating-point rounding), \<open>verdict_format\<close> and \<open>sorting_format\<close> (the output
  formats), each interpreted on the definitions of the model.

  \<^bold>\<open>Not modelled.\<close> The listener of \<^verbatim>\<open>goss serve\<close>, which is net/http; the position inside a reader, which a query returns
  whole; the lines that \<^verbatim>\<open>goss add\<close> and the retry loop print for a person; the version string, set by the linker. The accessors
  that every resource type repeats (\<^verbatim>\<open>SetID\<close>, \<^verbatim>\<open>SetSkip\<close>, \<^verbatim>\<open>TypeKey\<close> and the like) are one function each over all types.

  \<^bold>\<open>Plan.\<close> Next: the round trip of added tests for name resolution and HTTP, tests of services and packages on a real system
  as for the other types, and the discovery results as the templates of the main gossfile see them.
\<close>

section \<open>From the command line to the exit status\<close>

text \<open>C1: What the exit code of \<^verbatim>\<open>Validate\<close> says, over all interleavings of the discovery phase and of every attempt, for all formats
  but prometheus, structured and discovery: 1 for an unknown log level, 78 with an error when loading fails, and otherwise the
  verdict on the configuration that was loaded: every attempt before the last one failed; 0 without an error exactly when all
  enabled tests pass in the last attempt; another code when they do not, namely 3 with an error when there is a retry timeout and
  it is reached; or 1 with an error when the dependencies of the tests cannot be scheduled.\<close>

theorem goss_validate_exit:
  assumes "sound_world X sys clk W c"
    and "GetOutputer (w_outputers W) (OutputFormat c) = Inr f" and "f \<noteq> Prometheus" and "f \<noteq> Structured"
    and "OutputFormat c \<noteq> ''discovery''" and "goss_Validate W c (Exit code err)"
  shows "setLogLevel c = None \<and> code = 1 \<and> err = Some (BadLogLevel (LogLevel c)) \<or>
    (\<exists>e. loads W c (Err e) \<and> code = 78 \<and> err = Some (LoadFailed e)) \<or>
    (\<exists>cfg j. loads W c (Ret cfg) \<and> 1 \<le> j \<and> (\<forall>k. 1 \<le> k \<and> k < j \<longrightarrow> \<not> tests_pass W c cfg k \<and> Config.RetryTimeout c \<noteq> 0) \<and>
       (exit_after W c cfg j (Exit code err) \<or> (\<exists>e. code = 1 \<and> err = Some (ValidateFailed (validate_error.RunError e)))))"
  using assms by (rule validate_run_exit)

definition matching_config :: GossConfig where
  "matching_config =
     NewGossConfig\<lparr>c_Matchings := [(''m'', res_base.extend (empty_base\<lparr>rb_id := ''m'', rb_Skip := True\<rparr>)
       (Matching.fields (VInt 1) False (VInt 2)))]\<rparr>"

definition matching_env :: run_env where
  "matching_env =
     \<lparr>re_validate = validate_with sample_ext sample_system (\<lambda>_ _. (0, 0)), re_now = (\<lambda>_. 0), re_numCPU = 1, re_order = map Ref\<rparr>"

lemma matching_config_resources: "applyDisabledTypes (Resources matching_config) [] = [skipped_matching]"
  by (simp add: applyDisabledTypes_def Resources_def concat_maps_def matching_config_def NewGossConfig_def skipped_matching_def)

lemma matching_answer:
  "re_validate matching_env skipped_matching =
     Some [skipResult \<lparr>ri_id = ''m'', ri_title = [], ri_meta = None, ri_type = ''Matching''\<rparr> ''matches'' (0, 0)]"
  by (simp add: matching_env_def validate_with_def skipped_matching_results)

lemma matching_run:
  "runValidation matching_env matching_config [] 1
     (Ret [[skipResult \<lparr>ri_id = ''m'', ri_title = [], ri_meta = None, ri_type = ''Matching''\<rparr> ''matches'' (0, 0)]])"
proof -
  let ?g = "[skipResult \<lparr>ri_id = ''m'', ri_title = [], ri_meta = None, ri_type = ''Matching''\<rparr> ''matches'' (0, 0)]"
  have "\<not> hasDependencies [skipped_matching]"
    by (simp add: hasDependencies_def GetDependsOn_def skipped_matching_def empty_base_def res_base.defs Matching.defs)
  moreover obtain sent where sent: "pool_run (re_validate matching_env) (parallel_workers 1 1) [skipped_matching] sent"
    using pool_run_exists[of "[skipped_matching]" "re_validate matching_env"] by (auto simp: matching_answer)
  then have "sent = [(skipped_matching, ?g)]"
    using pool_run_exact(1)[OF _ sent] by (simp add: parallel_workers_def matching_answer)
  with sent have "validateParallel (re_validate matching_env) (re_numCPU matching_env) [skipped_matching] 1 [?g]"
    by (auto simp: validateParallel_def matching_env_def)
  ultimately show ?thesis by (simp add: runValidation_parallel matching_config_resources)
qed

definition matching_world :: world where
  "matching_world =
     \<lparr>w_store = one_env\<lparr>se_yaml := (\<lambda>_. Ret matching_config)\<rparr>, w_vars = plain_vars, w_stdin = None, w_outputers = outputers,
      w_render = plain_renderer, w_color = plain_renderer, w_prom = quiet_env, w_counters = None,
      w_json = (\<lambda>_ _. Inr []), w_discover = matching_env, w_attempt = (\<lambda>_. matching_env), w_elapsed = int\<rparr>"

definition run_config :: Config where
  "run_config = zero_config\<lparr>OutputFormat := ''rspecish'', MaxConcurrent := 1, LogLevel := ''info'', Spec := ''g.yaml''\<rparr>"

lemma matching_loaded: "mergeGoss NewGossConfig matching_config = matching_config"
proof -
  have "Discovery_Merge empty_discovery empty_discovery = empty_discovery"
    by (simp add: Discovery_Merge_def empty_discovery_def merge_map_def)
  then show ?thesis by (simp add: mergeGoss_def Merge_def matching_config_def NewGossConfig_def merge_map_def mergeType_def)
qed

lemma matching_load:
  "loadGossConfig (w_store matching_world) plain_vars None [] [] ''g.yaml'' [] peek = Ret matching_config"
proof -
  have "path_Ext ''g.yaml'' = ''.yaml''" by code_simp
  moreover have "Resources matching_config \<noteq> []" using matching_config_resources by (auto simp: applyDisabledTypes_def)
  ultimately show ?thesis
    by (simp add: loadGossConfig_def NewTemplateFilter_def NewPeekTemplateFilter_def newTemplateFilter_def loadVarsForTemplates_def
        loadVars_def with_discovered_def getStoreFormatFromFileName_def ReadJSON_def ReadJSONData_def unmarshal_def plain_vars_def
        one_env_def matching_world_def mergeJSONData.simps matching_loaded Let_def)
      (simp add: matching_config_def NewGossConfig_def)
qed

lemma matching_loads: "loads matching_world run_config l \<longleftrightarrow> l = Ret matching_config"
proof -
  have "IsEmpty (Discovery matching_config)" by code_simp
  then have "loadGossConfigWithDiscover (w_store matching_world) (w_vars matching_world) (w_stdin matching_world) phase run_config =
      Ret matching_config" for phase
    using matching_load
    by (simp add: loadGossConfigWithDiscover_def getGossConfig_def getGossConfigPeek_def run_config_def zero_config_def Let_def)
      (simp add: matching_world_def)
  then show ?thesis using runDiscoveryPhase_total by (auto simp: loads_def)
qed

lemma matching_sound: "sound_world sample_ext (\<lambda>_. sample_system) (\<lambda>_ _ _. (0, 0)) matching_world run_config"
proof -
  have a: "w_attempt matching_world i = matching_env" for i by (simp add: matching_world_def)
  have e: "enabled_tests run_config matching_config = {skipped_matching}"
    using matching_config_resources by (simp add: enabled_tests_def run_config_def zero_config_def)
  have "wf_run_env matching_env" "re_validate matching_env = validate_with sample_ext sample_system (\<lambda>_ _. (0, 0))"
    by (simp_all add: wf_run_env_def matching_env_def)
  moreover have "0 < MaxConcurrent run_config" by (simp add: run_config_def)
  ultimately show ?thesis using sample_ext_ok matching_answer by (auto simp: sound_world_def a matching_loads e)
qed

theorem goss_validate_exit_witness:
  "goss_Validate matching_world run_config (Exit 0 None) \<and>
   (\<exists>cfg j. loads matching_world run_config (Ret cfg) \<and> tests_pass matching_world run_config cfg j)"
proof -
  let ?gs = "[[skipResult \<lparr>ri_id = ''m'', ri_title = [], ri_meta = None, ri_type = ''Matching''\<rparr> ''matches'' (0, 0)]]"
  have "attempts matching_world run_config matching_config (\<lambda>_. Ret ?gs)"
    using matching_run by (simp add: attempts_def or_panic_def matching_world_def run_config_def zero_config_def)
  moreover have "clean_groups ?gs" by (simp add: clean_groups_def skipResult_def base_result_def)
  from Output_known[OF this, of Rspecish plain_renderer quiet_env None "[]"]
  have "ValidateConfig 1 outputers plain_renderer plain_renderer quiet_env None run_config (\<lambda>_. Ret ?gs) int =
      Some (Returned 0 None)"
    by (auto simp: ValidateConfig_def getOutputer_def GetOutputer_def outputers_def run_config_def zero_config_def
        skipResult_def base_result_def)
  ultimately have "validate_config matching_world run_config matching_config (Exit 0 None)"
    unfolding validate_config_def
    by (auto simp: run_config_def matching_world_def intro!: exI[of _ "\<lambda>_. Ret ?gs"] exI[of _ 1] exI[of _ "Returned 0 None"])
  moreover have "setLogLevel run_config \<noteq> None" by code_simp
  ultimately have v: "goss_Validate matching_world run_config (Exit 0 None)"
    by (auto simp: goss_Validate_def matching_loads)
  have "GetOutputer (w_outputers matching_world) (OutputFormat run_config) = Inr Rspecish"
    by (simp add: matching_world_def run_config_def GetOutputer_def outputers_def)
  from goss_validate_exit[OF matching_sound this _ _ _ v] v show ?thesis
    by (auto simp: run_config_def exit_after_def split: if_splits)
qed



text \<open>
  The command without flags: one attempt, whose verdict is the exit status of the process unless loading fails or the tests cannot be
  scheduled.
\<close>

lemma default_command_exit:
  assumes "reads_defaults (validate_flags @ global_flags) ctx" and "\<not> fatalAlphaIfNeeded goos ctx"
    and "sound_world X sys clk W (newRuntimeConfigFromCLI ctx)" and "w_outputers W = outputers"
    and "validate_command W goos ctx (Exit code err)" and "code \<noteq> 1" and "code \<noteq> 78"
  shows "\<exists>cfg. loads W (newRuntimeConfigFromCLI ctx) (Ret cfg) \<and>
    (code = 0 \<longleftrightarrow> tests_pass W (newRuntimeConfigFromCLI ctx) cfg 1) \<and> err = None"
proof -
  let ?c = "newRuntimeConfigFromCLI ctx"
  note d = validate_defaults[OF assms(1)]
  have v: "goss_Validate W ?c (Exit code err)" using assms(2,5) by (simp add: validate_command_def run_action_def)
  have "GetOutputer (w_outputers W) (OutputFormat ?c) = Inr Rspecish"
    by (simp add: assms(4) d GetOutputer_def outputers_def)
  from validate_run_exit[OF assms(3) this _ _ _ v] assms(6,7) d(1,3) show ?thesis
    by (auto simp: exit_after_def le_less split: if_splits)
qed

end
